(* ===== verification/Prelude.thy ===== *)
theory Prelude
  imports Main "HOL-Library.Sublist"
begin

text \<open>
  Shared vocabulary of the development: the operations of Go's \<open>strings\<close> package that the
  server uses, over byte strings (Isabelle's \<^typ>\<open>string\<close>, one \<^typ>\<open>char\<close> per byte), and the
  generic facts about them that several components need.

  White space is Go's \<open>unicode.IsSpace\<close>, decoded from UTF-8: six one-byte spaces, two two-byte
  spaces (U+0085, U+00A0) and the three-byte ones (U+1680, U+2000 to U+200A, U+2028, U+2029,
  U+202F, U+205F, U+3000). \<open>ToLower\<close> is modelled on ASCII letters only.
\<close>

named_theorems go_simps \<open>evaluation of the Go library operations\<close>

section \<open>Prefixes, suffixes, substrings\<close>

definition has_prefix :: "'a list \<Rightarrow> 'a list \<Rightarrow> bool" where
  "has_prefix s p \<longleftrightarrow> take (length p) s = p"

definition has_suffix :: "'a list \<Rightarrow> 'a list \<Rightarrow> bool" where
  "has_suffix s p \<longleftrightarrow> length p \<le> length s \<and> drop (length s - length p) s = p"

definition trim_prefix :: "'a list \<Rightarrow> 'a list \<Rightarrow> 'a list" where
  "trim_prefix s p = (if has_prefix s p then drop (length p) s else s)"

definition trim_suffix :: "'a list \<Rightarrow> 'a list \<Rightarrow> 'a list" where
  "trim_suffix s p = (if has_suffix s p then take (length s - length p) s else s)"

fun contains_str :: "'a list \<Rightarrow> 'a list \<Rightarrow> bool" where
  "contains_str [] t = (t = [])"
| "contains_str (x # xs) t = (has_prefix (x # xs) t \<or> contains_str xs t)"

lemma has_prefix_iff: "has_prefix s p \<longleftrightarrow> (\<exists>r. s = p @ r)"
  unfolding has_prefix_def by (metis append_eq_conv_conj append_take_drop_id)

lemma has_prefix_append [simp]: "has_prefix (p @ r) p"
  by (simp add: has_prefix_def)

lemma has_prefix_Nil [simp]: "has_prefix s []"
  by (simp add: has_prefix_def)

lemma has_prefix_Nil_left [simp]: "has_prefix [] p \<longleftrightarrow> p = []"
  by (auto simp: has_prefix_def)

lemma has_prefix_Cons [simp]: "has_prefix (x # xs) (y # ys) \<longleftrightarrow> x = y \<and> has_prefix xs ys"
  by (simp add: has_prefix_def)

lemma has_suffix_iff: "has_suffix s p \<longleftrightarrow> (\<exists>r. s = r @ p)"
proof
  assume "has_suffix s p"
  then have "s = take (length s - length p) s @ p"
    unfolding has_suffix_def by (metis append_take_drop_id)
  then show "\<exists>r. s = r @ p" ..
qed (auto simp: has_suffix_def)

lemma has_suffix_append [simp]: "has_suffix (r @ p) p"
  by (auto simp: has_suffix_iff)

lemma trim_prefix_append [simp]: "trim_prefix (p @ r) p = r"
  by (simp add: trim_prefix_def)

lemma trim_suffix_append [simp]: "trim_suffix (r @ p) p = r"
  by (simp add: trim_suffix_def)

lemma contains_str_iff: "contains_str s t \<longleftrightarrow> (\<exists>a b. s = a @ t @ b)"
proof (induction s)
  case (Cons x xs)
  show ?case
  proof
    assume "contains_str (x # xs) t"
    then consider "has_prefix (x # xs) t" | "contains_str xs t" by auto
    then show "\<exists>a b. x # xs = a @ t @ b"
    proof cases
      case 1
      then show ?thesis by (metis append_Nil has_prefix_iff)
    next
      case 2
      then obtain a b where "xs = a @ t @ b" using Cons by blast
      then have "x # xs = (x # a) @ t @ b" by simp
      then show ?thesis by blast
    qed
  next
    assume "\<exists>a b. x # xs = a @ t @ b"
    then obtain a b where ab: "x # xs = a @ t @ b" by blast
    show "contains_str (x # xs) t"
    proof (cases a)
      case Nil
      then show ?thesis using ab by (metis append_Nil contains_str.simps(2) has_prefix_iff)
    next
      case (Cons y ys)
      then have "xs = ys @ t @ b" using ab by simp
      then show ?thesis using Cons.IH by auto
    qed
  qed
qed simp

lemma contains_str_infix [intro]: "contains_str (a @ t @ b) t"
  by (auto simp: contains_str_iff)

lemma contains_str_append1: "contains_str a t \<Longrightarrow> contains_str (a @ b) t"
  by (metis append.assoc contains_str_iff)

lemma contains_str_append2: "contains_str b t \<Longrightarrow> contains_str (a @ b) t"
  by (metis append.assoc contains_str_iff)

lemma contains_str_trans: "contains_str s t \<Longrightarrow> contains_str t u \<Longrightarrow> contains_str s u"
  by (metis append.assoc contains_str_iff)

section \<open>Splitting and joining\<close>

text \<open>\<open>strings.Split(s, sep)\<close> for a one-byte separator; \<open>strings.Join\<close>; \<open>strings.Cut\<close>.\<close>

fun split_on :: "'a \<Rightarrow> 'a list \<Rightarrow> 'a list list" where
  "split_on c [] = [[]]"
| "split_on c (x # xs) =
     (if x = c then [] # split_on c xs
      else (case split_on c xs of [] \<Rightarrow> [[x]] | y # ys \<Rightarrow> (x # y) # ys))"

fun join_with :: "'a list \<Rightarrow> 'a list list \<Rightarrow> 'a list" where
  "join_with sep [] = []"
| "join_with sep [x] = x"
| "join_with sep (x # y # ys) = x @ sep @ join_with sep (y # ys)"

fun cut_on :: "'a \<Rightarrow> 'a list \<Rightarrow> ('a list \<times> 'a list) option" where
  "cut_on c [] = None"
| "cut_on c (x # xs) =
     (if x = c then Some ([], xs)
      else (case cut_on c xs of None \<Rightarrow> None | Some (a, b) \<Rightarrow> Some (x # a, b)))"

lemma split_on_nonempty [simp]: "split_on c s \<noteq> []"
  by (cases s) (auto split: list.splits)

lemma split_on_no_sep: "c \<notin> set s \<Longrightarrow> split_on c s = [s]"
  by (induction s) auto

lemma split_on_append_sep: "c \<notin> set a \<Longrightarrow> split_on c (a @ c # b) = a # split_on c b"
  by (induction a) auto

lemma split_on_append:
  "split_on c (a @ c # b) = split_on c a @ split_on c b"
proof (induction a)
  case (Cons x a)
  obtain y ys where "split_on c a = y # ys" by (metis list.exhaust split_on_nonempty)
  then show ?case using Cons by simp
qed simp

lemma split_on_pieces: "p \<in> set (split_on c s) \<Longrightarrow> c \<notin> set p"
proof (induction s arbitrary: p)
  case (Cons x xs)
  obtain y ys where y: "split_on c xs = y # ys" by (metis list.exhaust split_on_nonempty)
  show ?case
  proof (cases "x = c")
    case True
    then show ?thesis using Cons by auto
  next
    case False
    then have "p = x # y \<or> p \<in> set ys" using Cons.prems y by simp
    then show ?thesis using Cons.IH[of y] Cons.IH[of p] False y by auto
  qed
qed simp

lemma split_on_infix: "p \<in> set (split_on c s) \<Longrightarrow> \<exists>a b. s = a @ p @ b"
proof (induction s arbitrary: p)
  case (Cons x xs)
  obtain y ys where y: "split_on c xs = y # ys" by (metis list.exhaust split_on_nonempty)
  have head: "\<exists>b. xs = y @ b"
    using y
  proof (induction xs arbitrary: y ys)
    case (Cons z zs)
    obtain w ws where "split_on c zs = w # ws" by (metis list.exhaust split_on_nonempty)
    with Cons show ?case by (auto split: if_splits)
  qed simp
  consider "p = []" | "x \<noteq> c" "p = x # y" | "p \<in> set (split_on c xs)"
    using Cons.prems y by (auto split: if_splits)
  then show ?case
  proof cases
    case 3
    then obtain a b where "x # xs = (x # a) @ p @ b" using Cons.IH by fastforce
    then show ?thesis by blast
  qed (use head in auto)
qed simp

lemma join_split_on: "join_with [c] (split_on c s) = s"
proof (induction s)
  case (Cons x xs)
  obtain y ys where y: "split_on c xs = y # ys" by (metis list.exhaust split_on_nonempty)
  show ?case using Cons.IH y by (cases ys) auto
qed simp

lemma cut_on_append: "c \<notin> set a \<Longrightarrow> cut_on c (a @ c # b) = Some (a, b)"
  by (induction a) auto

lemma cut_on_Some: "cut_on c s = Some (a, b) \<Longrightarrow> s = a @ c # b \<and> c \<notin> set a"
  by (induction s arbitrary: a b) (auto split: if_splits option.splits)

lemma cut_on_None: "cut_on c s = None \<longleftrightarrow> c \<notin> set s"
  by (induction s) (auto split: option.splits)

section \<open>White space\<close>

definition newline :: char where "newline = CHR 0x0A"

definition ascii_space :: "char \<Rightarrow> bool" where
  "ascii_space c \<longleftrightarrow>
     c = CHR 0x09 \<or> c = CHR 0x0A \<or> c = CHR 0x0B \<or> c = CHR 0x0C \<or> c = CHR 0x0D \<or> c = CHR 0x20"

definition multibyte_spaces :: "string list" where
  "multibyte_spaces =
     [[CHR 0xC2, CHR 0x85], [CHR 0xC2, CHR 0xA0], [CHR 0xE1, CHR 0x9A, CHR 0x80]] @
     map (\<lambda>c. [CHR 0xE2, CHR 0x80, c])
       [CHR 0x80, CHR 0x81, CHR 0x82, CHR 0x83, CHR 0x84, CHR 0x85, CHR 0x86, CHR 0x87,
        CHR 0x88, CHR 0x89, CHR 0x8A, CHR 0xA8, CHR 0xA9, CHR 0xAF] @
     [[CHR 0xE2, CHR 0x81, CHR 0x9F], [CHR 0xE3, CHR 0x80, CHR 0x80]]"

text \<open>The number of bytes of the white-space rune at the head (the end) of a string, 0 if none.\<close>

definition space_head :: "string \<Rightarrow> nat" where
  "space_head s =
     (case s of [] \<Rightarrow> 0
      | c # _ \<Rightarrow> if ascii_space c then 1
          else (case find (has_prefix s) multibyte_spaces of None \<Rightarrow> 0 | Some w \<Rightarrow> length w))"

definition space_tail :: "string \<Rightarrow> nat" where
  "space_tail s =
     (if s = [] then 0
      else if ascii_space (last s) then 1
      else (case find (has_suffix s) multibyte_spaces of None \<Rightarrow> 0 | Some w \<Rightarrow> length w))"

function trim_left :: "string \<Rightarrow> string" where
  "trim_left s = (if s = [] \<or> space_head s = 0 then s else trim_left (drop (space_head s) s))"
  by pat_completeness auto
termination by (relation "measure length") auto

function trim_right :: "string \<Rightarrow> string" where
  "trim_right s =
     (if s = [] \<or> space_tail s = 0 then s else trim_right (take (length s - space_tail s) s))"
  by pat_completeness auto
termination by (relation "measure length") auto

declare trim_left.simps [simp del] trim_right.simps [simp del]

text \<open>\<open>strings.TrimSpace\<close> and \<open>strings.Fields\<close>.\<close>

definition trim_space :: "string \<Rightarrow> string" where
  "trim_space s = trim_right (trim_left s)"

function fields_from :: "string \<Rightarrow> string \<Rightarrow> string list" where
  "fields_from cur s =
     (if s = [] then (if cur = [] then [] else [cur])
      else if space_head s = 0 then fields_from (cur @ [hd s]) (tl s)
      else (if cur = [] then [] else [cur]) @ fields_from [] (drop (space_head s) s))"
  by pat_completeness auto
termination by (relation "measure (\<lambda>(cur, s). length s)") auto

declare fields_from.simps [simp del]

definition fields :: "string \<Rightarrow> string list" where
  "fields s = fields_from [] s"

text \<open>A string with no white space at either end, and the ASCII bytes that are no space.\<close>

definition trimmed :: "string \<Rightarrow> bool" where
  "trimmed s \<longleftrightarrow> space_head s = 0 \<and> space_tail s = 0"

definition plain_char :: "char \<Rightarrow> bool" where
  "plain_char c \<longleftrightarrow> \<not> ascii_space c \<and> (of_char c :: nat) < 128"

lemma multibyte_spaces_heads: "w \<in> set multibyte_spaces \<Longrightarrow> w \<noteq> [] \<and> 128 \<le> (of_char (hd w) :: nat)"
  by (auto simp: multibyte_spaces_def)

lemma multibyte_spaces_lasts: "w \<in> set multibyte_spaces \<Longrightarrow> w \<noteq> [] \<and> 128 \<le> (of_char (last w) :: nat)"
  by (auto simp: multibyte_spaces_def)

lemma find_multibyte_head:
  assumes "(of_char c :: nat) < 128"
  shows "find (has_prefix (c # s)) multibyte_spaces = None"
proof -
  have "\<not> has_prefix (c # s) w" if "w \<in> set multibyte_spaces" for w
    using multibyte_spaces_heads[OF that] assms by (cases w) auto
  then show ?thesis by (simp add: find_None_iff)
qed

lemma find_multibyte_last:
  assumes "s \<noteq> []" "(of_char (last s) :: nat) < 128"
  shows "find (has_suffix s) multibyte_spaces = None"
proof -
  have "\<not> has_suffix s w" if w: "w \<in> set multibyte_spaces" for w
  proof
    assume "has_suffix s w"
    then obtain r where "s = r @ w" by (auto simp: has_suffix_iff)
    then show False using multibyte_spaces_lasts[OF w] assms by simp
  qed
  then show ?thesis by (simp add: find_None_iff)
qed

lemma ascii_space_ascii: "ascii_space c \<Longrightarrow> (of_char c :: nat) < 128"
  by (auto simp: ascii_space_def)

lemma space_head_Nil [simp]: "space_head [] = 0"
  by (simp add: space_head_def)

lemma space_tail_Nil [simp]: "space_tail [] = 0"
  by (simp add: space_tail_def)

lemma space_head_ascii [simp]: "ascii_space c \<Longrightarrow> space_head (c # s) = 1"
  by (simp add: space_head_def)

lemma space_head_plain [simp]: "plain_char c \<Longrightarrow> space_head (c # s) = 0"
  by (simp add: space_head_def plain_char_def find_multibyte_head)

lemma space_tail_plain [simp]: "s \<noteq> [] \<Longrightarrow> plain_char (last s) \<Longrightarrow> space_tail s = 0"
  by (simp add: space_tail_def plain_char_def find_multibyte_last)

lemma space_tail_ascii [simp]: "s \<noteq> [] \<Longrightarrow> ascii_space (last s) \<Longrightarrow> space_tail s = 1"
  by (simp add: space_tail_def)

lemma plain_trimmed: "s \<noteq> [] \<Longrightarrow> plain_char (hd s) \<Longrightarrow> plain_char (last s) \<Longrightarrow> trimmed s"
  by (cases s) (auto simp: trimmed_def)

lemma trimmed_Nil [simp]: "trimmed []"
  by (simp add: trimmed_def)

lemma trim_left_id: "space_head s = 0 \<Longrightarrow> trim_left s = s"
  by (simp add: trim_left.simps)

lemma trim_right_id: "space_tail s = 0 \<Longrightarrow> trim_right s = s"
  by (simp add: trim_right.simps)

lemma trim_space_id: "trimmed s \<Longrightarrow> trim_space s = s"
  by (simp add: trim_space_def trimmed_def trim_left_id trim_right_id)

lemma trim_left_ascii_Cons [simp]: "ascii_space c \<Longrightarrow> trim_left (c # s) = trim_left s"
  by (subst trim_left.simps) simp

lemma trim_right_ascii_snoc [simp]: "ascii_space c \<Longrightarrow> trim_right (s @ [c]) = trim_right s"
  by (subst trim_right.simps) simp

lemma trim_left_spaces: "list_all ascii_space ws \<Longrightarrow> trim_left (ws @ s) = trim_left s"
  by (induction ws) auto

lemma trim_right_spaces: "list_all ascii_space ws \<Longrightarrow> trim_right (s @ ws) = trim_right s"
proof (induction ws rule: rev_induct)
  case (snoc c ws)
  then have "trim_right ((s @ ws) @ [c]) = trim_right (s @ ws)" by (intro trim_right_ascii_snoc) simp
  with snoc show ?case by simp
qed simp

lemma space_head_append: "s \<noteq> [] \<Longrightarrow> space_head s \<noteq> 0 \<Longrightarrow> space_head (s @ t) \<noteq> 0"
proof -
  assume s: "s \<noteq> []" "space_head s \<noteq> 0"
  then obtain c cs where c: "s = c # cs" by (cases s) auto
  show "space_head (s @ t) \<noteq> 0"
  proof (cases "ascii_space c")
    case True
    then show ?thesis by (simp add: c)
  next
    case False
    then obtain w where "find (has_prefix s) multibyte_spaces = Some w"
      using s by (auto simp: space_head_def c split: option.splits)
    then have "w \<in> set multibyte_spaces" "has_prefix s w"
      by (auto simp: find_Some_iff)
    moreover from this have "has_prefix (s @ t) w" by (auto simp: has_prefix_iff)
    ultimately have "find (has_prefix (s @ t)) multibyte_spaces \<noteq> None"
      by (auto simp: find_None_iff)
    then obtain w' where w': "find (has_prefix (s @ t)) multibyte_spaces = Some w'" by blast
    then have "w' \<in> set multibyte_spaces" by (auto simp: find_Some_iff)
    then have "w' \<noteq> []" using multibyte_spaces_heads by blast
    then show ?thesis using False w' by (simp add: space_head_def c)
  qed
qed

lemma trim_left_head: "space_head (trim_left s) = 0"
  by (induction s rule: trim_left.induct) (subst trim_left.simps, auto)

lemma trim_right_tail: "space_tail (trim_right s) = 0"
  by (induction s rule: trim_right.induct) (subst trim_right.simps, auto)

lemma trim_right_prefix: "\<exists>r. s = trim_right s @ r"
proof (induction s rule: trim_right.induct)
  case (1 s)
  show ?case
  proof (cases "s = [] \<or> space_tail s = 0")
    case True
    then show ?thesis by (subst trim_right.simps) simp
  next
    case False
    let ?u = "take (length s - space_tail s) s"
    from "1"[OF False] obtain r where r: "?u = trim_right ?u @ r" by blast
    have "s = ?u @ drop (length s - space_tail s) s" by simp
    also have "\<dots> = trim_right ?u @ (r @ drop (length s - space_tail s) s)"
      using r by (metis append_assoc)
    finally show ?thesis using False by (subst trim_right.simps) auto
  qed
qed

lemma trim_left_suffix: "\<exists>l. s = l @ trim_left s"
proof (induction s rule: trim_left.induct)
  case (1 s)
  show ?case
  proof (cases "s = [] \<or> space_head s = 0")
    case True
    then show ?thesis by (subst trim_left.simps) simp
  next
    case False
    let ?u = "drop (space_head s) s"
    from "1"[OF False] obtain l where l: "?u = l @ trim_left ?u" by blast
    have "s = take (space_head s) s @ ?u" by simp
    also have "\<dots> = (take (space_head s) s @ l) @ trim_left ?u" using l by (metis append_assoc)
    also have "trim_left ?u = trim_left s" using False by (simp add: trim_left.simps[of s])
    finally show ?thesis by blast
  qed
qed

lemma trim_space_infix: "\<exists>l r. s = l @ trim_space s @ r"
  using trim_left_suffix[of s] trim_right_prefix[of "trim_left s"] by (metis trim_space_def append_assoc)

lemma trim_space_trimmed: "trimmed (trim_space s)"
proof -
  obtain r where r: "trim_left s = trim_right (trim_left s) @ r"
    using trim_right_prefix by blast
  have "space_head (trim_right (trim_left s)) = 0"
    using trim_left_head[of s] space_head_append[of "trim_right (trim_left s)" r] r
    by (metis space_head_Nil)
  then show ?thesis by (simp add: trimmed_def trim_space_def trim_right_tail)
qed

lemma trim_space_idem [simp]: "trim_space (trim_space s) = trim_space s"
  by (rule trim_space_id[OF trim_space_trimmed])

lemma trim_space_blank: "list_all ascii_space ws \<Longrightarrow> trim_space ws = []"
  using trim_left_spaces[of ws "[]"] by (simp add: trim_space_def trim_left_id trim_right_id)

lemma trim_space_pad:
  assumes "list_all ascii_space l" "list_all ascii_space r"
    and "s \<noteq> []" "plain_char (hd s)" "plain_char (last s)"
  shows "trim_space (l @ s @ r) = s"
proof -
  obtain c cs where "s = c # cs" "plain_char c" using assms(3,4) by (cases s) auto
  then have "trim_left (s @ r) = s @ r" by (simp add: trim_left_id)
  then show ?thesis
    using assms by (simp add: trim_space_def trim_left_spaces trim_right_spaces trim_right_id)
qed

lemma trim_space_ends:
  "s \<noteq> [] \<Longrightarrow> plain_char (hd s) \<Longrightarrow> plain_char (last s) \<Longrightarrow> trim_space s = s"
  using trim_space_pad[of "[]" "[]" s] by simp

section \<open>Fields\<close>

lemma fields_from_plain:
  "list_all plain_char w \<Longrightarrow> fields_from cur (w @ s) = fields_from (cur @ w) s"
proof (induction w arbitrary: cur)
  case (Cons c w)
  then show ?case by (subst fields_from.simps) simp
qed simp

lemma fields_from_space:
  "ascii_space c \<Longrightarrow>
   fields_from cur (c # s) = (if cur = [] then [] else [cur]) @ fields_from [] s"
  by (subst fields_from.simps) simp

lemma fields_from_spaces: "list_all ascii_space ws \<Longrightarrow> fields_from [] (ws @ s) = fields_from [] s"
  by (induction ws) (auto simp: fields_from_space)

lemma fields_word:
  assumes "w \<noteq> []" "list_all plain_char w" "ws \<noteq> []" "list_all ascii_space ws"
  shows "fields (w @ ws @ s) = w # fields s"
proof -
  obtain c cs where c: "ws = c # cs" "ascii_space c" "list_all ascii_space cs"
    using assms(3,4) by (cases ws) auto
  show ?thesis
    using assms(1,2) c
    by (simp add: fields_def fields_from_plain fields_from_space fields_from_spaces)
qed

lemma fields_last_word: "w \<noteq> [] \<Longrightarrow> list_all plain_char w \<Longrightarrow> fields w = [w]"
  using fields_from_plain[of w "[]" "[]"] by (simp add: fields_def fields_from.simps)

section \<open>Letter case, replacement, decimal printing\<close>

definition lower_char :: "char \<Rightarrow> char" where
  "lower_char c =
     (if 65 \<le> (of_char c :: nat) \<and> (of_char c :: nat) \<le> 90
      then char_of ((of_char c :: nat) + 32) else c)"

definition to_lower :: "string \<Rightarrow> string" where
  "to_lower s = map lower_char s"

definition replace_char :: "char \<Rightarrow> char \<Rightarrow> string \<Rightarrow> string" where
  "replace_char a b s = map (\<lambda>c. if c = a then b else c) s"

definition is_upper :: "char \<Rightarrow> bool" where
  "is_upper c \<longleftrightarrow> 65 \<le> (of_char c :: nat) \<and> (of_char c :: nat) \<le> 90"

lemma to_lower_id: "list_all (\<lambda>c. \<not> is_upper c) s \<Longrightarrow> to_lower s = s"
  by (induction s) (auto simp: to_lower_def lower_char_def is_upper_def)

lemma replace_char_id: "a \<notin> set s \<Longrightarrow> replace_char a b s = s"
  by (induction s) (auto simp: replace_char_def)

text \<open>\<open>fmt\<close>'s \<open>%d\<close>.\<close>

fun nat_digits :: "nat \<Rightarrow> string" where
  "nat_digits n = (if n < 10 then [char_of (48 + n)] else nat_digits (n div 10) @ [char_of (48 + n mod 10)])"

declare nat_digits.simps [simp del]

definition itoa :: "int \<Rightarrow> string" where
  "itoa i = (if i < 0 then ''-'' @ nat_digits (nat (- i)) else nat_digits (nat i))"

end
