(* ===== verification/Go_Regexp.thy ===== *)
theory Go_Regexp
  imports Prelude
begin

text \<open>
  Go's \<open>regexp\<close> with its leftmost-first choice: \<open>mt r c s\<close> lists, in the order in which the
  matcher prefers them, the ways in which \<open>r\<close> matches a prefix of \<open>s\<close>, each with the captures
  made so far (newest first) and the rest of the input. All patterns of the server are anchored
  at the start, so \<open>find_submatch\<close> takes the first of them at position 0.
\<close>

type_synonym captures = "(nat \<times> string) list"

datatype rx =
    REmpty
  | REnd
  | RSet "char \<Rightarrow> bool"
  | RSeq rx rx
  | RAlt rx rx
  | ROpt rx
  | RStar bool rx \<comment> \<open>greedy or lazy\<close>
  | RCap nat rx

function mt :: "rx \<Rightarrow> captures \<Rightarrow> string \<Rightarrow> (captures \<times> string) list" where
  "mt REmpty c s = [(c, s)]"
| "mt REnd c s = (if s = [] then [(c, s)] else [])"
| "mt (RSet P) c s = (case s of [] \<Rightarrow> [] | x # s' \<Rightarrow> if P x then [(c, s')] else [])"
| "mt (RSeq a b) c s = concat (map (\<lambda>(c', s'). mt b c' s') (mt a c s))"
| "mt (RAlt a b) c s = mt a c s @ mt b c s"
| "mt (ROpt a) c s = mt a c s @ [(c, s)]"
| "mt (RStar g a) c s =
     (let more = concat (map (\<lambda>(c', s'). if length s' < length s then mt (RStar g a) c' s' else [])
                         (mt a c s))
      in if g then more @ [(c, s)] else (c, s) # more)"
| "mt (RCap i a) c s =
     map (\<lambda>(c', s'). ((i, take (length s - length s') s) # c', s')) (mt a c s)"
  by pat_completeness auto
termination
  by (relation "measures [\<lambda>(r, c, s). size r, \<lambda>(r, c, s). length s]") auto

declare mt.simps(7) [simp del]

lemmas mt_star = mt.simps(7)

definition find_submatch :: "rx \<Rightarrow> string \<Rightarrow> captures option" where
  "find_submatch r s = (case mt r [] s of [] \<Rightarrow> None | (c, _) # _ \<Rightarrow> Some c)"

text \<open>\<open>matches[i]\<close>: the group's text, the empty string for a group that took no part.\<close>

definition group :: "captures \<Rightarrow> nat \<Rightarrow> string" where
  "group c i = (case map_of c i of None \<Rightarrow> [] | Some w \<Rightarrow> w)"

fun lit :: "string \<Rightarrow> rx" where
  "lit [] = REmpty"
| "lit (x # xs) = RSeq (RSet (\<lambda>c. c = x)) (lit xs)"

definition plus :: "bool \<Rightarrow> (char \<Rightarrow> bool) \<Rightarrow> rx" where
  "plus g P = RSeq (RSet P) (RStar g (RSet P))"

definition not_nl :: "char \<Rightarrow> bool" where "not_nl c \<longleftrightarrow> c \<noteq> newline"

definition is_digit :: "char \<Rightarrow> bool" where
  "is_digit c \<longleftrightarrow> 48 \<le> (of_char c :: nat) \<and> (of_char c :: nat) \<le> 57"

definition is_alnum :: "char \<Rightarrow> bool" where
  "is_alnum c \<longleftrightarrow> is_digit c \<or> is_upper c \<or> 97 \<le> (of_char c :: nat) \<and> (of_char c :: nat) \<le> 122"

fun capture_free :: "rx \<Rightarrow> bool" where
  "capture_free (RSeq a b) = (capture_free a \<and> capture_free b)"
| "capture_free (RAlt a b) = (capture_free a \<and> capture_free b)"
| "capture_free (ROpt a) = capture_free a"
| "capture_free (RStar g a) = capture_free a"
| "capture_free (RCap i a) = False"
| "capture_free _ = True"

text \<open>Acceptance of a whole string.\<close>

definition accepts :: "rx \<Rightarrow> string \<Rightarrow> bool" where
  "accepts r s \<longleftrightarrow> list_ex (\<lambda>(c, s'). s' = []) (mt r [] s)"

section \<open>Captures and remainders\<close>

lemma set_mt_star:
  "set (mt (RStar g a) c s) =
   insert (c, s) (\<Union>(c', s') \<in> set (mt a c s).
     if length s' < length s then set (mt (RStar g a) c' s') else {})"
  by (subst mt_star) (auto simp: Let_def split: if_splits)

lemma mt_starE:
  assumes "(c', s') \<in> set (mt (RStar g a) c s)"
  obtains "c' = c" "s' = s"
  | c1 s1 where "(c1, s1) \<in> set (mt a c s)" "length s1 < length s"
      "(c', s') \<in> set (mt (RStar g a) c1 s1)"
  using assms by (subst (asm) set_mt_star) (auto split: if_splits)

lemma mt_star_stop: "(c, s) \<in> set (mt (RStar g a) c s)"
  by (subst set_mt_star) simp

lemma mt_star_step:
  assumes "(c1, s1) \<in> set (mt a c s)" "length s1 < length s" "(c', s') \<in> set (mt (RStar g a) c1 s1)"
  shows "(c', s') \<in> set (mt (RStar g a) c s)"
  using assms by (subst set_mt_star) force

lemma mt_suffix: "(c', s') \<in> set (mt r c s) \<Longrightarrow> \<exists>p. s = p @ s'"
proof (induction r c s arbitrary: c' s' rule: mt.induct)
  case (4 a b c s)
  then obtain c1 s1 where 1: "(c1, s1) \<in> set (mt a c s)" "(c', s') \<in> set (mt b c1 s1)" by auto
  obtain p where "s = p @ s1" using "4.IH"(1)[OF 1(1)] by blast
  moreover obtain q where "s1 = q @ s'" using "4.IH"(2)[OF 1(1) refl 1(2)] by blast
  ultimately show ?case by simp
next
  case (7 g a c s)
  from "7.prems" show ?case
  proof (cases rule: mt_starE)
    case (2 c1 s1)
    obtain p where "s = p @ s1" using "7.IH"(1)[OF 2(1)] by blast
    moreover obtain q where "s1 = q @ s'" using "7.IH"(2)[OF 2(1) refl 2(2,3)] by blast
    ultimately show ?thesis by simp
  qed simp
qed (auto split: list.splits if_splits)

text \<open>Matching only adds captures, and which ones does not depend on those made before.\<close>

lemma mt_frame:
  "(c', s') \<in> set (mt r c s) \<Longrightarrow>
   \<exists>e. c' = e @ c \<and> (capture_free r \<longrightarrow> e = []) \<and> (\<forall>d. (e @ d, s') \<in> set (mt r d s))"
proof (induction r c s arbitrary: c' s' rule: mt.induct)
  case (4 a b c s)
  then obtain c1 s1 where 1: "(c1, s1) \<in> set (mt a c s)" "(c', s') \<in> set (mt b c1 s1)" by auto
  obtain e where e: "c1 = e @ c" "capture_free a \<longrightarrow> e = []" "\<forall>d. (e @ d, s1) \<in> set (mt a d s)"
    using "4.IH"(1)[OF 1(1)] by blast
  obtain f where f: "c' = f @ c1" "capture_free b \<longrightarrow> f = []" "\<forall>d. (f @ d, s') \<in> set (mt b d s1)"
    using "4.IH"(2)[OF 1(1) refl 1(2)] by blast
  have "\<forall>d. ((f @ e) @ d, s') \<in> set (mt (RSeq a b) d s)" using e(3) f(3) by fastforce
  then show ?case using e f by (intro exI[of _ "f @ e"]) auto
next
  case (7 g a c s)
  from "7.prems" show ?case
  proof (cases rule: mt_starE)
    case 1
    then show ?thesis by (auto intro: mt_star_stop)
  next
    case (2 c1 s1)
    obtain e where e: "c1 = e @ c" "capture_free a \<longrightarrow> e = []" "\<forall>d. (e @ d, s1) \<in> set (mt a d s)"
      using "7.IH"(1)[OF 2(1)] by blast
    obtain f where f: "c' = f @ c1" "capture_free (RStar g a) \<longrightarrow> f = []"
        "\<forall>d. (f @ d, s') \<in> set (mt (RStar g a) d s1)"
      using "7.IH"(2)[OF 2(1) refl 2(2,3)] by blast
    have "((f @ e) @ d, s') \<in> set (mt (RStar g a) d s)" for d
      using mt_star_step[of "e @ d" s1 a d s "f @ e @ d" s' g] e(3) f(3) 2(2) by simp
    then show ?thesis using e f by (intro exI[of _ "f @ e"]) auto
  qed
next
  case (8 i a c s)
  then obtain c1 where 1: "(c1, s') \<in> set (mt a c s)"
      "c' = (i, take (length s - length s') s) # c1" by auto
  obtain e where e: "c1 = e @ c" "\<forall>d. (e @ d, s') \<in> set (mt a d s)"
    using "8.IH"[OF 1(1)] by blast
  have "(((i, take (length s - length s') s) # e) @ d, s') \<in> set (mt (RCap i a) d s)" for d
    using e(2) by force
  then show ?case using e(1) 1(2) by (intro exI[of _ "(i, take (length s - length s') s) # e"]) auto
qed (fastforce split: list.splits if_splits)+

text \<open>
  A capture of a group without captures of its own, at the end of the pattern: if the group
  accepts the whole input then the preferred match captures the whole input; otherwise there is
  no match.
\<close>

definition captured_end :: "nat \<Rightarrow> rx \<Rightarrow> rx" where
  "captured_end i r = RSeq (RCap i r) REnd"

lemma accepts_iff: "accepts r s \<longleftrightarrow> (\<exists>c'. (c', []) \<in> set (mt r [] s))"
  by (auto simp: accepts_def list_ex_iff)

lemma captured_end_all:
  "capture_free r \<Longrightarrow> x \<in> set (mt (captured_end i r) c s) \<Longrightarrow> x = ((i, s) # c, [])"
  by (auto simp: captured_end_def split: if_splits dest!: mt_frame[of _ _ r])

lemma captured_end_accepts:
  assumes "capture_free r" "accepts r s"
  shows "\<exists>xs. mt (captured_end i r) c s = ((i, s) # c, []) # xs"
proof -
  obtain c' where "(c', []) \<in> set (mt r [] s)" using assms(2) by (auto simp: accepts_iff)
  then have "(c, []) \<in> set (mt r c s)" using assms(1) by (auto dest: mt_frame)
  then have "mt (captured_end i r) c s \<noteq> []" by (force simp: captured_end_def)
  then obtain x xs where "mt (captured_end i r) c s = x # xs" by (meson list.exhaust)
  then show ?thesis using captured_end_all[OF assms(1), of x i c s] by simp
qed

lemma captured_end_rejects:
  assumes "capture_free r" "\<not> accepts r s"
  shows "mt (captured_end i r) c s = []"
proof (rule ccontr)
  assume "mt (captured_end i r) c s \<noteq> []"
  then obtain x xs where "mt (captured_end i r) c s = x # xs" by (meson list.exhaust)
  then have "x \<in> set (mt (captured_end i r) c s)" by simp
  then obtain c' where "(c', []) \<in> set (mt r c s)" by (auto simp: captured_end_def split: if_splits)
  then show False using assms by (auto simp: accepts_iff dest!: mt_frame)
qed

section \<open>Literals and runs of one character class\<close>

lemma mt_lit: "mt (lit w) c s = (if has_prefix s w then [(c, drop (length w) s)] else [])"
  by (induction w arbitrary: s) (auto split: list.splits)

declare lit.simps [simp del]

lemma mt_lit_seq:
  "mt (RSeq (lit l) K) c s = (if has_prefix s l then mt K c (drop (length l) s) else [])"
  by (simp add: mt_lit)

lemma mt_seq_nonempty:
  "mt (RSeq a b) c s \<noteq> [] \<Longrightarrow> \<exists>c1 s1. (c1, s1) \<in> set (mt a c s) \<and> mt b c1 s1 \<noteq> []"
  by auto

lemma mt_opt_lit_seq:
  "mt (RSeq (ROpt (lit l)) K) c s =
   (if has_prefix s l then mt K c (drop (length l) s) else []) @ mt K c s"
  by (simp add: mt_lit)

lemma capture_free_lit [simp]: "capture_free (lit w)"
  by (induction w) (auto simp: lit.simps)

definition run_length :: "(char \<Rightarrow> bool) \<Rightarrow> string \<Rightarrow> nat" where
  "run_length P s = length (takeWhile P s)"

lemma rev_upt_Suc:
  "rev [0..<Suc n] = map Suc (rev [0..<n]) @ [0]"
  "rev [1..<Suc n] = map Suc (rev [0..<n])"
proof -
  have "[0..<Suc n] = 0 # map Suc [0..<n]" by (simp add: map_Suc_upt upt_conv_Cons del: upt_Suc)
  then show "rev [0..<Suc n] = map Suc (rev [0..<n]) @ [0]" by (simp add: rev_map)
  show "rev [1..<Suc n] = map Suc (rev [0..<n])" by (simp only: One_nat_def map_Suc_upt[symmetric] rev_map)
qed

lemma mt_greedy_star:
  "mt (RStar True (RSet P)) c s = map (\<lambda>k. (c, drop k s)) (rev [0..<Suc (run_length P s)])"
proof (induction s)
  case Nil
  then show ?case by (subst mt_star) (simp add: run_length_def)
next
  case (Cons x xs)
  show ?case
  proof (cases "P x")
    case False
    then show ?thesis by (subst mt_star) (simp add: run_length_def)
  next
    case True
    have "run_length P (x # xs) = Suc (run_length P xs)" using True by (simp add: run_length_def)
    moreover have "mt (RStar True (RSet P)) c (x # xs) = mt (RStar True (RSet P)) c xs @ [(c, x # xs)]"
      using True by (subst mt_star) simp
    ultimately show ?thesis using Cons.IH by (simp add: rev_upt_Suc(1)[of "Suc _"] comp_def del: upt_Suc)
  qed
qed

lemma capture_free_plus [simp]: "capture_free (plus g P)"
  by (simp add: plus_def)

lemma mt_greedy_plus:
  "mt (plus True P) c s = map (\<lambda>k. (c, drop k s)) (rev [1..<Suc (run_length P s)])"
proof (cases s)
  case Nil
  then show ?thesis by (simp add: plus_def run_length_def)
next
  case (Cons x xs)
  show ?thesis
  proof (cases "P x")
    case True
    have "run_length P (x # xs) = Suc (run_length P xs)" using True by (simp add: run_length_def)
    then show ?thesis using True Cons
      by (simp add: plus_def mt_greedy_star rev_upt_Suc(2)[unfolded One_nat_def] comp_def del: upt_Suc)
  qed (simp add: Cons plus_def run_length_def)
qed

text \<open>
  A greedy run of \<open>P\<close> takes the longest split for which the rest of the pattern matches.
\<close>

lemma concat_map_skip:
  "\<lbrakk>\<And>k. k \<in> set ks \<Longrightarrow> f k = []; f n \<noteq> []\<rbrakk> \<Longrightarrow> \<exists>ys. concat (map f (ks @ n # ms)) = f n @ ys"
  by (induction ks) auto

lemma run_length_append: "list_all P a \<Longrightarrow> length a \<le> run_length P (a @ t)"
  by (induction a) (auto simp: run_length_def)

lemma run_length_take: "k \<le> run_length P s \<Longrightarrow> list_all P (take k s)"
proof (induction s arbitrary: k)
  case (Cons x xs)
  then show ?case by (cases k) (auto simp: run_length_def split: if_splits)
qed (simp add: run_length_def)

lemma greedy_first:
  fixes g :: "nat \<Rightarrow> 'b list"
  assumes "a \<noteq> []" "list_all P a" "g (length a) \<noteq> []"
    and longer: "\<And>u v. t = u @ v \<Longrightarrow> u \<noteq> [] \<Longrightarrow> list_all P u \<Longrightarrow> g (length (a @ u)) = []"
  shows "\<exists>ys. concat (map g (rev [1..<Suc (run_length P (a @ t))])) = g (length a) @ ys"
proof -
  let ?n = "length a" and ?m = "run_length P (a @ t)"
  have nm: "?n \<le> ?m" "0 < ?n" using run_length_append[OF assms(2)] assms(1) by auto
  have "[1..<Suc ?m] = [1..<?n] @ [?n..<Suc ?m]"
    using nm upt_add_eq_append[of 1 ?n "Suc ?m - ?n"] by (simp add: Suc_le_eq del: upt_Suc)
  also have "[?n..<Suc ?m] = ?n # [Suc ?n..<Suc ?m]" using nm by (simp add: upt_conv_Cons del: upt_Suc)
  finally have ks: "rev [1..<Suc ?m] = rev [Suc ?n..<Suc ?m] @ ?n # rev [1..<?n]" by simp
  have "g k = []" if "k \<in> set (rev [Suc ?n..<Suc ?m])" for k
  proof -
    have k: "?n < k" "k \<le> ?m" using that by auto
    have kl: "k \<le> length (a @ t)"
      using k(2) unfolding run_length_def by (meson le_trans length_takeWhile_le)
    let ?u = "take (k - ?n) t"
    have "take k (a @ t) = a @ ?u" using k(1) by simp
    then have "list_all P ?u" using run_length_take[OF k(2)] by simp
    moreover have "?u \<noteq> []" "length (a @ ?u) = k" using k kl by auto
    ultimately show ?thesis using longer[of ?u "drop (k - ?n) t"] by simp
  qed
  then show ?thesis unfolding ks by (intro concat_map_skip assms(3)) blast
qed

lemma greedy_split:
  assumes "a \<noteq> []" "list_all P a" "mt K c t \<noteq> []"
    and "\<And>u v. t = u @ v \<Longrightarrow> u \<noteq> [] \<Longrightarrow> list_all P u \<Longrightarrow> mt K c v = []"
  shows "\<exists>ys. mt (RSeq (plus True P) K) c (a @ t) = mt K c t @ ys"
  using greedy_first[of a P "\<lambda>k. mt K c (drop k (a @ t))" t] assms
  by (fastforce simp: mt_greedy_plus comp_def simp del: upt_Suc)

lemma greedy_capture_split:
  assumes "a \<noteq> []" "list_all P a" "mt K ((i, a) # c) t \<noteq> []"
    and "\<And>u v. t = u @ v \<Longrightarrow> u \<noteq> [] \<Longrightarrow> list_all P u \<Longrightarrow> mt K ((i, a @ u) # c) v = []"
  shows "\<exists>ys. mt (RSeq (RCap i (plus True P)) K) c (a @ t) = mt K ((i, a) # c) t @ ys"
  using greedy_first[of a P "\<lambda>k. mt K ((i, take (length (a @ t) - length (drop k (a @ t))) (a @ t)) # c)
     (drop k (a @ t))" t] assms
  by (fastforce simp: mt_greedy_plus comp_def simp del: upt_Suc)

text \<open>A lazy run offers the splits in the opposite order, so it takes the shortest one for which the rest of
  the pattern matches.\<close>

lemma mt_lazy_star:
  "mt (RStar False (RSet P)) c s = map (\<lambda>k. (c, drop k s)) [0..<Suc (run_length P s)]"
proof (induction s)
  case Nil
  then show ?case by (subst mt_star) (simp add: run_length_def)
next
  case (Cons x xs)
  show ?case
  proof (cases "P x")
    case False
    then show ?thesis by (subst mt_star) (simp add: run_length_def)
  next
    case True
    have r: "run_length P (x # xs) = Suc (run_length P xs)" using True by (simp add: run_length_def)
    have "[0..<Suc (Suc n)] = 0 # map Suc [0..<Suc n]" for n
      unfolding map_Suc_upt by (simp add: upt_conv_Cons del: upt_Suc)
    moreover have "mt (RStar False (RSet P)) c (x # xs) = (c, x # xs) # mt (RStar False (RSet P)) c xs"
      using True by (subst mt_star) simp
    ultimately show ?thesis using Cons.IH r by (simp add: comp_def del: upt_Suc)
  qed
qed

lemma mt_lazy_plus:
  "mt (plus False P) c s = map (\<lambda>k. (c, drop k s)) [1..<Suc (run_length P s)]"
proof (cases s)
  case Nil
  then show ?thesis by (simp add: plus_def run_length_def)
next
  case (Cons x xs)
  show ?thesis
  proof (cases "P x")
    case True
    then have "run_length P (x # xs) = Suc (run_length P xs)" by (simp add: run_length_def)
    moreover have "[1..<Suc (Suc n)] = map Suc [0..<Suc n]" for n unfolding map_Suc_upt by simp
    ultimately show ?thesis using True Cons
      by (simp add: plus_def mt_lazy_star comp_def del: upt_Suc)
  qed (simp add: Cons plus_def run_length_def)
qed

lemma lazy_first:
  fixes g :: "nat \<Rightarrow> 'b list"
  assumes "a \<noteq> []" "list_all P a" "g (length a) \<noteq> []"
    and shorter: "\<And>u v. a = u @ v \<Longrightarrow> u \<noteq> [] \<Longrightarrow> v \<noteq> [] \<Longrightarrow> g (length u) = []"
  shows "\<exists>ys. concat (map g [1..<Suc (run_length P (a @ t))]) = g (length a) @ ys"
proof -
  let ?n = "length a" and ?m = "run_length P (a @ t)"
  have nm: "?n \<le> ?m" "0 < ?n" using run_length_append[OF assms(2)] assms(1) by auto
  have "[1..<Suc ?m] = [1..<?n] @ [?n..<Suc ?m]"
    using nm upt_add_eq_append[of 1 ?n "Suc ?m - ?n"] by (simp add: Suc_le_eq del: upt_Suc)
  also have "[?n..<Suc ?m] = ?n # [Suc ?n..<Suc ?m]" using nm by (simp add: upt_conv_Cons del: upt_Suc)
  finally have ks: "[1..<Suc ?m] = [1..<?n] @ ?n # [Suc ?n..<Suc ?m]" .
  have "g k = []" if "k \<in> set [1..<?n]" for k
    using that shorter[of "take k a" "drop k a"] assms(1) by auto
  then show ?thesis unfolding ks by (intro concat_map_skip assms(3)) blast
qed

text \<open>What is matched consists of characters that the pattern names.\<close>

fun names_char :: "rx \<Rightarrow> char \<Rightarrow> bool" where
  "names_char (RSet P) x = P x"
| "names_char (RSeq a b) x = (names_char a x \<or> names_char b x)"
| "names_char (RAlt a b) x = (names_char a x \<or> names_char b x)"
| "names_char (ROpt a) x = names_char a x"
| "names_char (RStar g a) x = names_char a x"
| "names_char (RCap i a) x = names_char a x"
| "names_char _ x = False"

lemma mt_names: "(c', s') \<in> set (mt r c s) \<Longrightarrow> \<exists>p. s = p @ s' \<and> (\<forall>x \<in> set p. names_char r x)"
proof (induction r c s arbitrary: c' s' rule: mt.induct)
  case (4 a b c s)
  then obtain c1 s1 where 1: "(c1, s1) \<in> set (mt a c s)" "(c', s') \<in> set (mt b c1 s1)" by auto
  obtain p where p: "s = p @ s1" "\<forall>x \<in> set p. names_char a x" using "4.IH"(1)[OF 1(1)] by blast
  obtain q where q: "s1 = q @ s'" "\<forall>x \<in> set q. names_char b x" using "4.IH"(2)[OF 1(1) refl 1(2)] by blast
  show ?case using p q by (intro exI[of _ "p @ q"]) auto
next
  case (7 g a c s)
  from "7.prems" show ?case
  proof (cases rule: mt_starE)
    case (2 c1 s1)
    obtain p where p: "s = p @ s1" "\<forall>x \<in> set p. names_char a x" using "7.IH"(1)[OF 2(1)] by blast
    obtain q where q: "s1 = q @ s'" "\<forall>x \<in> set q. names_char a x"
      using "7.IH"(2)[OF 2(1) refl 2(2,3)] by auto
    show ?thesis using p q by (intro exI[of _ "p @ q"]) auto
  qed simp
qed (fastforce split: list.splits if_splits)+

lemma accepts_names: "accepts r s \<Longrightarrow> x \<in> set s \<Longrightarrow> names_char r x"
  using mt_names by (fastforce simp: accepts_iff)

lemma names_char_lit [simp]: "names_char (lit w) x \<longleftrightarrow> x \<in> set w"
  by (induction w) (auto simp: lit.simps)

lemma names_char_plus [simp]: "names_char (plus g P) x \<longleftrightarrow> P x"
  by (simp add: plus_def)

lemma accepts_plus: "accepts (plus True P) s \<longleftrightarrow> s \<noteq> [] \<and> list_all P s"
proof
  assume "accepts (plus True P) s"
  then obtain k where k: "1 \<le> k" "k \<le> run_length P s" "drop k s = []"
    by (auto simp: accepts_iff mt_greedy_plus simp del: upt_Suc)
  have "run_length P s \<le> length s" unfolding run_length_def by (rule length_takeWhile_le)
  with k have "k = length s" by simp
  then show "s \<noteq> [] \<and> list_all P s" using k run_length_take[of k P s] by auto
next
  assume s: "s \<noteq> [] \<and> list_all P s"
  then have "length s \<le> run_length P s" using run_length_append[of P s "[]"] by simp
  then have "([], []) = ([], drop (length s) s)" "length s \<in> set (rev [1..<Suc (run_length P s)])"
    using s by (auto simp: Suc_le_eq simp del: upt_Suc)
  then show "accepts (plus True P) s"
    unfolding accepts_iff mt_greedy_plus set_map by blast
qed

lemma find_submatch_captured_end:
  assumes "capture_free r"
  shows "find_submatch (RSeq (lit l) (captured_end i r)) s =
    (if has_prefix s l \<and> accepts r (drop (length l) s) then Some [(i, drop (length l) s)] else None)"
  using captured_end_accepts[OF assms, of "drop (length l) s" i "[]"]
    captured_end_rejects[OF assms, of "drop (length l) s" i "[]"]
  by (auto simp: find_submatch_def mt_lit_seq simp del: mt.simps)

end
