(* ===== verification/Go_World.thy ===== *)
theory Go_World
  imports Prelude
begin

text \<open>
  What the server reads from its surroundings, as one record: files, directories, environment
  variables and finished commands, and the byte formats that Go's standard library decodes (tar,
  gzip and the JSON syntax: \<open>json_syntax\<close> for a whole document as \<open>json.Unmarshal\<close> wants it,
  \<open>json_first\<close> for the first value of a stream as \<open>Decoder.Decode\<close> does). A reader is the bytes it delivers and the error that ends it, if any.
  Errors are their texts. Decoding a JSON value into a struct or a map is modelled here, with
  \<open>encoding/json\<close>'s rules: exact or case-insensitive field names, the last duplicate wins, \<open>null\<close>
  leaves the field as it is (and clears a pointer), a wrong type is an error.
\<close>

type_synonym 'a go = "string + 'a"

type_synonym reader = "string \<times> string option"

datatype json =
    JNull
  | JBool bool
  | JNumber string
  | JString string
  | JArray "json list"
  | JObject "(string \<times> json) list"

record cmd_result =
  cr_stdout :: string
  cr_stderr :: string
  cr_exit :: int
  cr_err :: "string option"

record tar_entry =
  te_name :: string
  te_regular :: bool
  te_content :: "string go"

record world =
  read_file :: "string \<Rightarrow> string go"
  open_file :: "string \<Rightarrow> reader go"
  read_dir :: "string \<Rightarrow> (string \<times> bool) list go"
  getenv :: "string \<Rightarrow> string"
  run_command :: "string \<Rightarrow> string list \<Rightarrow> cmd_result"
  json_syntax :: "string \<Rightarrow> json go"
  json_first :: "string \<Rightarrow> json go"
  gunzip :: "reader \<Rightarrow> reader go"
  untar :: "reader \<Rightarrow> tar_entry list \<times> string option"

section \<open>Errors\<close>

definition wrap_err :: "string \<Rightarrow> string \<Rightarrow> string" where
  "wrap_err what err = what @ '': '' @ err"

fun map_err :: "(string \<Rightarrow> string) \<Rightarrow> 'a go \<Rightarrow> 'a go" where
  "map_err f (Inl e) = Inl (f e)"
| "map_err f (Inr x) = Inr x"

fun bind_go :: "'a go \<Rightarrow> ('a \<Rightarrow> 'b go) \<Rightarrow> 'b go" where
  "bind_go (Inl e) f = Inl e"
| "bind_go (Inr x) f = f x"

lemma map_err_Inr [simp]: "map_err f x = Inr y \<longleftrightarrow> x = Inr y"
  by (cases x) auto

lemma bind_go_Inr: "bind_go x f = Inr y \<longleftrightarrow> (\<exists>z. x = Inr z \<and> f z = Inr y)"
  by (cases x) auto

text \<open>\<open>io.ReadAll\<close>.\<close>

fun read_all :: "reader \<Rightarrow> string go" where
  "read_all (b, None) = Inr b"
| "read_all (b, Some e) = Inl e"

section \<open>Paths under the mock file system root\<close>

text \<open>\<open>prefixfs.Path\<close>.\<close>

definition prefix_path :: "world \<Rightarrow> string \<Rightarrow> string" where
  "prefix_path w p =
     (let pre = getenv w ''MOCK_MENDER_STATE_DIR''
      in (if pre \<noteq> [] then pre @ ''/fs'' else pre) @ p)"

section \<open>Decoding JSON values\<close>

definition field_matches :: "string \<Rightarrow> string \<Rightarrow> bool" where
  "field_matches field key \<longleftrightarrow> key = field \<or> to_lower key = to_lower field"

text \<open>
  One pointer field (\<open>*string\<close>) and one plain \<open>string\<close> field of a struct: the value after all
  members with that name, and whether one of them had the wrong type. A type error does not stop
  the decoder; it is returned at the end.
\<close>

fun decode_str_ptr :: "string \<Rightarrow> (string \<times> json) list \<Rightarrow> string option \<Rightarrow> string option go" where
  "decode_str_ptr f [] v = Inr v"
| "decode_str_ptr f ((k, j) # ms) v =
     (if field_matches f k then
        (case j of
           JNull \<Rightarrow> decode_str_ptr f ms None
         | JString s \<Rightarrow> decode_str_ptr f ms (Some s)
         | _ \<Rightarrow> Inl (''json: cannot unmarshal value into Go struct field '' @ f @ '' of type string''))
      else decode_str_ptr f ms v)"

fun decode_str :: "string \<Rightarrow> (string \<times> json) list \<Rightarrow> string \<Rightarrow> string go" where
  "decode_str f [] v = Inr v"
| "decode_str f ((k, j) # ms) v =
     (if field_matches f k then
        (case j of
           JNull \<Rightarrow> decode_str f ms v
         | JString s \<Rightarrow> decode_str f ms s
         | _ \<Rightarrow> Inl (''json: cannot unmarshal value into Go struct field '' @ f @ '' of type string''))
      else decode_str f ms v)"

text \<open>The members of the top-level value: an object, or \<open>null\<close>, which decodes to nothing.\<close>

fun struct_members :: "json \<Rightarrow> (string \<times> json) list go" where
  "struct_members JNull = Inr []"
| "struct_members (JObject ms) = Inr ms"
| "struct_members _ = Inl ''json: cannot unmarshal value into Go value of type struct''"

definition unmarshal_struct :: "world \<Rightarrow> string \<Rightarrow> (string \<times> json) list go" where
  "unmarshal_struct w s = bind_go (json_syntax w s) struct_members"

text \<open>\<open>%T\<close> of a value decoded into \<open>any\<close>.\<close>

fun json_go_type :: "json \<Rightarrow> string" where
  "json_go_type JNull = ''<nil>''"
| "json_go_type (JBool _) = ''bool''"
| "json_go_type (JNumber _) = ''float64''"
| "json_go_type (JString _) = ''string''"
| "json_go_type (JArray _) = ''[]interface {}''"
| "json_go_type (JObject _) = ''map[string]interface {}''"

lemma decode_str_ptr_single:
  "decode_str_ptr f [(f, JString s)] v = Inr (Some s)"
  "decode_str_ptr f [(f, JNull)] v = Inr None"
  by (simp_all add: field_matches_def)

text \<open>Surroundings where nothing is installed: the start of the sample runs.\<close>

definition bare_world :: world where
  "bare_world = \<lparr>read_file = \<lambda>_. Inl ''no such file'', open_file = \<lambda>_. Inl ''no such file'',
     read_dir = \<lambda>_. Inl ''no such directory'', getenv = \<lambda>_. [],
     run_command = \<lambda>_ _. \<lparr>cr_stdout = [], cr_stderr = [], cr_exit = -1, cr_err = Some ''not found''\<rparr>,
     json_syntax = \<lambda>_. Inl ''unexpected end of JSON input'', json_first = \<lambda>_. Inl ''EOF'',
     gunzip = \<lambda>_. Inl ''EOF'', untar = \<lambda>_. ([], None)\<rparr>"

end
