(* ===== verification/Sw_Version.thy ===== *)
theory Sw_Version
  imports Go_Regexp Go_World
begin

text \<open>
  \<open>internal/manager/cpumanager/swversion.go\<close>: the deployed versions of the core OS (second line of
  \<open>/etc/issue\<close>), of an application (its \<open>.env\<close> file) and of the Core OS customization, and the list
  of installed applications. The lemmas show what the two regular expressions extract from the
  lines the image build writes.
\<close>

section \<open>The core OS version\<close>

definition is_word_char :: "char \<Rightarrow> bool" where
  "is_word_char c \<longleftrightarrow> is_alnum c \<or> c = CHR ''_''"

definition is_ver_sep :: "char \<Rightarrow> bool" where
  "is_ver_sep c \<longleftrightarrow> c = CHR ''.'' \<or> c = CHR ''+'' \<or> c = CHR ''-''"

text \<open>\<open>v\d+\.\d+\.\d+(?:[.+-][A-Za-z0-9_][A-Za-z0-9_.+-]*)?\<close>\<close>

definition version_rx :: rx where
  "version_rx =
     RSeq (lit ''v'') (RSeq (plus True is_digit) (RSeq (lit ''.'') (RSeq (plus True is_digit)
       (RSeq (lit ''.'') (RSeq (plus True is_digit)
         (ROpt (RSeq (RSet is_ver_sep) (RSeq (RSet is_word_char)
           (RStar True (RSet (\<lambda>c. is_word_char c \<or> is_ver_sep c)))))))))))"

definition variant_rx :: rx where
  "variant_rx =
     RSeq (lit ''-'') (RAlt (lit ''Non-Secure-Boot'') (RAlt (lit ''Staging'') (lit ''Production'')))"

definition issue_rx :: rx where
  "issue_rx =
     RSeq (plus True is_alnum) (RSeq (lit ''-'') (RSeq (RCap 1 (plus True not_nl)) (RSeq (lit ''-Image'')
       (RSeq (ROpt variant_rx) (RSeq (ROpt (lit ''_dirty'')) (RSeq (lit ''_'')
         (captured_end 2 version_rx)))))))"

definition coreOsVersionFromIssueLine :: "string \<Rightarrow> (string \<times> string) go" where
  "coreOsVersionFromIssueLine line =
     (case find_submatch issue_rx line of
        None \<Rightarrow> Inl (wrap_err ''invalid format for /etc/issue line'' line)
      | Some m \<Rightarrow> Inr (replace_char CHR ''_'' CHR ''-'' (to_lower (group m 1)), group m 2))"

definition coreOSVersionFromTargetFS :: "world \<Rightarrow> (string \<times> string) go" where
  "coreOSVersionFromTargetFS w =
     (case read_file w (prefix_path w ''/etc/issue'') of
        Inl e \<Rightarrow> Inl (wrap_err ''read /etc/issue'' e)
      | Inr data \<Rightarrow>
          (case split_on newline data of
             _ # second # _ \<Rightarrow> coreOsVersionFromIssueLine second
           | _ \<Rightarrow> Inl ''unexpected format of /etc/issue: less than 2 lines''))"

section \<open>Application and customization versions\<close>

definition env_version_rx :: rx where
  "env_version_rx = RSeq (lit ''SOFTWARE_VERSION='') (captured_end 1 (plus True not_nl))"

fun first_env_version :: "string list \<Rightarrow> string go" where
  "first_env_version [] = Inl ''invalid format for .env data''"
| "first_env_version (line # lines) =
     (case find_submatch env_version_rx line of
        None \<Rightarrow> first_env_version lines
      | Some m \<Rightarrow> Inr (group m 1))"

definition appVersionFromData :: "string \<Rightarrow> string go" where
  "appVersionFromData data = first_env_version (split_on newline data)"

definition app_env_file :: "string \<Rightarrow> string" where
  "app_env_file appName = ''/data/mender-app'' @ ''/'' @ appName @ ''/manifests/.env''"

definition appVersionFromTargetFS :: "world \<Rightarrow> string \<Rightarrow> string go" where
  "appVersionFromTargetFS w appName =
     (case read_file w (prefix_path w (app_env_file appName)) of
        Inl e \<Rightarrow> Inl (wrap_err (''read '' @ app_env_file appName) e)
      | Inr data \<Rightarrow> appVersionFromData data)"

definition coreOSCustomizationVersionFromTargetFS :: "world \<Rightarrow> string go" where
  "coreOSCustomizationVersionFromTargetFS w =
     (let r = run_command w ''os-customization-set'' [''status''] in
      case cr_err r of
        Some e \<Rightarrow> Inl (wrap_err ''run os-customization-set status'' (wrap_err e (cr_stderr r)))
      | None \<Rightarrow>
          (case bind_go (unmarshal_struct w (cr_stdout r))
                  (\<lambda>ms. decode_str_ptr ''active_version'' ms None) of
             Inl e \<Rightarrow> Inl (wrap_err ''parse os-customization-set status'' e)
           | Inr None \<Rightarrow> Inr []
           | Inr (Some v) \<Rightarrow> Inr v))"

definition is_app_dir :: "string \<times> bool \<Rightarrow> bool" where
  "is_app_dir e \<longleftrightarrow>
     snd e \<and> fst e \<noteq> ''.transactions'' \<and>
     \<not> has_suffix (fst e) ''-previous'' \<and> \<not> has_suffix (fst e) ''-last''"

definition listApplicationsFromTargetFS :: "world \<Rightarrow> string list go" where
  "listApplicationsFromTargetFS w =
     (case read_dir w (prefix_path w ''/data/mender-app'') of
        Inl e \<Rightarrow> Inl (wrap_err ''read applications directory'' e)
      | Inr entries \<Rightarrow> Inr (map fst (filter is_app_dir entries)))"

section \<open>What the issue line determines\<close>

definition wf_version :: "string \<Rightarrow> bool" where
  "wf_version v \<longleftrightarrow> accepts version_rx v"

lemma version_rx_capture_free [simp]: "capture_free version_rx"
  by (simp add: version_rx_def)

lemma wf_version_head: "wf_version v \<Longrightarrow> \<exists>r. v = CHR ''v'' # r"
proof -
  assume "wf_version v"
  then have "mt version_rx [] v \<noteq> []" by (auto simp: wf_version_def accepts_def)
  then have "has_prefix v ''v''" unfolding version_rx_def mt_lit_seq by (metis (full_types))
  then show ?thesis by (auto simp: has_prefix_iff)
qed

definition image_variants :: "string list" where
  "image_variants = ['''', ''-Non-Secure-Boot'', ''-Staging'', ''-Production'']"

definition dirty_marks :: "string list" where
  "dirty_marks = ['''', ''_dirty'']"

text \<open>The line that the image build writes: vendor, device name, variant, dirty mark, version.\<close>

definition issue_line :: "string \<Rightarrow> string \<Rightarrow> string \<Rightarrow> string \<Rightarrow> string \<Rightarrow> string" where
  "issue_line vendor dev variant dirty version =
     vendor @ ''-'' @ dev @ ''-Image'' @ variant @ dirty @ ''_'' @ version"

definition issue_tail_rx :: rx where
  "issue_tail_rx =
     RSeq (ROpt variant_rx) (RSeq (ROpt (lit ''_dirty'')) (RSeq (lit ''_'') (captured_end 2 version_rx)))"

lemma variant_match:
  assumes "variant \<in> set image_variants"
  shows "\<exists>ys. mt (RSeq (ROpt variant_rx) K) c (variant @ CHR ''_'' # s) = mt K c (CHR ''_'' # s) @ ys"
proof -
  consider "variant = ''''" | "variant = ''-Non-Secure-Boot''" | "variant = ''-Staging''"
    | "variant = ''-Production''"
    using assms by (auto simp: image_variants_def)
  then show ?thesis by cases (auto simp: variant_rx_def mt_lit)
qed

lemma dirty_match:
  assumes "dirty \<in> set dirty_marks"
  shows "\<exists>ys. mt (RSeq (ROpt (lit ''_dirty'')) (RSeq (lit ''_'') K)) c (dirty @ ''_v'' @ r) =
    mt K c (''v'' @ r) @ ys"
  using assms unfolding dirty_marks_def mt_opt_lit_seq mt_lit_seq by auto

lemma issue_tail_match:
  assumes "wf_version v" "variant \<in> set image_variants" "dirty \<in> set dirty_marks"
  shows "\<exists>ys. mt issue_tail_rx c (variant @ dirty @ ''_'' @ v) = ((2, v) # c, []) # ys"
proof -
  obtain xs where xs: "mt (captured_end 2 version_rx) c v = ((2, v) # c, []) # xs"
    using captured_end_accepts assms(1) unfolding wf_version_def by fastforce
  obtain r where r: "v = CHR ''v'' # r" using wf_version_head assms(1) by blast
  let ?K = "RSeq (ROpt (lit ''_dirty'')) (RSeq (lit ''_'') (captured_end 2 version_rx))"
  obtain s where s: "dirty @ ''_'' @ v = CHR ''_'' # s" using assms(3) by (auto simp: dirty_marks_def)
  obtain ys where "mt issue_tail_rx c (variant @ dirty @ ''_'' @ v) = mt ?K c (dirty @ ''_'' @ v) @ ys"
    using variant_match[OF assms(2), of ?K c s] unfolding issue_tail_rx_def s by blast
  moreover obtain zs where "mt ?K c (dirty @ ''_'' @ v) = mt (captured_end 2 version_rx) c v @ zs"
    using dirty_match[OF assms(3), of "captured_end 2 version_rx" c r] unfolding r by auto
  ultimately show ?thesis unfolding xs by (metis append_Cons)
qed

lemma image_mark_unique:
  assumes "\<not> contains_str v ''-Image''" "variant \<in> set image_variants" "dirty \<in> set dirty_marks"
    and "''-Image'' @ variant @ dirty @ ''_'' @ v = u @ t" "u \<noteq> []"
  shows "\<not> has_prefix t ''-Image''"
proof
  assume "has_prefix t ''-Image''"
  moreover obtain x u' where u: "u = x # u'" using assms(5) by (cases u) auto
  ultimately have "contains_str (u' @ t) ''-Image''"
    by (metis contains_str_append2 contains_str_iff has_prefix_iff append_Nil)
  moreover have "u' @ t = ''Image'' @ variant @ dirty @ ''_'' @ v" using assms(4) u by simp
  ultimately have "contains_str (''Image'' @ variant @ dirty @ ''_'' @ v) ''-Image''" by simp
  then show False using assms(1-3) by (auto simp: image_variants_def dirty_marks_def)
qed

lemma issue_line_parses:
  assumes vendor: "vendor \<noteq> []" "list_all is_alnum vendor"
    and dev: "dev \<noteq> []" "list_all not_nl dev"
    and version: "wf_version v" "\<not> contains_str v ''-Image''"
    and marks: "variant \<in> set image_variants" "dirty \<in> set dirty_marks"
  shows "coreOsVersionFromIssueLine (issue_line vendor dev variant dirty v) =
    Inr (replace_char CHR ''_'' CHR ''-'' (to_lower dev), v)"
proof -
  let ?t = "variant @ dirty @ ''_'' @ v"
  let ?K = "RSeq (lit ''-Image'') issue_tail_rx"
  let ?c = "[(1, dev)]"
  obtain ys where "mt issue_tail_rx ?c ?t = ((2, v) # ?c, []) # ys"
    using issue_tail_match[OF version(1) marks] by blast
  then have K: "mt ?K ?c (''-Image'' @ ?t) = ((2, v) # ?c, []) # ys"
    unfolding mt_lit_seq by simp
  have "\<exists>zs. mt (RSeq (RCap 1 (plus True not_nl)) ?K) [] (dev @ ''-Image'' @ ?t) =
      mt ?K ?c (''-Image'' @ ?t) @ zs"
  proof (rule greedy_capture_split[OF dev])
    fix u t assume "''-Image'' @ ?t = u @ t" "u \<noteq> []"
    then show "mt ?K ((1, dev @ u) # []) t = []"
      using image_mark_unique[OF version(2) marks] unfolding mt_lit_seq by simp
  qed (simp only: K, simp)
  then obtain zs where Z: "mt (RSeq (RCap 1 (plus True not_nl)) ?K) [] (dev @ ''-Image'' @ ?t) =
      ((2, v) # ?c, []) # zs"
    using K by auto
  let ?L = "RSeq (lit ''-'') (RSeq (RCap 1 (plus True not_nl)) ?K)"
  have L: "mt ?L [] (''-'' @ dev @ ''-Image'' @ ?t) = ((2, v) # ?c, []) # zs"
    unfolding mt_lit_seq using Z by simp
  have "\<exists>ws. mt (RSeq (plus True is_alnum) ?L) [] (vendor @ ''-'' @ dev @ ''-Image'' @ ?t) =
      mt ?L [] (''-'' @ dev @ ''-Image'' @ ?t) @ ws"
  proof (rule greedy_split[OF vendor])
    fix u t assume "''-'' @ dev @ ''-Image'' @ ?t = u @ t" "u \<noteq> []" "list_all is_alnum u"
    then show "mt ?L [] t = []"
      by (cases u) (auto simp: is_alnum_def is_digit_def is_upper_def)
  qed (simp only: L, simp)
  then have "find_submatch issue_rx (issue_line vendor dev variant dirty v) = Some ((2, v) # ?c)"
    using L unfolding find_submatch_def issue_rx_def issue_line_def issue_tail_rx_def by auto
  then show ?thesis by (simp add: coreOsVersionFromIssueLine_def group_def)
qed

section \<open>What the .env file determines\<close>

definition env_key :: string where "env_key = ''SOFTWARE_VERSION=''"

definition is_version_line :: "string \<Rightarrow> bool" where
  "is_version_line l \<longleftrightarrow> has_prefix l env_key \<and> l \<noteq> env_key"

lemma env_line_match:
  assumes "newline \<notin> set l"
  shows "find_submatch env_version_rx l =
    (if is_version_line l then Some [(1, drop (length env_key) l)] else None)"
proof -
  have nl: "list_all not_nl (drop (length env_key) l)"
    using assms by (auto simp: list_all_iff not_nl_def dest: in_set_dropD)
  have "has_prefix l env_key \<Longrightarrow> drop (length env_key) l \<noteq> [] \<longleftrightarrow> l \<noteq> env_key"
    by (auto simp: has_prefix_iff)
  then show ?thesis
    using find_submatch_captured_end[of "plus True not_nl" env_key 1 l] nl
    by (auto simp: env_version_rx_def env_key_def is_version_line_def accepts_plus)
qed

text \<open>The application version is what follows the key in the first line that gives it a value; a
  file without such a line is an error.\<close>

theorem appVersionFromData_spec:
  "appVersionFromData data =
     (case find is_version_line (split_on newline data) of
        None \<Rightarrow> Inl ''invalid format for .env data''
      | Some l \<Rightarrow> Inr (drop (length env_key) l))"
proof -
  have "first_env_version ls =
     (case find is_version_line ls of
        None \<Rightarrow> Inl ''invalid format for .env data''
      | Some l \<Rightarrow> Inr (drop (length env_key) l))" if "\<forall>l \<in> set ls. newline \<notin> set l" for ls
    using that by (induction ls) (auto simp: env_line_match group_def)
  then show ?thesis using split_on_pieces by (metis appVersionFromData_def)
qed

end
