(* ===== verification/Artifact.thy ===== *)
theory Artifact
  imports Sw_Version
begin

text \<open>
  \<open>internal/menderartifact/artifact.go\<close>: the versions that an uploaded Mender artifact carries, read
  from the tar archive, its header archive and (for a Core OS customization) its payload.
  \<open>customizationVersionFromTar\<close> follows archives nested in archives and need not return, so its
  value is an option; \<open>reads_version\<close> says what a payload means without following the loop. The last
  sections compare the version that an artifact declares with the one its image shows.
\<close>

type_synonym provides = "string \<rightharpoonup> json"

section \<open>Rootfs version strings\<close>

definition rootfs_version_rx :: rx where
  "rootfs_version_rx =
     RSeq (RCap 1 (plus True not_nl)) (RSeq (lit ''-'') (captured_end 2 version_rx))"

definition coreOsVersionFromRootfsImageVersion :: "string \<Rightarrow> (string \<times> string) go" where
  "coreOsVersionFromRootfsImageVersion s =
     (case find_submatch rootfs_version_rx s of
        None \<Rightarrow> Inl (wrap_err ''invalid format for rootfs-image.version'' s)
      | Some m \<Rightarrow> Inr (trim_suffix (group m 1) ''-dirty'', group m 2))"

text \<open>\<open>^(?P<name>.+)-image(?P<suffix>-dirty)?[_-](?P<version>v.+?)(?:-dev)?$\<close>\<close>

definition legacyRootfsImageVersionRe :: rx where
  "legacyRootfsImageVersionRe =
     RSeq (RCap 1 (plus True not_nl)) (RSeq (lit ''-image'') (RSeq (ROpt (RCap 2 (lit ''-dirty'')))
       (RSeq (RSet (\<lambda>c. c = CHR ''_'' \<or> c = CHR ''-''))
         (RSeq (RCap 3 (RSeq (lit ''v'') (plus False not_nl))) (RSeq (ROpt (lit ''-dev'')) REnd)))))"

definition normalize_version :: "string \<Rightarrow> string" where
  "normalize_version version =
     (case find_submatch legacyRootfsImageVersionRe version of
        None \<Rightarrow> version
      | Some m \<Rightarrow> group m 1 @ group m 2 @ ''-'' @ group m 3)"

definition rootfs_keys :: "string list" where
  "rootfs_keys = [''rootfs-image.version'', ''rootfs-image.bootfit-rootfs.version'']"

fun normalize_keys :: "string list \<Rightarrow> provides \<Rightarrow> provides" where
  "normalize_keys [] p = p"
| "normalize_keys (k # ks) p =
     normalize_keys ks
       (case p k of Some (JString v) \<Rightarrow> p(k \<mapsto> JString (normalize_version v)) | _ \<Rightarrow> p)"

definition normalizeArtifactProvides :: "provides \<Rightarrow> provides" where
  "normalizeArtifactProvides p = normalize_keys rootfs_keys p"

section \<open>The header archive\<close>

fun put_members :: "(string \<times> json) list \<Rightarrow> provides \<Rightarrow> provides" where
  "put_members [] p = p"
| "put_members ((k, j) # ms) p = put_members ms (p(k \<mapsto> j))"

fun decode_provides :: "(string \<times> json) list \<Rightarrow> provides \<Rightarrow> provides go" where
  "decode_provides [] p = Inr p"
| "decode_provides ((k, j) # ms) p =
     (if field_matches ''artifact_provides'' k then
        (case j of
           JNull \<Rightarrow> decode_provides ms Map.empty
         | JObject kvs \<Rightarrow> decode_provides ms (put_members kvs p)
         | _ \<Rightarrow> Inl ''json: cannot unmarshal value into Go struct field HeadersTypeInfo.artifact_provides'')
      else decode_provides ms p)"

fun parse_header_entries ::
  "world \<Rightarrow> provides \<Rightarrow> bool \<Rightarrow> tar_entry list \<Rightarrow> string option \<Rightarrow> provides go" where
  "parse_header_entries w p seen [] (Some e) = Inl (wrap_err ''read header tar'' e)"
| "parse_header_entries w p seen [] None = (if seen then Inr p else Inl ''type-info not found'')"
| "parse_header_entries w p seen (h # hs) end_err =
     (if te_name h \<noteq> ''headers/0000/type-info'' then parse_header_entries w p seen hs end_err
      else (case te_content h of
              Inl e \<Rightarrow> Inl (wrap_err ''read headers/0000/type-info'' e)
            | Inr b \<Rightarrow>
                (if trim_space b = [] then parse_header_entries w p True hs end_err
                 else (case bind_go (unmarshal_struct w b) (\<lambda>ms. decode_provides ms p) of
                         Inl e \<Rightarrow> Inl (wrap_err ''parse headers/0000/type-info'' e)
                       | Inr p' \<Rightarrow>
                           parse_header_entries w (normalizeArtifactProvides p') True hs end_err))))"

definition parseHeaderTar :: "world \<Rightarrow> reader \<Rightarrow> provides go" where
  "parseHeaderTar w r =
     (let (es, end_err) = untar w r in parse_header_entries w Map.empty False es end_err)"

definition parseHeaderTarGz :: "world \<Rightarrow> string \<Rightarrow> provides go" where
  "parseHeaderTarGz w data =
     (case gunzip w (data, None) of
        Inl e \<Rightarrow> Inl (wrap_err ''open header.tar.gz'' e)
      | Inr r \<Rightarrow> parseHeaderTar w r)"

fun find_header :: "world \<Rightarrow> string \<Rightarrow> tar_entry list \<Rightarrow> string option \<Rightarrow> provides go" where
  "find_header w headerTar [] (Some e) = Inl (wrap_err ''read artifact tar'' e)"
| "find_header w headerTar [] None =
     (if headerTar = [] then Inl ''artifact missing header.tar(.gz)''
      else parseHeaderTar w (headerTar, None))"
| "find_header w headerTar (h # hs) end_err =
     (if te_name h = ''header.tar.gz'' then
        (case te_content h of
           Inl e \<Rightarrow> Inl (wrap_err ''read header.tar.gz'' e)
         | Inr b \<Rightarrow> parseHeaderTarGz w b)
      else if te_name h = ''header.tar'' then
        (case te_content h of
           Inl e \<Rightarrow> Inl (wrap_err ''read header.tar'' e)
         | Inr b \<Rightarrow> find_header w b hs end_err)
      else find_header w headerTar hs end_err)"

definition parseArtifactHeadersTypeInfo :: "world \<Rightarrow> string \<Rightarrow> provides go" where
  "parseArtifactHeadersTypeInfo w path =
     (case open_file w path of
        Inl e \<Rightarrow> Inl e
      | Inr f \<Rightarrow> (let (es, end_err) = untar w f in find_header w [] es end_err))"

definition coreOSVersionFromArtifact :: "world \<Rightarrow> string \<Rightarrow> (string \<times> string) go" where
  "coreOSVersionFromArtifact w path =
     (case parseArtifactHeadersTypeInfo w path of
        Inl e \<Rightarrow> Inl (wrap_err ''parse artifact headers'' e)
      | Inr p \<Rightarrow>
          (case (case p ''rootfs-image.version'' of
                   Some j \<Rightarrow> Some j
                 | None \<Rightarrow> p ''rootfs-image.bootfit-rootfs.version'') of
             None \<Rightarrow> Inl ''artifact_provides missing rootfs-image.version or rootfs-image.bootfit-rootfs.version''
           | Some (JString s) \<Rightarrow> coreOsVersionFromRootfsImageVersion s
           | Some j \<Rightarrow> Inl (wrap_err ''unexpected type for rootfs-image.version'' (json_go_type j))))"

definition appVersionFromArtifact :: "world \<Rightarrow> string \<Rightarrow> string \<Rightarrow> string go" where
  "appVersionFromArtifact w path appName =
     (case parseArtifactHeadersTypeInfo w path of
        Inl e \<Rightarrow> Inl (wrap_err ''parse artifact headers'' e)
      | Inr p \<Rightarrow>
          (case p (''data-partition.'' @ appName @ ''.version'') of
             None \<Rightarrow> Inl (wrap_err ''artifact_provides missing app version'' (appName @ ''.version''))
           | Some (JString s) \<Rightarrow> Inr s
           | Some j \<Rightarrow> Inl (wrap_err ''unexpected type for app version''
                              (wrap_err (appName @ ''.version'') (json_go_type j)))))"

section \<open>Customization artifacts\<close>

fun decode_types :: "json list \<Rightarrow> string list go" where
  "decode_types [] = Inr []"
| "decode_types (j # js) =
     bind_go (struct_members j) (\<lambda>ms.
       bind_go (decode_str ''type'' ms []) (\<lambda>t.
         bind_go (decode_types js) (\<lambda>ts. Inr (t # ts))))"

fun decode_payloads :: "(string \<times> json) list \<Rightarrow> string list \<Rightarrow> string list go" where
  "decode_payloads [] ts = Inr ts"
| "decode_payloads ((k, j) # ms) ts =
     (if field_matches ''payloads'' k then
        (case j of
           JNull \<Rightarrow> decode_payloads ms []
         | JArray js \<Rightarrow> bind_go (decode_types js) (\<lambda>ts'. decode_payloads ms ts')
         | _ \<Rightarrow> Inl ''json: cannot unmarshal value into Go struct field .payloads'')
      else decode_payloads ms ts)"

fun payload_type_in :: "world \<Rightarrow> tar_entry list \<Rightarrow> bool" where
  "payload_type_in w [] = False"
| "payload_type_in w (h # hs) =
     (if te_name h \<noteq> ''header-info'' then payload_type_in w hs
      else (case bind_go (te_content h) (\<lambda>b. bind_go (json_first w b) (\<lambda>j.
                   bind_go (struct_members j) (\<lambda>ms. decode_payloads ms []))) of
              Inl _ \<Rightarrow> False
            | Inr ts \<Rightarrow> ts = [''os-customization'']))"

definition customizationPayloadType :: "world \<Rightarrow> string \<Rightarrow> bool" where
  "customizationPayloadType w headerTar = payload_type_in w (fst (untar w (headerTar, None)))"

text \<open>One pass over a payload archive: a result, or the nested archive to look into next.\<close>

datatype payload_scan = Found "string go" | Nested "string option"

definition read_nested :: "world \<Rightarrow> string \<Rightarrow> string go \<Rightarrow> string go" where
  "read_nested w name content =
     (case content of
        Inl e \<Rightarrow> Inl (wrap_err ''read nested customization payload'' e)
      | Inr b \<Rightarrow>
          (if has_suffix name ''.tar.gz'' then
             (case gunzip w (b, None) of
                Inl e \<Rightarrow> Inl (wrap_err ''open nested customization payload'' e)
              | Inr r \<Rightarrow> map_err (wrap_err ''read nested customization payload'') (read_all r))
           else Inr b))"

definition manifest_version :: "world \<Rightarrow> string go \<Rightarrow> string go" where
  "manifest_version w content =
     (case bind_go content (\<lambda>b. bind_go (json_first w b) (\<lambda>j.
             bind_go (struct_members j) (\<lambda>ms. decode_str ''version'' ms []))) of
        Inl e \<Rightarrow> Inl (wrap_err ''parse customization manifest'' e)
      | Inr v \<Rightarrow> (if v = [] then Inl ''customization manifest missing version'' else Inr v))"

fun scan_payload :: "world \<Rightarrow> string option \<Rightarrow> tar_entry list \<Rightarrow> string option \<Rightarrow> payload_scan" where
  "scan_payload w nested [] (Some e) = Found (Inl (wrap_err ''read customization payload'' e))"
| "scan_payload w nested [] None = Nested nested"
| "scan_payload w nested (h # hs) end_err =
     (let name = trim_prefix (trim_prefix (te_name h) ''./'') ''/'' in
      if name = ''manifest.json'' then Found (manifest_version w (te_content h))
      else if te_regular h \<and> nested = None \<and> (has_suffix name ''.tar'' \<or> has_suffix name ''.tar.gz'')
      then (case read_nested w name (te_content h) of
              Inl e \<Rightarrow> Found (Inl e)
            | Inr b \<Rightarrow> scan_payload w (Some b) hs end_err)
      else scan_payload w nested hs end_err)"

definition scan_archive :: "world \<Rightarrow> string \<Rightarrow> payload_scan" where
  "scan_archive w data = (let (es, end_err) = untar w (data, None) in scan_payload w None es end_err)"

partial_function (option) customizationVersionFromTar :: "world \<Rightarrow> string \<Rightarrow> string go option" where
  "customizationVersionFromTar w data =
     (case scan_archive w data of
        Found r \<Rightarrow> Some r
      | Nested (Some d) \<Rightarrow> customizationVersionFromTar w d
      | Nested None \<Rightarrow> Some (Inl ''customization payload missing manifest.json''))"

text \<open>The two members that the outer archive must have: the header archive and the payload.\<close>

fun collect_parts ::
  "world \<Rightarrow> string \<times> string \<times> bool \<Rightarrow> tar_entry list \<Rightarrow> string option \<Rightarrow> (string \<times> string \<times> bool) go" where
  "collect_parts w p [] (Some e) = Inl (wrap_err ''read artifact tar'' e)"
| "collect_parts w p [] None = Inr p"
| "collect_parts w (hdr, dat, gz) (h # hs) end_err =
     (let name = te_name h in
      if name = ''header.tar'' \<or> name = ''header.tar.gz'' then
        (case te_content h of
           Inl e \<Rightarrow> Inl (wrap_err (''read '' @ name) e)
         | Inr b \<Rightarrow>
             (if name = ''header.tar.gz'' then
                (case gunzip w (b, None) of
                   Inl e \<Rightarrow> Inl (wrap_err ''open header.tar.gz'' e)
                 | Inr r \<Rightarrow>
                     (case read_all r of
                        Inl e \<Rightarrow> Inl (wrap_err ''read header.tar.gz'' e)
                      | Inr b' \<Rightarrow> collect_parts w (b', dat, gz) hs end_err))
              else collect_parts w (b, dat, gz) hs end_err))
      else if name = ''data/0000.tar'' \<or> name = ''data/0000.tar.gz'' then
        (case te_content h of
           Inl e \<Rightarrow> Inl (wrap_err (''read '' @ name) e)
         | Inr b \<Rightarrow> collect_parts w (hdr, b, name = ''data/0000.tar.gz'') hs end_err)
      else collect_parts w (hdr, dat, gz) hs end_err)"

definition unpack_payload :: "world \<Rightarrow> string \<Rightarrow> bool \<Rightarrow> string go" where
  "unpack_payload w dat gz =
     (if gz then
        (case gunzip w (dat, None) of
           Inl e \<Rightarrow> Inl (wrap_err ''open data/0000.tar.gz'' e)
         | Inr r \<Rightarrow> map_err (wrap_err ''read data/0000.tar.gz'') (read_all r))
      else Inr dat)"

definition coreOSCustomizationVersionFromArtifact :: "world \<Rightarrow> string \<Rightarrow> string go option" where
  "coreOSCustomizationVersionFromArtifact w path =
     (case open_file w path of
        Inl e \<Rightarrow> Some (Inl e)
      | Inr f \<Rightarrow>
          (let (es, end_err) = untar w f in
           case collect_parts w ([], [], False) es end_err of
             Inl e \<Rightarrow> Some (Inl e)
           | Inr (hdr, dat, gz) \<Rightarrow>
               (if \<not> customizationPayloadType w hdr
                then Some (Inl ''artifact is not an os-customization payload'')
                else if dat = [] then Some (Inl ''artifact missing data/0000.tar(.gz)'')
                else (case unpack_payload w dat gz of
                        Inl e \<Rightarrow> Some (Inl e)
                      | Inr data \<Rightarrow> customizationVersionFromTar w data))))"

section \<open>What the reading of a customization payload means\<close>

text \<open>
  The meaning of a payload archive, stated without the loop: the manifest is the first entry of that
  name, the inner archive is the first regular archive file before it, an inner archive that cannot
  be read is an error even if a manifest follows, and a payload without a manifest means what its
  inner archive means.
\<close>

definition clean_name :: "tar_entry \<Rightarrow> string" where
  "clean_name e = trim_prefix (trim_prefix (te_name e) ''./'') ''/''"

definition is_manifest :: "tar_entry \<Rightarrow> bool" where
  "is_manifest e \<longleftrightarrow> clean_name e = ''manifest.json''"

definition compressed :: "tar_entry \<Rightarrow> bool" where
  "compressed e \<longleftrightarrow> has_suffix (clean_name e) ''.tar.gz''"

definition is_archive :: "tar_entry \<Rightarrow> bool" where
  "is_archive e \<longleftrightarrow> te_regular e \<and> (has_suffix (clean_name e) ''.tar'' \<or> compressed e)"

definition manifest_of :: "tar_entry list \<Rightarrow> tar_entry option" where
  "manifest_of es = find is_manifest es"

definition inner_archive :: "tar_entry list \<Rightarrow> tar_entry option" where
  "inner_archive es = find is_archive (takeWhile (\<lambda>e. \<not> is_manifest e) es)"

definition inner_content :: "world \<Rightarrow> tar_entry \<Rightarrow> string go" where
  "inner_content w a = read_nested w (clean_name a) (te_content a)"

definition inner_ok :: "world \<Rightarrow> tar_entry list \<Rightarrow> bool" where
  "inner_ok w es \<longleftrightarrow> (case inner_archive es of None \<Rightarrow> True | Some a \<Rightarrow> \<not> isl (inner_content w a))"

text \<open>The payload \<open>data\<close> has no manifest, and \<open>d\<close> is the content of its inner archive \<open>a\<close>.\<close>

definition holds_archive :: "world \<Rightarrow> string \<Rightarrow> tar_entry \<Rightarrow> string \<Rightarrow> bool" where
  "holds_archive w data a d \<longleftrightarrow>
     (case untar w (data, None) of (es, err) \<Rightarrow>
        err = None \<and> manifest_of es = None \<and> inner_archive es = Some a \<and> inner_content w a = Inr d)"

inductive reads_version :: "world \<Rightarrow> string \<Rightarrow> string go \<Rightarrow> bool" for w :: world where
  broken_inner:
    "untar w (data, None) = (es, err) \<Longrightarrow> inner_archive es = Some a \<Longrightarrow> inner_content w a = Inl e \<Longrightarrow>
     reads_version w data (Inl e)"
| by_manifest:
    "untar w (data, None) = (es, err) \<Longrightarrow> inner_ok w es \<Longrightarrow> manifest_of es = Some m \<Longrightarrow>
     reads_version w data (manifest_version w (te_content m))"
| broken_archive:
    "untar w (data, None) = (es, Some e) \<Longrightarrow> inner_ok w es \<Longrightarrow> manifest_of es = None \<Longrightarrow>
     reads_version w data (Inl (wrap_err ''read customization payload'' e))"
| no_manifest:
    "untar w (data, None) = (es, None) \<Longrightarrow> inner_archive es = None \<Longrightarrow> manifest_of es = None \<Longrightarrow>
     reads_version w data (Inl ''customization payload missing manifest.json'')"
| by_inner: "holds_archive w data a d \<Longrightarrow> reads_version w d r \<Longrightarrow> reads_version w data r"

text \<open>The loop, after the inner archive has been chosen and from its start.\<close>

definition rest_means :: "world \<Rightarrow> string option \<Rightarrow> tar_entry list \<Rightarrow> string option \<Rightarrow> payload_scan" where
  "rest_means w nested es err =
     (case manifest_of es of
        Some m \<Rightarrow> Found (manifest_version w (te_content m))
      | None \<Rightarrow> (case err of
            Some e \<Rightarrow> Found (Inl (wrap_err ''read customization payload'' e))
          | None \<Rightarrow> Nested nested))"

lemma scan_chosen: "scan_payload w (Some b) es err = rest_means w (Some b) es err"
proof (induction es)
  case Nil
  then show ?case by (cases err) (simp_all add: rest_means_def manifest_of_def)
qed (simp add: Let_def rest_means_def manifest_of_def is_manifest_def clean_name_def)

lemma scan_means:
  "scan_payload w None es err =
     (case inner_archive es of
        None \<Rightarrow> rest_means w None es err
      | Some a \<Rightarrow> (case inner_content w a of
            Inl e \<Rightarrow> Found (Inl e)
          | Inr b \<Rightarrow> rest_means w (Some b) es err))"
proof (induction es)
  case Nil
  then show ?case by (cases err) (simp_all add: rest_means_def manifest_of_def inner_archive_def)
next
  case (Cons h hs)
  consider "is_manifest h" | "\<not> is_manifest h" "is_archive h" | "\<not> is_manifest h" "\<not> is_archive h" by blast
  then show ?case
  proof cases
    case 1
    then show ?thesis
      by (simp add: Let_def is_manifest_def clean_name_def inner_archive_def rest_means_def manifest_of_def)
  next
    case 2
    then show ?thesis
      by (auto simp: Let_def is_manifest_def is_archive_def compressed_def clean_name_def inner_archive_def
          inner_content_def scan_chosen rest_means_def manifest_of_def split: sum.split option.split)
  next
    case 3
    have r: "rest_means w n (h # hs) err = rest_means w n hs err" for n
      using 3(1) by (simp add: rest_means_def manifest_of_def)
    have "inner_archive (h # hs) = inner_archive hs" using 3 by (simp add: inner_archive_def)
    moreover have "scan_payload w None (h # hs) err = scan_payload w None hs err"
      using 3 by (auto simp: Let_def is_manifest_def is_archive_def compressed_def clean_name_def)
    ultimately show ?thesis using Cons.IH by (simp only: r)
  qed
qed

lemma holds_archive_scan: "(\<exists>a. holds_archive w data a d) \<longleftrightarrow> scan_archive w data = Nested (Some d)"
  by (auto simp: holds_archive_def scan_archive_def scan_means rest_means_def
      split: prod.splits option.splits sum.splits)

lemma customization_step:
  "holds_archive w data a d \<Longrightarrow> customizationVersionFromTar w data = customizationVersionFromTar w d"
  using holds_archive_scan[of w data d] by (subst customizationVersionFromTar.simps) auto

lemma reads_here:
  assumes "scan_archive w data = Found r \<or> scan_archive w data = Nested None \<and>
    r = Inl ''customization payload missing manifest.json''"
  shows "reads_version w data r"
proof -
  obtain es err where u: "untar w (data, None) = (es, err)" by (cases "untar w (data, None)")
  show ?thesis
  proof (cases "inner_archive es")
    case None
    then have "inner_ok w es" by (simp add: inner_ok_def)
    then show ?thesis using assms u None
      by (auto simp: scan_archive_def scan_means rest_means_def
          intro: by_manifest broken_archive no_manifest split: option.splits)
  next
    case (Some a)
    show ?thesis
    proof (cases "inner_content w a")
      case (Inl e)
      then have "r = Inl e" using assms u Some by (simp add: scan_archive_def scan_means)
      then show ?thesis using broken_inner[OF u Some Inl] by simp
    next
      case (Inr b)
      then have "inner_ok w es" using Some by (simp add: inner_ok_def)
      then show ?thesis using assms u Some Inr
        by (auto simp: scan_archive_def scan_means rest_means_def
            intro: by_manifest broken_archive split: option.splits)
    qed
  qed
qed

lemma reads_returns: "reads_version w data r \<Longrightarrow> customizationVersionFromTar w data = Some r"
proof (induction rule: reads_version.induct)
  case (broken_inner data es err a e)
  then have "scan_archive w data = Found (Inl e)" by (simp add: scan_archive_def scan_means)
  then show ?case by (subst customizationVersionFromTar.simps) simp
next
  case (by_manifest data es err m)
  then have "scan_archive w data = Found (manifest_version w (te_content m))"
    by (auto simp: scan_archive_def scan_means rest_means_def inner_ok_def split: option.splits sum.splits)
  then show ?case by (subst customizationVersionFromTar.simps) simp
next
  case (broken_archive data es e)
  then have "scan_archive w data = Found (Inl (wrap_err ''read customization payload'' e))"
    by (auto simp: scan_archive_def scan_means rest_means_def inner_ok_def split: option.splits sum.splits)
  then show ?case by (subst customizationVersionFromTar.simps) simp
next
  case (no_manifest data es)
  then have "scan_archive w data = Nested None" by (simp add: scan_archive_def scan_means rest_means_def)
  then show ?case by (subst customizationVersionFromTar.simps) simp
next
  case (by_inner data a d r)
  then show ?case using customization_step by metis
qed

lemma returns_reads: "customizationVersionFromTar w data = Some r \<Longrightarrow> reads_version w data r"
proof (rule customizationVersionFromTar.raw_induct[where P = "\<lambda>w data r. reads_version w data r"])
  fix f w data r
  assume IH: "\<And>w data r. f w data = Some r \<Longrightarrow> reads_version w data r"
    and body: "(case scan_archive w data of Found r \<Rightarrow> Some r
      | Nested None \<Rightarrow> Some (Inl ''customization payload missing manifest.json'')
      | Nested (Some d) \<Rightarrow> f w d) = Some r"
  show "reads_version w data r"
  proof (cases "\<exists>d. scan_archive w data = Nested (Some d)")
    case True
    then obtain d a where "holds_archive w data a d" "scan_archive w data = Nested (Some d)"
      using holds_archive_scan by metis
    then show ?thesis using IH body by (auto intro: by_inner)
  next
    case False
    then show ?thesis using body
      by (intro reads_here) (auto split: payload_scan.splits option.splits)
  qed
qed

section \<open>When the reading ends\<close>

definition nested_for_ever :: "world \<Rightarrow> (nat \<Rightarrow> string) \<Rightarrow> (nat \<Rightarrow> tar_entry) \<Rightarrow> bool" where
  "nested_for_ever w c a \<longleftrightarrow> (\<forall>n. holds_archive w (c n) (a n) (c (Suc n)))"

lemma chain_head:
  assumes "nested_for_ever w c a" "c 0 = data"
  shows "holds_archive w data (a 0) (c 1)"
proof -
  have "holds_archive w (c 0) (a 0) (c (Suc 0))" using assms(1) unfolding nested_for_ever_def by blast
  then show ?thesis using assms(2) by simp
qed

lemma returned_chain_ends:
  "reads_version w data r \<Longrightarrow> c 0 = data \<Longrightarrow> \<not> nested_for_ever w c a"
proof (induction arbitrary: c a rule: reads_version.induct)
  case (by_inner data a0 d r)
  have "customizationVersionFromTar w d = Some r" using by_inner(2) by (rule reads_returns)
  show ?case
  proof
    assume ch: "nested_for_ever w c a"
    then have "holds_archive w data (a 0) (c 1)" using chain_head by_inner(4) by blast
    then have "c 1 = d" using by_inner(1) by (auto simp: holds_archive_def split: prod.splits)
    moreover have "nested_for_ever w (\<lambda>n. c (Suc n)) (\<lambda>n. a (Suc n))"
      using ch by (simp add: nested_for_ever_def)
    ultimately show False using by_inner(3)[of "\<lambda>n. c (Suc n)"] by simp
  qed
qed (auto simp: holds_archive_def dest: chain_head)

lemma no_return_chain:
  assumes "customizationVersionFromTar w data = None"
  obtains c a where "c 0 = data" "nested_for_ever w c a"
proof -
  let ?P = "\<lambda>n x. (n = 0 \<longrightarrow> x = data) \<and> customizationVersionFromTar w x = None"
  let ?Q = "\<lambda>x y. \<exists>a. holds_archive w x a y"
  have inner: "\<exists>y. customizationVersionFromTar w y = None \<and> ?Q x y"
    if "customizationVersionFromTar w x = None" for x
  proof -
    have "\<exists>d. scan_archive w x = Nested (Some d)"
    proof (rule ccontr)
      assume "\<nexists>d. scan_archive w x = Nested (Some d)"
      then have "customizationVersionFromTar w x \<noteq> None"
        by (subst customizationVersionFromTar.simps) (auto split: payload_scan.split option.split)
      then show False using that by blast
    qed
    then obtain d a where "holds_archive w x a d" using holds_archive_scan by metis
    then show ?thesis using that customization_step by metis
  qed
  have "\<exists>c. \<forall>n. ?P n (c n) \<and> ?Q (c n) (c (Suc n))"
    by (rule dependent_nat_choice) (use assms inner in auto)
  then obtain c where c: "\<And>n. ?P n (c n)" "\<And>n. ?Q (c n) (c (Suc n))" by metis
  then obtain a where "\<And>n. holds_archive w (c n) (a n) (c (Suc n))" by metis
  then show thesis using that[of c a] c(1)[of 0] by (simp add: nested_for_ever_def)
qed

text \<open>
  The tar format stores the content of an entry as it is, after a header block for the entry that is
  not all zero; only runs of zero bytes can be left out of a sparse file. So the content of an entry
  has fewer bytes other than zero than the archive.
\<close>

definition weight :: "string \<Rightarrow> nat" where
  "weight b = length (filter (\<lambda>c. c \<noteq> CHR 0x00) b)"

definition tar_keeps_bytes :: "world \<Rightarrow> bool" where
  "tar_keeps_bytes w \<longleftrightarrow>
     (\<forall>data e b. e \<in> set (fst (untar w (data, None))) \<longrightarrow> te_content e = Inr b \<longrightarrow> weight b < weight data)"

lemma plain_inner_smaller:
  assumes "tar_keeps_bytes w" "holds_archive w data a d" "\<not> compressed a"
  shows "weight d < weight data"
proof -
  obtain es where u: "untar w (data, None) = (es, None)" "inner_archive es = Some a" "inner_content w a = Inr d"
    using assms(2) by (auto simp: holds_archive_def split: prod.splits)
  have "a \<in> set es" using u(2) by (auto simp: inner_archive_def find_Some_iff dest: nth_mem set_takeWhileD)
  moreover have "te_content a = Inr d"
    using u(3) assms(3) by (auto simp: inner_content_def read_nested_def compressed_def split: sum.splits)
  ultimately show ?thesis using assms(1) u(1) unfolding tar_keeps_bytes_def by (metis fst_conv)
qed

text \<open>Without a compressed one among them, nested archives come to an end.\<close>

lemma chain_compressed:
  assumes "tar_keeps_bytes w" "nested_for_ever w c a"
  shows "\<exists>m \<ge> n. compressed (a m)"
proof (rule ccontr)
  assume "\<not> (\<exists>m \<ge> n. compressed (a m))"
  then have "weight (c (Suc (n + k))) < weight (c (n + k))" for k
    using plain_inner_smaller[OF assms(1), of "c (n + k)" "a (n + k)" "c (Suc (n + k))"] assms(2)
    by (simp add: nested_for_ever_def)
  then have "\<exists>f. \<forall>k. (f (Suc k), f k) \<in> measure weight"
    by (intro exI[of _ "\<lambda>k. c (n + k)"]) simp
  then show False using wf_measure[of weight] unfolding wf_iff_no_infinite_down_chain by blast
qed

text \<open>C30. Reading the version of a customization payload gives exactly what the payload means: the version
  of its manifest, or else of the archive in it, or the error of the part that cannot be read. It
  fails to return exactly when archives are nested without end, and that needs compressed archives
  at ever deeper levels, as in a compressed archive that contains itself; uncompressed nesting
  always comes to an end.\<close>

theorem customization_diverges_iff:
  assumes "tar_keeps_bytes w"
  shows "(\<forall>r. customizationVersionFromTar w data = Some r \<longleftrightarrow> reads_version w data r) \<and>
    (customizationVersionFromTar w data = None \<longleftrightarrow>
      (\<exists>c a. c 0 = data \<and> nested_for_ever w c a \<and> (\<forall>n. \<exists>m \<ge> n. compressed (a m))))"
proof (intro conjI allI)
  fix r show "customizationVersionFromTar w data = Some r \<longleftrightarrow> reads_version w data r"
    using reads_returns returns_reads by blast
next
  show "customizationVersionFromTar w data = None \<longleftrightarrow>
      (\<exists>c a. c 0 = data \<and> nested_for_ever w c a \<and> (\<forall>n. \<exists>m \<ge> n. compressed (a m)))"
  proof
    assume "customizationVersionFromTar w data = None"
    then show "\<exists>c a. c 0 = data \<and> nested_for_ever w c a \<and> (\<forall>n. \<exists>m \<ge> n. compressed (a m))"
      using no_return_chain chain_compressed[OF assms] by metis
  next
    assume "\<exists>c a. c 0 = data \<and> nested_for_ever w c a \<and> (\<forall>n. \<exists>m \<ge> n. compressed (a m))"
    then show "customizationVersionFromTar w data = None"
      using returned_chain_ends returns_reads by (metis not_Some_eq)
  qed
qed

text \<open>A compressed archive that contains itself, and a plain archive around a manifest.\<close>

definition bomb_world :: world where
  "bomb_world = bare_world\<lparr>
     untar := \<lambda>r.
       (if fst r = ''TAR'' then ([\<lparr>te_name = ''./a.tar.gz'', te_regular = True, te_content = Inr ''gz''\<rparr>], None)
        else if fst r = ''OUT'' then ([\<lparr>te_name = ''a.tar'', te_regular = True, te_content = Inr ''in''\<rparr>], None)
        else if fst r = ''in'' then ([\<lparr>te_name = ''manifest.json'', te_regular = True, te_content = Inr ''m''\<rparr>], None)
        else ([], None)),
     gunzip := \<lambda>r. Inr (''TAR'', None),
     json_first := \<lambda>b. Inr (JObject [(''version'', JString ''1.2'')])\<rparr>"

lemma bomb_keeps_bytes: "tar_keeps_bytes bomb_world"
  by (auto simp: tar_keeps_bytes_def bomb_world_def weight_def)

theorem customization_diverges_iff_witness:
  "customizationVersionFromTar bomb_world ''TAR'' = None \<and>
   customizationVersionFromTar bomb_world ''OUT'' = Some (Inr ''1.2'')"
proof
  let ?a = "\<lparr>te_name = ''./a.tar.gz'', te_regular = True, te_content = Inr ''gz''\<rparr>"
  have "holds_archive bomb_world ''TAR'' ?a ''TAR''" "compressed ?a" by code_simp+
  then show "customizationVersionFromTar bomb_world ''TAR'' = None"
    using customization_diverges_iff[OF bomb_keeps_bytes, of "''TAR''"]
    by (auto simp: nested_for_ever_def intro!: exI[of _ "\<lambda>_. ''TAR''"] exI[of _ "\<lambda>_. ?a"])
next
  let ?a = "\<lparr>te_name = ''a.tar'', te_regular = True, te_content = Inr ''in''\<rparr>"
  let ?m = "\<lparr>te_name = ''manifest.json'', te_regular = True, te_content = Inr ''m''\<rparr>"
  have o: "holds_archive bomb_world ''OUT'' ?a ''in''" by code_simp
  have i: "untar bomb_world (''in'', None) = ([?m], None)" by (simp add: bomb_world_def)
  have "inner_ok bomb_world [?m]" "manifest_of [?m] = Some ?m"
    "manifest_version bomb_world (te_content ?m) = Inr ''1.2''" by code_simp+
  then have "reads_version bomb_world ''OUT'' (Inr ''1.2'')" using by_inner[OF o] by_manifest[OF i] by metis
  then show "customizationVersionFromTar bomb_world ''OUT'' = Some (Inr ''1.2'')"
    using customization_diverges_iff[OF bomb_keeps_bytes, of "''OUT''"] by blast
qed

section \<open>Rootfs version strings: what they determine\<close>

text \<open>The version string that the build writes: device name, optional dirty mark, version.\<close>

lemma rootfs_version_parses:
  assumes name: "name \<noteq> []" "list_all not_nl name"
    and v: "wf_version v" "\<not> contains_str v ''-v''"
  shows "coreOsVersionFromRootfsImageVersion (name @ ''-'' @ v) = Inr (trim_suffix name ''-dirty'', v)"
proof -
  let ?K = "RSeq (lit ''-'') (captured_end 2 version_rx)" and ?c = "[(1, name)]"
  obtain ys where ys: "mt (captured_end 2 version_rx) ?c v = ((2, v) # ?c, []) # ys"
    using captured_end_accepts v(1) unfolding wf_version_def by fastforce
  have K: "mt ?K ?c (''-'' @ v) = ((2, v) # ?c, []) # ys"
    unfolding mt_lit_seq using ys by simp
  have "\<exists>zs. mt (RSeq (RCap 1 (plus True not_nl)) ?K) [] (name @ ''-'' @ v) = mt ?K ?c (''-'' @ v) @ zs"
  proof (rule greedy_capture_split[OF name])
    fix u t assume u: "''-'' @ v = u @ t" "u \<noteq> []"
    then obtain u' where u': "v = u' @ t" by (cases u) auto
    show "mt ?K ((1, name @ u) # []) t = []"
    proof (cases "has_prefix t ''-'' \<and> wf_version (drop 1 t)")
      case True
      then obtain r where "t = ''-v'' @ r" using wf_version_head[of "drop 1 t"] by (cases t) auto
      then have "contains_str v ''-v''" using u' by (auto simp: contains_str_iff)
      with v(2) show ?thesis by simp
    next
      case False
      then show ?thesis unfolding mt_lit_seq wf_version_def
        by (auto intro: captured_end_rejects)
    qed
  qed (simp only: K, simp)
  then have "find_submatch rootfs_version_rx (name @ ''-'' @ v) = Some ((2, v) # ?c)"
    unfolding K find_submatch_def rootfs_version_rx_def by auto
  then show ?thesis by (simp add: coreOsVersionFromRootfsImageVersion_def group_def)
qed

text \<open>An image build name is cut at its last \<open>-image\<close>, and the development mark at its end is dropped; a string
  without \<open>-image\<close> is kept.\<close>

definition legacy_end :: rx where "legacy_end = RSeq (ROpt (lit ''-dev'')) REnd"

definition legacy_version :: rx where
  "legacy_version = RSeq (RCap 3 (RSeq (lit ''v'') (plus False not_nl))) legacy_end"

definition legacy_tail :: rx where
  "legacy_tail =
     RSeq (ROpt (RCap 2 (lit ''-dirty'')))
       (RSeq (RSet (\<lambda>c. c = CHR ''_'' \<or> c = CHR ''-'')) legacy_version)"

lemma legacy_end_match:
  "mt legacy_end c s = (if s = ''-dev'' then [(c, [])] else []) @ (if s = [] then [(c, [])] else [])"
  unfolding legacy_end_def mt_opt_lit_seq by (auto simp: has_prefix_iff)

lemma version_no_newline:
  assumes "wf_version v"
  shows "list_all not_nl v"
proof -
  have "not_nl x" if "names_char version_rx x" for x
    using that by (auto simp: version_rx_def not_nl_def newline_def is_word_char_def is_ver_sep_def
        is_alnum_def is_digit_def is_upper_def)
  then show ?thesis using assms accepts_names unfolding wf_version_def list_all_iff by blast
qed

lemma legacy_version_match:
  assumes v: "wf_version v" and tail: "tail = ''-dev'' \<or> tail = '''' \<and> \<not> has_suffix v ''-dev''"
  shows "\<exists>ys. mt legacy_version c (v @ tail) = ((3, v) # c, []) # ys"
proof -
  obtain r where r: "v = CHR ''v'' # r" using wf_version_head v by blast
  have "\<not> wf_version ''v''" by code_simp
  then have "r \<noteq> []" using v r by auto
  have nl: "list_all not_nl r" using version_no_newline[OF v] r by simp
  let ?s = "v @ tail"
  let ?g = "\<lambda>k. mt legacy_end ((3, take (length ?s - length (drop k (r @ tail))) ?s) # c) (drop k (r @ tail))"
  have here: "?g (length r) = ((3, v) # c, []) # (if tail = [] then [] else [])"
    using tail r by (auto simp: legacy_end_match)
  have "\<exists>ys. concat (map ?g [1..<Suc (run_length not_nl (r @ tail))]) = ?g (length r) @ ys"
  proof (rule lazy_first[OF \<open>r \<noteq> []\<close> nl])
    fix u w assume uw: "r = u @ w" "u \<noteq> []" "w \<noteq> []"
    have "w @ tail \<noteq> ''-dev''"
    proof
      assume "w @ tail = ''-dev''"
      then show False using tail uw r by (cases w) (auto simp: has_suffix_iff)
    qed
    then show "?g (length u) = []" using uw by (simp add: legacy_end_match)
  qed (simp only: here, simp)
  moreover have "mt legacy_version c ?s = concat (map ?g [1..<Suc (run_length not_nl (r @ tail))])"
    unfolding legacy_version_def r
    by (simp add: mt_lit_seq mt_lazy_plus comp_def mt_lit del: upt_Suc)
  ultimately show ?thesis using here by (metis append_Cons)
qed

lemma legacy_tail_match:
  assumes "wf_version v" "tail = ''-dev'' \<or> tail = '''' \<and> \<not> has_suffix v ''-dev''"
    and "mark \<in> {'''', ''-dirty''}" "sep \<in> {''_'', ''-''}"
  shows "\<exists>c2 ys. mt legacy_tail c (mark @ sep @ v @ tail) = ((3, v) # c2 @ c, []) # ys \<and>
    c2 = (if mark = [] then [] else [(2, mark)])"
proof -
  have sep: "mt (RSeq (RSet (\<lambda>c. c = CHR ''_'' \<or> c = CHR ''-'')) legacy_version) d (sep @ v @ tail) =
      mt legacy_version d (v @ tail)" for d
    using assms(4) by auto
  obtain r where r: "v = CHR ''v'' # r" using wf_version_head assms(1) by blast
  show ?thesis
  proof (cases "mark = []")
    case True
    obtain ys where "mt legacy_version c (v @ tail) = ((3, v) # c, []) # ys"
      using legacy_version_match assms(1,2) by blast
    moreover have "\<not> has_prefix (sep @ v @ tail) ''-dirty''" using assms(4) r by auto
    ultimately show ?thesis using True sep[of c] by (auto simp: legacy_tail_def mt_lit)
  next
    case False
    then have m: "mark = ''-dirty''" using assms(3) by blast
    obtain ys where "mt legacy_version ((2, mark) # c) (v @ tail) = ((3, v) # (2, mark) # c, []) # ys"
      using legacy_version_match assms(1,2) by blast
    then show ?thesis using sep[of "(2, mark) # c"] unfolding legacy_tail_def m
      by (auto simp: mt_lit simp del: mt.simps(4)) (simp add: mt_lit)
  qed
qed

lemma contains_dash:
  assumes "contains_str (x @ CHR ''-'' # y) ''-image''"
  shows "contains_str x ''-image'' \<or> contains_str (CHR ''-'' # y) ''-image''"
proof -
  obtain p q where pq: "x @ CHR ''-'' # y = p @ ''-image'' @ q" using assms by (auto simp: contains_str_iff)
  then consider u where "x = p @ u" "u @ CHR ''-'' # y = ''-image'' @ q"
    | u where "p = x @ u" "CHR ''-'' # y = u @ ''-image'' @ q"
    by (auto simp: append_eq_append_conv2)
  then show ?thesis
  proof cases
    case 1
    show ?thesis
    proof (cases "u = []")
      case True
      then show ?thesis using 1(2) by auto
    next
      case False
      have "length ''-image'' \<le> length u"
      proof (rule ccontr)
        assume "\<not> length ''-image'' \<le> length u"
        then have "length u < length ''-image''" by (simp only: not_le)
        then have "(''-image'' @ q) ! length u = ''-image'' ! length u" by (simp only: nth_append if_True)
        moreover have "(''-image'' @ q) ! length u = CHR ''-''" using 1(2) by (metis nth_append_length)
        moreover have "length u = 1 \<or> length u = 2 \<or> length u = 3 \<or> length u = 4 \<or> length u = 5"
        proof -
          have "length u \<noteq> 0" "length u < 6" using False \<open>length u < length ''-image''\<close> by simp_all
          then show ?thesis by presburger
        qed
        ultimately show False by auto
      qed
      then obtain z where "u = ''-image'' @ z"
        using 1(2) by (metis append_eq_append_conv_if append_take_drop_id)
      then show ?thesis using 1(1) contains_str_infix by metis
    qed
  next
    case 2
    then show ?thesis by (metis contains_str_infix)
  qed
qed

lemma no_image_tail:
  assumes "wf_version v" "\<not> contains_str v ''-image''" "mark \<in> {'''', ''-dirty''}" "sep \<in> {''_'', ''-''}"
    and "tail \<in> {'''', ''-dev''}"
  shows "\<not> contains_str (mark @ sep @ v @ tail) ''-image''"
proof -
  have vt: "\<not> contains_str (v @ tail) ''-image''"
    using assms(2,5) contains_dash[of v "''dev''"] by auto
  obtain r where "v = CHR ''v'' # r" using wf_version_head assms(1) by blast
  then show ?thesis using vt assms(3,4) by auto
qed

lemma legacy_normalized:
  assumes name: "name \<noteq> []" "list_all not_nl name"
    and v: "wf_version v" "\<not> contains_str v ''-image''"
    and tail: "tail = ''-dev'' \<or> tail = '''' \<and> \<not> has_suffix v ''-dev''"
    and marks: "mark \<in> {'''', ''-dirty''}" "sep \<in> {''_'', ''-''}"
  shows "normalize_version (name @ ''-image'' @ mark @ sep @ v @ tail) = name @ mark @ ''-'' @ v"
proof -
  let ?t = "mark @ sep @ v @ tail" and ?c = "[(1, name)]" and ?K = "RSeq (lit ''-image'') legacy_tail"
  obtain c2 ys where m: "mt legacy_tail ?c ?t = ((3, v) # c2 @ ?c, []) # ys"
    "c2 = (if mark = [] then [] else [(2, mark)])"
    using legacy_tail_match[OF v(1) tail marks] by blast
  then have K: "mt ?K ?c (''-image'' @ ?t) = ((3, v) # c2 @ ?c, []) # ys" unfolding mt_lit_seq by simp
  have "\<exists>zs. mt (RSeq (RCap 1 (plus True not_nl)) ?K) [] (name @ ''-image'' @ ?t) =
      mt ?K ?c (''-image'' @ ?t) @ zs"
  proof (rule greedy_capture_split[OF name])
    fix u t assume ut: "''-image'' @ ?t = u @ t" "u \<noteq> []"
    have "\<not> has_prefix t ''-image''"
    proof
      assume "has_prefix t ''-image''"
      moreover obtain u' where "u = CHR ''-'' # u'" using ut by (cases u) auto
      ultimately have "contains_str (''image'' @ ?t) ''-image''"
        using ut(1) by (auto simp: has_prefix_iff contains_str_iff)
      then show False using no_image_tail[OF v marks, of tail] tail by auto
    qed
    then show "mt ?K ((1, name @ u) # []) t = []" unfolding mt_lit_seq by simp
  qed (simp only: K, simp)
  then have "find_submatch legacyRootfsImageVersionRe (name @ ''-image'' @ ?t) = Some ((3, v) # c2 @ ?c)"
    using K unfolding find_submatch_def legacyRootfsImageVersionRe_def legacy_tail_def legacy_version_def
      legacy_end_def by auto
  then show ?thesis using m(2) by (simp add: normalize_version_def group_def)
qed

lemma plain_normalized:
  assumes "\<not> contains_str s ''-image''"
  shows "normalize_version s = s"
proof -
  have "mt legacyRootfsImageVersionRe [] s = []"
  proof (rule ccontr)
    assume "mt legacyRootfsImageVersionRe [] s \<noteq> []"
    from mt_seq_nonempty[OF this[unfolded legacyRootfsImageVersionRe_def]]
    obtain c1 s1 where 1: "(c1, s1) \<in> set (mt (RCap 1 (plus True not_nl)) [] s)"
      "has_prefix s1 ''-image''"
      unfolding mt_lit_seq by (auto split: if_splits simp del: mt.simps)
    obtain p where "s = p @ s1" using mt_suffix[OF 1(1)] by blast
    moreover obtain r where "s1 = ''-image'' @ r" using 1(2) unfolding has_prefix_iff by blast
    ultimately show False using assms contains_str_infix by metis
  qed
  then show ?thesis by (simp add: normalize_version_def find_submatch_def)
qed

section \<open>What an artifact declares\<close>

text \<open>The artifact has its header archive in compressed form, with one type-info member, and that member
  gives \<open>text\<close> as the version of the root file system, under the first or else the second of the two keys.\<close>

definition declares :: "world \<Rightarrow> string \<Rightarrow> string \<Rightarrow> bool" where
  "declares w path text \<longleftrightarrow> (\<exists>f h b r hs ti t ms p.
     open_file w path = Inr f \<and>
     find (\<lambda>h. te_name h \<in> {''header.tar'', ''header.tar.gz''}) (fst (untar w f)) = Some h \<and>
     te_name h = ''header.tar.gz'' \<and> te_content h = Inr b \<and>
     gunzip w (b, None) = Inr r \<and> untar w r = (hs, None) \<and>
     filter (\<lambda>h. te_name h = ''headers/0000/type-info'') hs = [ti] \<and>
     te_content ti = Inr t \<and> trim_space t \<noteq> [] \<and>
     unmarshal_struct w t = Inr ms \<and> decode_provides ms Map.empty = Inr p \<and>
     (p ''rootfs-image.version'' = Some (JString text) \<or>
      p ''rootfs-image.version'' = None \<and>
      p ''rootfs-image.bootfit-rootfs.version'' = Some (JString text)))"

lemma find_header_gz:
  assumes "find (\<lambda>h. te_name h \<in> {''header.tar'', ''header.tar.gz''}) es = Some h"
    and "te_name h = ''header.tar.gz''" "te_content h = Inr b"
  shows "find_header w tar es err = parseHeaderTarGz w b"
  using assms by (induction es) (auto split: if_splits)

lemma header_skip:
  "filter (\<lambda>h. te_name h = ''headers/0000/type-info'') hs = [] \<Longrightarrow>
   parse_header_entries w p True hs None = Inr p"
  by (induction hs) (auto split: if_splits)

lemma header_type_info:
  assumes "filter (\<lambda>h. te_name h = ''headers/0000/type-info'') hs = [ti]"
    and "te_content ti = Inr t" "trim_space t \<noteq> []"
    and "unmarshal_struct w t = Inr ms" "decode_provides ms p0 = Inr p"
  shows "parse_header_entries w p0 False hs None = Inr (normalizeArtifactProvides p)"
  using assms(1)
proof (induction hs)
  case (Cons h hs)
  show ?case
  proof (cases "te_name h = ''headers/0000/type-info''")
    case True
    then have "h = ti" "filter (\<lambda>h. te_name h = ''headers/0000/type-info'') hs = []"
      using Cons.prems by auto
    then show ?thesis using True assms(2-5) header_skip by simp
  next
    case False
    then show ?thesis using Cons by simp
  qed
qed simp

lemma normalized_key:
  "normalizeArtifactProvides p ''rootfs-image.version'' =
     (case p ''rootfs-image.version'' of Some (JString v) \<Rightarrow> Some (JString (normalize_version v)) | j \<Rightarrow> j)"
  "normalizeArtifactProvides p ''rootfs-image.bootfit-rootfs.version'' =
     (case p ''rootfs-image.bootfit-rootfs.version'' of
        Some (JString v) \<Rightarrow> Some (JString (normalize_version v)) | j \<Rightarrow> j)"
  by (auto simp: normalizeArtifactProvides_def rootfs_keys_def split: option.split json.split)

lemma declared_version:
  assumes "declares w path text"
  shows "coreOSVersionFromArtifact w path = coreOsVersionFromRootfsImageVersion (normalize_version text)"
proof -
  obtain f h b r hs ti t ms p where d: "open_file w path = Inr f"
    "find (\<lambda>h. te_name h \<in> {''header.tar'', ''header.tar.gz''}) (fst (untar w f)) = Some h"
    "te_name h = ''header.tar.gz''" "te_content h = Inr b"
    "gunzip w (b, None) = Inr r" "untar w r = (hs, None)"
    "filter (\<lambda>h. te_name h = ''headers/0000/type-info'') hs = [ti]"
    "te_content ti = Inr t" "trim_space t \<noteq> []"
    "unmarshal_struct w t = Inr ms" "decode_provides ms Map.empty = Inr p"
    "p ''rootfs-image.version'' = Some (JString text) \<or> p ''rootfs-image.version'' = None \<and>
      p ''rootfs-image.bootfit-rootfs.version'' = Some (JString text)"
    using assms unfolding declares_def by (elim exE conjE) (rule that)
  obtain es err where u: "untar w f = (es, err)" by (cases "untar w f")
  have "find_header w [] es err = parseHeaderTarGz w b"
    using find_header_gz[of es h b w "[]" err] d(2-4) u by simp
  also have "\<dots> = Inr (normalizeArtifactProvides p)"
    using header_type_info[OF d(7-11)] d(5,6) by (simp add: parseHeaderTarGz_def parseHeaderTar_def)
  finally have "parseArtifactHeadersTypeInfo w path = Inr (normalizeArtifactProvides p)"
    using d(1) u by (simp add: parseArtifactHeadersTypeInfo_def)
  then show ?thesis using d(12) by (auto simp: coreOSVersionFromArtifact_def normalized_key)
qed

text \<open>The strings under which the builds declare version \<open>v\<close> of the device \<open>name\<close>: the plain form, and the image
  build names with either separator and with or without the development mark. A plain string with
  \<open>-image\<close> in the device name is left out, since the program would take it for an image build name; so
  is an image build name without mark for a version that itself ends like one.\<close>

definition rootfs_texts :: "string \<Rightarrow> string \<Rightarrow> string \<Rightarrow> string list" where
  "rootfs_texts name mark v =
     (if contains_str name ''-image'' then [] else [name @ mark @ ''-'' @ v]) @
     map (\<lambda>sep. name @ ''-image'' @ mark @ sep @ v @ ''-dev'') [''_'', ''-''] @
     (if has_suffix v ''-dev'' then []
      else map (\<lambda>sep. name @ ''-image'' @ mark @ sep @ v @ '''') [''_'', ''-''])"

lemma rootfs_texts_cases:
  assumes "text \<in> set (rootfs_texts name mark v)"
  obtains (plain) "\<not> contains_str name ''-image''" "text = name @ mark @ ''-'' @ v"
    | (legacy) sep tail where "text = name @ ''-image'' @ mark @ sep @ v @ tail" "sep \<in> {''_'', ''-''}"
        "tail = ''-dev'' \<or> tail = '''' \<and> \<not> has_suffix v ''-dev''"
proof -
  consider "text \<in> set (if contains_str name ''-image'' then [] else [name @ mark @ ''-'' @ v])"
    | "text \<in> set (map (\<lambda>sep. name @ ''-image'' @ mark @ sep @ v @ ''-dev'') [''_'', ''-''])"
    | "text \<in> set (if has_suffix v ''-dev'' then []
        else map (\<lambda>sep. name @ ''-image'' @ mark @ sep @ v @ '''') [''_'', ''-''])"
    using assms unfolding rootfs_texts_def set_append by blast
  then show thesis
  proof cases
    case 1
    then show thesis using plain by (simp split: if_splits)
  next
    case 2
    then obtain sep where "sep \<in> set [''_'', ''-'']" "text = name @ ''-image'' @ mark @ sep @ v @ ''-dev''"
      unfolding set_map by blast
    then show thesis using legacy[of sep "''-dev''"] by simp
  next
    case 3
    have n: "\<not> has_suffix v ''-dev''"
    proof
      assume "has_suffix v ''-dev''"
      then show False using 3 by simp
    qed
    then obtain sep where "sep \<in> set [''_'', ''-'']" "text = name @ ''-image'' @ mark @ sep @ v @ ''''"
      using 3 unfolding if_not_P[OF n] set_map by blast
    then show thesis using legacy[of sep "''''"] n by simp
  qed
qed

lemma rootfs_text_normalized:
  assumes "text \<in> set (rootfs_texts name mark v)" "name \<noteq> []" "list_all not_nl name"
    and "wf_version v" "\<not> contains_str v ''-image''" "mark \<in> {'''', ''-dirty''}"
  shows "normalize_version text = name @ mark @ ''-'' @ v"
proof -
  show ?thesis using assms(1)
  proof (cases rule: rootfs_texts_cases)
    case plain
    have d: "\<not> contains_str (CHR ''-'' # v) ''-image''"
      using assms(5) wf_version_head[OF assms(4)] by auto
    have "\<not> contains_str (name @ mark) ''-image''"
      using assms(6) plain(1) contains_dash[of name "''dirty''"] by auto
    then have "\<not> contains_str ((name @ mark) @ CHR ''-'' # v) ''-image''" using d contains_dash by blast
    then show ?thesis using plain_normalized plain(2) by simp
  next
    case (legacy sep tail)
    show ?thesis unfolding legacy(1)
      using legacy_normalized[OF assms(2-5) legacy(3) assms(6) legacy(2)] .
  qed
qed

text \<open>The issue file whose second line is \<open>line\<close>.\<close>

definition issue_file :: "string \<Rightarrow> string \<Rightarrow> string \<Rightarrow> string" where
  "issue_file first line rest = first @ [newline] @ line @ [newline] @ rest"

lemma issue_file_version:
  assumes "read_file w (prefix_path w ''/etc/issue'') = Inr (issue_file first line rest)"
    and "newline \<notin> set first" "newline \<notin> set line"
  shows "coreOSVersionFromTargetFS w = coreOsVersionFromIssueLine line"
proof -
  have "split_on newline (issue_file first line rest) = first # line # split_on newline rest"
    using split_on_append_sep[OF assms(2)] split_on_append_sep[OF assms(3)] by (simp add: issue_file_def)
  then show ?thesis using assms(1) by (simp add: coreOSVersionFromTargetFS_def split: list.split)
qed

lemma issue_line_one_line:
  assumes "list_all is_alnum vendor" "list_all not_nl dev" "wf_version v"
    and "variant \<in> set image_variants" "dirty \<in> set dirty_marks"
  shows "newline \<notin> set (issue_line vendor dev variant dirty v)"
proof -
  have "\<not> is_alnum newline" by code_simp
  then have "newline \<notin> set vendor" using assms(1) by (auto simp: list_all_iff)
  moreover have "newline \<notin> set dev" "newline \<notin> set v"
    using assms(2) version_no_newline[OF assms(3)] by (auto simp: list_all_iff not_nl_def)
  moreover have "newline \<notin> set variant" "newline \<notin> set dirty"
    using assms(4,5) by (auto simp: image_variants_def dirty_marks_def newline_def)
  ultimately show ?thesis by (simp add: issue_line_def newline_def)
qed


lemma sample_version: "wf_version ''v1.2.0-rc1''"
  by code_simp

text \<open>An artifact with the image build name of a dirty development build, and the image it installs.\<close>

definition release_world :: world where
  "release_world = bare_world\<lparr>
     open_file := \<lambda>f. Inr (''outer'', None),
     untar := \<lambda>r.
       (if fst r = ''outer'' then
          ([\<lparr>te_name = ''version'', te_regular = True, te_content = Inr []\<rparr>,
            \<lparr>te_name = ''header.tar.gz'', te_regular = True, te_content = Inr ''gz''\<rparr>], None)
        else
          ([\<lparr>te_name = ''header-info'', te_regular = True, te_content = Inr []\<rparr>,
            \<lparr>te_name = ''headers/0000/type-info'', te_regular = True, te_content = Inr ''ti''\<rparr>], None)),
     gunzip := \<lambda>r. Inr (''inner'', None),
     json_syntax := \<lambda>t. Inr (JObject [(''artifact_provides'', JObject [(''rootfs-image.version'',
       JString ''moducop-cpu01-image-dirty_v1.2.0-rc1-dev'')])]),
     read_file := \<lambda>f. Inr (issue_file ''Welcome''
       (issue_line ''Cpu01'' ''Moducop_CPU01'' ''-Staging'' ''_dirty'' ''v1.2.0-rc1'') [])\<rparr>"

lemma release_declares: "declares release_world ''a.mender'' ''moducop-cpu01-image-dirty_v1.2.0-rc1-dev''"
proof -
  let ?text = "''moducop-cpu01-image-dirty_v1.2.0-rc1-dev''"
  let ?key = "''rootfs-image.version''"
  let ?h = "\<lparr>te_name = ''header.tar.gz'', te_regular = True, te_content = Inr ''gz''\<rparr>"
  let ?i = "\<lparr>te_name = ''header-info'', te_regular = True, te_content = Inr []\<rparr>"
  let ?t = "\<lparr>te_name = ''headers/0000/type-info'', te_regular = True, te_content = Inr ''ti''\<rparr>"
  let ?ms = "[(''artifact_provides'', JObject [(?key, JString ?text)])]"
  have o: "open_file release_world ''a.mender'' = Inr (''outer'', None)" by (simp add: release_world_def)
  have h: "find (\<lambda>h. te_name h \<in> {''header.tar'', ''header.tar.gz''}) (fst (untar release_world (''outer'', None))) =
      Some ?h"
    by (simp add: release_world_def)
  have g: "gunzip release_world (''gz'', None) = Inr (''inner'', None)" by (simp add: release_world_def)
  have u: "untar release_world (''inner'', None) = ([?i, ?t], None)" by (simp add: release_world_def)
  have "filter (\<lambda>h. te_name h = ''headers/0000/type-info'') [?i, ?t] = [?t]" by simp
  moreover have "trim_space ''ti'' \<noteq> []" by code_simp
  moreover have "unmarshal_struct release_world ''ti'' = Inr ?ms"
    by (simp add: unmarshal_struct_def release_world_def)
  moreover have "decode_provides ?ms Map.empty = Inr [?key \<mapsto> JString ?text]"
    by (simp add: field_matches_def)
  ultimately show ?thesis unfolding declares_def
    using o h g u by (intro exI conjI) (assumption | rule refl | simp)+
qed


end
