(* ===== verification/Text_Codec.thy ===== *)
theory Text_Codec
  imports Prelude
begin

text \<open>
  The interface behind every enumeration that is stored or sent as JSON text: \<open>to_text\<close> is the
  Go \<open>String\<close> method that \<open>MarshalJSON\<close> uses (the empty string is an encoding error), \<open>of_text\<close> the
  decoding switch of \<open>UnmarshalJSON\<close>. Several texts may decode to one value (old spellings), but
  every written text must be read back as the value it was written for.
\<close>

locale text_codec =
  fixes to_text :: "'a \<Rightarrow> string"
    and of_text :: "string \<Rightarrow> 'a option"
  assumes text_nonempty: "to_text x \<noteq> []"
    and of_to_text: "of_text (to_text x) = Some x"
begin

lemma to_text_inj: "to_text x = to_text y \<longleftrightarrow> x = y"
  by (metis of_to_text option.inject)

lemma decode_covers: "\<exists>t. of_text t = Some x"
  using of_to_text by blast

lemma map_roundtrip: "those (map of_text (map to_text xs)) = Some xs"
  by (induction xs) (auto simp: of_to_text)

end

text \<open>A codec without old spellings also writes exactly what it reads.\<close>

locale strict_codec = text_codec +
  assumes to_of_text: "of_text t = Some x \<Longrightarrow> to_text x = t"
begin

lemma of_text_inj: "of_text s = Some x \<Longrightarrow> of_text t = Some x \<Longrightarrow> s = t"
  using to_of_text by metis

lemma of_text_iff: "of_text t = Some x \<longleftrightarrow> to_text x = t"
  using of_to_text to_of_text by metis

end

end
