(* ===== verification/Cpu_Types.thy ===== *)
theory Cpu_Types
  imports Text_Codec "HOL-Library.Word"
begin

text \<open>
  The data of \<open>internal/manager/cpumanager\<close>: the types of \<open>api.go\<close>, \<open>entity.go\<close> and \<open>mender.go\<close>, the
  coded errors of \<open>errors.go\<close> and the JSON texts of \<open>enum_json.go\<close>. Go's named integers are modelled
  by their declared constants: decoding yields no other value, so the \<open>default\<close> branches of the
  \<open>String\<close> methods are not reached.
\<close>

section \<open>Entities and their status\<close>

datatype entity_type = EntityCoreOs | EntityApplication | EntityCoreOSCustomization

datatype deploy_code =
    NeverDeployed
  | Waiting
  | AlreadyDeployed
  | InProgress
  | Success
  | Failure

record deploy_status =
  Code :: deploy_code
  Message :: string

record name_version =
  nv_name :: string
  nv_version :: string

definition no_version :: name_version where
  "no_version = \<lparr>nv_name = [], nv_version = []\<rparr>"

record entity_status =
  es_deploy_status :: deploy_status
  es_current :: name_version

record entity =
  Name :: string
  EntityType :: entity_type
  DeployStatus :: deploy_status
  MenderArtifact :: string
  DeployingNV :: name_version

section \<open>The Mender job\<close>

datatype mender_state =
    Idle
  | Installing
  | Rebooting
  | Committing
  | RecoverInstallCommitting
  | VerifyingCustomization
  | RollingBackCustomization
  | RollingBackApplication

datatype event_code =
    EvNone
  | EvInstallFinished
  | EvRebootFinished
  | EvCommitFinished
  | EvRestarted
  | EvRecoverFinished
  | EvCustomizationVerified
  | EvRollbackFinished
  | EvJobFinished

datatype update_result =
    InstalledButNotCommited
  | PleaseCommitOrRollback
  | SystemInconsistent
  | SystemNotModified
  | FailedRolledBack
  | UpdateAlreadyInProgress
  | InstalledAndCommited
  | Commited
  | CommittedWithErrors
  | NoUpdateInProgress
  | WrongState
  | RolledBack
  | GenericFailure

text \<open>A Go string holds the command of an event; it is one of these or empty.\<close>

datatype mender_command = CmdNone | CmdInstall | CmdResume | CmdCommit | CmdRollback

record mender_event =
  ev_code :: event_code
  ev_success :: bool
  ev_result :: update_result
  ev_message :: string
  ev_command :: mender_command

record mender_pstate =
  State :: mender_state
  CurrentArtifact :: string
  CurrentEntityType :: entity_type
  CurrentEntityName :: string
  RecoveryOperations :: "64 word"
  RecoveryAttempts :: "64 word"

text \<open>A Go struct literal leaves the fields that it does not name at zero.\<close>

definition blank_event :: "event_code \<Rightarrow> mender_event" where
  "blank_event c = \<lparr>ev_code = c, ev_success = False, ev_result = InstalledButNotCommited,
     ev_message = [], ev_command = CmdNone\<rparr>"

fun command_text :: "mender_command \<Rightarrow> string" where
  "command_text CmdNone = ''''"
| "command_text CmdInstall = ''install''"
| "command_text CmdResume = ''resume''"
| "command_text CmdCommit = ''commit''"
| "command_text CmdRollback = ''rollback''"

fun update_result_text :: "update_result \<Rightarrow> string" where
  "update_result_text InstalledButNotCommited = ''Installed, but not committed.''"
| "update_result_text InstalledAndCommited = ''Installed and committed.''"
| "update_result_text Commited = ''Committed.''"
| "update_result_text SystemNotModified = ''Installation failed. System not modified.''"
| "update_result_text FailedRolledBack = ''Installation failed. Rolled back modifications.''"
| "update_result_text UpdateAlreadyInProgress = ''Update already in progress.''"
| "update_result_text PleaseCommitOrRollback = ''Please commit or roll back first''"
| "update_result_text SystemInconsistent = ''System may be in an inconsistent state.''"
| "update_result_text RolledBack = ''Rolled back.''"
| "update_result_text CommittedWithErrors = ''Update committed, but post-commit or cleanup steps failed.''"
| "update_result_text NoUpdateInProgress = ''No update in progress.''"
| "update_result_text WrongState = ''Cannot commit from this state.''"
| "update_result_text GenericFailure = ''Installation failed. Generic error.''"

fun event_code_text :: "event_code \<Rightarrow> string" where
  "event_code_text EvNone = ''None''"
| "event_code_text EvInstallFinished = ''InstallFinished''"
| "event_code_text EvRebootFinished = ''RebootFinished''"
| "event_code_text EvCommitFinished = ''CommitFinished''"
| "event_code_text EvRestarted = ''Restarted''"
| "event_code_text EvRecoverFinished = ''RecoverFinished''"
| "event_code_text EvJobFinished = ''JobFinished''"
| "event_code_text EvCustomizationVerified = ''CustomizationVerified''"
| "event_code_text EvRollbackFinished = ''RollbackFinished''"

section \<open>Coded errors\<close>

datatype cpu_error_code =
    InvalidCoreOSEntityName
  | EntityUpdateInProgress
  | MenderBusy
  | StartUpdateFailed
  | ErrAlreadyDeployed
  | ArtifactInvalid
  | GetVersionFailed
  | ListApplicationsFailed
  | EntityNotFound

fun cpu_error_text :: "cpu_error_code \<Rightarrow> string" where
  "cpu_error_text InvalidCoreOSEntityName = ''cpm-0001''"
| "cpu_error_text EntityUpdateInProgress = ''cpm-0002''"
| "cpu_error_text MenderBusy = ''cpm-0003''"
| "cpu_error_text StartUpdateFailed = ''cpm-0004''"
| "cpu_error_text ErrAlreadyDeployed = ''cpm-0005''"
| "cpu_error_text ArtifactInvalid = ''cpm-0006''"
| "cpu_error_text GetVersionFailed = ''cpm-0007''"
| "cpu_error_text ListApplicationsFailed = ''cpm-0008''"
| "cpu_error_text EntityNotFound = ''cpm-0009''"

record 'c coded_error =
  err_code :: 'c
  err_message :: string
  err_cause :: "string option"

definition newCodedError :: "'c \<Rightarrow> string \<Rightarrow> 'c coded_error" where
  "newCodedError c m = \<lparr>err_code = c, err_message = m, err_cause = None\<rparr>"

definition wrapCodedError :: "'c \<Rightarrow> string \<Rightarrow> string \<Rightarrow> 'c coded_error" where
  "wrapCodedError c m cause = \<lparr>err_code = c, err_message = m, err_cause = Some cause\<rparr>"

text \<open>The \<open>Error\<close> method.\<close>

definition error_text :: "('c \<Rightarrow> string) \<Rightarrow> 'c coded_error \<Rightarrow> string" where
  "error_text code_text e =
     (case err_cause e of
        None \<Rightarrow> code_text (err_code e) @ '': '' @ err_message e
      | Some cause \<Rightarrow> code_text (err_code e) @ '': '' @ err_message e @ '': '' @ cause)"

section \<open>JSON texts\<close>

fun entity_type_text :: "entity_type \<Rightarrow> string" where
  "entity_type_text EntityCoreOs = ''coreos''"
| "entity_type_text EntityApplication = ''application''"
| "entity_type_text EntityCoreOSCustomization = ''core-os-customization''"

definition parse_entity_type :: "string \<Rightarrow> entity_type option" where
  "parse_entity_type s =
     (if s = ''coreos'' then Some EntityCoreOs
      else if s = ''application'' then Some EntityApplication
      else if s = ''core-os-customization'' then Some EntityCoreOSCustomization
      else None)"

fun deploy_code_text :: "deploy_code \<Rightarrow> string" where
  "deploy_code_text NeverDeployed = ''never_deployed''"
| "deploy_code_text Waiting = ''waiting''"
| "deploy_code_text AlreadyDeployed = ''already_deployed''"
| "deploy_code_text InProgress = ''in_progress''"
| "deploy_code_text Success = ''success''"
| "deploy_code_text Failure = ''failure''"

definition parseDeployStatusCodeText :: "string \<Rightarrow> deploy_code option" where
  "parseDeployStatusCodeText s =
     (if s = ''never_deployed'' then Some NeverDeployed
      else if s = ''waiting'' then Some Waiting
      else if s = ''already_deployed'' then Some AlreadyDeployed
      else if s = ''in_progress'' then Some InProgress
      else if s = ''success'' then Some Success
      else if s = ''failure'' then Some Failure
      else None)"

fun mender_state_text :: "mender_state \<Rightarrow> string" where
  "mender_state_text Idle = ''idle''"
| "mender_state_text Installing = ''installing''"
| "mender_state_text Rebooting = ''rebooting''"
| "mender_state_text Committing = ''committing''"
| "mender_state_text RecoverInstallCommitting = ''recover_install_committing''"
| "mender_state_text VerifyingCustomization = ''verifying_customization''"
| "mender_state_text RollingBackApplication = ''rolling_back_application''"
| "mender_state_text RollingBackCustomization = ''rolling_back_customization''"

definition parse_mender_state :: "string \<Rightarrow> mender_state option" where
  "parse_mender_state s =
     (if s = ''idle'' then Some Idle
      else if s = ''installing'' then Some Installing
      else if s = ''rebooting'' then Some Rebooting
      else if s = ''committing'' then Some Committing
      else if s = ''recover_install_committing'' then Some RecoverInstallCommitting
      else if s = ''recover_install_clear_app'' then Some RollingBackApplication
      else if s = ''verifying_customization'' then Some VerifyingCustomization
      else if s = ''rolling_back_application'' then Some RollingBackApplication
      else if s = ''rolling_back_customization'' then Some RollingBackCustomization
      else None)"

interpretation entity_type_codec: strict_codec entity_type_text parse_entity_type
proof unfold_locales
  fix x show "entity_type_text x \<noteq> []" by (cases x) auto
  show "parse_entity_type (entity_type_text x) = Some x"
    by (cases x) (simp_all add: parse_entity_type_def)
next
  fix t x assume "parse_entity_type t = Some x"
  then show "entity_type_text x = t" by (auto simp: parse_entity_type_def split: if_splits)
qed

interpretation deploy_code_codec: strict_codec deploy_code_text parseDeployStatusCodeText
proof unfold_locales
  fix x show "deploy_code_text x \<noteq> []" by (cases x) auto
  show "parseDeployStatusCodeText (deploy_code_text x) = Some x"
    by (cases x) (simp_all add: parseDeployStatusCodeText_def)
next
  fix t x assume "parseDeployStatusCodeText t = Some x"
  then show "deploy_code_text x = t" by (auto simp: parseDeployStatusCodeText_def split: if_splits)
qed

interpretation mender_state_codec: text_codec mender_state_text parse_mender_state
proof unfold_locales
  fix x show "mender_state_text x \<noteq> []" by (cases x) auto
  show "parse_mender_state (mender_state_text x) = Some x"
    by (cases x) (simp_all add: parse_mender_state_def)
qed

text \<open>The only text that is read but not written is the retired state of the destructive recovery.\<close>

lemma mender_state_migration:
  "parse_mender_state t = Some x \<Longrightarrow>
   mender_state_text x = t \<or> t = ''recover_install_clear_app'' \<and> x = RollingBackApplication"
  by (auto simp: parse_mender_state_def split: if_splits)

lemma retired_state: "parse_mender_state ''recover_install_clear_app'' = Some RollingBackApplication"
  by (simp add: parse_mender_state_def)

lemma readable_states:
  "{x. parse_mender_state x \<noteq> None} = range mender_state_text \<union> {''recover_install_clear_app''}"
proof
  show "{x. parse_mender_state x \<noteq> None} \<subseteq> range mender_state_text \<union> {''recover_install_clear_app''}"
    using mender_state_migration by fast
  show "range mender_state_text \<union> {''recover_install_clear_app''} \<subseteq> {x. parse_mender_state x \<noteq> None}"
    unfolding Un_subset_iff image_subset_iff
    by (simp only: mem_Collect_eq mender_state_codec.of_to_text retired_state insert_subset) simp
qed

text \<open>The texts under which entity types, deployment codes and Mender states are saved and
  reported are read back as the value that was written, whatever was saved by this version or by
  one that still knew the destructive recovery state; every other text is refused.\<close>

theorem persisted_texts_roundtrip:
  "parse_entity_type (entity_type_text t) = Some t \<and>
   parseDeployStatusCodeText (deploy_code_text c) = Some c \<and>
   parse_mender_state (mender_state_text s) = Some s \<and>
   parse_mender_state ''recover_install_clear_app'' = Some RollingBackApplication \<and>
   {x. parse_mender_state x \<noteq> None} = range mender_state_text \<union> {''recover_install_clear_app''}"
  by (intro conjI; fact entity_type_codec.of_to_text deploy_code_codec.of_to_text
      mender_state_codec.of_to_text retired_state readable_states)

end
