(* ===== verification/Entity.thy ===== *)
theory Entity
  imports Artifact Cpu_Types
begin

text \<open>
  The entities of \<open>internal/manager/cpumanager/entity.go\<close>: creation, the deployed version, the version
  in an artifact, and the comparison of the two. Reading the version of a customization artifact
  need not return (see \<open>Artifact\<close>), so it is an option.
\<close>

definition newEntity :: "string \<Rightarrow> entity_type \<Rightarrow> entity" where
  "newEntity name t =
     \<lparr>Name = name, EntityType = t,
      DeployStatus = \<lparr>Code = NeverDeployed, Message = ''Entity has never been deployed''\<rparr>,
      MenderArtifact = [], DeployingNV = no_version\<rparr>"

definition name_version_of :: "string \<times> string \<Rightarrow> name_version" where
  "name_version_of nv = \<lparr>nv_name = fst nv, nv_version = snd nv\<rparr>"

definition getDeployedVersion :: "world \<Rightarrow> entity \<Rightarrow> name_version go" where
  "getDeployedVersion w e =
     (case EntityType e of
        EntityCoreOs \<Rightarrow>
          (case coreOSVersionFromTargetFS w of
             Inl err \<Rightarrow> Inl (wrap_err ''get version for CoreOS'' err)
           | Inr nv \<Rightarrow> Inr (name_version_of nv))
      | EntityApplication \<Rightarrow>
          (case appVersionFromTargetFS w (Name e) of
             Inl err \<Rightarrow> Inl (wrap_err (''get version for application '' @ Name e) err)
           | Inr v \<Rightarrow> Inr \<lparr>nv_name = Name e, nv_version = v\<rparr>)
      | EntityCoreOSCustomization \<Rightarrow>
          (case coreOSCustomizationVersionFromTargetFS w of
             Inl err \<Rightarrow> Inl (wrap_err ''get version for Core OS customization'' err)
           | Inr v \<Rightarrow> Inr \<lparr>nv_name = Name e, nv_version = v\<rparr>))"

definition getVersionFromArtifact :: "world \<Rightarrow> entity \<Rightarrow> string \<Rightarrow> name_version go option" where
  "getVersionFromArtifact w e artifact =
     (case EntityType e of
        EntityCoreOs \<Rightarrow>
          Some (case coreOSVersionFromArtifact w artifact of
             Inl err \<Rightarrow> Inl (wrap_err ''get version from artifact for CoreOS'' err)
           | Inr nv \<Rightarrow> Inr (name_version_of nv))
      | EntityApplication \<Rightarrow>
          Some (case appVersionFromArtifact w artifact (Name e) of
             Inl err \<Rightarrow> Inl (wrap_err (''get version from artifact for application '' @ Name e) err)
           | Inr v \<Rightarrow> Inr \<lparr>nv_name = Name e, nv_version = v\<rparr>)
      | EntityCoreOSCustomization \<Rightarrow>
          (case coreOSCustomizationVersionFromArtifact w artifact of
             None \<Rightarrow> None
           | Some (Inl err) \<Rightarrow>
               Some (Inl (wrap_err ''get version from artifact for Core OS customization'' err))
           | Some (Inr v) \<Rightarrow> Some (Inr \<lparr>nv_name = Name e, nv_version = v\<rparr>)))"

definition isDeployed :: "world \<Rightarrow> entity \<Rightarrow> name_version \<Rightarrow> bool go" where
  "isDeployed w e expected =
     (case getDeployedVersion w e of
        Inl err \<Rightarrow> Inl (wrap_err ''get deployed version'' err)
      | Inr nv \<Rightarrow> Inr (nv_name nv = nv_name expected \<and> nv_version nv = nv_version expected))"

lemma isDeployed_iff: "isDeployed w e nv = Inr True \<longleftrightarrow> getDeployedVersion w e = Inr nv"
  by (cases "getDeployedVersion w e") (auto simp: isDeployed_def intro: name_version.equality)

text \<open>Only the name and the type of an entity decide its versions.\<close>

lemma getDeployedVersion_cong:
  "Name e = Name e' \<Longrightarrow> EntityType e = EntityType e' \<Longrightarrow> getDeployedVersion w e = getDeployedVersion w e'"
  by (auto simp: getDeployedVersion_def split: entity_type.splits sum.splits)

lemma getVersionFromArtifact_cong:
  "Name e = Name e' \<Longrightarrow> EntityType e = EntityType e' \<Longrightarrow>
   getVersionFromArtifact w e a = getVersionFromArtifact w e' a"
  by (auto simp: getVersionFromArtifact_def split: entity_type.splits sum.splits option.splits)

lemma getVersionFromArtifact_returns:
  "EntityType e \<noteq> EntityCoreOSCustomization \<Longrightarrow> \<exists>r. getVersionFromArtifact w e a = Some r"
  by (cases "EntityType e") (auto simp: getVersionFromArtifact_def)

end
