(* ===== verification/Mender_Output.thy ===== *)
theory Mender_Output
  imports Cpu_Types
begin

text \<open>
  \<open>menderUpdateResultFromOutput\<close> of \<open>internal/manager/cpumanager/mender.go\<close>: how the exit status and
  the printed lines of a finished \<open>mender-update\<close> command are classified. The lemmas give, for each
  command, the classes that it can be given, and what a class says about the command: a class
  that counts as success needs a clean exit (or the reboot request of exit 4) and a summary line
  on standard output, and a committed update is never classified as one to be rolled back.
\<close>

section \<open>The classification\<close>

definition menderUpdateResultIsSuccess :: "update_result \<Rightarrow> bool" where
  "menderUpdateResultIsSuccess r \<longleftrightarrow>
     r = InstalledButNotCommited \<or> r = InstalledAndCommited \<or> r = Commited \<or> r = RolledBack"

definition menderSummaryLine :: "string \<Rightarrow> string \<Rightarrow> bool" where
  "menderSummaryLine stdout text \<longleftrightarrow>
     list_ex (\<lambda>value. trim_space value = text) (split_on newline stdout)"

definition menderCommittedSummary :: "string \<Rightarrow> bool" where
  "menderCommittedSummary stdout \<longleftrightarrow>
     list_ex (menderSummaryLine stdout)
       [''Committed.'', ''Installed and committed.'',
        ''Installed, but one or more post-commit steps failed.'']"

definition menderPausedBeforeCommit ::
  "mender_command \<Rightarrow> string \<Rightarrow> int \<Rightarrow> string option \<Rightarrow> string list \<Rightarrow> bool" where
  "menderPausedBeforeCommit command stdout exitCode err args \<longleftrightarrow>
     command = CmdResume \<and> exitCode = 0 \<and> err = None \<and> trim_space stdout = [] \<and>
     args = [''--stop-before'', ''ArtifactCommit_Enter'']"

definition menderNoUpdate :: "mender_command \<Rightarrow> string \<Rightarrow> int \<Rightarrow> bool" where
  "menderNoUpdate command stdout exitCode \<longleftrightarrow>
     (command = CmdCommit \<or> command = CmdResume \<or> command = CmdRollback) \<and>
     exitCode = 2 \<and> menderSummaryLine stdout ''No update in progress.''"

definition menderSuccessSummary :: "mender_command \<Rightarrow> string \<Rightarrow> update_result" where
  "menderSuccessSummary command stdout =
     (if command = CmdInstall \<or> command = CmdResume then
        (if menderSummaryLine stdout ''Installed, but not committed.'' then InstalledButNotCommited
         else if menderSummaryLine stdout ''Installed and committed.'' then InstalledAndCommited
         else if command = CmdResume \<and> menderSummaryLine stdout ''Committed.'' then Commited
         else if command = CmdResume \<and> menderSummaryLine stdout ''Cleaned up.'' then NoUpdateInProgress
         else GenericFailure)
      else if command = CmdCommit then
        (if menderSummaryLine stdout ''Committed.'' then Commited
         else if menderSummaryLine stdout ''Installed and committed.'' then InstalledAndCommited
         else GenericFailure)
      else GenericFailure)"

text \<open>The result of the first text of a table that the output contains.\<close>

fun first_contained :: "string \<Rightarrow> (string \<times> update_result) list \<Rightarrow> update_result option" where
  "first_contained output [] = None"
| "first_contained output ((text, r) # rows) =
     (if contains_str output text then Some r else first_contained output rows)"

definition diagnostics :: "(string \<times> update_result) list" where
  "diagnostics =
     [(''Update already in progress.'', UpdateAlreadyInProgress),
      (''Cannot commit from this state.'', WrongState),
      (''Please commit or roll back first'', PleaseCommitOrRollback)]"

definition dispositions :: "(string \<times> update_result) list" where
  "dispositions =
     [(''System may be in an inconsistent state.'', SystemInconsistent),
      (''System not modified.'', SystemNotModified),
      (''Rolled back modifications.'', FailedRolledBack),
      (''Rolled back.'', FailedRolledBack)]"

definition reboot_requested :: "mender_command \<Rightarrow> string \<Rightarrow> int \<Rightarrow> bool" where
  "reboot_requested command output exitCode \<longleftrightarrow>
     (command = CmdInstall \<or> command = CmdResume) \<and> exitCode = 4 \<and>
     contains_str output ''At least one payload requested a reboot of the device it updated.''"

definition menderUpdateResultFromOutput ::
  "mender_command \<Rightarrow> string \<Rightarrow> string \<Rightarrow> int \<Rightarrow> string option \<Rightarrow> string list \<Rightarrow> update_result" where
  "menderUpdateResultFromOutput command stdout stderr exitCode err args =
     (let output = stdout @ [newline] @ stderr;
          rebootRequested = reboot_requested command output exitCode;
          failed = (exitCode \<noteq> 0 \<or> err \<noteq> None) \<and> \<not> rebootRequested;
          committed = menderCommittedSummary stdout;
          postCommitFailure =
            contains_str output ''post-commit steps failed.'' \<or> contains_str output ''Cleanup failed.''
      in case first_contained output diagnostics of
           Some r \<Rightarrow> r
         | None \<Rightarrow>
       if menderNoUpdate command stdout exitCode then NoUpdateInProgress
       else if committed \<and> (postCommitFailure \<or> failed \<or>
              contains_str output ''System may be in an inconsistent state.'') then CommittedWithErrors
       else if command = CmdRollback \<and> exitCode = 0 \<and> err = None \<and> menderSummaryLine stdout ''Rolled back.''
         then RolledBack
       else (case first_contained output dispositions of
               Some r \<Rightarrow> r
             | None \<Rightarrow>
           if failed then GenericFailure
           else if menderSuccessSummary command stdout \<noteq> GenericFailure
             then menderSuccessSummary command stdout
           else if menderPausedBeforeCommit command stdout exitCode err args
             then InstalledButNotCommited
           else GenericFailure))"

section \<open>Which classes a command can get\<close>

text \<open>The classes that say that the command did not reach a success summary.\<close>

definition failure_classes :: "update_result set" where
  "failure_classes =
     {UpdateAlreadyInProgress, WrongState, PleaseCommitOrRollback, CommittedWithErrors,
      SystemInconsistent, SystemNotModified, FailedRolledBack, GenericFailure}"

fun command_results :: "mender_command \<Rightarrow> update_result set" where
  "command_results CmdInstall = failure_classes \<union> {InstalledButNotCommited, InstalledAndCommited}"
| "command_results CmdResume =
     failure_classes \<union> {InstalledButNotCommited, InstalledAndCommited, Commited, NoUpdateInProgress}"
| "command_results CmdCommit = failure_classes \<union> {InstalledAndCommited, Commited, NoUpdateInProgress}"
| "command_results CmdRollback = failure_classes \<union> {RolledBack, NoUpdateInProgress}"
| "command_results CmdNone = failure_classes"

lemma first_contained_in: "first_contained out rows = Some r \<Longrightarrow> r \<in> snd ` set rows"
  by (induction rows) (auto split: if_splits)

lemma first_contained_None:
  "first_contained out rows = None \<longleftrightarrow> (\<forall>(t, r) \<in> set rows. \<not> contains_str out t)"
  by (induction rows) (auto split: if_splits)

lemma diagnostics_failures: "first_contained out diagnostics = Some r \<Longrightarrow> r \<in> failure_classes"
  by (drule first_contained_in) (auto simp: diagnostics_def failure_classes_def)

lemma dispositions_failures: "first_contained out dispositions = Some r \<Longrightarrow> r \<in> failure_classes"
  by (drule first_contained_in) (auto simp: dispositions_def failure_classes_def)

lemma success_summary_results:
  "menderSuccessSummary c out \<noteq> GenericFailure \<Longrightarrow> menderSuccessSummary c out \<in> command_results c"
  by (cases c) (auto simp: menderSuccessSummary_def)

text \<open>The shape of the classification, with its conditions named.\<close>

definition failed_exit :: "mender_command \<Rightarrow> string \<Rightarrow> int \<Rightarrow> string option \<Rightarrow> bool" where
  "failed_exit command output exitCode err \<longleftrightarrow>
     (exitCode \<noteq> 0 \<or> err \<noteq> None) \<and> \<not> reboot_requested command output exitCode"

definition committed_with_errors ::
  "mender_command \<Rightarrow> string \<Rightarrow> string \<Rightarrow> int \<Rightarrow> string option \<Rightarrow> bool" where
  "committed_with_errors command stdout output exitCode err \<longleftrightarrow>
     menderCommittedSummary stdout \<and>
     (contains_str output ''post-commit steps failed.'' \<or> contains_str output ''Cleanup failed.'' \<or>
      failed_exit command output exitCode err \<or>
      contains_str output ''System may be in an inconsistent state.'')"

lemma decision_list:
  assumes "r = (case d of
           Some x \<Rightarrow> x
         | None \<Rightarrow>
       if nu then NoUpdateInProgress
       else if cw then CommittedWithErrors
       else if rb then RolledBack
       else (case p of
               Some x \<Rightarrow> x
             | None \<Rightarrow>
           if f then GenericFailure
           else if s \<noteq> GenericFailure then s
           else if pa then InstalledButNotCommited
           else GenericFailure))"
  shows "d = Some r \<or> nu \<and> r = NoUpdateInProgress \<or> cw \<and> r = CommittedWithErrors \<or>
    rb \<and> r = RolledBack \<or> \<not> cw \<and> p = Some r \<or>
    \<not> cw \<and> f \<and> r = GenericFailure \<or>
    \<not> f \<and> \<not> cw \<and> p = None \<and> s \<noteq> GenericFailure \<and> r = s \<or>
    pa \<and> r = InstalledButNotCommited \<or> \<not> cw \<and> s = GenericFailure \<and> r = GenericFailure"
  using assms by (cases d; cases p) (auto split: if_splits)

lemma classification_cases:
  fixes c out err code e args
  defines "output \<equiv> out @ [newline] @ err"
    and "r \<equiv> menderUpdateResultFromOutput c out err code e args"
  obtains
    (diagnostic) "first_contained output diagnostics = Some r"
  | (no_update) "menderNoUpdate c out code" "r = NoUpdateInProgress"
  | (committed) "committed_with_errors c out output code e" "r = CommittedWithErrors"
  | (rolled_back) "c = CmdRollback" "code = 0" "e = None" "menderSummaryLine out ''Rolled back.''"
      "r = RolledBack"
  | (disposition) "\<not> committed_with_errors c out output code e"
      "first_contained output dispositions = Some r"
  | (failed) "\<not> committed_with_errors c out output code e" "failed_exit c output code e"
      "r = GenericFailure"
  | (summary) "\<not> failed_exit c output code e" "\<not> committed_with_errors c out output code e"
      "first_contained output dispositions = None"
      "menderSuccessSummary c out \<noteq> GenericFailure" "r = menderSuccessSummary c out"
  | (paused) "menderPausedBeforeCommit c out code e args" "r = InstalledButNotCommited"
  | (unknown) "\<not> committed_with_errors c out output code e"
      "menderSuccessSummary c out = GenericFailure" "r = GenericFailure"
proof -
  let ?rb = "c = CmdRollback \<and> code = 0 \<and> e = None \<and> menderSummaryLine out ''Rolled back.''"
  have r: "r = (case first_contained output diagnostics of
           Some r \<Rightarrow> r
         | None \<Rightarrow>
       if menderNoUpdate c out code then NoUpdateInProgress
       else if committed_with_errors c out output code e then CommittedWithErrors
       else if ?rb then RolledBack
       else (case first_contained output dispositions of
               Some r \<Rightarrow> r
             | None \<Rightarrow>
           if failed_exit c output code e then GenericFailure
           else if menderSuccessSummary c out \<noteq> GenericFailure then menderSuccessSummary c out
           else if menderPausedBeforeCommit c out code e args then InstalledButNotCommited
           else GenericFailure))"
    unfolding r_def output_def menderUpdateResultFromOutput_def Let_def committed_with_errors_def
      failed_exit_def disj_assoc ..
  show thesis using decision_list[OF r] that by blast
qed

lemma success_summary_range:
  "menderSuccessSummary c out \<in>
     {InstalledButNotCommited, InstalledAndCommited, Commited, NoUpdateInProgress, GenericFailure}"
  by (auto simp: menderSuccessSummary_def)

lemma classification_results:
  "menderUpdateResultFromOutput c out err code e args \<in> command_results c"
proof -
  have F: "r \<in> failure_classes \<Longrightarrow> r \<in> command_results c" for r by (cases c) auto
  have G: "GenericFailure \<in> command_results c" "CommittedWithErrors \<in> command_results c"
    using F by (auto simp: failure_classes_def)
  show ?thesis
  proof (cases rule: classification_cases[of out err c code e args])
    case diagnostic
    then show ?thesis by (rule F[OF diagnostics_failures])
  next
    case no_update
    then show ?thesis by (auto simp: menderNoUpdate_def)
  next
    case disposition
    then show ?thesis by (intro F[OF dispositions_failures]) blast
  next
    case summary
    then show ?thesis using success_summary_results by simp
  next
    case paused
    then show ?thesis by (auto simp: menderPausedBeforeCommit_def)
  qed (use G in auto)
qed

section \<open>What a class says about the command\<close>

lemma summary_line_contained: "menderSummaryLine out t \<Longrightarrow> contains_str (out @ s) t"
  unfolding menderSummaryLine_def list_ex_iff
  by (metis contains_str_append1 contains_str_iff split_on_infix trim_space_infix append_assoc)

lemma success_not_failure:
  "menderUpdateResultIsSuccess r \<Longrightarrow> r \<notin> failure_classes"
  by (auto simp: menderUpdateResultIsSuccess_def failure_classes_def)

text \<open>A success needs a clean exit or the reboot request of exit 4.\<close>

lemma success_needs_clean_exit:
  assumes "menderUpdateResultIsSuccess (menderUpdateResultFromOutput c out err code e args)"
  shows "code = 0 \<and> e = None \<or> reboot_requested c (out @ [newline] @ err) code"
proof (cases rule: classification_cases[of out err c code e args])
  case diagnostic
  then show ?thesis using diagnostics_failures success_not_failure[OF assms] by blast
next
  case disposition
  then show ?thesis using dispositions_failures success_not_failure[OF assms] by blast
next
  case summary
  then show ?thesis by (auto simp: failed_exit_def)
next
  case paused
  then show ?thesis by (simp add: menderPausedBeforeCommit_def)
qed (use assms in \<open>auto simp: menderUpdateResultIsSuccess_def\<close>)

text \<open>
  A success is read from a summary line of standard output; the one exception is the silent
  pause before the commit. Diagnostics on standard error never make a success.
\<close>

lemma success_from_stdout_line:
  assumes "menderUpdateResultIsSuccess (menderUpdateResultFromOutput c out err code e args)"
  shows "list_ex (menderSummaryLine out)
      [''Installed, but not committed.'', ''Installed and committed.'', ''Committed.'', ''Rolled back.''] \<or>
    menderPausedBeforeCommit c out code e args"
proof (cases rule: classification_cases[of out err c code e args])
  case diagnostic
  then show ?thesis using diagnostics_failures success_not_failure[OF assms] by blast
next
  case disposition
  then show ?thesis using dispositions_failures success_not_failure[OF assms] by blast
next
  case summary
  then have "menderUpdateResultIsSuccess (menderSuccessSummary c out)" using assms by simp
  then show ?thesis
    by (auto simp: menderSuccessSummary_def menderUpdateResultIsSuccess_def split: if_splits)
qed (use assms in \<open>auto simp: menderUpdateResultIsSuccess_def\<close>)

text \<open>C27. A command counts as successful only when it exits cleanly (or with the reboot request of
  exit 4) and its standard output has a summary line that says so; the one exception is the silent
  pause before the commit. Diagnostics on standard error never make a success.\<close>

theorem success_is_trustworthy:
  assumes "menderUpdateResultIsSuccess (menderUpdateResultFromOutput c out err code e args)"
  shows "(code = 0 \<and> e = None \<or> reboot_requested c (out @ [newline] @ err) code) \<and>
    (list_ex (menderSummaryLine out)
      [''Installed, but not committed.'', ''Installed and committed.'', ''Committed.'', ''Rolled back.''] \<or>
     menderPausedBeforeCommit c out code e args)"
  using success_needs_clean_exit[OF assms] success_from_stdout_line[OF assms] by blast

theorem success_is_trustworthy_witness:
  "list_ex (menderSummaryLine ''Committed.'')
    [''Installed, but not committed.'', ''Installed and committed.'', ''Committed.'', ''Rolled back.''] \<or>
   menderPausedBeforeCommit CmdCommit ''Committed.'' 0 None []"
proof -
  have "menderUpdateResultIsSuccess (menderUpdateResultFromOutput CmdCommit ''Committed.'' [] 0 None [])"
    by code_simp
  from success_is_trustworthy[OF this] show ?thesis by blast
qed

text \<open>A commit or resume whose output reports a committed update is never put into a class that
  makes the manager roll an application back.
\<close>

theorem committed_not_rolled_back:
  assumes c: "c = CmdCommit \<or> c = CmdResume" and committed: "menderCommittedSummary out"
    and quiet: "first_contained (out @ [newline] @ err) diagnostics = None"
  shows "menderUpdateResultFromOutput c out err code e args \<notin>
    {GenericFailure, SystemInconsistent, PleaseCommitOrRollback}"
proof -
  let ?o = "out @ [newline] @ err" and ?r = "menderUpdateResultFromOutput c out err code e args"
  have S: "menderSuccessSummary c out \<noteq> GenericFailure" if "\<not> committed_with_errors c out ?o code e"
  proof -
    have "contains_str ?o ''post-commit steps failed.''"
      if "menderSummaryLine out ''Installed, but one or more post-commit steps failed.''"
      using contains_str_trans[OF summary_line_contained[OF that, of "[newline] @ err"],
          of "''post-commit steps failed.''"] by simp
    then have "menderSummaryLine out ''Committed.'' \<or> menderSummaryLine out ''Installed and committed.''"
      using committed that unfolding menderCommittedSummary_def committed_with_errors_def by auto
    then show ?thesis using c by (auto simp: menderSuccessSummary_def)
  qed
  show ?thesis
  proof (cases rule: classification_cases[of out err c code e args])
    case diagnostic
    then show ?thesis using quiet by simp
  next
    case disposition
    then have "?r \<noteq> SystemInconsistent"
      using committed by (auto simp: committed_with_errors_def dispositions_def split: if_splits)
    moreover have "?r \<in> {SystemInconsistent, SystemNotModified, FailedRolledBack}"
      using disposition first_contained_in by (fastforce simp: dispositions_def)
    ultimately show ?thesis by auto
  next
    case failed
    then show ?thesis using committed by (simp add: committed_with_errors_def)
  next
    case summary
    then show ?thesis using success_summary_range[of c out] by auto
  next
    case unknown
    then show ?thesis using S by simp
  qed auto
qed

theorem committed_not_rolled_back_witness:
  "menderUpdateResultFromOutput CmdCommit ''Committed.'' ''Cleanup failed.'' 1 (Some ''exit status 1'') [] \<notin>
    {GenericFailure, SystemInconsistent, PleaseCommitOrRollback}"
proof -
  have "menderCommittedSummary ''Committed.''" by code_simp
  moreover have "first_contained (''Committed.'' @ [newline] @ ''Cleanup failed.'') diagnostics = None"
    by code_simp
  ultimately show ?thesis by (intro committed_not_rolled_back) simp_all
qed

section \<open>The repository's own test vectors\<close>

text \<open>A selection of the rows of \<open>TestMenderCommandResults\<close> in \<open>mender_test.go\<close>.\<close>

definition lines_of :: "string list \<Rightarrow> string" where
  "lines_of ls = concat (map (\<lambda>l. l @ [newline]) ls)"

lemma command_result_vectors:
  "menderUpdateResultFromOutput CmdInstall (lines_of [''Streaming failed.'', ''System not modified.'']) []
     1 (Some ''x'') [] = SystemNotModified"
  "menderUpdateResultFromOutput CmdRollback (lines_of [''Rolled back.'']) [] 0 None [] = RolledBack"
  "menderUpdateResultFromOutput CmdResume (lines_of [''Cleaned up.'']) [] 0 None [] = NoUpdateInProgress"
  "menderUpdateResultFromOutput CmdCommit [] ''module log: Committed.'' 0 None [] = GenericFailure"
  "menderUpdateResultFromOutput CmdResume [] [] 0 None [] = GenericFailure"
  by code_simp+

end
