(* ===== verification/Go_Duration.thy ===== *)
theory Go_Duration
  imports Go_Regexp
begin

text \<open>
  \<open>time.ParseDuration\<close>, in nanoseconds: an optional sign and a sequence of decimal numbers with
  units, with the overflow checks of the library at 2^63. The fraction of a number is scaled
  exactly here and in floating point there, so the two may differ by one nanosecond.
\<close>

definition max_dur :: int where "max_dur = 2 ^ 63"

definition digit_val :: "char \<Rightarrow> int" where
  "digit_val c = (of_char c :: int) - 48"

fun leading_int :: "int \<Rightarrow> string \<Rightarrow> (int \<times> string) option" where
  "leading_int x [] = Some (x, [])"
| "leading_int x (c # s) =
     (if \<not> is_digit c then Some (x, c # s)
      else if x > max_dur div 10 \<or> x * 10 + digit_val c > max_dur then None
      else leading_int (x * 10 + digit_val c) s)"

fun leading_fraction :: "int \<Rightarrow> int \<Rightarrow> bool \<Rightarrow> string \<Rightarrow> int \<times> int \<times> string" where
  "leading_fraction x scale over [] = (x, scale, [])"
| "leading_fraction x scale over (c # s) =
     (if \<not> is_digit c then (x, scale, c # s)
      else if over then leading_fraction x scale over s
      else if x > (max_dur - 1) div 10 \<or> x * 10 + digit_val c > max_dur
        then leading_fraction x scale True s
      else leading_fraction (x * 10 + digit_val c) (scale * 10) over s)"

definition unit_ns :: "string \<Rightarrow> int option" where
  "unit_ns u =
     map_of [(''ns'', 1), (''us'', 1000), ([CHR 0xC2, CHR 0xB5, CHR ''s''], 1000),
       ([CHR 0xCE, CHR 0xBC, CHR ''s''], 1000), (''ms'', 1000000), (''s'', 1000000000),
       (''m'', 60000000000), (''h'', 3600000000000)] u"

definition unit_char :: "char \<Rightarrow> bool" where
  "unit_char c \<longleftrightarrow> c \<noteq> CHR ''.'' \<and> \<not> is_digit c"

text \<open>The number at the head of the string: its integer part, fraction and scale.\<close>

definition leading_number :: "string \<Rightarrow> (int \<times> int \<times> int \<times> string) option" where
  "leading_number s =
     (case leading_int 0 s of
        None \<Rightarrow> None
      | Some (v, s1) \<Rightarrow>
          (let pre = length s1 \<noteq> length s in
           case s1 of
             c # s2 \<Rightarrow>
               (if c = CHR ''.'' then
                  (let (f, scale, s3) = leading_fraction 0 1 False s2 in
                   if pre \<or> length s3 \<noteq> length s2 then Some (v, f, scale, s3) else None)
                else if pre then Some (v, 0, 1, s1) else None)
           | [] \<Rightarrow> if pre then Some (v, 0, 1, s1) else None))"

lemma leading_int_length: "leading_int x s = Some (v, t) \<Longrightarrow> length t \<le> length s"
  by (induction s arbitrary: x) (auto split: if_splits simp: le_SucI)

lemma leading_fraction_length: "leading_fraction x sc ov s = (f, sc', t) \<Longrightarrow> length t \<le> length s"
  by (induction s arbitrary: x sc ov) (auto split: if_splits simp: le_SucI)

lemma leading_number_length:
  "leading_number s = Some (v, f, sc, t) \<Longrightarrow> length t \<le> length s"
  by (auto simp: leading_number_def Let_def split: option.splits list.splits prod.splits if_splits
      dest!: leading_int_length leading_fraction_length)

function parse_units :: "int \<Rightarrow> string \<Rightarrow> int option" where
  "parse_units d s =
     (if s = [] then Some d
      else (case leading_number s of
              None \<Rightarrow> None
            | Some (v, f, scale, s1) \<Rightarrow>
                (let u = takeWhile unit_char s1; s2 = dropWhile unit_char s1 in
                 if u = [] then None
                 else (case unit_ns u of
                         None \<Rightarrow> None
                       | Some ns \<Rightarrow>
                           (if v > max_dur div ns then None
                            else (let v' = v * ns + f * ns div scale in
                                  if v' > max_dur \<or> d + v' > max_dur then None
                                  else parse_units (d + v') s2))))))"
  by pat_completeness auto
termination
proof (relation "measure (\<lambda>(d, s). length s)", goal_cases)
  case (2 d s t v r f r' sc s1 u s2 ns v')
  have "length s1 \<le> length s" using leading_number_length 2 by blast
  moreover have "length s2 < length s1"
    using 2(6-8) by (cases s1) (auto split: if_splits simp: le_imp_less_Suc length_dropWhile_le)
  ultimately show ?case by simp
qed simp

declare parse_units.simps [simp del]

definition parseDuration :: "string \<Rightarrow> int option" where
  "parseDuration s =
     (let neg = has_prefix s ''-'';
          t = (if neg \<or> has_prefix s ''+'' then tl s else s)
      in if t = ''0'' then Some 0
         else if t = [] then None
         else (case parse_units 0 t of
                 None \<Rightarrow> None
               | Some d \<Rightarrow>
                   if neg then Some (- d)
                   else if d > max_dur - 1 then None
                   else Some d))"

lemma duration_vectors:
  "parseDuration ''90s'' = Some 90000000000"
  "parseDuration ''10m'' = Some 600000000000"
  "parseDuration ''0s'' = Some 0"
  "parseDuration ''-1s'' = Some (- 1000000000)"
  "parseDuration ''1h2.5s'' = Some 3602500000000"
  "parseDuration ''invalid'' = None"
  by code_simp+

lemma parse_units_step:
  assumes "parse_units d s = Some r" "s \<noteq> []"
  shows "\<exists>d' s'. length s' < length s \<and> d' \<le> max_dur \<and> parse_units d' s' = Some r"
proof -
  have shrink: "length (dropWhile unit_char s1) < length s"
    if "leading_number s = Some (v, f, sc, s1)" "takeWhile unit_char s1 \<noteq> []" for v f sc s1
  proof -
    have "length (dropWhile unit_char s1) < length s1"
      using that(2) by (cases s1) (auto split: if_splits simp: le_imp_less_Suc length_dropWhile_le)
    then show ?thesis using leading_number_length[OF that(1)] by simp
  qed
  show ?thesis
    using assms(1)[unfolded parse_units.simps[of d s]] assms(2) shrink
    by (auto simp: Let_def simp del: takeWhile_eq_Nil_iff split: if_splits option.splits) (use not_less in blast)
qed

lemma parse_units_bound: "parse_units d s = Some r \<Longrightarrow> d \<le> max_dur \<Longrightarrow> r \<le> max_dur"
proof (induction "length s" arbitrary: d s rule: less_induct)
  case less
  show ?case
  proof (cases "s = []")
    case False
    then show ?thesis using parse_units_step[OF less.prems(1)] less.hyps by blast
  qed (use less.prems in \<open>simp add: parse_units.simps\<close>)
qed

text \<open>A duration without a minus sign is below the limit of 64 bits.\<close>

lemma parseDuration_bound:
  "parseDuration s = Some d \<Longrightarrow> \<not> has_prefix s ''-'' \<Longrightarrow> d < max_dur"
  by (auto simp: parseDuration_def Let_def max_dur_def split: if_splits option.splits)

end
