(* ===== verification/Mender_Machine.thy ===== *)
theory Mender_Machine
  imports Entity Mender_Output Go_Duration
begin

text \<open>
  \<open>internal/manager/cpumanager/mender.go\<close>: the job state machine that drives \<open>mender-update\<close>. A handler
  takes the event and the persistent state and returns the new state with its effects in the order
  of the code: saving the state, starting a goroutine, removing the artifact, emitting an event to
  the actor. What a goroutine does later is a function from the result of its command to the event
  that it emits. Times are nanoseconds. The two handlers that read an artifact may not return, so
  their value is an option. Log output is left out.
\<close>

section \<open>Effects\<close>

datatype background =
    RunMender mender_command int event_code "string list"
  | RunReboot int
  | RunVerification

datatype effect =
    SaveState mender_pstate
  | Spawn background
  | RemoveFile string
  | EmitEvent mender_event

type_synonym mender_step = "mender_pstate \<times> effect list"

definition second :: int where "second = 1000000000"
definition minute :: int where "minute = 60 * second"
definition maxRecoveryOperations :: "64 word" where "maxRecoveryOperations = 2"
definition maxApplicationRecoveryAttempts :: "64 word" where "maxApplicationRecoveryAttempts = 1"
definition rebootTimeout :: int where "rebootTimeout = 30 * second"
definition commitTimeout :: int where "commitTimeout = 30 * second"
definition defaultApplicationCommitTimeout :: int where "defaultApplicationCommitTimeout = 5 * minute"
definition updateTimeout :: int where "updateTimeout = 10 * minute"

definition commitCommandTimeout :: "world \<Rightarrow> mender_pstate \<Rightarrow> int" where
  "commitCommandTimeout w s =
     (if CurrentEntityType s \<noteq> EntityApplication then commitTimeout
      else let value = getenv w ''MENDER_APPLICATION_COMMIT_TIMEOUT'' in
           if value \<noteq> [] then
             (case parseDuration value of
                Some timeout \<Rightarrow> if timeout > 0 then timeout else defaultApplicationCommitTimeout
              | None \<Rightarrow> defaultApplicationCommitTimeout)
           else defaultApplicationCommitTimeout)"

definition resumeInstallArgs :: "mender_pstate \<Rightarrow> string list" where
  "resumeInstallArgs s =
     (if CurrentEntityType s \<noteq> EntityApplication then [''--stop-before'', ''ArtifactCommit_Enter''] else [])"

section \<open>Starting background work\<close>

definition save_and_spawn :: "background \<Rightarrow> mender_pstate \<Rightarrow> mender_step" where
  "save_and_spawn b s = (s, [SaveState s, Spawn b])"

definition runMenderInstallInBackGround :: "string \<Rightarrow> int \<Rightarrow> mender_pstate \<Rightarrow> mender_step" where
  "runMenderInstallInBackGround artifact timeout =
     save_and_spawn (RunMender CmdInstall timeout EvInstallFinished [artifact])"

definition runInterruptedInstallInBackground :: "mender_pstate \<Rightarrow> mender_step" where
  "runInterruptedInstallInBackground s =
     save_and_spawn (RunMender CmdResume updateTimeout EvInstallFinished (resumeInstallArgs s)) s"

definition runMenderCommitInBackGround :: "int \<Rightarrow> mender_pstate \<Rightarrow> mender_step" where
  "runMenderCommitInBackGround timeout = save_and_spawn (RunMender CmdCommit timeout EvCommitFinished [])"

definition runMenderRollbackInBackGround :: "int \<Rightarrow> mender_pstate \<Rightarrow> mender_step" where
  "runMenderRollbackInBackGround timeout =
     save_and_spawn (RunMender CmdRollback timeout EvRollbackFinished [])"

definition runCustomizationStatusVerificationInBackground :: "mender_pstate \<Rightarrow> mender_step" where
  "runCustomizationStatusVerificationInBackground = save_and_spawn RunVerification"

definition runRebootInBackGround :: "int \<Rightarrow> mender_pstate \<Rightarrow> mender_step" where
  "runRebootInBackGround timeout = save_and_spawn (RunReboot timeout)"

section \<open>Ending a job\<close>

definition idle_pstate :: "mender_pstate" where
  "idle_pstate = \<lparr>State = Idle, CurrentArtifact = [], CurrentEntityType = EntityCoreOs,
     CurrentEntityName = [], RecoveryOperations = 0, RecoveryAttempts = 0\<rparr>"

definition setIdle :: "mender_pstate \<Rightarrow> mender_step" where
  "setIdle s =
     (idle_pstate,
      (if CurrentArtifact s \<noteq> [] then [RemoveFile (CurrentArtifact s)] else []) @ [SaveState idle_pstate])"

definition job_event :: "bool \<Rightarrow> string \<Rightarrow> mender_event" where
  "job_event success message = (blank_event EvJobFinished)\<lparr>ev_success := success, ev_message := message\<rparr>"

definition emitJobFinished :: "bool \<Rightarrow> string \<Rightarrow> mender_pstate \<Rightarrow> mender_step" where
  "emitJobFinished success message s =
     (let (s', es) = setIdle s in (s', es @ [EmitEvent (job_event success message)]))"

section \<open>Recovery\<close>

definition reserveRecoveryAttempt :: "mender_pstate \<Rightarrow> mender_pstate option" where
  "reserveRecoveryAttempt s =
     (if CurrentEntityType s = EntityApplication \<and> RecoveryAttempts s \<ge> maxApplicationRecoveryAttempts
      then None
      else Some (s\<lparr>RecoveryAttempts := RecoveryAttempts s + 1\<rparr>))"

definition runMenderRecoveryInstallInBackGround :: "mender_pstate \<Rightarrow> mender_step" where
  "runMenderRecoveryInstallInBackGround s =
     (case reserveRecoveryAttempt s of
        None \<Rightarrow> emitJobFinished False
          ''application installation failed after 1 recovery retry; recovery retry limit reached'' s
      | Some s' \<Rightarrow> runMenderInstallInBackGround (CurrentArtifact s') updateTimeout s')"

definition startRecoverInstall :: "mender_pstate \<Rightarrow> mender_step" where
  "startRecoverInstall s =
     (if RecoveryOperations s \<ge> maxRecoveryOperations
      then emitJobFinished False ''Mender recovery retry limit reached'' s
      else let s' = s\<lparr>RecoveryOperations := RecoveryOperations s + 1, State := RecoverInstallCommitting\<rparr>
           in save_and_spawn (RunMender CmdResume updateTimeout EvCommitFinished (resumeInstallArgs s')) s')"

definition startApplicationRollback :: "world \<Rightarrow> mender_pstate \<Rightarrow> mender_step" where
  "startApplicationRollback w s =
     (let s' = s\<lparr>State := RollingBackApplication\<rparr>
      in runMenderRollbackInBackGround (commitCommandTimeout w s') s')"

definition maybeRecoverApplication :: "world \<Rightarrow> mender_pstate \<Rightarrow> mender_step" where
  "maybeRecoverApplication w s =
     (if CurrentEntityType s = EntityApplication then startApplicationRollback w s
      else emitJobFinished False ''system in inconsistent state'' s)"

text \<open>The entity that the check builds for the job; only its name and type are set.\<close>

definition job_entity :: "mender_pstate \<Rightarrow> entity" where
  "job_entity s = \<lparr>Name = CurrentEntityName s, EntityType = CurrentEntityType s,
     DeployStatus = \<lparr>Code = NeverDeployed, Message = []\<rparr>, MenderArtifact = [], DeployingNV = no_version\<rparr>"

definition currentArtifactIsDeployed :: "world \<Rightarrow> mender_pstate \<Rightarrow> bool option" where
  "currentArtifactIsDeployed w s =
     map_option (\<lambda>r. case r of
         Inl _ \<Rightarrow> False
       | Inr expected \<Rightarrow> isDeployed w (job_entity s) expected = Inr True)
     (getVersionFromArtifact w (job_entity s) (CurrentArtifact s))"

section \<open>The handlers\<close>

definition StartUpdateJob ::
  "entity_type \<Rightarrow> string \<Rightarrow> string \<Rightarrow> int \<Rightarrow> mender_pstate \<Rightarrow> string + mender_step" where
  "StartUpdateJob t artifact name timeout s =
     (if State s \<noteq> Idle then Inl ''mender is busy with another update''
      else Inr (runMenderInstallInBackGround artifact timeout
        (s\<lparr>State := Installing, CurrentArtifact := artifact, CurrentEntityType := t,
           CurrentEntityName := name, RecoveryAttempts := 0, RecoveryOperations := 0\<rparr>)))"

definition startPostInstallStep :: "world \<Rightarrow> mender_pstate \<Rightarrow> mender_step" where
  "startPostInstallStep w s =
     (if CurrentEntityType s = EntityCoreOs \<or> CurrentEntityType s = EntityCoreOSCustomization
      then runRebootInBackGround rebootTimeout (s\<lparr>State := Rebooting\<rparr>)
      else let s' = s\<lparr>State := Committing\<rparr>
           in runMenderCommitInBackGround (commitCommandTimeout w s') s')"

definition install_failed_text :: "mender_event \<Rightarrow> string" where
  "install_failed_text e =
     ''Mender '' @ command_text (ev_command e) @ '' failed: '' @ update_result_text (ev_result e) @
     ''; '' @ ev_message e"

definition handleInstallFinished :: "world \<Rightarrow> mender_event \<Rightarrow> mender_pstate \<Rightarrow> mender_step" where
  "handleInstallFinished w e s =
     (if CurrentEntityType s = EntityApplication \<and> ev_result e = GenericFailure
      then startApplicationRollback w s
      else case ev_result e of
             InstalledButNotCommited \<Rightarrow> startPostInstallStep w s
           | InstalledAndCommited \<Rightarrow> emitJobFinished True [] s
           | Commited \<Rightarrow> emitJobFinished True [] s
           | SystemInconsistent \<Rightarrow> maybeRecoverApplication w s
           | WrongState \<Rightarrow> startRecoverInstall s
           | PleaseCommitOrRollback \<Rightarrow> startRecoverInstall s
           | UpdateAlreadyInProgress \<Rightarrow> startRecoverInstall s
           | _ \<Rightarrow> emitJobFinished False (install_failed_text e) s)"

definition resumedApplicationInstallRolledBack :: "mender_event \<Rightarrow> mender_pstate \<Rightarrow> bool" where
  "resumedApplicationInstallRolledBack e s \<longleftrightarrow>
     ev_command e = CmdResume \<and> CurrentEntityType s = EntityApplication \<and> ev_result e = FailedRolledBack"

definition handleInstallingEvent :: "world \<Rightarrow> mender_event \<Rightarrow> mender_pstate \<Rightarrow> mender_step option" where
  "handleInstallingEvent w e s =
     (case ev_code e of
        EvRestarted \<Rightarrow> Some (runInterruptedInstallInBackground s)
      | EvRecoverFinished \<Rightarrow>
          Some (if \<not> ev_success e then emitJobFinished False (ev_message e) s
                else runMenderRecoveryInstallInBackGround s)
      | EvInstallFinished \<Rightarrow>
          (if resumedApplicationInstallRolledBack e s then Some (runMenderRecoveryInstallInBackGround s)
           else if ev_result e = CommittedWithErrors
             then Some (emitJobFinished False
                    (''Mender committed the update, but subsequent steps failed: '' @ ev_message e) s)
           else if ev_result e = NoUpdateInProgress
             then (case currentArtifactIsDeployed w s of
                     None \<Rightarrow> None
                   | Some True \<Rightarrow> Some (emitJobFinished True [] s)
                   | Some False \<Rightarrow> Some (runMenderRecoveryInstallInBackGround s))
           else Some (handleInstallFinished w e s))
      | _ \<Rightarrow> Some (s, []))"

definition handleRebootingEvent :: "world \<Rightarrow> mender_event \<Rightarrow> mender_pstate \<Rightarrow> mender_step" where
  "handleRebootingEvent w e s =
     (case ev_code e of
        EvRestarted \<Rightarrow> runRebootInBackGround rebootTimeout s
      | EvRebootFinished \<Rightarrow>
          (if ev_success e then
             (if CurrentEntityType s = EntityCoreOSCustomization
              then runCustomizationStatusVerificationInBackground (s\<lparr>State := VerifyingCustomization\<rparr>)
              else let s' = s\<lparr>State := Committing\<rparr>
                   in runMenderCommitInBackGround (commitCommandTimeout w s') s')
           else emitJobFinished False ''Could not reboot'' s)
      | _ \<Rightarrow> (s, []))"

definition handleVerifyingCustomizationEvent ::
  "world \<Rightarrow> mender_event \<Rightarrow> mender_pstate \<Rightarrow> mender_step" where
  "handleVerifyingCustomizationEvent w e s =
     (case ev_code e of
        EvRestarted \<Rightarrow> runCustomizationStatusVerificationInBackground s
      | EvCustomizationVerified \<Rightarrow>
          (if ev_success e
           then let s' = s\<lparr>State := Committing\<rparr>
                in runMenderCommitInBackGround (commitCommandTimeout w s') s'
           else runMenderRollbackInBackGround commitTimeout (s\<lparr>State := RollingBackCustomization\<rparr>))
      | _ \<Rightarrow> (s, []))"

definition handleRollingBackCustomizationEvent :: "mender_event \<Rightarrow> mender_pstate \<Rightarrow> mender_step" where
  "handleRollingBackCustomizationEvent e s =
     (case ev_code e of
        EvRestarted \<Rightarrow> runMenderRollbackInBackGround commitTimeout s
      | EvRollbackFinished \<Rightarrow>
          (if ev_success e \<or> ev_result e = NoUpdateInProgress
           then emitJobFinished False ''Core OS customization health checks failed'' s
           else emitJobFinished False
             ''Core OS customization health checks failed and Mender rollback failed'' s)
      | _ \<Rightarrow> (s, []))"

definition handleRollingBackApplicationEvent ::
  "world \<Rightarrow> mender_event \<Rightarrow> mender_pstate \<Rightarrow> mender_step" where
  "handleRollingBackApplicationEvent w e s =
     (case ev_code e of
        EvRestarted \<Rightarrow> startApplicationRollback w s
      | EvRollbackFinished \<Rightarrow>
          (if ev_result e = RolledBack \<or> ev_result e = FailedRolledBack
           then emitJobFinished False ''Application update failed; Mender rolled back the update'' s
           else emitJobFinished False
             (''Application update failed; Mender rollback could not be confirmed; '' @
              ''application manifests and snapshots preserved: '' @ ev_message e) s)
      | _ \<Rightarrow> (s, []))"

definition commit_failed_text :: "mender_event \<Rightarrow> string" where
  "commit_failed_text e =
     ''Mender commit failed: '' @ update_result_text (ev_result e) @ ''; '' @ ev_message e"

text \<open>The end of the commit handler, after the branch that may check the deployed version.\<close>

definition handle_commit_result :: "mender_event \<Rightarrow> mender_pstate \<Rightarrow> mender_step" where
  "handle_commit_result e s =
     (if ev_result e = WrongState then startRecoverInstall s
      else if ev_result e = CommittedWithErrors
        then emitJobFinished False
               (''Mender committed the update, but subsequent steps failed: '' @ ev_message e) s
      else if ev_result e = Commited \<or> ev_result e = InstalledAndCommited then emitJobFinished True [] s
      else emitJobFinished False (commit_failed_text e) s)"

definition handleCommittingEvent :: "world \<Rightarrow> mender_event \<Rightarrow> mender_pstate \<Rightarrow> mender_step option" where
  "handleCommittingEvent w e s =
     (case ev_code e of
        EvRestarted \<Rightarrow>
          Some (save_and_spawn (RunMender CmdResume (commitCommandTimeout w s) EvCommitFinished []) s)
      | EvCommitFinished \<Rightarrow>
          (if ev_result e = InstalledButNotCommited
             then Some (runMenderCommitInBackGround (commitCommandTimeout w s) s)
           else if CurrentEntityType s = EntityApplication \<and>
                   (ev_result e = GenericFailure \<or> ev_result e = SystemInconsistent \<or>
                    ev_result e = PleaseCommitOrRollback)
             then Some (startApplicationRollback w s)
           else if ev_result e = NoUpdateInProgress
             then (case currentArtifactIsDeployed w s of
                     None \<Rightarrow> None
                   | Some True \<Rightarrow> Some (emitJobFinished True [] s)
                   | Some False \<Rightarrow> Some (handle_commit_result e s))
           else Some (handle_commit_result e s))
      | _ \<Rightarrow> Some (s, []))"

definition handleRecoverInstallCommittingEvent ::
  "world \<Rightarrow> mender_event \<Rightarrow> mender_pstate \<Rightarrow> mender_step option" where
  "handleRecoverInstallCommittingEvent w e s =
     (case ev_code e of
        EvRestarted \<Rightarrow> Some (startRecoverInstall s)
      | EvCommitFinished \<Rightarrow>
          handleInstallingEvent w
            \<lparr>ev_code = EvInstallFinished, ev_success = ev_success e, ev_result = ev_result e,
             ev_message = ev_message e, ev_command = CmdResume\<rparr>
            (s\<lparr>State := Installing\<rparr>)
      | _ \<Rightarrow> Some (s, []))"

definition HandleEvent :: "world \<Rightarrow> mender_event \<Rightarrow> mender_pstate \<Rightarrow> mender_step option" where
  "HandleEvent w e s =
     (case State s of
        Idle \<Rightarrow> Some (s, [])
      | Installing \<Rightarrow> handleInstallingEvent w e s
      | Rebooting \<Rightarrow> Some (handleRebootingEvent w e s)
      | Committing \<Rightarrow> handleCommittingEvent w e s
      | RecoverInstallCommitting \<Rightarrow> handleRecoverInstallCommittingEvent w e s
      | VerifyingCustomization \<Rightarrow> Some (handleVerifyingCustomizationEvent w e s)
      | RollingBackApplication \<Rightarrow> Some (handleRollingBackApplicationEvent w e s)
      | RollingBackCustomization \<Rightarrow> Some (handleRollingBackCustomizationEvent e s))"

definition IsIdle :: "mender_pstate \<Rightarrow> bool" where
  "IsIdle s \<longleftrightarrow> State s = Idle"

section \<open>The events of the goroutines\<close>

definition emitRebootFinished :: "string \<Rightarrow> string option \<Rightarrow> mender_event" where
  "emitRebootFinished message err =
     (blank_event EvRebootFinished)\<lparr>ev_success := (err = None), ev_message := message\<rparr>"

text \<open>\<open>newMenderManager\<close>: the event it emits at start-up.\<close>

definition newMenderManager :: "bool \<Rightarrow> mender_pstate \<Rightarrow> mender_event" where
  "newMenderManager hasRebooted s =
     (if hasRebooted \<and> State s = Rebooting then emitRebootFinished ''System reboot detected'' None
      else blank_event EvRestarted)"

definition go_err :: "string option \<Rightarrow> string" where
  "go_err e = (case e of None \<Rightarrow> ''<nil>'' | Some t \<Rightarrow> t)"

definition runMenderCommand :: "mender_command \<Rightarrow> event_code \<Rightarrow> string list \<Rightarrow> cmd_result \<Rightarrow> mender_event" where
  "runMenderCommand command code args r =
     (let result = menderUpdateResultFromOutput command (cr_stdout r) (cr_stderr r) (cr_exit r) (cr_err r) args
      in \<lparr>ev_code = code, ev_success = menderUpdateResultIsSuccess result, ev_result = result,
          ev_message = ''mender-update '' @ command_text command @ '': exit '' @ itoa (cr_exit r) @
            '', error: '' @ go_err (cr_err r) @ ''; '' @ cr_stdout r @ cr_stderr r,
          ev_command = command\<rparr>)"

definition reboot_outcome :: "cmd_result \<Rightarrow> mender_event option" where
  "reboot_outcome r =
     (case cr_err r of
        None \<Rightarrow> None
      | Some err \<Rightarrow> Some (emitRebootFinished (''Reboot command failed: err: '' @ err) (Some err)))"

definition verified_event :: "bool \<Rightarrow> string \<Rightarrow> mender_event" where
  "verified_event ok m = (blank_event EvCustomizationVerified)\<lparr>ev_success := ok, ev_message := m\<rparr>"

text \<open>
  What one poll of \<open>os-customization-set status\<close> decides; \<open>None\<close> means that the slot is still pending
  or that the status could not be read.
\<close>

definition poll_status :: "world \<Rightarrow> cmd_result \<Rightarrow> mender_event option" where
  "poll_status w r =
     (case cr_err r of
        Some _ \<Rightarrow> None
      | None \<Rightarrow>
          (case bind_go (unmarshal_struct w (cr_stdout r)) (\<lambda>ms.
                  bind_go (decode_str_ptr ''active_version'' ms None) (\<lambda>av.
                  bind_go (decode_str_ptr ''candidate_slot'' ms None) (\<lambda>slot.
                  bind_go (decode_str_ptr ''candidate_state'' ms None) (\<lambda>st. Inr (av, slot, st))))) of
             Inl _ \<Rightarrow> None
           | Inr (av, slot, st) \<Rightarrow>
               (if slot = None \<or> st \<noteq> Some ''pending'' then
                  (if st = None \<and> av \<noteq> None then Some (verified_event True [])
                   else Some (verified_event False ''Core OS customization health checks failed''))
                else None)))"

text \<open>
  The polling loop; poll \<open>i\<close> of the sequence has its result and tells whether the deadline had passed
  after it.
\<close>

partial_function (option) verification_loop ::
  "world \<Rightarrow> (nat \<Rightarrow> cmd_result \<times> bool) \<Rightarrow> nat \<Rightarrow> mender_event option" where
  "verification_loop w polls i =
     (case poll_status w (fst (polls i)) of
        Some e \<Rightarrow> Some e
      | None \<Rightarrow>
          (if snd (polls i)
           then Some (verified_event False ''Timed out waiting for Core OS customization health checks'')
           else verification_loop w polls (Suc i)))"

end
