(* ===== verification/Update_Engine.thy ===== *)
theory Update_Engine
  imports Main
begin

text \<open>
  The interface between the CPU manager and the machine that carries out an update: the manager
  starts a job on an idle engine and passes it events; the engine answers each job with exactly one
  report, given in the step in which it becomes idle again.
\<close>

locale update_engine =
  fixes idle :: "'s \<Rightarrow> bool"
    and start :: "'j \<Rightarrow> 's \<Rightarrow> ('s \<times> 'x list) option"
    and handle :: "'w \<Rightarrow> 'e \<Rightarrow> 's \<Rightarrow> ('s \<times> 'x list) option"
    and report :: "'x \<Rightarrow> bool"
  assumes start_defined: "start j s = None \<longleftrightarrow> \<not> idle s"
    and start_busy: "start j s = Some (s', xs) \<Longrightarrow> \<not> idle s' \<and> filter report xs = []"
    and handle_report: "handle w e s = Some (s', xs) \<Longrightarrow>
      length (filter report xs) + (if idle s' then 0 else 1) = (if idle s then 0 else 1)"
begin

lemma handle_idle: "handle w e s = Some (s', xs) \<Longrightarrow> idle s \<Longrightarrow> idle s' \<and> filter report xs = []"
  using handle_report[of w e s s' xs] by (auto split: if_splits)

lemma handle_busy:
  "handle w e s = Some (s', xs) \<Longrightarrow> \<not> idle s \<Longrightarrow>
   idle s' \<longleftrightarrow> length (filter report xs) = 1"
  using handle_report[of w e s s' xs] by (auto split: if_splits)

text \<open>A sequence of events.\<close>

fun drive :: "('w \<times> 'e) list \<Rightarrow> 's \<Rightarrow> ('s \<times> 'x list) option" where
  "drive [] s = Some (s, [])"
| "drive ((w, e) # es) s =
     (case handle w e s of
        None \<Rightarrow> None
      | Some (s1, xs) \<Rightarrow> (case drive es s1 of None \<Rightarrow> None | Some (s2, ys) \<Rightarrow> Some (s2, xs @ ys)))"

lemma drive_report:
  "drive es s = Some (s', xs) \<Longrightarrow>
   length (filter report xs) + (if idle s' then 0 else 1) = (if idle s then 0 else 1)"
proof (induction es arbitrary: s xs)
  case (Cons we es)
  obtain w e where we: "we = (w, e)" by (cases we)
  then obtain s1 ys zs where 1: "handle w e s = Some (s1, ys)" "drive es s1 = Some (s', zs)" "xs = ys @ zs"
    using Cons.prems by (auto split: option.splits)
  show ?case using handle_report[OF 1(1)] Cons.IH[OF 1(2)] 1(3) by simp
qed simp

text \<open>A started job is reported exactly once, when the engine is idle again.\<close>

lemma job_reported_once:
  assumes "start j s = Some (s1, xs)" "drive es s1 = Some (s2, ys)"
  shows "length (filter report (xs @ ys)) = (if idle s2 then 1 else 0)"
  using start_busy[OF assms(1)] drive_report[OF assms(2)] by (auto split: if_splits)

end

end
