(* ===== verification/Mender_Diagram.thy ===== *)
theory Mender_Diagram
  imports Mender_Machine Update_Engine
begin

text \<open>
  What a call of the handlers of \<open>Mender_Machine\<close> can do: it ignores an event that its state does not
  expect, ends the job, or takes a transition of the documented state diagram, saving the new state
  and starting the one background operation that this state waits for.
\<close>

section \<open>What a handler call can do\<close>

fun awaited :: "mender_state \<Rightarrow> background \<Rightarrow> bool" where
  "awaited Installing (RunMender c t code args) \<longleftrightarrow>
     code = EvInstallFinished \<and> (c = CmdInstall \<or> c = CmdResume)"
| "awaited Committing (RunMender c t code args) \<longleftrightarrow>
     code = EvCommitFinished \<and> (c = CmdCommit \<or> c = CmdResume)"
| "awaited RecoverInstallCommitting (RunMender c t code args) \<longleftrightarrow>
     code = EvCommitFinished \<and> c = CmdResume"
| "awaited RollingBackCustomization (RunMender c t code args) \<longleftrightarrow>
     code = EvRollbackFinished \<and> c = CmdRollback"
| "awaited RollingBackApplication (RunMender c t code args) \<longleftrightarrow>
     code = EvRollbackFinished \<and> c = CmdRollback"
| "awaited Rebooting (RunReboot t) \<longleftrightarrow> True"
| "awaited VerifyingCustomization RunVerification \<longleftrightarrow> True"
| "awaited _ _ \<longleftrightarrow> False"

definition starts_work :: "mender_step \<Rightarrow> bool" where
  "starts_work st \<longleftrightarrow>
     (\<exists>b. snd st = [SaveState (fst st), Spawn b] \<and> awaited (State (fst st)) b)"

definition ends_job :: "mender_pstate \<Rightarrow> mender_step \<Rightarrow> bool" where
  "ends_job s st \<longleftrightarrow> (\<exists>ok m. st = emitJobFinished ok m s)"

definition job_kept :: "mender_pstate \<Rightarrow> mender_pstate \<Rightarrow> bool" where
  "job_kept s s' \<longleftrightarrow> CurrentArtifact s' = CurrentArtifact s \<and>
     CurrentEntityType s' = CurrentEntityType s \<and> CurrentEntityName s' = CurrentEntityName s"

lemmas spawn_defs = save_and_spawn_def runMenderInstallInBackGround_def
  runInterruptedInstallInBackground_def runMenderCommitInBackGround_def
  runMenderRollbackInBackGround_def runCustomizationStatusVerificationInBackground_def
  runRebootInBackGround_def

lemmas handler_defs = handleInstallingEvent_def handleRebootingEvent_def handleCommittingEvent_def
  handleRecoverInstallCommittingEvent_def handleVerifyingCustomizationEvent_def
  handleRollingBackApplicationEvent_def handleRollingBackCustomizationEvent_def

section \<open>The state diagram\<close>

text \<open>
  The transitions of \<open>docs/mender-state-machine.md\<close>, with the states of the customization update
  added: the state, the event, the next state and the work started there. Ending the job is the
  one transition that is not listed; it is possible from every state.
\<close>

fun completion :: "mender_state \<Rightarrow> event_code" where
  "completion Idle = EvNone"
| "completion Installing = EvInstallFinished"
| "completion Rebooting = EvRebootFinished"
| "completion Committing = EvCommitFinished"
| "completion RecoverInstallCommitting = EvCommitFinished"
| "completion VerifyingCustomization = EvCustomizationVerified"
| "completion RollingBackCustomization = EvRollbackFinished"
| "completion RollingBackApplication = EvRollbackFinished"

definition expected :: "mender_state \<Rightarrow> event_code \<Rightarrow> bool" where
  "expected st c \<longleftrightarrow> st \<noteq> Idle \<and>
     (c = EvRestarted \<or> c = completion st \<or> st = Installing \<and> c = EvRecoverFinished)"

definition pending_results :: "update_result set" where
  "pending_results = {WrongState, PleaseCommitOrRollback, UpdateAlreadyInProgress}"

inductive diagram :: "mender_pstate \<Rightarrow> mender_event \<Rightarrow> mender_pstate \<Rightarrow> background \<Rightarrow> bool" where
  resume_install:
    "State s = Installing \<Longrightarrow> ev_code e = EvRestarted \<Longrightarrow>
     diagram s e s (RunMender CmdResume d EvInstallFinished (resumeInstallArgs s))"
| reinstall:
    "State s \<in> {Installing, RecoverInstallCommitting} \<Longrightarrow>
     CurrentEntityType s = EntityApplication \<longrightarrow> RecoveryAttempts s < 1 \<Longrightarrow>
     State s = Installing \<and> ev_code e = EvRecoverFinished \<or> ev_code e = completion (State s) \<and>
       (ev_result e = NoUpdateInProgress \<or> CurrentEntityType s = EntityApplication \<and>
          ev_result e = FailedRolledBack \<and> (State s = Installing \<longrightarrow> ev_command e = CmdResume)) \<Longrightarrow>
     diagram s e (s\<lparr>State := Installing, RecoveryAttempts := RecoveryAttempts s + 1\<rparr>)
       (RunMender CmdInstall d EvInstallFinished [CurrentArtifact s])"
| installed_application:
    "State s \<in> {Installing, RecoverInstallCommitting} \<Longrightarrow> ev_code e = completion (State s) \<Longrightarrow>
     CurrentEntityType s = EntityApplication \<Longrightarrow> ev_result e = InstalledButNotCommited \<Longrightarrow>
     diagram s e (s\<lparr>State := Committing\<rparr>) (RunMender CmdCommit d EvCommitFinished [])"
| installed_core_os:
    "State s \<in> {Installing, RecoverInstallCommitting} \<Longrightarrow> ev_code e = completion (State s) \<Longrightarrow>
     CurrentEntityType s \<noteq> EntityApplication \<Longrightarrow> ev_result e = InstalledButNotCommited \<Longrightarrow>
     diagram s e (s\<lparr>State := Rebooting\<rparr>) (RunReboot d)"
| recover:
    "State s \<in> {Installing, RecoverInstallCommitting, Committing} \<Longrightarrow>
     ev_code e = completion (State s) \<and> ev_result e \<in> pending_results \<or>
       State s = RecoverInstallCommitting \<and> ev_code e = EvRestarted \<Longrightarrow>
     RecoveryOperations s < 2 \<Longrightarrow>
     diagram s e (s\<lparr>RecoveryOperations := RecoveryOperations s + 1, State := RecoverInstallCommitting\<rparr>)
       (RunMender CmdResume d EvCommitFinished (resumeInstallArgs s))"
| roll_back_application:
    "State s \<in> {Installing, RecoverInstallCommitting, Committing, RollingBackApplication} \<Longrightarrow>
     CurrentEntityType s = EntityApplication \<or> State s = RollingBackApplication \<and> ev_code e = EvRestarted \<Longrightarrow>
     ev_code e = completion (State s) \<and>
        ev_result e \<in> {GenericFailure, SystemInconsistent, PleaseCommitOrRollback} \<and>
        State s \<noteq> RollingBackApplication \<or>
       State s = RollingBackApplication \<and> ev_code e = EvRestarted \<Longrightarrow>
     diagram s e (s\<lparr>State := RollingBackApplication\<rparr>) (RunMender CmdRollback d EvRollbackFinished [])"
| reboot_again:
    "State s = Rebooting \<Longrightarrow> ev_code e = EvRestarted \<Longrightarrow> diagram s e s (RunReboot d)"
| rebooted:
    "State s = Rebooting \<Longrightarrow> ev_code e = EvRebootFinished \<Longrightarrow> ev_success e \<Longrightarrow>
     CurrentEntityType s \<noteq> EntityCoreOSCustomization \<Longrightarrow>
     diagram s e (s\<lparr>State := Committing\<rparr>) (RunMender CmdCommit d EvCommitFinished [])"
| verify_customization:
    "State s = Rebooting \<and> ev_code e = EvRebootFinished \<and> ev_success e \<and>
       CurrentEntityType s = EntityCoreOSCustomization \<or>
     State s = VerifyingCustomization \<and> ev_code e = EvRestarted \<Longrightarrow>
     diagram s e (s\<lparr>State := VerifyingCustomization\<rparr>) RunVerification"
| verified:
    "State s = VerifyingCustomization \<Longrightarrow> ev_code e = EvCustomizationVerified \<Longrightarrow> ev_success e \<Longrightarrow>
     diagram s e (s\<lparr>State := Committing\<rparr>) (RunMender CmdCommit d EvCommitFinished [])"
| roll_back_customization:
    "State s = VerifyingCustomization \<and> ev_code e = EvCustomizationVerified \<and> \<not> ev_success e \<or>
     State s = RollingBackCustomization \<and> ev_code e = EvRestarted \<Longrightarrow>
     diagram s e (s\<lparr>State := RollingBackCustomization\<rparr>) (RunMender CmdRollback d EvRollbackFinished [])"
| resume_commit:
    "State s = Committing \<Longrightarrow> ev_code e = EvRestarted \<Longrightarrow>
     diagram s e s (RunMender CmdResume d EvCommitFinished [])"
| commit_again:
    "State s = Committing \<Longrightarrow> ev_code e = EvCommitFinished \<Longrightarrow> ev_result e = InstalledButNotCommited \<Longrightarrow>
     diagram s e s (RunMender CmdCommit d EvCommitFinished [])"

text \<open>A handler step ends the job, or follows the diagram, or ignores an event that is not awaited.\<close>

definition follows :: "mender_pstate \<Rightarrow> mender_event \<Rightarrow> mender_step \<Rightarrow> bool" where
  "follows s e st \<longleftrightarrow> ends_job s st \<or> (\<exists>s' b. st = save_and_spawn b s' \<and> diagram s e s' b)"

lemma follows_end [simp, intro]: "follows s e (emitJobFinished ok m s)"
  unfolding follows_def ends_job_def by blast

lemma follows_diagram: "diagram s e s' b \<Longrightarrow> follows s e (save_and_spawn b s')"
  unfolding follows_def by blast

lemma end_any_state: "emitJobFinished ok m (s\<lparr>State := x\<rparr>) = emitJobFinished ok m s"
  by (simp add: emitJobFinished_def setIdle_def)

text \<open>The three recovery steps, from the installing handler called in either of its states.\<close>

definition install_state :: "mender_pstate \<Rightarrow> mender_pstate" where
  "install_state s = s\<lparr>State := Installing\<rparr>"

lemma follows_reinstall:
  assumes "State s \<in> {Installing, RecoverInstallCommitting}"
    and "State s = Installing \<and> ev_code e = EvRecoverFinished \<or> ev_code e = completion (State s) \<and>
      (ev_result e = NoUpdateInProgress \<or> CurrentEntityType s = EntityApplication \<and>
         ev_result e = FailedRolledBack \<and> (State s = Installing \<longrightarrow> ev_command e = CmdResume))"
  shows "follows s e (runMenderRecoveryInstallInBackGround (install_state s))"
proof (cases "reserveRecoveryAttempt s")
  case None
  then show ?thesis
    by (auto simp: runMenderRecoveryInstallInBackGround_def reserveRecoveryAttempt_def install_state_def
        end_any_state split: if_splits)
next
  case (Some s')
  then show ?thesis
    using diagram.reinstall[OF assms(1) _ assms(2), of updateTimeout]
    by (auto simp: runMenderRecoveryInstallInBackGround_def reserveRecoveryAttempt_def install_state_def
        runMenderInstallInBackGround_def maxApplicationRecoveryAttempts_def not_le
        intro!: follows_diagram split: if_splits)
qed

lemma follows_recover:
  assumes "State s \<in> {Installing, RecoverInstallCommitting, Committing}"
    and "ev_code e = completion (State s) \<and> ev_result e \<in> pending_results \<or>
       State s = RecoverInstallCommitting \<and> ev_code e = EvRestarted"
  shows "follows s e (startRecoverInstall (s\<lparr>State := x\<rparr>))"
  using diagram.recover[OF assms, of updateTimeout]
  by (auto simp: startRecoverInstall_def Let_def end_any_state resumeInstallArgs_def
      maxRecoveryOperations_def not_le intro!: follows_diagram split: if_splits)

lemma follows_app_rollback:
  assumes "State s \<in> {Installing, RecoverInstallCommitting, Committing, RollingBackApplication}"
    and "CurrentEntityType s = EntityApplication \<or> State s = RollingBackApplication \<and> ev_code e = EvRestarted"
    and "ev_code e = completion (State s) \<and>
        ev_result e \<in> {GenericFailure, SystemInconsistent, PleaseCommitOrRollback} \<and>
        State s \<noteq> RollingBackApplication \<or> State s = RollingBackApplication \<and> ev_code e = EvRestarted"
  shows "follows s e (startApplicationRollback w (s\<lparr>State := x\<rparr>))"
  using diagram.roll_back_application[OF assms]
  by (auto simp: startApplicationRollback_def Let_def runMenderRollbackInBackGround_def intro!: follows_diagram)

lemma follows_install_finished:
  assumes "State s \<in> {Installing, RecoverInstallCommitting}" "ev_code e = completion (State s)"
    and "ev_result e' = ev_result e"
  shows "follows s e (handleInstallFinished w e' (install_state s))"
proof -
  have app: "follows s e (startApplicationRollback w (install_state s))"
    if "CurrentEntityType s = EntityApplication" "ev_result e \<in> {GenericFailure, SystemInconsistent}"
    unfolding install_state_def by (rule follows_app_rollback) (use assms that in auto)
  have rec: "follows s e (startRecoverInstall (install_state s))" if "ev_result e \<in> pending_results"
    unfolding install_state_def by (rule follows_recover) (use assms that in auto)
  have post: "follows s e (startPostInstallStep w (install_state s))"
    if "ev_result e = InstalledButNotCommited"
    using installed_application[OF assms(1,2)] installed_core_os[OF assms(1,2)] that
    by (auto simp: startPostInstallStep_def install_state_def Let_def runRebootInBackGround_def
        runMenderCommitInBackGround_def intro!: follows_diagram) (cases "CurrentEntityType s", auto)
  have fin: "follows s e (emitJobFinished ok m (install_state s))" for ok m
    by (simp add: install_state_def end_any_state)
  show ?thesis
    using app rec post fin unfolding handleInstallFinished_def maybeRecoverApplication_def assms(3)
    by (cases "ev_result e") (auto simp: pending_results_def install_state_def)
qed

lemma follows_installing:
  assumes "handleInstallingEvent w e' (install_state s) = Some st" "ev_code e' = EvInstallFinished"
    and "State s \<in> {Installing, RecoverInstallCommitting}" "ev_code e = completion (State s)"
    and "ev_result e' = ev_result e" "State s = Installing \<longrightarrow> ev_command e' = ev_command e"
  shows "follows s e st"
proof -
  have fin: "follows s e (emitJobFinished ok m (install_state s))" for ok m
    by (simp add: install_state_def end_any_state)
  show ?thesis
    using assms fin follows_reinstall[OF assms(3), of e] follows_install_finished[OF assms(3-5)]
    by (auto simp: handleInstallingEvent_def resumedApplicationInstallRolledBack_def install_state_def
        split: if_splits option.splits bool.splits)
qed

lemma install_state_id: "State s = Installing \<Longrightarrow> install_state s = s"
  by (simp add: install_state_def)

lemma state_id: "State s = x \<Longrightarrow> s\<lparr>State := x\<rparr> = s"
  by auto

lemma follows_handleInstalling:
  assumes "State s = Installing" "handleInstallingEvent w e s = Some st" "expected Installing (ev_code e)"
  shows "follows s e st"
proof (cases "ev_code e = EvInstallFinished")
  case True
  then show ?thesis using follows_installing[of w e s st e] assms by (simp add: install_state_id)
next
  case False
  then show ?thesis
    using assms follows_reinstall[of s e]
    by (auto simp: handleInstallingEvent_def runInterruptedInstallInBackground_def install_state_id
        expected_def intro!: follows_diagram diagram.resume_install split: if_splits)
qed

lemma follows_handleRecover:
  assumes "State s = RecoverInstallCommitting" "handleRecoverInstallCommittingEvent w e s = Some st"
    "expected RecoverInstallCommitting (ev_code e)"
  shows "follows s e st"
  using assms follows_installing[of w _ s st e] follows_recover[of s e RecoverInstallCommitting]
  by (auto simp: handleRecoverInstallCommittingEvent_def install_state_def state_id expected_def)

lemma follows_handleCommitting:
  assumes s: "State s = Committing" and "handleCommittingEvent w e s = Some st"
    "expected Committing (ev_code e)"
  shows "follows s e st"
  using assms follows_recover[of s e Committing] follows_app_rollback[of s e w Committing]
  by (auto simp: handleCommittingEvent_def handle_commit_result_def runMenderCommitInBackGround_def
      state_id pending_results_def expected_def
      intro!: follows_diagram diagram.resume_commit diagram.commit_again
      split: if_splits option.splits bool.splits)

lemma follows_HandleEvent:
  assumes "HandleEvent w e s = Some st" "expected (State s) (ev_code e)"
  shows "follows s e st"
proof (cases "State s")
  case VerifyingCustomization
  then show ?thesis using assms diagram.verify_customization[of s e]
    by (auto simp: HandleEvent_def handleVerifyingCustomizationEvent_def Let_def state_id expected_def
        runCustomizationStatusVerificationInBackground_def runMenderCommitInBackGround_def
        runMenderRollbackInBackGround_def
        intro!: follows_diagram diagram.verified diagram.roll_back_customization split: if_splits)
next
  case Rebooting
  then show ?thesis using assms
    by (auto simp: HandleEvent_def handleRebootingEvent_def Let_def expected_def
        runCustomizationStatusVerificationInBackground_def runMenderCommitInBackGround_def
        runRebootInBackGround_def
        intro!: follows_diagram diagram.reboot_again diagram.rebooted diagram.verify_customization
        split: if_splits)
next
  case RollingBackApplication
  then show ?thesis using assms follows_app_rollback[of s e w RollingBackApplication]
    by (auto simp: HandleEvent_def handleRollingBackApplicationEvent_def state_id expected_def
        split: if_splits)
next
  case RollingBackCustomization
  then show ?thesis using assms diagram.roll_back_customization[of s e]
    by (auto simp: HandleEvent_def handleRollingBackCustomizationEvent_def state_id expected_def
        runMenderRollbackInBackGround_def intro!: follows_diagram split: if_splits)
qed (use assms follows_handleInstalling follows_handleRecover follows_handleCommitting
     in \<open>auto simp: HandleEvent_def expected_def\<close>)

lemma unexpected_ignored:
  assumes "\<not> expected (State s) (ev_code e)"
  shows "HandleEvent w e s = Some (s, [])"
  using assms
  by (cases "State s"; cases "ev_code e") (simp_all add: HandleEvent_def handler_defs expected_def)

text \<open>What a step of the diagram keeps and what it starts.\<close>

lemma diagram_awaited: "diagram s e s' b \<Longrightarrow> awaited (State s') b"
  by (induction rule: diagram.induct) auto

lemma diagram_job_kept: "diagram s e s' b \<Longrightarrow> job_kept s s'"
  by (induction rule: diagram.induct) (auto simp: job_kept_def)

lemma awaited_not_idle: "awaited st b \<Longrightarrow> st \<noteq> Idle"
  by auto

lemma diagram_expected: "diagram s e s' b \<Longrightarrow> expected (State s) (ev_code e)"
  by (induction rule: diagram.induct) (auto simp: expected_def)

section \<open>The machine as an update engine\<close>

definition start_job :: "entity_type \<times> string \<times> string \<times> int \<Rightarrow> mender_pstate \<Rightarrow> mender_step option" where
  "start_job j s =
     (case j of (t, artifact, name, d) \<Rightarrow>
        (case StartUpdateJob t artifact name d s of Inl _ \<Rightarrow> None | Inr st \<Rightarrow> Some st))"

fun is_report :: "effect \<Rightarrow> bool" where
  "is_report (EmitEvent e) \<longleftrightarrow> ev_code e = EvJobFinished"
| "is_report _ \<longleftrightarrow> False"

lemma end_reports:
  "filter is_report (snd (emitJobFinished ok m s)) = [EmitEvent (job_event ok m)]"
  by (simp add: emitJobFinished_def setIdle_def job_event_def blank_event_def)

lemma spawn_reports: "filter is_report (snd (save_and_spawn b s)) = []"
  by (simp add: save_and_spawn_def)

text \<open>The three kinds of steps, with whether the machine is idle before and after.\<close>

lemma HandleEvent_cases:
  assumes "HandleEvent w e s = Some st"
  obtains (ignored) "st = (s, [])"
  | (ended) ok m where "st = emitJobFinished ok m s" "State s \<noteq> Idle"
  | (moved) s' b where "st = save_and_spawn b s'" "State s \<noteq> Idle" "awaited (State s') b"
proof (cases "expected (State s) (ev_code e)")
  case True
  then have "State s \<noteq> Idle" by (simp add: expected_def)
  then show ?thesis
    using follows_HandleEvent[OF assms True] ended moved diagram_awaited
    by (auto simp: follows_def ends_job_def)
next
  case False
  then show ?thesis using unexpected_ignored[OF False] assms ignored by simp
qed

interpretation mender_engine: update_engine IsIdle start_job HandleEvent is_report
proof
  fix j and s s' :: mender_pstate and xs w e
  show "start_job j s = None \<longleftrightarrow> \<not> IsIdle s"
    by (auto simp: start_job_def StartUpdateJob_def IsIdle_def split: prod.splits)
  show "\<not> IsIdle s' \<and> filter is_report xs = []" if "start_job j s = Some (s', xs)"
    using that
    by (auto simp: start_job_def StartUpdateJob_def runMenderInstallInBackGround_def save_and_spawn_def
        IsIdle_def split: prod.splits if_splits)
  show "length (filter is_report xs) + (if IsIdle s' then 0 else 1) = (if IsIdle s then 0 else 1)"
    if "HandleEvent w e s = Some (s', xs)"
    using that
  proof (cases rule: HandleEvent_cases)
    case (ended ok m)
    then have "s' = idle_pstate" "xs = snd (emitJobFinished ok m s)"
      by (metis fst_conv emitJobFinished_def setIdle_def split_conv, metis snd_conv)
    then show ?thesis using ended end_reports by (simp add: IsIdle_def idle_pstate_def)
  next
    case (moved s'' b)
    then have "s' = s''" "xs = snd (save_and_spawn b s'')" by (auto simp: save_and_spawn_def)
    then show ?thesis using moved spawn_reports awaited_not_idle by (simp add: IsIdle_def)
  qed auto
qed

end
