(* ===== verification/Transition.thy ===== *)
theory Transition
  imports Main
begin

text \<open>
  Step relations: reachable states, runs of a given length, and two contracts. An invariant holds
  at the start and is kept by every step; a rank is a number that every step lowers, so that runs are bounded.
\<close>

inductive reach :: "('s \<Rightarrow> bool) \<Rightarrow> ('s \<Rightarrow> 's \<Rightarrow> bool) \<Rightarrow> 's \<Rightarrow> bool"
  for start :: "'s \<Rightarrow> bool" and step :: "'s \<Rightarrow> 's \<Rightarrow> bool" where
  reach_start: "start s \<Longrightarrow> reach start step s"
| reach_step: "reach start step s \<Longrightarrow> step s t \<Longrightarrow> reach start step t"

inductive steps :: "('s \<Rightarrow> 's \<Rightarrow> bool) \<Rightarrow> nat \<Rightarrow> 's \<Rightarrow> 's \<Rightarrow> bool"
  for step :: "'s \<Rightarrow> 's \<Rightarrow> bool" where
  steps_zero: "steps step 0 s s"
| steps_Suc: "steps step n s t \<Longrightarrow> step t u \<Longrightarrow> steps step (Suc n) s u"

inductive_cases steps_SucE: "steps step (Suc n) s u"

lemma steps_reach: "steps step n s t \<Longrightarrow> start s \<Longrightarrow> reach start step t"
  by (induction rule: steps.induct) (auto intro: reach.intros)

lemma reach_mono: "reach start step s \<Longrightarrow> (\<And>x y. step x y \<Longrightarrow> step' x y) \<Longrightarrow> reach start step' s"
  by (induction rule: reach.induct) (auto intro: reach.intros)

locale invariant_system =
  fixes start :: "'s \<Rightarrow> bool" and step :: "'s \<Rightarrow> 's \<Rightarrow> bool" and inv :: "'s \<Rightarrow> bool"
  assumes inv_start: "start s \<Longrightarrow> inv s"
    and inv_step: "inv s \<Longrightarrow> step s t \<Longrightarrow> inv t"
begin

lemma reach_inv: "reach start step s \<Longrightarrow> inv s"
  by (induction rule: reach.induct) (auto intro: inv_start inv_step)

lemma steps_inv: "steps step n s t \<Longrightarrow> inv s \<Longrightarrow> inv t"
  by (induction rule: steps.induct) (auto intro: inv_step)

end

locale ranked_system = invariant_system start step inv
  for start :: "'s \<Rightarrow> bool" and step :: "'s \<Rightarrow> 's \<Rightarrow> bool" and inv :: "'s \<Rightarrow> bool" +
  fixes progress :: "'s \<Rightarrow> 's \<Rightarrow> bool" and rank :: "'s \<Rightarrow> nat"
  assumes progress_step: "progress s t \<Longrightarrow> step s t"
    and rank_decreases: "inv s \<Longrightarrow> progress s t \<Longrightarrow> rank t < rank s"
begin

lemma progress_inv: "steps progress n s t \<Longrightarrow> inv s \<Longrightarrow> inv t"
  by (induction rule: steps.induct) (auto intro: inv_step progress_step)

lemma run_bound: "steps progress n s t \<Longrightarrow> inv s \<Longrightarrow> n + rank t \<le> rank s"
proof (induction rule: steps.induct)
  case (steps_Suc n s t u)
  then have "rank u < rank t" using progress_inv rank_decreases by blast
  then show ?case using steps_Suc by simp
qed simp

end

end
