(* ===== verification/Mender_Jobs.thy ===== *)
theory Mender_Jobs
  imports Mender_Diagram Transition
begin

text \<open>
  The runs of one job: the state machine together with the background work that it starts, with
  restarts of the server at any point. The invariants bound the recovery, order installation,
  reboot, health check and commit, and a rank bounds the length of a run between restarts.
\<close>

section \<open>Runs of one job\<close>

text \<open>The event that a background operation can end with. A reboot that works emits none.\<close>

inductive bg_event :: "background \<Rightarrow> mender_event \<Rightarrow> bool" where
  mender_ends: "bg_event (RunMender c d code args) (runMenderCommand c code args r)"
| reboot_fails: "reboot_outcome r = Some e \<Longrightarrow> bg_event (RunReboot d) e"
| verification_ends: "verification_loop w polls 0 = Some e \<Longrightarrow> bg_event RunVerification e"

inductive_cases bg_MenderE: "bg_event (RunMender c d code args) e"
inductive_cases bg_RebootE: "bg_event (RunReboot d) e"
inductive_cases bg_VerifyE: "bg_event RunVerification e"

fun spawned :: "effect list \<Rightarrow> background list" where
  "spawned [] = []"
| "spawned (Spawn b # es) = b # spawned es"
| "spawned (_ # es) = spawned es"

lemma spawned_end [simp]: "spawned (snd (emitJobFinished ok m s)) = []"
  by (simp add: emitJobFinished_def setIdle_def)

lemma fst_end [simp]: "fst (emitJobFinished ok m s) = idle_pstate"
  by (simp add: emitJobFinished_def setIdle_def)

lemma save_and_spawn_simps [simp]:
  "fst (save_and_spawn b s) = s" "spawned (snd (save_and_spawn b s)) = [b]"
  by (simp_all add: save_and_spawn_def)

datatype moment = Ran background | Got mender_event

text \<open>
  A job under way: the saved state, the background work (none when the job has ended) and
  what happened so far, the latest first.
\<close>

record job =
  pstate :: mender_pstate
  pending :: "background option"
  history :: "moment list"

definition after :: "job \<Rightarrow> mender_event \<Rightarrow> mender_step \<Rightarrow> job" where
  "after j e st =
     \<lparr>pstate = fst st,
      pending = (case spawned (snd st) of [] \<Rightarrow> None | b # bs \<Rightarrow> Some b),
      history = map Ran (spawned (snd st)) @ Got e # history j\<rparr>"

definition job_start :: "job \<Rightarrow> bool" where
  "job_start j \<longleftrightarrow>
     (\<exists>t artifact name d st. StartUpdateJob t artifact name d idle_pstate = Inr st \<and>
        pstate j = fst st \<and> [pending j] = map Some (spawned (snd st)) \<and>
        history j = map Ran (spawned (snd st)))"

text \<open>
  The background work ends with an event that the machine handles, or the server restarts; then the
  background work is lost and the event of \<open>newMenderManager\<close> is handled.
\<close>

inductive job_step :: "job \<Rightarrow> job \<Rightarrow> bool" where
  work_ends:
    "pending j = Some b \<Longrightarrow> bg_event b e \<Longrightarrow> HandleEvent w e (pstate j) = Some st \<Longrightarrow>
     job_step j (after j e st)"
| server_restarts:
    "e = newMenderManager hasRebooted (pstate j) \<Longrightarrow> HandleEvent w e (pstate j) = Some st \<Longrightarrow>
     job_step j (after j e st)"

text \<open>A step of a job that no server restart interrupts; the reboot that the job asked for counts as one.\<close>

inductive job_progress :: "job \<Rightarrow> job \<Rightarrow> bool" where
  work_ends':
    "pending j = Some b \<Longrightarrow> bg_event b e \<Longrightarrow> HandleEvent w e (pstate j) = Some st \<Longrightarrow>
     job_progress j (after j e st)"
| system_rebooted:
    "State (pstate j) = Rebooting \<Longrightarrow> e = newMenderManager True (pstate j) \<Longrightarrow>
     HandleEvent w e (pstate j) = Some st \<Longrightarrow> job_progress j (after j e st)"

lemma job_progress_step: "job_progress j j' \<Longrightarrow> job_step j j'"
  by (induction rule: job_progress.induct) (auto intro: job_step.intros)

section \<open>The health check of a customization\<close>

text \<open>What the loop does after one poll: it ends with an event, or polls again.\<close>

definition poll_decision :: "world \<Rightarrow> cmd_result \<times> bool \<Rightarrow> mender_event option" where
  "poll_decision w p =
     (case poll_status w (fst p) of
        Some e \<Rightarrow> Some e
      | None \<Rightarrow>
          if snd p
          then Some (verified_event False ''Timed out waiting for Core OS customization health checks'')
          else None)"

lemma verification_loop_unfold:
  "verification_loop w polls i =
     (case poll_decision w (polls i) of Some e \<Rightarrow> Some e | None \<Rightarrow> verification_loop w polls (Suc i))"
  by (subst verification_loop.simps) (simp add: poll_decision_def split: option.split)

lemma verification_loop_decides:
  "poll_decision w (polls (i + n)) = Some e \<Longrightarrow> \<forall>k < n. poll_decision w (polls (i + k)) = None \<Longrightarrow>
   verification_loop w polls i = Some e"
proof (induction n arbitrary: i)
  case 0
  then show ?case by (subst verification_loop_unfold) simp
next
  case (Suc n)
  have "poll_decision w (polls i) = None" using Suc.prems(2)[rule_format, of 0] by simp
  moreover have "verification_loop w polls (Suc i) = Some e"
  proof (rule Suc.IH)
    show "\<forall>k<n. poll_decision w (polls (Suc i + k)) = None"
    proof (intro allI impI)
      fix k assume "k < n"
      then show "poll_decision w (polls (Suc i + k)) = None" using Suc.prems(2)[rule_format, of "Suc k"] by simp
    qed
  qed (use Suc.prems(1) in simp)
  ultimately show ?case by (subst verification_loop_unfold) simp
qed

lemma verification_loop_decided:
  assumes "verification_loop w polls i = Some e"
  shows "\<exists>n. poll_decision w (polls n) = Some e"
  using _ assms
proof (rule verification_loop.raw_induct[where P = "\<lambda>w polls i e. \<exists>n. poll_decision w (polls n) = Some e"])
  fix vl w polls i e
  assume IH: "\<And>w polls i e. vl w polls i = Some e \<Longrightarrow> \<exists>n. poll_decision w (polls n) = Some e"
    and body: "(case poll_status w (fst (polls i)) of Some e \<Rightarrow> Some e
      | None \<Rightarrow> if snd (polls i)
          then Some (verified_event False ''Timed out waiting for Core OS customization health checks'')
          else vl w polls (Suc i)) = Some e"
  show "\<exists>n. poll_decision w (polls n) = Some e"
  proof (cases "poll_decision w (polls i)")
    case None
    then have "vl w polls (Suc i) = Some e"
      using body by (auto simp: poll_decision_def split: option.splits if_splits)
    then show ?thesis by (rule IH)
  next
    case (Some e')
    then have "poll_decision w (polls i) = Some e"
      using body by (auto simp: poll_decision_def split: option.splits if_splits)
    then show ?thesis by blast
  qed
qed

lemma verified_event_simps [simp]:
  "ev_code (verified_event ok m) = EvCustomizationVerified" "ev_success (verified_event ok m) = ok"
  by (simp_all add: verified_event_def blank_event_def)

lemma verification_event:
  "verification_loop w polls i = Some e \<Longrightarrow> ev_code e = EvCustomizationVerified"
  by (drule verification_loop_decided)
    (auto simp: poll_decision_def poll_status_def split: option.splits sum.splits prod.splits if_splits)

lemma reboot_event: "reboot_outcome r = Some e \<Longrightarrow> ev_code e = EvRebootFinished \<and> \<not> ev_success e"
  by (auto simp: reboot_outcome_def emitRebootFinished_def blank_event_def split: option.splits)

lemma run_event_simps [simp]:
  "ev_code (runMenderCommand c code args r) = code" "ev_command (runMenderCommand c code args r) = c"
  by (simp_all add: runMenderCommand_def Let_def)

lemma run_event_result: "ev_result (runMenderCommand c code args r) \<in> command_results c"
  by (simp add: runMenderCommand_def Let_def classification_results)

lemma bg_event_code: "awaited st b \<Longrightarrow> bg_event b e \<Longrightarrow> ev_code e = completion st"
  by (cases st; cases b)
    (auto elim!: bg_MenderE bg_RebootE bg_VerifyE dest: reboot_event verification_event)

section \<open>Invariants of a job\<close>

definition wf_job :: "job \<Rightarrow> bool" where
  "wf_job j \<longleftrightarrow>
     (case pending j of
        None \<Rightarrow> pstate j = idle_pstate
      | Some b \<Rightarrow> awaited (State (pstate j)) b) \<and>
     RecoveryOperations (pstate j) \<le> 2 \<and>
     (CurrentEntityType (pstate j) = EntityApplication \<longrightarrow> RecoveryAttempts (pstate j) \<le> 1)"

definition event_of :: "job \<Rightarrow> mender_event \<Rightarrow> bool" where
  "event_of j e \<longleftrightarrow> (\<exists>b. pending j = Some b \<and> bg_event b e) \<or>
     (\<exists>hasRebooted. e = newMenderManager hasRebooted (pstate j))"

text \<open>A step ends the job (or finds it ended), or follows the diagram.\<close>

lemma after_step:
  assumes "wf_job j" "HandleEvent w e (pstate j) = Some st" "event_of j e"
  obtains (ended) "after j e st = \<lparr>pstate = idle_pstate, pending = None, history = Got e # history j\<rparr>"
  | (moved) s' b where "diagram (pstate j) e s' b"
      "after j e st = \<lparr>pstate = s', pending = Some b, history = Ran b # Got e # history j\<rparr>"
proof (cases "pending j")
  case None
  then have "pstate j = idle_pstate" using assms(1) by (simp add: wf_job_def)
  then have "st = (idle_pstate, [])" using assms(2) by (simp add: HandleEvent_def idle_pstate_def)
  then show ?thesis by (intro ended) (simp add: after_def)
next
  case (Some b)
  then have b: "awaited (State (pstate j)) b" using assms(1) by (simp add: wf_job_def)
  then have "ev_code e = EvRestarted \<or> ev_code e = completion (State (pstate j))"
    using assms(3) Some bg_event_code
    by (auto simp: event_of_def newMenderManager_def emitRebootFinished_def blank_event_def)
  then have "expected (State (pstate j)) (ev_code e)"
    using awaited_not_idle[OF b] by (auto simp: expected_def)
  then have "follows (pstate j) e st" using follows_HandleEvent assms(2) by blast
  then consider "ends_job (pstate j) st"
    | s' b' where "st = save_and_spawn b' s'" "diagram (pstate j) e s' b'"
    unfolding follows_def by blast
  then show ?thesis
  proof cases
    case 1
    then show ?thesis by (intro ended) (auto simp: after_def ends_job_def)
  next
    case 2
    then show ?thesis by (intro moved) (auto simp: after_def save_and_spawn_def)
  qed
qed

lemma job_step_event:
  assumes "job_step j j'"
  obtains w e st where "HandleEvent w e (pstate j) = Some st" "event_of j e" "j' = after j e st"
  using assms
proof cases
  case (work_ends b e w st)
  show ?thesis by (rule that[OF work_ends(4)]) (use work_ends in \<open>auto simp: event_of_def\<close>)
next
  case (server_restarts e hasRebooted w st)
  show ?thesis by (rule that[OF server_restarts(3)]) (use server_restarts in \<open>auto simp: event_of_def\<close>)
qed

lemma job_start_simps:
  assumes "job_start j"
  obtains t artifact name d b where
    "b = RunMender CmdInstall d EvInstallFinished [artifact]"
    "j = \<lparr>pstate = \<lparr>State = Installing, CurrentArtifact = artifact, CurrentEntityType = t,
        CurrentEntityName = name, RecoveryOperations = 0, RecoveryAttempts = 0\<rparr>,
      pending = Some b, history = [Ran b]\<rparr>"
proof -
  obtain t artifact name d st where 1: "StartUpdateJob t artifact name d idle_pstate = Inr st"
    "pstate j = fst st" "[pending j] = map Some (spawned (snd st))" "history j = map Ran (spawned (snd st))"
    using assms unfolding job_start_def by (elim exE conjE)
  show thesis
    by (rule that[of _ d artifact t name, OF refl], rule job.equality)
      (use 1 in \<open>auto simp: StartUpdateJob_def idle_pstate_def runMenderInstallInBackGround_def\<close>)
qed

lemma diagram_budget:
  assumes "diagram s e s' b" "RecoveryOperations s \<le> 2"
    "CurrentEntityType s = EntityApplication \<longrightarrow> RecoveryAttempts s \<le> 1"
  shows "RecoveryOperations s' \<le> 2 \<and>
    (CurrentEntityType s' = EntityApplication \<longrightarrow> RecoveryAttempts s' \<le> 1)"
  using assms
proof (induction rule: diagram.induct)
  case (reinstall s e d)
  then have "CurrentEntityType s = EntityApplication \<longrightarrow> RecoveryAttempts s + 1 \<le> 1"
    using inc_le[of "RecoveryAttempts s" 1] by blast
  then show ?case using reinstall by simp
next
  case (recover s e d)
  then show ?case using inc_le[of "RecoveryOperations s" 2] by simp
qed auto

interpretation jobs: invariant_system job_start job_step wf_job
proof
  fix j assume "job_start j"
  then show "wf_job j" by (auto elim!: job_start_simps simp: wf_job_def)
next
  fix j j' assume j: "wf_job j" and "job_step j j'"
  then obtain w e st where 1: "HandleEvent w e (pstate j) = Some st" "event_of j e" "j' = after j e st"
    by (blast elim: job_step_event)
  show "wf_job j'"
  proof (cases rule: after_step[OF j 1(1,2)])
    case 1
    then show ?thesis using \<open>j' = after j e st\<close> by (simp add: wf_job_def idle_pstate_def)
  next
    case (2 s' b)
    then show ?thesis
      using j \<open>j' = after j e st\<close> diagram_awaited[OF 2(1)] diagram_budget[OF 2(1)]
      by (auto simp: wf_job_def)
  qed
qed

section \<open>Termination\<close>

text \<open>How far a job is from its end, for the work that it waits for.\<close>

fun work_rank :: "mender_state \<Rightarrow> background \<Rightarrow> nat" where
  "work_rank Installing (RunMender c d code args) = (if c = CmdResume then 6 else 5)"
| "work_rank RecoverInstallCommitting b = 6"
| "work_rank Rebooting b = 4"
| "work_rank VerifyingCustomization b = 3"
| "work_rank Committing (RunMender c d code args) = (if c = CmdResume then 3 else 2)"
| "work_rank _ _ = 1"

definition job_rank :: "job \<Rightarrow> nat" where
  "job_rank j =
     (case pending j of
        None \<Rightarrow> 0
      | Some b \<Rightarrow> 6 * (2 - unat (RecoveryOperations (pstate j))) + work_rank (State (pstate j)) b)"

lemma work_rank_pos: "0 < work_rank st b"
  by (cases st; cases b) auto

lemma work_rank_le: "work_rank st b \<le> 6"
  by (cases st; cases b) auto

lemma job_rank_bound: "job_rank j \<le> 18"
  using work_rank_le by (auto simp: job_rank_def split: option.split intro: add_le_mono[of _ 12 _ 6, simplified])

text \<open>The command that a completion event belongs to, and the results it can have.\<close>

lemma mender_completion:
  assumes "awaited st b" "bg_event b e" "st \<notin> {Rebooting, VerifyingCustomization}"
  obtains c d code args where "b = RunMender c d code args" "ev_command e = c"
    "ev_result e \<in> command_results c"
proof -
  obtain c d code args where b: "b = RunMender c d code args"
    using assms(1,3) by (cases st; cases b) auto
  then obtain r where "e = runMenderCommand c code args r" using assms(2) by (blast elim: bg_MenderE)
  then show thesis using that[OF b] run_event_simps run_event_result by blast
qed

lemma recovery_count:
  assumes "w < (2 :: 64 word)"
  shows "unat (w + 1) = unat w + 1"
proof -
  have "unat w < 2" using assms by (simp add: word_less_nat_alt)
  then have "unat w + 1 < 2 ^ 64" by simp
  then show ?thesis using unat_add_lem[of w 1] by simp
qed

lemma diagram_rank:
  assumes "diagram s e s' b" "awaited (State s) b0"
    and "bg_event b0 e \<or> State s = Rebooting \<and> ev_code e = EvRebootFinished"
  shows "6 * (2 - unat (RecoveryOperations s')) + work_rank (State s') b <
    6 * (2 - unat (RecoveryOperations s)) + work_rank (State s) b0"
proof -
  have c: "ev_code e = completion (State s)" using assms(2,3) bg_event_code by auto
  have res: "\<exists>cm d code args. b0 = RunMender cm d code args \<and> ev_command e = cm \<and>
      ev_result e \<in> command_results cm" if "State s \<notin> {Rebooting, VerifyingCustomization}"
  proof -
    have "bg_event b0 e" using assms(3) that by auto
    then show ?thesis using mender_completion[OF assms(2) _ that, of e] by metis
  qed
  show ?thesis using assms(1) c res assms(2)
  proof (induction rule: diagram.induct)
    case (recover s e d)
    have "unat (RecoveryOperations s + 1) = unat (RecoveryOperations s) + 1"
      using recover(3) by (rule recovery_count)
    moreover have "unat (RecoveryOperations s) < 2" using recover(3) by (simp add: word_less_nat_alt)
    ultimately show ?case using work_rank_pos[of "State s" b0] by simp
  next
    case (reinstall s e d)
    then obtain cm d code args where b0: "b0 = RunMender cm d code args" "ev_command e = cm"
      "ev_result e \<in> command_results cm" by auto
    have "cm = CmdResume"
      using reinstall b0 by (cases cm) (auto simp: failure_classes_def)
    then show ?case using reinstall b0 by auto
  next
    case (commit_again s e d)
    then obtain cm d code args where b0: "b0 = RunMender cm d code args" "ev_command e = cm"
      "ev_result e \<in> command_results cm" by auto
    have "cm = CmdResume" using commit_again b0 by (cases cm) (auto simp: failure_classes_def)
    then show ?case using commit_again b0 by auto
  qed (auto split: if_splits)
qed

lemma job_progress_rank:
  assumes "wf_job j" "job_progress j j'"
  shows "job_rank j' < job_rank j"
proof -
  obtain w e st b0 where 1: "HandleEvent w e (pstate j) = Some st" "event_of j e" "j' = after j e st"
    and b0: "pending j = Some b0" "awaited (State (pstate j)) b0"
      "bg_event b0 e \<or> State (pstate j) = Rebooting \<and> ev_code e = EvRebootFinished"
    using assms(2)
  proof cases
    case (work_ends' b e w st)
    show ?thesis
      by (rule that[OF work_ends'(4) _ work_ends'(1) work_ends'(2)])
        (use work_ends' assms(1) in \<open>auto simp: event_of_def wf_job_def\<close>)
  next
    case (system_rebooted e w st)
    then obtain b where b: "pending j = Some b" "awaited (State (pstate j)) b"
      using assms(1) by (auto simp: wf_job_def idle_pstate_def split: option.splits)
    show ?thesis
      by (rule that[OF system_rebooted(4) _ system_rebooted(1) b])
        (use system_rebooted in \<open>auto simp: event_of_def newMenderManager_def emitRebootFinished_def
          blank_event_def\<close>)
  qed
  have pos: "0 < job_rank j" using b0(1) work_rank_pos by (simp add: job_rank_def)
  show ?thesis
  proof (cases rule: after_step[OF assms(1) 1(1,2)])
    case 1
    then show ?thesis using pos \<open>j' = _\<close> by (simp add: job_rank_def)
  next
    case (2 s' b)
    then show ?thesis
      using diagram_rank[OF 2(1) b0(2,3)] \<open>j' = _\<close> b0(1) by (simp add: job_rank_def)
  qed
qed

interpretation jobs: ranked_system job_start job_step wf_job job_progress job_rank
  by unfold_locales (simp_all add: job_progress_step job_progress_rank)

text \<open>A job that is not ended waits for work, and goes on when this work ends.\<close>

lemma job_goes_on:
  assumes "wf_job j" "pending j = Some b" "bg_event b e"
    and "currentArtifactIsDeployed w (pstate j) \<noteq> None"
    and "currentArtifactIsDeployed w (install_state (pstate j)) \<noteq> None"
  shows "\<exists>st. HandleEvent w e (pstate j) = Some st"
  using assms
  by (auto simp: HandleEvent_def handler_defs install_state_def
      split: mender_state.split event_code.split bool.splits)

section \<open>The order of install, reboot, health check and commit\<close>

definition stop_args :: "string list" where
  "stop_args = [''--stop-before'', ''ArtifactCommit_Enter'']"

fun is_install :: "moment \<Rightarrow> bool" where
  "is_install (Ran (RunMender c d code args)) \<longleftrightarrow> c = CmdInstall \<or> c = CmdResume \<and> args = stop_args"
| "is_install _ \<longleftrightarrow> False"

text \<open>The work that makes a rootfs or customization update permanent.\<close>

fun is_commit :: "moment \<Rightarrow> bool" where
  "is_commit (Ran (RunMender c d code args)) \<longleftrightarrow> c = CmdCommit \<or> c = CmdResume \<and> args \<noteq> stop_args"
| "is_commit _ \<longleftrightarrow> False"

fun is_reboot :: "moment \<Rightarrow> bool" where
  "is_reboot (Got e) \<longleftrightarrow> ev_code e = EvRebootFinished \<and> ev_success e"
| "is_reboot _ \<longleftrightarrow> False"

fun is_verified :: "moment \<Rightarrow> bool" where
  "is_verified (Got e) \<longleftrightarrow> ev_code e = EvCustomizationVerified \<and> ev_success e"
| "is_verified _ \<longleftrightarrow> False"

text \<open>What happened since the last installation.\<close>

definition since_install :: "moment list \<Rightarrow> moment list" where
  "since_install hs = takeWhile (\<lambda>h. \<not> is_install h) hs"

definition rebooted_since :: "moment list \<Rightarrow> bool" where
  "rebooted_since hs \<longleftrightarrow> list_ex is_reboot (since_install hs)"

definition verified_since :: "moment list \<Rightarrow> bool" where
  "verified_since hs \<longleftrightarrow> list_ex is_verified (since_install hs)"

definition ready_to_commit :: "entity_type \<Rightarrow> moment list \<Rightarrow> bool" where
  "ready_to_commit t hs \<longleftrightarrow>
     (t \<noteq> EntityApplication \<longrightarrow> rebooted_since hs) \<and> (t = EntityCoreOSCustomization \<longrightarrow> verified_since hs)"

fun commits_ready :: "entity_type \<Rightarrow> moment list \<Rightarrow> bool" where
  "commits_ready t [] \<longleftrightarrow> True"
| "commits_ready t (h # hs) \<longleftrightarrow> (is_commit h \<longrightarrow> ready_to_commit t hs) \<and> commits_ready t hs"

lemma since_simps [simp]:
  "rebooted_since (h # hs) \<longleftrightarrow> \<not> is_install h \<and> (is_reboot h \<or> rebooted_since hs)"
  "verified_since (h # hs) \<longleftrightarrow> \<not> is_install h \<and> (is_verified h \<or> verified_since hs)"
  by (auto simp: rebooted_since_def verified_since_def since_install_def)

definition state_ready :: "entity_type \<Rightarrow> mender_state \<Rightarrow> moment list \<Rightarrow> bool" where
  "state_ready t st hs \<longleftrightarrow>
     (st = Committing \<longrightarrow> ready_to_commit t hs) \<and>
     (st = VerifyingCustomization \<longrightarrow> t = EntityCoreOSCustomization \<and> rebooted_since hs)"

definition ordered_job :: "entity_type \<Rightarrow> job \<Rightarrow> bool" where
  "ordered_job t j \<longleftrightarrow> wf_job j \<and>
     (pending j \<noteq> None \<longrightarrow> CurrentEntityType (pstate j) = t \<and> state_ready t (State (pstate j)) (history j)) \<and>
     (t \<noteq> EntityApplication \<longrightarrow> commits_ready t (history j))"

lemma diagram_verifying:
  "diagram s e s' b \<Longrightarrow> State s' = VerifyingCustomization \<Longrightarrow>
   CurrentEntityType s = EntityCoreOSCustomization \<or> State s = VerifyingCustomization"
  by (induction rule: diagram.induct) auto

lemma diagram_ordered:
  assumes "diagram s e s' b" "state_ready (CurrentEntityType s) (State s) hs"
    "CurrentEntityType s \<noteq> EntityApplication"
  shows "state_ready (CurrentEntityType s) (State s') (Ran b # Got e # hs) \<and>
    (is_commit (Ran b) \<longrightarrow> ready_to_commit (CurrentEntityType s) (Got e # hs))"
  using assms
  by (induction rule: diagram.induct)
    (auto simp: state_ready_def ready_to_commit_def resumeInstallArgs_def stop_args_def)

text \<open>Steps of jobs of one entity type.\<close>

definition starts_as :: "entity_type \<Rightarrow> job \<Rightarrow> bool" where
  "starts_as t j \<longleftrightarrow> job_start j \<and> CurrentEntityType (pstate j) = t"

lemma job_moves:
  assumes "wf_job j" "job_step j j'"
  obtains (ended) e where "j' = \<lparr>pstate = idle_pstate, pending = None, history = Got e # history j\<rparr>"
  | (moved) e s' b where "diagram (pstate j) e s' b" "pending j \<noteq> None"
      "j' = \<lparr>pstate = s', pending = Some b, history = Ran b # Got e # history j\<rparr>"
proof -
  obtain w e st where 1: "HandleEvent w e (pstate j) = Some st" "event_of j e" "j' = after j e st"
    using assms(2) by (blast elim: job_step_event)
  show thesis
  proof (cases rule: after_step[OF assms(1) 1(1,2)])
    case 1
    then show ?thesis using ended \<open>j' = _\<close> by blast
  next
    case (2 s' b)
    moreover have "pending j \<noteq> None"
      using diagram_expected[OF 2(1)] assms(1) 
      by (auto simp: wf_job_def idle_pstate_def expected_def split: option.splits)
    ultimately show ?thesis using moved \<open>j' = _\<close> by blast
  qed
qed

lemma diagram_type: "diagram s e s' b \<Longrightarrow> CurrentEntityType s' = CurrentEntityType s"
  using diagram_job_kept by (simp add: job_kept_def)

interpretation ordered: invariant_system "starts_as t" job_step "ordered_job t" for t
proof
  fix j assume "starts_as t j"
  then have j: "job_start j" and t: "CurrentEntityType (pstate j) = t" by (simp_all add: starts_as_def)
  have "wf_job j" using jobs.inv_start[OF j] .
  then show "ordered_job t j" using t
    by (cases rule: job_start_simps[OF j]) (auto simp: ordered_job_def state_ready_def)
next
  fix j j' assume j: "ordered_job t j" and step: "job_step j j'"
  then have wf: "wf_job j" "wf_job j'" using jobs.inv_step by (auto simp: ordered_job_def)
  show "ordered_job t j'"
  proof (cases rule: job_moves[OF wf(1) step])
    case (1 e)
    then show ?thesis using j wf by (auto simp: ordered_job_def)
  next
    case (2 e s' b)
    then have t: "CurrentEntityType (pstate j) = t" "state_ready t (State (pstate j)) (history j)"
      using j by (auto simp: ordered_job_def)
    show ?thesis
    proof (cases "t = EntityApplication")
      case True
      then show ?thesis using 2 t wf diagram_type[OF 2(1)] diagram_verifying[OF 2(1)]
        by (auto simp: ordered_job_def state_ready_def ready_to_commit_def)
    next
      case False
      then show ?thesis using 2 t wf j diagram_type[OF 2(1)] diagram_ordered[OF 2(1)]
        by (auto simp: ordered_job_def)
    qed
  qed
qed

section \<open>The retry budget of an application\<close>

fun is_fresh_install :: "moment \<Rightarrow> bool" where
  "is_fresh_install (Ran (RunMender c d code args)) \<longleftrightarrow> c = CmdInstall"
| "is_fresh_install _ \<longleftrightarrow> False"

definition installs :: "moment list \<Rightarrow> nat" where
  "installs hs = length (filter is_fresh_install hs)"

definition budgeted_job :: "entity_type \<Rightarrow> job \<Rightarrow> bool" where
  "budgeted_job t j \<longleftrightarrow> wf_job j \<and>
     (pending j \<noteq> None \<longrightarrow> CurrentEntityType (pstate j) = t) \<and>
     (t = EntityApplication \<longrightarrow>
        installs (history j) \<le> 2 \<and>
        (pending j \<noteq> None \<longrightarrow> installs (history j) \<le> 1 + unat (RecoveryAttempts (pstate j))))"

lemma diagram_installs:
  "diagram s e s' b \<Longrightarrow> CurrentEntityType s = EntityApplication \<Longrightarrow>
   RecoveryAttempts s' = RecoveryAttempts s \<and> \<not> is_fresh_install (Ran b) \<or>
   RecoveryAttempts s = 0 \<and> RecoveryAttempts s' = 1"
  by (induction rule: diagram.induct) auto

interpretation budgeted: invariant_system "starts_as t" job_step "budgeted_job t" for t
proof
  fix j assume "starts_as t j"
  then have j: "job_start j" and t: "CurrentEntityType (pstate j) = t" by (simp_all add: starts_as_def)
  have "wf_job j" using jobs.inv_start[OF j] .
  then show "budgeted_job t j" using t
    by (cases rule: job_start_simps[OF j]) (auto simp: budgeted_job_def installs_def)
next
  fix j j' assume j: "budgeted_job t j" and step: "job_step j j'"
  then have wf: "wf_job j" "wf_job j'" using jobs.inv_step by (auto simp: budgeted_job_def)
  show "budgeted_job t j'"
  proof (cases rule: job_moves[OF wf(1) step])
    case (1 e)
    then show ?thesis using j wf by (auto simp: budgeted_job_def installs_def)
  next
    case (2 e s' b)
    then show ?thesis
      using j wf diagram_type[OF 2(1)] diagram_installs[OF 2(1)]
      by (cases "is_fresh_install (Ran b)") (auto simp: budgeted_job_def installs_def)
  qed
qed

end
