(* ===== verification/Mender_Properties.thy ===== *)
theory Mender_Properties
  imports Mender_Jobs
begin

text \<open>
  What the Mender state machine promises: the diagram it implements, the bound on a job, the order of
  reboot, health check and commit, the retry budgets, recovery after a restart, the evidence behind
  a reported success, and that a committed update is never undone.
\<close>

section \<open>Sample runs\<close>

definition command_ok :: "string \<Rightarrow> cmd_result" where
  "command_ok line = \<lparr>cr_stdout = line @ [newline], cr_stderr = [], cr_exit = 0, cr_err = None\<rparr>"

lemma installed_class:
  "menderUpdateResultFromOutput CmdInstall (''Installed, but not committed.'' @ [newline]) [] 0 None [''a.mender''] =
    InstalledButNotCommited"
  by code_simp

lemma committed_class_ok:
  "menderUpdateResultFromOutput CmdCommit (''Committed.'' @ [newline]) [] 0 None [] = Commited"
  by code_simp

definition sample_pstate :: "entity_type \<Rightarrow> mender_state \<Rightarrow> mender_pstate" where
  "sample_pstate t st = \<lparr>State = st, CurrentArtifact = ''a.mender'', CurrentEntityType = t,
     CurrentEntityName = ''demo'', RecoveryOperations = 0, RecoveryAttempts = 0\<rparr>"

definition installed_event :: mender_event where
  "installed_event = runMenderCommand CmdInstall EvInstallFinished [''a.mender'']
     (command_ok ''Installed, but not committed.'')"

definition committed_event :: mender_event where
  "committed_event = runMenderCommand CmdCommit EvCommitFinished [] (command_ok ''Committed.'')"

lemma sample_event_simps:
  "ev_code installed_event = EvInstallFinished" "ev_result installed_event = InstalledButNotCommited"
  "ev_code committed_event = EvCommitFinished" "ev_result committed_event = Commited"
  "ev_command installed_event = CmdInstall"
  using installed_class committed_class_ok
  by (simp_all add: installed_event_def committed_event_def runMenderCommand_def command_ok_def Let_def)

definition sample_install :: background where
  "sample_install = RunMender CmdInstall updateTimeout EvInstallFinished [''a.mender'']"

definition sample_job :: "entity_type \<Rightarrow> job" where
  "sample_job t = \<lparr>pstate = sample_pstate t Installing, pending = Some sample_install,
     history = [Ran sample_install]\<rparr>"

lemma sample_starts: "starts_as t (sample_job t)"
proof -
  have "StartUpdateJob t ''a.mender'' ''demo'' updateTimeout idle_pstate =
      Inr (save_and_spawn sample_install (sample_pstate t Installing))"
    by (simp add: StartUpdateJob_def idle_pstate_def sample_pstate_def sample_install_def
        runMenderInstallInBackGround_def)
  then show ?thesis
    unfolding starts_as_def job_start_def
    by (intro conjI exI[of _ t] exI[of _ "''a.mender''"] exI[of _ "''demo''"] exI[of _ updateTimeout]
        exI[of _ "save_and_spawn sample_install (sample_pstate t Installing)"])
      (simp_all add: sample_job_def sample_pstate_def)
qed

text \<open>An application: installed, then committed. A rootfs: installed, rebooted, to be committed.\<close>

definition sample_committing :: "entity_type \<Rightarrow> moment list \<Rightarrow> int \<Rightarrow> job" where
  "sample_committing t hs d =
     (let b = RunMender CmdCommit d EvCommitFinished [] in
      \<lparr>pstate = sample_pstate t Committing, pending = Some b, history = Ran b # hs\<rparr>)"

definition sample_app_committing :: job where
  "sample_app_committing = sample_committing EntityApplication
     (Got installed_event # history (sample_job EntityApplication)) defaultApplicationCommitTimeout"

definition sample_os_rebooting :: job where
  "sample_os_rebooting = \<lparr>pstate = sample_pstate EntityCoreOs Rebooting,
     pending = Some (RunReboot rebootTimeout),
     history = Ran (RunReboot rebootTimeout) # Got installed_event # history (sample_job EntityCoreOs)\<rparr>"

definition rebooted_event :: mender_event where
  "rebooted_event = newMenderManager True (sample_pstate EntityCoreOs Rebooting)"

definition sample_os_committing :: job where
  "sample_os_committing = sample_committing EntityCoreOs
     (Got rebooted_event # history sample_os_rebooting) commitTimeout"

definition sample_ended :: job where
  "sample_ended = \<lparr>pstate = idle_pstate, pending = None,
     history = Got committed_event # history sample_app_committing\<rparr>"

lemmas sample_defs = sample_job_def sample_pstate_def sample_committing_def sample_app_committing_def
  sample_os_rebooting_def sample_os_committing_def sample_ended_def sample_install_def

lemma sample_app_installed: "job_progress (sample_job EntityApplication) sample_app_committing"
proof -
  let ?j = "sample_job EntityApplication"
  have "HandleEvent bare_world installed_event (pstate ?j) = Some (save_and_spawn
      (RunMender CmdCommit defaultApplicationCommitTimeout EvCommitFinished [])
      (sample_pstate EntityApplication Committing))"
    by (simp add: sample_defs HandleEvent_def handleInstallingEvent_def sample_event_simps
        resumedApplicationInstallRolledBack_def handleInstallFinished_def startPostInstallStep_def
        runMenderCommitInBackGround_def commitCommandTimeout_def bare_world_def Let_def)
  then have "job_progress ?j (after ?j installed_event (save_and_spawn
      (RunMender CmdCommit defaultApplicationCommitTimeout EvCommitFinished [])
      (sample_pstate EntityApplication Committing)))"
    by (rule job_progress.intros(1)[rotated 2])
      (auto simp: sample_defs installed_event_def intro: bg_event.intros)
  then show ?thesis by (simp add: after_def sample_defs Let_def)
qed

lemma sample_app_committed: "job_progress sample_app_committing sample_ended"
proof -
  let ?j = sample_app_committing
  have "HandleEvent bare_world committed_event (pstate ?j) = Some (emitJobFinished True [] (pstate ?j))"
    by (simp add: sample_defs HandleEvent_def handleCommittingEvent_def sample_event_simps
        handle_commit_result_def Let_def)
  then have "job_progress ?j (after ?j committed_event (emitJobFinished True [] (pstate ?j)))"
    by (rule job_progress.intros(1)[rotated 2])
      (auto simp: sample_defs Let_def committed_event_def intro: bg_event.intros)
  then show ?thesis by (simp add: after_def sample_defs Let_def)
qed

lemma sample_os_installed: "job_progress (sample_job EntityCoreOs) sample_os_rebooting"
proof -
  let ?j = "sample_job EntityCoreOs"
  have "HandleEvent bare_world installed_event (pstate ?j) = Some (save_and_spawn
      (RunReboot rebootTimeout) (sample_pstate EntityCoreOs Rebooting))"
    by (simp add: sample_defs HandleEvent_def handleInstallingEvent_def sample_event_simps
        resumedApplicationInstallRolledBack_def handleInstallFinished_def startPostInstallStep_def
        runRebootInBackGround_def)
  then have "job_progress ?j (after ?j installed_event (save_and_spawn
      (RunReboot rebootTimeout) (sample_pstate EntityCoreOs Rebooting)))"
    by (rule job_progress.intros(1)[rotated 2])
      (auto simp: sample_defs installed_event_def intro: bg_event.intros)
  then show ?thesis by (simp add: after_def sample_defs Let_def)
qed

lemma sample_os_rebooted: "job_progress sample_os_rebooting sample_os_committing"
proof -
  let ?j = sample_os_rebooting
  have "HandleEvent bare_world rebooted_event (pstate ?j) = Some (save_and_spawn
      (RunMender CmdCommit commitTimeout EvCommitFinished []) (sample_pstate EntityCoreOs Committing))"
    by (simp add: sample_defs HandleEvent_def handleRebootingEvent_def rebooted_event_def
        newMenderManager_def emitRebootFinished_def blank_event_def
        runMenderCommitInBackGround_def commitCommandTimeout_def Let_def)
  then have "job_progress ?j (after ?j rebooted_event (save_and_spawn
      (RunMender CmdCommit commitTimeout EvCommitFinished []) (sample_pstate EntityCoreOs Committing)))"
    by (rule job_progress.intros(2)[rotated 2]) (simp_all add: sample_defs rebooted_event_def)
  then show ?thesis by (simp add: after_def sample_defs Let_def)
qed

lemma sample_app_reached: "reach (starts_as EntityApplication) job_step sample_app_committing"
  by (rule reach_step[where s = "sample_job EntityApplication"])
    (auto intro: reach_start sample_starts job_progress_step sample_app_installed)

lemma sample_os_reached: "reach (starts_as EntityCoreOs) job_step sample_os_committing"
proof (rule reach_step[where s = sample_os_rebooting])
  show "reach (starts_as EntityCoreOs) job_step sample_os_rebooting"
    by (rule reach_step[where s = "sample_job EntityCoreOs"])
      (auto intro: reach_start sample_starts job_progress_step sample_os_installed)
qed (auto intro: job_progress_step sample_os_rebooted)

lemma sample_app_steps: "steps job_progress 2 (sample_job EntityApplication) sample_ended"
proof -
  have "steps job_progress (Suc 0) (sample_job EntityApplication) sample_app_committing"
    by (rule steps_Suc[where t = "sample_job EntityApplication"])
      (auto intro: steps_zero sample_app_installed)
  then have "steps job_progress (Suc (Suc 0)) (sample_job EntityApplication) sample_ended"
    by (rule steps_Suc) (rule sample_app_committed)
  then show ?thesis by (simp add: numeral_2_eq_2)
qed

lemma sample_job_reached: "reach job_start job_step (sample_job t)"
  using sample_starts by (auto intro: reach_start simp: starts_as_def)

section \<open>Handlers and the diagram\<close>

lemma deployed_check_state:
  "currentArtifactIsDeployed w (s\<lparr>State := x\<rparr>) = currentArtifactIsDeployed w s"
proof -
  have "job_entity (s\<lparr>State := x\<rparr>) = job_entity s" by (simp add: job_entity_def)
  then show ?thesis by (simp add: currentArtifactIsDeployed_def cong: sum.case_cong)
qed

text \<open>C1. For every state and event, the handler ignores an event that the state does not expect (it
  changes nothing and has no effect), and otherwise it ends the job or takes a transition of the
  documented state diagram, saving the new state before it starts the background work. The only
  way for it not to return is the check of the artifact, which can diverge.\<close>

theorem handlers_refine_diagram:
  "case HandleEvent w e s of
     Some st \<Rightarrow> (if expected (State s) (ev_code e) then follows s e st else st = (s, []))
   | None \<Rightarrow> currentArtifactIsDeployed w s = None"
proof (cases "HandleEvent w e s")
  case None
  then show ?thesis
    by (auto simp: HandleEvent_def handler_defs deployed_check_state
        split: mender_state.splits event_code.splits bool.splits if_splits option.splits)
next
  case (Some st)
  then show ?thesis
    using follows_HandleEvent unexpected_ignored[of s e w] by auto
qed

section \<open>Evidence for a success\<close>

lemma deployed_check_True:
  "currentArtifactIsDeployed w s = Some True \<longleftrightarrow>
     (\<exists>nv. getVersionFromArtifact w (job_entity s) (CurrentArtifact s) = Some (Inr nv) \<and>
        getDeployedVersion w (job_entity s) = Inr nv)"
proof (cases "getVersionFromArtifact w (job_entity s) (CurrentArtifact s)")
  case (Some r)
  then show ?thesis by (cases r) (auto simp: currentArtifactIsDeployed_def isDeployed_iff)
qed (simp add: currentArtifactIsDeployed_def)

lemma end_success_iff:
  "EmitEvent (job_event True m) \<in> set (snd (emitJobFinished ok m' s)) \<longleftrightarrow> ok \<and> m = m'"
  by (auto simp: emitJobFinished_def setIdle_def job_event_def blank_event_def)

lemma spawn_emits_nothing: "EmitEvent e \<notin> set (snd (save_and_spawn b s))"
  by (simp add: save_and_spawn_def)

lemma recovery_reports_no_success:
  "EmitEvent (job_event True m) \<notin> set (snd (runMenderRecoveryInstallInBackGround s))"
  "EmitEvent (job_event True m) \<notin> set (snd (startRecoverInstall s))"
  "EmitEvent (job_event True m) \<notin> set (snd (startApplicationRollback w s))"
  "EmitEvent (job_event True m) \<notin> set (snd (startPostInstallStep w s))"
  by (auto simp: runMenderRecoveryInstallInBackGround_def startRecoverInstall_def
      startApplicationRollback_def startPostInstallStep_def spawn_defs[folded] end_success_iff Let_def
      save_and_spawn_def split: option.splits)

lemma install_finished_success:
  "EmitEvent (job_event True m) \<in> set (snd (handleInstallFinished w e s)) \<Longrightarrow>
   ev_result e \<in> {InstalledAndCommited, Commited}"
  by (cases "ev_result e")
    (auto simp: handleInstallFinished_def maybeRecoverApplication_def recovery_reports_no_success
      end_success_iff split: if_splits)

lemma installing_success:
  assumes "handleInstallingEvent w e s = Some st" "EmitEvent (job_event True m) \<in> set (snd st)"
  shows "ev_result e \<in> {InstalledAndCommited, Commited} \<or> currentArtifactIsDeployed w s = Some True"
  using assms install_finished_success
  by (auto simp: handleInstallingEvent_def recovery_reports_no_success end_success_iff
      runInterruptedInstallInBackground_def spawn_emits_nothing
      split: event_code.splits if_splits option.splits bool.splits)

lemma handler_success:
  assumes "HandleEvent w e s = Some st" "EmitEvent (job_event True m) \<in> set (snd st)"
  shows "ev_result e \<in> {InstalledAndCommited, Commited} \<or> currentArtifactIsDeployed w s = Some True"
proof (cases "State s")
  case Installing
  then show ?thesis using assms installing_success by (simp add: HandleEvent_def)
next
  case RecoverInstallCommitting
  then show ?thesis using assms
    by (auto simp: HandleEvent_def handleRecoverInstallCommittingEvent_def deployed_check_state
        recovery_reports_no_success dest!: installing_success split: event_code.splits)
next
  case Committing
  then show ?thesis using assms
    by (auto simp: HandleEvent_def handleCommittingEvent_def handle_commit_result_def
        recovery_reports_no_success end_success_iff runMenderCommitInBackGround_def spawn_emits_nothing
        split: event_code.splits if_splits option.splits bool.splits)
qed (use assms in \<open>auto simp: HandleEvent_def handler_defs spawn_defs spawn_emits_nothing Let_def
      recovery_reports_no_success end_success_iff split: event_code.splits if_splits\<close>)

lemma committed_class:
  assumes "menderUpdateResultFromOutput c out err code e args \<in> {InstalledAndCommited, Commited}"
  shows "(menderSummaryLine out ''Committed.'' \<or> menderSummaryLine out ''Installed and committed.'') \<and>
    \<not> failed_exit c (out @ [newline] @ err) code e"
proof (cases rule: classification_cases[of out err c code e args])
  case diagnostic
  then show ?thesis using diagnostics_failures[OF diagnostic] assms by (auto simp: failure_classes_def)
next
  case disposition
  then show ?thesis using dispositions_failures[OF disposition(2)] assms by (auto simp: failure_classes_def)
next
  case summary
  then show ?thesis using assms by (auto simp: menderSuccessSummary_def split: if_splits)
qed (use assms in auto)

text \<open>C8. A job is reported as successful only on evidence: the finished command wrote a line
  that says that the update is committed and did not fail, or the version in the artifact is the
  version found on the device.\<close>

theorem success_is_evident:
  assumes "HandleEvent w (runMenderCommand c code args r) s = Some st"
    and "EmitEvent (job_event True m) \<in> set (snd st)"
  shows "(menderSummaryLine (cr_stdout r) ''Committed.'' \<or>
          menderSummaryLine (cr_stdout r) ''Installed and committed.'') \<and>
         \<not> failed_exit c (cr_stdout r @ [newline] @ cr_stderr r) (cr_exit r) (cr_err r) \<or>
    (\<exists>nv. getVersionFromArtifact w (job_entity s) (CurrentArtifact s) = Some (Inr nv) \<and>
       getDeployedVersion w (job_entity s) = Inr nv)"
proof -
  consider "ev_result (runMenderCommand c code args r) \<in> {InstalledAndCommited, Commited}"
    | "currentArtifactIsDeployed w s = Some True"
    using handler_success[OF assms] by blast
  then show ?thesis
  proof cases
    case 1
    then show ?thesis
      using committed_class unfolding runMenderCommand_def Let_def by fastforce
  next
    case 2
    then show ?thesis unfolding deployed_check_True by blast
  qed
qed

theorem success_is_evident_witness:
  "menderSummaryLine (cr_stdout (command_ok ''Committed.'')) ''Committed.'' \<or>
   menderSummaryLine (cr_stdout (command_ok ''Committed.'')) ''Installed and committed.'' \<or>
   (\<exists>nv. getDeployedVersion bare_world (job_entity (pstate sample_app_committing)) = Inr nv)"
proof -
  have "HandleEvent bare_world committed_event (pstate sample_app_committing) =
      Some (emitJobFinished True [] (pstate sample_app_committing))"
    by (simp add: sample_defs HandleEvent_def handleCommittingEvent_def sample_event_simps
        handle_commit_result_def Let_def)
  then show ?thesis
    using success_is_evident[of bare_world CmdCommit EvCommitFinished "[]" "command_ok ''Committed.''"
        "pstate sample_app_committing" "emitJobFinished True [] (pstate sample_app_committing)" "[]"]
    unfolding committed_event_def end_success_iff by blast
qed

section \<open>Jobs\<close>

text \<open>C7. Whatever the commands answer, a job on which the server is not restarted (the reboot that
  the job itself asks for excepted) ends after at most 18 finished operations.\<close>

theorem job_is_bounded:
  assumes "reach job_start job_step j" "steps job_progress n j j'"
  shows "n \<le> 18"
  using jobs.run_bound[OF assms(2) jobs.reach_inv[OF assms(1)]] job_rank_bound[of j] by linarith

theorem job_is_bounded_witness:
  "\<exists>n j j'. reach job_start job_step j \<and> steps job_progress n j j' \<and> 0 < n \<and> n \<le> 18"
  using job_is_bounded[OF sample_job_reached sample_app_steps] sample_job_reached sample_app_steps
  by (metis zero_less_numeral)

text \<open>C4. In every reachable state of a job, restarts at any point included: either the job has
  ended and the machine is idle with nothing saved, or exactly one background operation is under
  way and it is the one that the state waits for; at most two recovery operations and, for an
  application, at most one further installation have been started.\<close>

theorem job_never_stuck:
  assumes "reach job_start job_step j"
  shows "case pending j of
      None \<Rightarrow> pstate j = idle_pstate
    | Some b \<Rightarrow> awaited (State (pstate j)) b \<and> RecoveryOperations (pstate j) \<le> 2 \<and>
        (CurrentEntityType (pstate j) = EntityApplication \<longrightarrow> RecoveryAttempts (pstate j) \<le> 1)"
  using jobs.reach_inv[OF assms] by (auto simp: wf_job_def split: option.splits)

theorem job_never_stuck_witness:
  "awaited (State (pstate sample_app_committing)) (RunMender CmdCommit defaultApplicationCommitTimeout EvCommitFinished [])"
proof -
  have "reach job_start job_step sample_app_committing"
    by (rule reach_step[where s = "sample_job EntityApplication"])
      (auto intro: sample_job_reached job_progress_step sample_app_installed)
  from job_never_stuck[OF this] show ?thesis by (simp add: sample_defs Let_def)
qed

text \<open>C2. In the history of a rootfs or customization job, every operation that makes the update
  permanent comes after a reboot that the server saw, and for a customization also after a passed
  health check, both later than the last installation.\<close>

theorem commit_after_reboot_and_check:
  assumes "reach (starts_as t) job_step j" "t \<noteq> EntityApplication"
  shows "commits_ready t (history j)"
  using ordered.reach_inv[OF assms(1)] assms(2) by (simp add: ordered_job_def)

theorem commit_after_reboot_and_check_witness:
  "commits_ready EntityCoreOs (history sample_os_committing) \<and>
   list_ex is_commit (history sample_os_committing)"
  using commit_after_reboot_and_check[OF sample_os_reached] by (simp add: sample_defs Let_def)

text \<open>C24. An application artifact is installed at most twice by one job, however often the server
  is restarted.\<close>

theorem application_installed_at_most_twice:
  assumes "reach (starts_as EntityApplication) job_step j"
  shows "installs (history j) \<le> 2"
  using budgeted.reach_inv[OF assms] by (simp add: budgeted_job_def)

theorem application_installed_at_most_twice_witness:
  "installs (history sample_app_committing) \<le> 2 \<and> installs (history sample_app_committing) = 1"
  using application_installed_at_most_twice[OF sample_app_reached]
  by (simp add: sample_defs Let_def installs_def)

lemma job_event_inj [simp]: "job_event ok m = job_event ok' m' \<longleftrightarrow> ok = ok' \<and> m = m'"
  by (auto simp: job_event_def blank_event_def)

text \<open>C15. A restart of the server never loses a job: the event of the new manager is handled without
  reading the artifact, and the job then has background work that its state waits for, or it ends
  with the one report of its failure.\<close>

theorem restart_resumes_job:
  assumes "State s \<noteq> Idle"
  shows "\<exists>st. HandleEvent w (newMenderManager hasRebooted s) s = Some st \<and>
    ((\<exists>b. st = save_and_spawn b (fst st) \<and> awaited (State (fst st)) b) \<or>
     (\<exists>m. st = emitJobFinished False m s))"
proof -
  let ?e = "newMenderManager hasRebooted s"
  have code: "ev_code ?e = EvRestarted \<or> State s = Rebooting \<and> ev_code ?e = EvRebootFinished \<and> ev_success ?e"
    by (simp add: newMenderManager_def emitRebootFinished_def blank_event_def)
  then have "\<exists>st. HandleEvent w ?e s = Some st"
    by (auto simp: HandleEvent_def handler_defs split: mender_state.split)
  then obtain st where st: "HandleEvent w ?e s = Some st" by blast
  have "expected (State s) (ev_code ?e)" using code assms by (auto simp: expected_def)
  then have "follows s ?e st" using follows_HandleEvent st by blast
  moreover have "\<exists>m. st = emitJobFinished False m s" if "ends_job s st"
    using st code that assms
    by (auto simp: ends_job_def HandleEvent_def handler_defs spawn_defs startRecoverInstall_def
        startApplicationRollback_def save_and_spawn_def Let_def
        emitJobFinished_def setIdle_def split: mender_state.splits if_splits)
  ultimately show ?thesis
    unfolding follows_def using st diagram_awaited by fastforce
qed

theorem restart_resumes_job_witness:
  "\<exists>st. HandleEvent bare_world (newMenderManager True (sample_pstate EntityCoreOs Rebooting))
      (sample_pstate EntityCoreOs Rebooting) = Some st"
proof -
  have "State (sample_pstate EntityCoreOs Rebooting) \<noteq> Idle" by (simp add: sample_pstate_def)
  from restart_resumes_job[OF this, of bare_world True] show ?thesis by blast
qed

text \<open>An update that Mender has committed is never undone: when a command reports a committed
  update with errors while its end is awaited, the job ends as failed at once, with no rollback and
  no new installation.\<close>

theorem committed_with_errors_ends_job:
  assumes "State s \<in> {Installing, Committing, RecoverInstallCommitting}"
    and "ev_code e = completion (State s)" "ev_result e = CommittedWithErrors"
  shows "HandleEvent w e s = Some (emitJobFinished False
    (''Mender committed the update, but subsequent steps failed: '' @ ev_message e) s)"
  using assms
  by (auto simp: HandleEvent_def handler_defs resumedApplicationInstallRolledBack_def
      handle_commit_result_def end_any_state)

theorem committed_with_errors_ends_job_witness:
  "HandleEvent bare_world (committed_event\<lparr>ev_result := CommittedWithErrors, ev_message := ''x''\<rparr>)
     (sample_pstate EntityApplication Committing) =
   Some (emitJobFinished False ''Mender committed the update, but subsequent steps failed: x''
     (sample_pstate EntityApplication Committing))"
  using committed_with_errors_ends_job[of "sample_pstate EntityApplication Committing"
      "committed_event\<lparr>ev_result := CommittedWithErrors, ev_message := ''x''\<rparr>" bare_world]
  by (simp add: sample_pstate_def sample_event_simps)

end
