(* ===== verification/Cpu_Manager.thy ===== *)
theory Cpu_Manager
  imports Mender_Diagram
begin

text \<open>
  The CPU manager actor of \<open>internal/manager/cpumanager\<close> (\<open>actor.go\<close> and the manager methods of
  \<open>entity.go\<close>): its persistent state, its commands and what it does for each of them. A handler returns
  the new state with its effects in order: writing the state file, starting a goroutine, removing
  or cleaning files, sending an event to its own inbox, and answering the caller. Go iterates over a
  map in an unspecified order, so the handlers that search the entities take the order as an argument.
\<close>

record persistent =
  MenderState :: mender_pstate
  Entities :: "string \<rightharpoonup> entity"
  BootID :: string

type_synonym cpu_error = "cpu_error_code coded_error"

datatype reply =
    Done "cpu_error option"
  | StatusReply "cpu_error + entity_status"
  | AppsReply "cpu_error + string list"

datatype command =
    StartCoreOsUpdate string
  | GetCoreOsState
  | StartCoreOSCustomizationUpdate string
  | GetCoreOSCustomizationState
  | StartApplicationUpdate string string
  | GetApplicationState string
  | ListApplications
  | Reboot
  | MenderEvent mender_event

datatype cpu_effect =
    WriteState persistent
  | Go background
  | Remove string
  | Send mender_event
  | CleanFiles string "string list"
  | Reply reply

type_synonym cpu_step = "persistent \<times> cpu_effect list"

definition coreOSEntity :: string where "coreOSEntity = ''coreos''"
definition coreOSCustomizationEntity :: string where
  "coreOSCustomizationEntity = ''core-os-customization''"
definition inboxSize :: nat where "inboxSize = 10"

text \<open>The callbacks that the manager gives to the Mender state machine: its effects, seen from here.\<close>

fun mender_effect :: "persistent \<Rightarrow> effect \<Rightarrow> cpu_effect" where
  "mender_effect p (SaveState s) = WriteState (p\<lparr>MenderState := s\<rparr>)"
| "mender_effect p (Spawn b) = Go b"
| "mender_effect p (RemoveFile f) = Remove f"
| "mender_effect p (EmitEvent e) = Send e"

definition run_mender :: "persistent \<Rightarrow> mender_step \<Rightarrow> cpu_step" where
  "run_mender p st = (p\<lparr>MenderState := fst st\<rparr>, map (mender_effect p) (snd st))"

section \<open>Entities\<close>

definition has_code :: "deploy_code \<Rightarrow> entity \<Rightarrow> bool" where
  "has_code c e \<longleftrightarrow> Code (DeployStatus e) = c"

definition find_entity :: "deploy_code \<Rightarrow> string list \<Rightarrow> persistent \<Rightarrow> string option" where
  "find_entity c order p =
     find (\<lambda>k. case Entities p k of Some e \<Rightarrow> has_code c e | None \<Rightarrow> False) order"

definition getEntityInProgress :: "string list \<Rightarrow> persistent \<Rightarrow> string option" where
  "getEntityInProgress = find_entity InProgress"

definition getEntityWaiting :: "string list \<Rightarrow> persistent \<Rightarrow> string option" where
  "getEntityWaiting = find_entity Waiting"

definition set_entity :: "string \<Rightarrow> entity \<Rightarrow> persistent \<Rightarrow> persistent" where
  "set_entity k e p = p\<lparr>Entities := (Entities p)(k \<mapsto> e)\<rparr>"

definition set_status :: "deploy_code \<Rightarrow> string \<Rightarrow> entity \<Rightarrow> entity" where
  "set_status c m e = e\<lparr>DeployStatus := \<lparr>Code = c, Message = m\<rparr>\<rparr>"

text \<open>\<open>k\<close> is the key of the entity \<open>e\<close>; Go reaches the entity in the map through a pointer.\<close>

definition startEntityUpdate ::
  "string \<Rightarrow> entity \<Rightarrow> persistent \<Rightarrow> persistent \<times> cpu_effect list \<times> cpu_error option" where
  "startEntityUpdate k e p =
     (let e1 = set_status InProgress ''Update is in progress'' e;
          p1 = set_entity k e1 p
      in case StartUpdateJob (EntityType e) (MenderArtifact e) (Name e) updateTimeout (MenderState p1) of
           Inl err \<Rightarrow>
             (set_entity k (set_status Failure (wrap_err ''Failed to start update'' err) e1) p1, [],
              Some (wrapCodedError MenderBusy
                (''mender is busy, cannot start update for entity '' @ Name e) err))
         | Inr st \<Rightarrow> (let (p2, es) = run_mender p1 st in (p2, es, None)))"

definition nv_text :: "name_version \<Rightarrow> string" where
  "nv_text nv = ''{'' @ nv_name nv @ '' '' @ nv_version nv @ ''}''"

definition finishEntityUpdate :: "world \<Rightarrow> bool \<Rightarrow> string \<Rightarrow> entity \<Rightarrow> entity" where
  "finishEntityUpdate w success message e =
     (let e1 =
        (if success then
           (if isDeployed w e (DeployingNV e) = Inr True
            then set_status Success ''Update deployed successfully'' e
            else set_status Failure
              (''Mender reported success, but deployed version does not match expected version '' @
               nv_text (DeployingNV e)) e)
         else set_status Failure message e)
      in e1\<lparr>MenderArtifact := [], DeployingNV := no_version\<rparr>)"

section \<open>Starting updates\<close>

definition rejectInvalidCoreOSEntity :: "string \<Rightarrow> entity_type \<Rightarrow> cpu_error option" where
  "rejectInvalidCoreOSEntity name t =
     (if t \<noteq> EntityCoreOs \<and> t \<noteq> EntityCoreOSCustomization \<or>
         (name = coreOSEntity \<or> name = coreOSCustomizationEntity) then None
      else Some (newCodedError InvalidCoreOSEntityName (''invalid entity name for CoreOS: '' @ name)))"

definition rejectUpdateInProgress :: "string \<Rightarrow> entity \<Rightarrow> cpu_error option" where
  "rejectUpdateInProgress name e =
     (if Code (DeployStatus e) \<noteq> InProgress \<and> Code (DeployStatus e) \<noteq> Waiting then None
      else Some (newCodedError EntityUpdateInProgress
        (''an update is already in progress or waiting for entity '' @ name)))"

definition rejectAlreadyDeployed :: "world \<Rightarrow> string \<Rightarrow> entity \<Rightarrow> name_version \<Rightarrow> cpu_error option" where
  "rejectAlreadyDeployed w name e nv =
     (case isDeployed w e nv of
        Inl _ \<Rightarrow> None
      | Inr deployed \<Rightarrow>
          if \<not> deployed then None
          else Some (newCodedError ErrAlreadyDeployed
            (''the same version is already deployed for entity '' @ name)))"

text \<open>The entity of an update command; it is created when the name is new, even if the command is
  rejected afterwards.\<close>

definition entity_for :: "string \<Rightarrow> entity_type \<Rightarrow> persistent \<Rightarrow> entity \<times> persistent" where
  "entity_for name t p =
     (case Entities p name of
        Some e \<Rightarrow> (e, p)
      | None \<Rightarrow> (newEntity name t, set_entity name (newEntity name t) p))"

definition answer :: "cpu_error option \<Rightarrow> cpu_effect" where
  "answer err = Reply (Done err)"

text \<open>From the point where the update is accepted.\<close>

definition accept_update :: "string \<Rightarrow> entity \<Rightarrow> string \<Rightarrow> name_version \<Rightarrow> persistent \<Rightarrow> cpu_step" where
  "accept_update name e artifact nv p =
     (let e1 = e\<lparr>MenderArtifact := artifact, DeployingNV := nv\<rparr> in
      if \<not> IsIdle (MenderState p) then
        (set_entity name (set_status Waiting ''Mender is busy with another update'' e1) p, [answer None])
      else
        (case startEntityUpdate name e1 (set_entity name e1 p) of
           (p', es, err) \<Rightarrow> (p', es @ [answer err])))"

definition handleEntityUpdate ::
  "world \<Rightarrow> string \<Rightarrow> entity_type \<Rightarrow> string \<Rightarrow> persistent \<Rightarrow> cpu_step option" where
  "handleEntityUpdate w name t artifact p =
     (case rejectInvalidCoreOSEntity name t of
        Some err \<Rightarrow> Some (p, [answer (Some err)])
      | None \<Rightarrow>
     (let (e, p1) = entity_for name t p in
      case rejectUpdateInProgress name e of
        Some err \<Rightarrow> Some (p1, [answer (Some err)])
      | None \<Rightarrow>
     (case getVersionFromArtifact w e artifact of
        None \<Rightarrow> None
      | Some (Inl err) \<Rightarrow> Some (p1, [answer (Some (newCodedError ArtifactInvalid
            (''invalid artifact for entity '' @ wrap_err name err)))])
      | Some (Inr nv) \<Rightarrow>
     (case rejectAlreadyDeployed w name e nv of
        Some err \<Rightarrow> Some (p1, [answer (Some err)])
      | None \<Rightarrow> Some (accept_update name e artifact nv p1)))))"

section \<open>The other commands\<close>

definition handleGetEntityState :: "world \<Rightarrow> string \<Rightarrow> persistent \<Rightarrow> cpu_step" where
  "handleGetEntityState w name p =
     (p, [Reply (StatusReply
       (case Entities p name of
          None \<Rightarrow> Inl (newCodedError EntityNotFound (''no such entity: '' @ name))
        | Some e \<Rightarrow>
            Inr \<lparr>es_deploy_status = DeployStatus e,
                 es_current = (case getDeployedVersion w e of Inl _ \<Rightarrow> no_version | Inr nv \<Rightarrow> nv)\<rparr>))])"

definition handleListApplications :: "world \<Rightarrow> persistent \<Rightarrow> cpu_step" where
  "handleListApplications w p =
     (p, [Reply (AppsReply
       (case listApplicationsFromTargetFS w of
          Inl err \<Rightarrow> Inl (newCodedError ListApplicationsFailed
            (wrap_err ''failed to list applications'' err))
        | Inr apps \<Rightarrow> Inr apps))])"

definition handleReboot :: "persistent \<Rightarrow> cpu_step" where
  "handleReboot p =
     (let (p', es) = run_mender p (runRebootInBackGround rebootTimeout (MenderState p))
      in (p', es @ [answer None]))"

definition finish_in_progress :: "world \<Rightarrow> string list \<Rightarrow> bool \<Rightarrow> string \<Rightarrow> persistent \<Rightarrow> persistent" where
  "finish_in_progress w order success message p =
     (case getEntityInProgress order p of
        None \<Rightarrow> p
      | Some k \<Rightarrow>
          (case Entities p k of
             None \<Rightarrow> p
           | Some e \<Rightarrow> set_entity k (finishEntityUpdate w success message e) p))"

definition start_waiting :: "string list \<Rightarrow> persistent \<Rightarrow> cpu_step" where
  "start_waiting order p =
     (case getEntityWaiting order p of
        None \<Rightarrow> (p, [])
      | Some k \<Rightarrow>
          (case Entities p k of
             None \<Rightarrow> (p, [])
           | Some e \<Rightarrow> (case startEntityUpdate k e p of (p', es, _) \<Rightarrow> (p', es))))"

text \<open>The two searches iterate over the map independently of each other.\<close>

definition handleMenderJobFinished ::
  "world \<Rightarrow> string list \<Rightarrow> string list \<Rightarrow> bool \<Rightarrow> string \<Rightarrow> persistent \<Rightarrow> cpu_step" where
  "handleMenderJobFinished w order1 order2 success message p =
     start_waiting order2 (finish_in_progress w order1 success message p)"

definition handleMenderEvent ::
  "world \<Rightarrow> string list \<Rightarrow> string list \<Rightarrow> mender_event \<Rightarrow> persistent \<Rightarrow> cpu_step option" where
  "handleMenderEvent w order1 order2 e p =
     (if ev_code e = EvNone then Some (p, [])
      else if ev_code e = EvJobFinished
        then Some (handleMenderJobFinished w order1 order2 (ev_success e) (ev_message e) p)
      else map_option (run_mender p) (HandleEvent w e (MenderState p)))"

fun handleCommand ::
  "world \<Rightarrow> string list \<Rightarrow> string list \<Rightarrow> command \<Rightarrow> persistent \<Rightarrow> cpu_step option" where
  "handleCommand w o1 o2 (StartCoreOsUpdate path) p = handleEntityUpdate w coreOSEntity EntityCoreOs path p"
| "handleCommand w o1 o2 GetCoreOsState p = Some (handleGetEntityState w coreOSEntity p)"
| "handleCommand w o1 o2 (StartCoreOSCustomizationUpdate path) p =
     handleEntityUpdate w coreOSCustomizationEntity EntityCoreOSCustomization path p"
| "handleCommand w o1 o2 GetCoreOSCustomizationState p =
     Some (handleGetEntityState w coreOSCustomizationEntity p)"
| "handleCommand w o1 o2 (StartApplicationUpdate name path) p =
     handleEntityUpdate w name EntityApplication path p"
| "handleCommand w o1 o2 (GetApplicationState name) p = Some (handleGetEntityState w name p)"
| "handleCommand w o1 o2 ListApplications p = Some (handleListApplications w p)"
| "handleCommand w o1 o2 Reboot p = Some (handleReboot p)"
| "handleCommand w o1 o2 (MenderEvent e) p = handleMenderEvent w o1 o2 e p"

text \<open>One turn of \<open>loop\<close>: the state is written once more after the command.\<close>

definition loop_turn ::
  "world \<Rightarrow> string list \<Rightarrow> string list \<Rightarrow> command \<Rightarrow> persistent \<Rightarrow> cpu_step option" where
  "loop_turn w o1 o2 c p =
     map_option (\<lambda>(p', es). (p', es @ [WriteState p'])) (handleCommand w o1 o2 c p)"

section \<open>Start-up\<close>

definition boot_id :: "world \<Rightarrow> string go" where
  "boot_id w = read_file w (prefix_path w ''/proc/sys/kernel/random/boot_id'')"

definition hasRebooted :: "world \<Rightarrow> persistent \<Rightarrow> bool \<times> persistent" where
  "hasRebooted w p =
     (case boot_id w of
        Inl _ \<Rightarrow> (False, p)
      | Inr current \<Rightarrow> if BootID p \<noteq> current then (True, p\<lparr>BootID := current\<rparr>) else (False, p))"

definition setInitialPersistentState :: "world \<Rightarrow> persistent" where
  "setInitialPersistentState w =
     \<lparr>MenderState = idle_pstate,
      Entities = [coreOSEntity \<mapsto> newEntity coreOSEntity EntityCoreOs,
                  coreOSCustomizationEntity \<mapsto>
                    newEntity coreOSCustomizationEntity EntityCoreOSCustomization],
      BootID = (case boot_id w of Inl _ \<Rightarrow> [] | Inr b \<Rightarrow> b)\<rparr>"

definition cleanUpdateFiles :: "string list \<Rightarrow> persistent \<Rightarrow> cpu_effect list" where
  "cleanUpdateFiles order p =
     (let excludes =
        (if CurrentArtifact (MenderState p) \<noteq> [] then [CurrentArtifact (MenderState p)] else []) @
        filter (\<lambda>a. a \<noteq> [])
          (map (\<lambda>k. case Entities p k of Some e \<Rightarrow> MenderArtifact e | None \<Rightarrow> []) order)
      in map (\<lambda>pattern. CleanFiles pattern excludes) [''app-*'', ''coreos-*'', ''core-os-customization-*''])"

datatype load_result = Loaded persistent | NotExist | LoadFailed string

definition with_customization :: "persistent \<Rightarrow> persistent" where
  "with_customization p =
     (if Entities p coreOSCustomizationEntity = None
      then set_entity coreOSCustomizationEntity
             (newEntity coreOSCustomizationEntity EntityCoreOSCustomization) p
      else p)"

text \<open>\<open>New\<close>, up to the start of the actor loop.\<close>

definition New :: "world \<Rightarrow> string list \<Rightarrow> load_result \<Rightarrow> cpu_step go" where
  "New w order loaded =
     (case (case loaded of
              LoadFailed err \<Rightarrow> Inl err
            | NotExist \<Rightarrow> Inr (False, setInitialPersistentState w)
            | Loaded p \<Rightarrow> Inr (hasRebooted w (with_customization p))) of
        Inl err \<Rightarrow> Inl (wrap_err ''failed to load persistent state'' err)
      | Inr (rebooted, p) \<Rightarrow>
          Inr (p, [WriteState p, Send (newMenderManager rebooted (MenderState p))] @
                  cleanUpdateFiles order p))"

end
