(* ===== verification/Cpu_System.thy ===== *)
theory Cpu_System
  imports Cpu_Manager Mender_Jobs
begin

text \<open>
  The CPU manager as a running system: the actor with its bounded inbox, the effects that it has still
  to carry out, the goroutines at work, the state file, and restarts that keep nothing but this
  file. The lemmas account for every entity that is in progress: it belongs to the job under way,
  to a report that has not been handled, or it was lost by a restart.
\<close>

section \<open>The system\<close>

record system =
  memory :: persistent
  disk :: persistent
  inbox :: "command list"
  todo :: "cpu_effect list"
  work :: "background list"

text \<open>Carrying out one effect; sending to the full inbox blocks. Writing the state file succeeds.\<close>

fun perform :: "cpu_effect \<Rightarrow> system \<Rightarrow> system option" where
  "perform (WriteState p) s = Some (s\<lparr>disk := p\<rparr>)"
| "perform (Go b) s = Some (s\<lparr>work := b # work s\<rparr>)"
| "perform (Send e) s =
     (if length (inbox s) < inboxSize then Some (s\<lparr>inbox := inbox s @ [MenderEvent e]\<rparr>) else None)"
| "perform (Remove f) s = Some s"
| "perform (CleanFiles f xs) s = Some s"
| "perform (Reply r) s = Some s"

definition map_order :: "string list \<Rightarrow> persistent \<Rightarrow> bool" where
  "map_order order p \<longleftrightarrow> distinct order \<and> set order = dom (Entities p)"

text \<open>The order in which the second search runs is that of the map after the first.\<close>

inductive sys_step :: "system \<Rightarrow> system \<Rightarrow> bool" where
  client_sends:
    "\<forall>e. c \<noteq> MenderEvent e \<Longrightarrow> length (inbox s) < inboxSize \<Longrightarrow>
     sys_step s (s\<lparr>inbox := inbox s @ [c]\<rparr>)"
| work_reports:
    "b \<in> set (work s) \<Longrightarrow> bg_event b e \<Longrightarrow> length (inbox s) < inboxSize \<Longrightarrow>
     sys_step s (s\<lparr>work := remove1 b (work s), inbox := inbox s @ [MenderEvent e]\<rparr>)"
| reboot_is_silent:
    "RunReboot d \<in> set (work s) \<Longrightarrow> sys_step s (s\<lparr>work := remove1 (RunReboot d) (work s)\<rparr>)"
| actor_takes:
    "todo s = [] \<Longrightarrow> inbox s = c # cs \<Longrightarrow> map_order o1 (memory s) \<Longrightarrow> map_order o2 (memory s) \<Longrightarrow>
     loop_turn w o1 o2 c (memory s) = Some (p, es) \<Longrightarrow>
     sys_step s (s\<lparr>memory := p, inbox := cs, todo := es\<rparr>)"
| actor_performs:
    "todo s = x # xs \<Longrightarrow> perform x s = Some s' \<Longrightarrow> sys_step s (s'\<lparr>todo := xs\<rparr>)"

text \<open>A restart, at any moment: all that is left is the state file.\<close>

inductive sys_restart :: "system \<Rightarrow> system \<Rightarrow> bool" where
  restart:
    "New w order (Loaded (disk s)) = Inr (p, es) \<Longrightarrow>
     sys_restart s \<lparr>memory = p, disk = disk s, inbox = [], todo = es, work = []\<rparr>"

definition sys_start :: "system \<Rightarrow> bool" where
  "sys_start s \<longleftrightarrow> (\<exists>w order p es. New w order NotExist = Inr (p, es) \<and>
     s = \<lparr>memory = p, disk = p, inbox = [], todo = es, work = []\<rparr>)"

definition sys_any :: "system \<Rightarrow> system \<Rightarrow> bool" where
  "sys_any s s' \<longleftrightarrow> sys_step s s' \<or> sys_restart s s'"

section \<open>Counting the entities in progress\<close>

definition inprog :: "persistent \<Rightarrow> string set" where
  "inprog p = {k. \<exists>e. Entities p k = Some e \<and> has_code InProgress e}"

definition busy :: "persistent \<Rightarrow> nat" where
  "busy p = (if IsIdle (MenderState p) then 0 else 1)"

fun sends_report :: "cpu_effect \<Rightarrow> bool" where
  "sends_report (Send e) \<longleftrightarrow> ev_code e = EvJobFinished"
| "sends_report _ \<longleftrightarrow> False"

fun holds_report :: "command \<Rightarrow> bool" where
  "holds_report (MenderEvent e) \<longleftrightarrow> ev_code e = EvJobFinished"
| "holds_report _ \<longleftrightarrow> False"

definition reports :: "system \<Rightarrow> nat" where
  "reports s = length (filter sends_report (todo s)) + length (filter holds_report (inbox s))"

definition finite_map :: "persistent \<Rightarrow> bool" where
  "finite_map p \<longleftrightarrow> finite (dom (Entities p))"

text \<open>With \<open>n\<close> other claims on entities in progress, the state has exactly, or at least, that many.\<close>

definition balanced :: "nat \<Rightarrow> persistent \<Rightarrow> bool" where
  "balanced n p \<longleftrightarrow> finite_map p \<and> card (inprog p) = n + busy p"

definition covered :: "nat \<Rightarrow> persistent \<Rightarrow> bool" where
  "covered n p \<longleftrightarrow> finite_map p \<and> n + busy p \<le> card (inprog p)"

definition keeps :: "nat \<Rightarrow> cpu_step \<Rightarrow> bool" where
  "keeps n st \<longleftrightarrow>
     balanced (n + length (filter sends_report (snd st))) (fst st) \<and>
     (\<forall>q. WriteState q \<in> set (snd st) \<longrightarrow> covered n q) \<and>
     (\<forall>b. Go b \<in> set (snd st) \<longrightarrow> (\<exists>m. awaited m b))"

lemma finite_inprog: "finite_map p \<Longrightarrow> finite (inprog p)"
  by (rule finite_subset[of _ "dom (Entities p)"]) (auto simp: inprog_def finite_map_def)

lemma balanced_covered: "balanced (n + m) p \<Longrightarrow> covered n p"
  by (simp add: balanced_def covered_def)

lemma covered_mono: "covered n p \<Longrightarrow> m \<le> n \<Longrightarrow> covered m p"
  by (simp add: covered_def)

lemma entity_update_simps [simp]:
  "MenderState (set_entity k e p) = MenderState p" "busy (set_entity k e p) = busy p"
  "finite_map (set_entity k e p) = finite_map p"
  "Entities (set_entity k e p) = (Entities p)(k \<mapsto> e)"
  by (simp_all add: set_entity_def busy_def finite_map_def)

lemma status_simps [simp]:
  "has_code c (set_status d m e) \<longleftrightarrow> c = d"
  "EntityType (set_status d m e) = EntityType e" "Name (set_status d m e) = Name e"
  "MenderArtifact (set_status d m e) = MenderArtifact e" "DeployingNV (set_status d m e) = DeployingNV e"
  by (auto simp: has_code_def set_status_def)

lemma inprog_set_entity:
  "inprog (set_entity k e p) = (if has_code InProgress e then insert k (inprog p) else inprog p - {k})"
  by (auto simp: inprog_def split: if_splits)

lemma balanced_set_entity:
  "balanced n p \<Longrightarrow> k \<notin> inprog p \<Longrightarrow> \<not> has_code InProgress e \<Longrightarrow> balanced n (set_entity k e p)"
  by (simp add: balanced_def inprog_set_entity)

lemma keeps_quiet:
  "balanced n p \<Longrightarrow> \<forall>x \<in> set xs. \<exists>r. x = Reply r \<Longrightarrow> keeps n (p, xs)"
proof -
  assume b: "balanced n p" and xs: "\<forall>x \<in> set xs. \<exists>r. x = Reply r"
  have "filter sends_report xs = []" using xs by (auto simp: filter_empty_conv)
  then show ?thesis using b xs by (auto simp: keeps_def)
qed

lemma keeps_append_reply: "keeps n (p, xs) \<Longrightarrow> keeps n (p, xs @ [Reply r])"
  by (auto simp: keeps_def)

section \<open>The Mender machine inside the manager\<close>

lemma run_mender_simps [simp]:
  "Entities (fst (run_mender p st)) = Entities p" "MenderState (fst (run_mender p st)) = fst st"
  "snd (run_mender p st) = map (mender_effect p) (snd st)"
  by (simp_all add: run_mender_def)

lemma mender_state_simps [simp]:
  "inprog (p\<lparr>MenderState := s\<rparr>) = inprog p" "finite_map (p\<lparr>MenderState := s\<rparr>) = finite_map p"
  "busy (p\<lparr>MenderState := s\<rparr>) = (if IsIdle s then 0 else 1)"
  by (simp_all add: inprog_def finite_map_def busy_def)

lemma mender_report: "sends_report (mender_effect p x) = is_report x"
  by (cases x) auto

lemma mender_reports:
  "length (filter sends_report (map (mender_effect p) xs)) = length (filter is_report xs)"
  by (induction xs) (auto simp: mender_report)

lemma keeps_spawn:
  assumes "balanced n p" "\<not> IsIdle (MenderState p)" "awaited (State s') b"
  shows "keeps n (run_mender p (save_and_spawn b s'))"
  using assms awaited_not_idle[OF assms(3)]
  by (auto simp: keeps_def run_mender_def save_and_spawn_def balanced_def covered_def busy_def IsIdle_def)

lemma keeps_end:
  assumes "balanced n p" "\<not> IsIdle (MenderState p)"
  shows "keeps n (run_mender p (emitJobFinished ok m (MenderState p)))"
proof -
  have "IsIdle idle_pstate" by (simp add: IsIdle_def idle_pstate_def)
  then show ?thesis using assms
    by (auto simp: keeps_def run_mender_def emitJobFinished_def setIdle_def balanced_def covered_def
        busy_def job_event_def blank_event_def)
qed

lemma keeps_HandleEvent:
  assumes "balanced n p" "HandleEvent w e (MenderState p) = Some st"
  shows "keeps n (run_mender p st)"
  using assms(2)
proof (cases rule: HandleEvent_cases)
  case ignored
  then show ?thesis using assms(1) by (simp add: run_mender_def keeps_def)
next
  case (ended ok m)
  then show ?thesis using keeps_end assms(1) by (simp add: IsIdle_def)
next
  case (moved s' b)
  then show ?thesis using keeps_spawn assms(1) by (simp add: IsIdle_def)
qed

section \<open>Starting and finishing an update\<close>

text \<open>Starting the update of an entity that is not in progress: it comes into progress with the job,
  or the engine is busy and the entity fails.\<close>

lemma keeps_startEntityUpdate:
  assumes "balanced n p" "k \<notin> inprog p" "startEntityUpdate k e p = (p', es, err)"
  shows "keeps n (p', es)"
proof (cases "IsIdle (MenderState p)")
  case True
  let ?p1 = "set_entity k (set_status InProgress ''Update is in progress'' e) p"
  let ?b = "RunMender CmdInstall updateTimeout EvInstallFinished [MenderArtifact e]"
  obtain s where s: "State s = Installing" and
    st: "StartUpdateJob (EntityType e) (MenderArtifact e) (Name e) updateTimeout (MenderState ?p1) =
      Inr (save_and_spawn ?b s)"
    by (rule that[of "MenderState p\<lparr>State := Installing, CurrentArtifact := MenderArtifact e,
        CurrentEntityType := EntityType e, CurrentEntityName := Name e, RecoveryAttempts := 0,
        RecoveryOperations := 0\<rparr>"])
      (use True in \<open>simp_all add: StartUpdateJob_def IsIdle_def runMenderInstallInBackGround_def\<close>)
  have "(p', es) = run_mender ?p1 (save_and_spawn ?b s)"
    using assms(3) st by (simp add: startEntityUpdate_def Let_def split: prod.splits)
  then show ?thesis
    using assms(1,2) True s finite_inprog
    by (auto simp: keeps_def run_mender_def save_and_spawn_def balanced_def covered_def busy_def IsIdle_def
        inprog_set_entity intro!: exI[of _ Installing])
next
  case False
  then have x: "StartUpdateJob t a m d (MenderState p) = Inl ''mender is busy with another update''"
    for t a m d
    by (simp add: StartUpdateJob_def IsIdle_def)
  have "inprog p' = inprog p \<and> es = [] \<and> busy p' = busy p \<and> finite_map p' = finite_map p"
    using assms(2,3) x by (auto simp: startEntityUpdate_def Let_def inprog_set_entity)
  then show ?thesis using assms(1) by (simp add: keeps_def balanced_def)
qed

lemma keeps_accept_update:
  assumes "balanced n p" "k \<notin> inprog p"
  shows "keeps n (accept_update k e a nv p)"
proof (cases "IsIdle (MenderState p)")
  case True
  let ?e = "e\<lparr>MenderArtifact := a, DeployingNV := nv\<rparr>"
  obtain p' es err where st: "startEntityUpdate k ?e (set_entity k ?e p) = (p', es, err)"
    by (cases "startEntityUpdate k ?e (set_entity k ?e p)")
  have "startEntityUpdate k ?e (set_entity k ?e p) = startEntityUpdate k ?e p"
    by (simp add: startEntityUpdate_def set_entity_def Let_def)
  then have "keeps n (p', es)" using keeps_startEntityUpdate[OF assms, of ?e p' es err] st by simp
  then show ?thesis
    using True st by (simp add: accept_update_def Let_def answer_def keeps_append_reply)
next
  case False
  then show ?thesis
    using keeps_quiet[OF balanced_set_entity[OF assms]] by (simp add: accept_update_def Let_def answer_def)
qed

lemma keeps_handleEntityUpdate:
  assumes "balanced n p" "handleEntityUpdate w name t a p = Some st"
  shows "keeps n st"
proof -
  have quiet: "keeps n (q, [answer x])" if "balanced n q" for q x
    by (rule keeps_quiet[OF that]) (simp add: answer_def)
  obtain e p1 where e: "entity_for name t p = (e, p1)" by (cases "entity_for name t p")
  have p1: "balanced n p1" "Entities p1 name = Some e"
    using e assms(1) balanced_set_entity[OF assms(1), of name "newEntity name t"]
    by (auto simp: entity_for_def inprog_def newEntity_def has_code_def split: option.splits)
  have "keeps n (accept_update name e a nv p1)" if "rejectUpdateInProgress name e = None" for nv
  proof (rule keeps_accept_update[OF p1(1)])
    show "name \<notin> inprog p1"
      using that p1(2) by (auto simp: rejectUpdateInProgress_def inprog_def has_code_def split: if_splits)
  qed
  then show ?thesis
    using assms(2) e quiet[OF assms(1)] quiet[OF p1(1)]
    by (auto simp: handleEntityUpdate_def Let_def split: option.splits sum.splits)
qed

lemma find_entity_Some:
  "find_entity c order p = Some k \<Longrightarrow> \<exists>e. Entities p k = Some e \<and> has_code c e"
  by (auto simp: find_entity_def find_Some_iff split: option.splits)

lemma find_in_progress:
  assumes "map_order order p" "inprog p \<noteq> {}"
  obtains k where "getEntityInProgress order p = Some k" "k \<in> inprog p"
proof -
  obtain k0 e where "Entities p k0 = Some e" "has_code InProgress e"
    using assms(2) by (auto simp: inprog_def)
  then have "k0 \<in> set order" "(case Entities p k0 of Some e \<Rightarrow> has_code InProgress e | None \<Rightarrow> False)"
    using assms(1) by (auto simp: map_order_def)
  then have "getEntityInProgress order p \<noteq> None"
    by (auto simp: getEntityInProgress_def find_entity_def find_None_iff)
  then show thesis
    using that find_entity_Some unfolding getEntityInProgress_def inprog_def by blast
qed

lemma finish_code: "\<not> has_code InProgress (finishEntityUpdate w ok m e)"
  by (simp add: finishEntityUpdate_def has_code_def set_status_def)

text \<open>A report takes exactly one entity out of progress: one is always found.\<close>

lemma finish_balanced:
  assumes "balanced (Suc n) p" "map_order order p"
  shows "balanced n (finish_in_progress w order ok m p)"
proof -
  have "card (inprog p) \<noteq> 0" using assms(1) by (simp add: balanced_def)
  then have "inprog p \<noteq> {}" by auto
  then obtain k where k: "getEntityInProgress order p = Some k" "k \<in> inprog p"
    using find_in_progress assms(2) by blast
  then obtain e where "Entities p k = Some e" by (auto simp: inprog_def)
  then have "finish_in_progress w order ok m p = set_entity k (finishEntityUpdate w ok m e) p"
    using k(1) by (simp add: finish_in_progress_def)
  then show ?thesis
    using assms(1) k(2) finish_code finite_inprog
    by (auto simp: balanced_def inprog_set_entity card_Diff_singleton)
qed

lemma keeps_start_waiting: "balanced n p \<Longrightarrow> keeps n (start_waiting order p)"
proof (cases "getEntityWaiting order p")
  case (Some k)
  assume b: "balanced n p"
  obtain e where e: "Entities p k = Some e" "has_code Waiting e"
    using find_entity_Some Some unfolding getEntityWaiting_def by blast
  obtain p' es err where st: "startEntityUpdate k e p = (p', es, err)"
    by (cases "startEntityUpdate k e p")
  have "k \<notin> inprog p" using e by (auto simp: inprog_def has_code_def)
  then show ?thesis using keeps_startEntityUpdate[OF b _ st] Some e st by (simp add: start_waiting_def)
qed (simp add: start_waiting_def keeps_quiet)

lemma keeps_handleReboot: "balanced n p \<Longrightarrow> keeps n (handleReboot p)"
  by (auto simp: handleReboot_def run_mender_def runRebootInBackGround_def save_and_spawn_def keeps_def
      answer_def balanced_def covered_def busy_def intro!: exI[of _ Rebooting])

lemma keeps_handleCommand:
  assumes "balanced (n + (if holds_report c then 1 else 0)) p" "map_order o1 p"
    and "handleCommand w o1 o2 c p = Some st"
  shows "keeps n st"
proof (cases c)
  case (MenderEvent e)
  show ?thesis
  proof (cases "ev_code e = EvJobFinished")
    case True
    then have "balanced n (finish_in_progress w o1 (ev_success e) (ev_message e) p)"
      using finish_balanced assms(1,2) MenderEvent by simp
    moreover have "st = start_waiting o2 (finish_in_progress w o1 (ev_success e) (ev_message e) p)"
      using assms(3) MenderEvent True by (simp add: handleMenderEvent_def handleMenderJobFinished_def)
    ultimately show ?thesis using keeps_start_waiting by blast
  next
    case False
    then show ?thesis
      using assms(1,3) MenderEvent keeps_HandleEvent keeps_quiet[of n p "[]"]
      by (auto simp: handleMenderEvent_def split: if_splits)
  qed
qed (use assms(1,3) keeps_handleEntityUpdate keeps_handleReboot
     in \<open>auto intro!: keeps_quiet simp: handleGetEntityState_def handleListApplications_def\<close>)

lemma keeps_loop_turn:
  assumes "balanced (n + (if holds_report c then 1 else 0)) p" "map_order o1 p"
    and "loop_turn w o1 o2 c p = Some st"
  shows "keeps n st"
proof -
  obtain p' es where 1: "handleCommand w o1 o2 c p = Some (p', es)" "st = (p', es @ [WriteState p'])"
    using assms(3) by (auto simp: loop_turn_def)
  have "keeps n (p', es)" using keeps_handleCommand[OF assms(1,2) 1(1)] .
  then show ?thesis using 1(2) balanced_covered by (auto simp: keeps_def)
qed

section \<open>The account of the running system\<close>

definition snapshots :: "system \<Rightarrow> persistent set" where
  "snapshots s = insert (disk s) {p. WriteState p \<in> set (todo s)}"

definition all_work :: "system \<Rightarrow> background set" where
  "all_work s = set (work s) \<union> {b. Go b \<in> set (todo s)}"

text \<open>\<open>lost\<close> entities in progress belong neither to the job under way nor to a report on its way.\<close>

definition account :: "nat \<Rightarrow> system \<Rightarrow> bool" where
  "account lost s \<longleftrightarrow> balanced (lost + reports s) (memory s) \<and>
     (\<forall>p \<in> snapshots s. covered lost p) \<and> (\<forall>b \<in> all_work s. \<exists>m. awaited m b)"

lemma account_append_inbox:
  "account l s \<Longrightarrow> \<not> holds_report c \<Longrightarrow> account l (s\<lparr>inbox := inbox s @ [c]\<rparr>)"
  by (simp add: account_def reports_def snapshots_def all_work_def)

lemma awaited_no_report: "awaited m b \<Longrightarrow> bg_event b e \<Longrightarrow> \<not> holds_report (MenderEvent e)"
  using bg_event_code[of m b e] by (cases m) auto

lemma account_perform:
  assumes "account l s" "todo s = x # xs" "perform x s = Some s'"
  shows "account l (s'\<lparr>todo := xs\<rparr>)"
proof -
  have "reports (s'\<lparr>todo := xs\<rparr>) = reports s"
    using assms(2,3) by (cases x) (auto simp: reports_def split: if_splits)
  moreover have "memory s' = memory s" using assms(3) by (cases x) (auto split: if_splits)
  moreover have "snapshots (s'\<lparr>todo := xs\<rparr>) \<subseteq> snapshots s" "all_work (s'\<lparr>todo := xs\<rparr>) \<subseteq> all_work s"
    using assms(2,3) by (cases x; auto simp: snapshots_def all_work_def split: if_splits)+
  ultimately show ?thesis using assms(1) unfolding account_def by auto
qed

lemma account_step:
  assumes "sys_step s s'" "account l s"
  shows "account l s'"
  using assms
proof (induction rule: sys_step.induct)
  case (client_sends c s)
  then have "\<not> holds_report c" by (cases c) auto
  then show ?case using account_append_inbox client_sends.prems by blast
next
  case (work_reports b s e)
  then obtain m where "awaited m b" unfolding account_def all_work_def by blast
  then have "\<not> holds_report (MenderEvent e)" using awaited_no_report work_reports(2) by blast
  then have "account l (s\<lparr>inbox := inbox s @ [MenderEvent e]\<rparr>)"
    using account_append_inbox work_reports.prems by blast
  then show ?case
    using set_remove1_subset[of b "work s"]
    by (auto simp: account_def reports_def snapshots_def all_work_def)
next
  case (reboot_is_silent d s)
  then show ?case
    using set_remove1_subset[of "RunReboot d" "work s"]
    by (auto simp: account_def reports_def snapshots_def all_work_def)
next
  case (actor_takes s c cs o1 o2 w p es)
  let ?n = "l + length (filter holds_report cs)"
  have "balanced (?n + (if holds_report c then 1 else 0)) (memory s)"
    using actor_takes by (auto simp: account_def reports_def)
  then have k: "keeps ?n (p, es)"
    using keeps_loop_turn actor_takes(3,5) by blast
  then have "\<forall>q. WriteState q \<in> set es \<longrightarrow> covered l q" by (auto simp: keeps_def intro: covered_mono)
  then show ?case
    using k actor_takes.prems
    by (auto simp: account_def reports_def snapshots_def all_work_def keeps_def ac_simps)
next
  case (actor_performs s x xs s')
  then show ?case using account_perform by blast
qed

text \<open>A restart can only lose entities: what was on its way is forgotten.\<close>

lemma reboot_entities [simp]: "Entities (snd (hasRebooted w p)) = Entities p"
  "MenderState (snd (hasRebooted w p)) = MenderState p"
  by (auto simp: hasRebooted_def split: sum.splits)

lemma same_entities:
  "Entities q = Entities p \<Longrightarrow> MenderState q = MenderState p \<Longrightarrow>
   inprog q = inprog p \<and> busy q = busy p \<and> finite_map q = finite_map p"
  by (simp add: inprog_def busy_def finite_map_def)

lemma with_customization_account:
  "inprog (with_customization p) = inprog p \<and> busy (with_customization p) = busy p \<and>
   finite_map (with_customization p) = finite_map p"
proof (cases "Entities p coreOSCustomizationEntity")
  case None
  then have "coreOSCustomizationEntity \<notin> inprog p" by (simp add: inprog_def)
  moreover have "\<not> has_code InProgress (newEntity a t)" for a t by (simp add: has_code_def newEntity_def)
  ultimately show ?thesis using None by (simp add: with_customization_def inprog_set_entity)
qed (simp add: with_customization_def)

lemma New_effects:
  assumes "New w order loaded = Inr (p, es)"
  shows "filter sends_report es = []" "{q. WriteState q \<in> set es} = {p}" "{b. Go b \<in> set es} = {}"
proof -
  have "ev_code (newMenderManager b s) \<noteq> EvJobFinished" for b s
    by (simp add: newMenderManager_def emitRebootFinished_def blank_event_def)
  then show "filter sends_report es = []" "{q. WriteState q \<in> set es} = {p}" "{b. Go b \<in> set es} = {}"
    using assms by (auto simp: New_def cleanUpdateFiles_def Let_def split: sum.splits)
qed

lemma New_Loaded:
  assumes "New w order (Loaded q) = Inr (p, es)"
  shows "inprog p = inprog q \<and> busy p = busy q \<and> finite_map p = finite_map q"
proof -
  have "p = snd (hasRebooted w (with_customization q))"
    using assms by (auto simp: New_def split: prod.splits)
  then show ?thesis
    using same_entities[of p "with_customization q"] with_customization_account[of q] by simp
qed

lemma account_restart:
  assumes "sys_restart s s'" "account l s"
  shows "\<exists>l' \<ge> l. account l' s'"
  using assms
proof (induction rule: sys_restart.induct)
  case (restart w order s p es)
  have cov: "covered l (disk s)" using restart.prems by (simp add: account_def snapshots_def)
  let ?l = "card (inprog p) - busy p"
  have "balanced ?l p" "covered ?l p" "covered ?l (disk s)" "l \<le> ?l"
    using cov New_Loaded[OF restart(1)] by (auto simp: balanced_def covered_def)
  then have "account ?l \<lparr>memory = p, disk = disk s, inbox = [], todo = es, work = []\<rparr>"
    using New_effects[OF restart(1)] by (auto simp: account_def reports_def snapshots_def all_work_def)
  then show ?case using \<open>l \<le> ?l\<close> by blast
qed

lemma initial_entities: "inprog (setInitialPersistentState w) = {}"
  by (auto simp: inprog_def setInitialPersistentState_def newEntity_def has_code_def split: if_splits)

lemma account_start: "sys_start s \<Longrightarrow> account 0 s"
proof -
  assume "sys_start s"
  then obtain w order p es where 1: "New w order NotExist = Inr (p, es)"
    "s = \<lparr>memory = p, disk = p, inbox = [], todo = es, work = []\<rparr>"
    by (auto simp: sys_start_def)
  then have p: "p = setInitialPersistentState w" by (simp add: New_def)
  then have "balanced 0 p" "covered 0 p"
    using initial_entities
    by (auto simp: balanced_def covered_def finite_map_def busy_def IsIdle_def
        setInitialPersistentState_def idle_pstate_def)
  then show ?thesis
    using New_effects[OF 1(1)] 1(2) by (auto simp: account_def reports_def snapshots_def all_work_def)
qed

text \<open>The two contracts: without restarts nothing is lost; with them the loss never shrinks.\<close>

interpretation running: invariant_system sys_start sys_step "account 0"
  using account_start account_step by unfold_locales auto

interpretation restarting: invariant_system sys_start sys_any "\<lambda>s. \<exists>l. account l s"
proof
  fix s t assume "\<exists>l. account l s" "sys_any s t"
  then show "\<exists>l. account l t"
    using account_step account_restart unfolding sys_any_def by metis
qed (use account_start in blast)

lemma loss_persists:
  "steps sys_any n s t \<Longrightarrow> account l s \<Longrightarrow> \<exists>l' \<ge> l. account l' t"
proof (induction rule: steps.induct)
  case (steps_Suc n s t u)
  then obtain l' where "l \<le> l'" "account l' t" by blast
  then show ?case
    using steps_Suc(2) account_step account_restart unfolding sys_any_def by (metis le_trans)
qed auto

lemma account_in_progress:
  "account l s \<Longrightarrow> card (inprog (memory s)) = l + reports s + busy (memory s)"
  by (simp add: account_def balanced_def)

end
