(* ===== verification/Cpu_Traces.thy ===== *)
theory Cpu_Traces
  imports Cpu_System
begin

text \<open>
  Executable runs of the system of \<open>Cpu_System\<close>: a list of moves is played on a state, and what is
  played is reachable. The sample surroundings hold one application artifact each for \<open>a\<close> and \<open>b\<close>.
\<close>

section \<open>Moves\<close>

datatype move =
    Client command
  | Finish background cmd_result
  | Turn
  | Perform nat

text \<open>The keys of the entity map, kept beside the system.\<close>

definition new_key :: "command \<Rightarrow> string option" where
  "new_key c = (case c of StartApplicationUpdate n f \<Rightarrow> Some n
     | StartCoreOsUpdate f \<Rightarrow> Some coreOSEntity
     | StartCoreOSCustomizationUpdate f \<Rightarrow> Some coreOSCustomizationEntity | _ \<Rightarrow> None)"

definition add_key :: "command \<Rightarrow> string list \<Rightarrow> string list" where
  "add_key c ks = (case new_key c of None \<Rightarrow> ks | Some k \<Rightarrow> if k \<in> set ks then ks else k # ks)"

fun perform_n :: "nat \<Rightarrow> system \<Rightarrow> system option" where
  "perform_n 0 s = Some s"
| "perform_n (Suc n) s =
     (case todo s of
        [] \<Rightarrow> Some s
      | x # xs \<Rightarrow> (case perform x s of None \<Rightarrow> None | Some s' \<Rightarrow> perform_n n (s'\<lparr>todo := xs\<rparr>)))"

fun play_move :: "world \<Rightarrow> move \<Rightarrow> system \<times> string list \<Rightarrow> (system \<times> string list) option" where
  "play_move w (Client c) (s, ks) =
     (if (case c of MenderEvent _ \<Rightarrow> False | _ \<Rightarrow> True) \<and> length (inbox s) < inboxSize
      then Some (s\<lparr>inbox := inbox s @ [c]\<rparr>, ks) else None)"
| "play_move w (Finish (RunMender c d code args) r) (s, ks) =
     (if RunMender c d code args \<in> set (work s) \<and> length (inbox s) < inboxSize
      then Some (s\<lparr>work := remove1 (RunMender c d code args) (work s),
                   inbox := inbox s @ [MenderEvent (runMenderCommand c code args r)]\<rparr>, ks)
      else None)"
| "play_move w (Finish b r) (s, ks) = None"
| "play_move w Turn (s, ks) =
     (case inbox s of
        [] \<Rightarrow> None
      | c # cs \<Rightarrow>
          (if todo s = [] then
             (case loop_turn w ks ks c (memory s) of
                None \<Rightarrow> None
              | Some (p, es) \<Rightarrow> Some (s\<lparr>memory := p, inbox := cs, todo := es\<rparr>, add_key c ks))
           else None))"
| "play_move w (Perform n) (s, ks) = (case perform_n n s of None \<Rightarrow> None | Some s' \<Rightarrow> Some (s', ks))"

fun play :: "world \<Rightarrow> move list \<Rightarrow> system \<times> string list \<Rightarrow> (system \<times> string list) option" where
  "play w [] x = Some x"
| "play w (m # ms) x = (case play_move w m x of None \<Rightarrow> None | Some y \<Rightarrow> play w ms y)"

section \<open>What is played is reachable\<close>

lemma dom_set_entity: "dom (Entities (set_entity k e p)) = insert k (dom (Entities p))"
  by simp

lemma startEntityUpdate_dom:
  "startEntityUpdate k e p = (p', es, err) \<Longrightarrow> dom (Entities p') = insert k (dom (Entities p))"
  by (auto simp: startEntityUpdate_def Let_def run_mender_def split: sum.splits)

lemma accept_update_dom: "dom (Entities (fst (accept_update k e a nv p))) = insert k (dom (Entities p))"
proof (cases "IsIdle (MenderState p)")
  case True
  let ?e = "e\<lparr>MenderArtifact := a, DeployingNV := nv\<rparr>"
  obtain p' es err where st: "startEntityUpdate k ?e (set_entity k ?e p) = (p', es, err)"
    by (cases "startEntityUpdate k ?e (set_entity k ?e p)")
  have "dom (Entities p') = insert k (dom (Entities p))"
    using startEntityUpdate_dom[OF st] by (simp only: dom_set_entity insert_absorb2)
  then show ?thesis using True st by (simp add: accept_update_def Let_def)
qed (simp add: accept_update_def Let_def)

lemma handleEntityUpdate_dom:
  assumes "handleEntityUpdate w name t a p = Some st" "rejectInvalidCoreOSEntity name t = None"
  shows "dom (Entities (fst st)) = insert name (dom (Entities p))"
proof -
  obtain e p1 where e: "entity_for name t p = (e, p1)" by (cases "entity_for name t p")
  have p1: "dom (Entities p1) = insert name (dom (Entities p))"
    using e by (auto simp: entity_for_def split: option.splits)
  consider r where "st = (p1, r)" | nv where "st = accept_update name e a nv p1"
    using assms e by (auto simp: handleEntityUpdate_def split: option.splits sum.splits)
  then show ?thesis by cases (use p1 accept_update_dom in \<open>simp_all only: fst_conv insert_absorb2\<close>)
qed

lemma finish_dom: "dom (Entities (finish_in_progress w o1 ok m p)) = dom (Entities p)"
  by (auto simp: finish_in_progress_def split: option.split)

lemma start_waiting_dom: "dom (Entities (fst (start_waiting o2 p))) = dom (Entities p)"
proof (cases "getEntityWaiting o2 p")
  case (Some k)
  then obtain e where e: "Entities p k = Some e"
    using find_entity_Some unfolding getEntityWaiting_def by blast
  obtain p' es err where st: "startEntityUpdate k e p = (p', es, err)" by (cases "startEntityUpdate k e p")
  have "k \<in> dom (Entities p)" using e by blast
  then show ?thesis using startEntityUpdate_dom[OF st] Some e st
    by (simp only: start_waiting_def option.case prod.case fst_conv insert_absorb)
qed (simp add: start_waiting_def)

lemma loop_turn_dom:
  assumes "loop_turn w o1 o2 c p = Some (p', es)"
  shows "dom (Entities p') = (case new_key c of None \<Rightarrow> {} | Some k \<Rightarrow> {k}) \<union> dom (Entities p)"
proof -
  obtain xs where h: "handleCommand w o1 o2 c p = Some (p', xs)" using assms by (auto simp: loop_turn_def)
  show ?thesis
  proof (cases c)
    case (MenderEvent e)
    have "dom (Entities (fst (handleMenderJobFinished w o1 o2 ok m p))) = dom (Entities p)" for ok m
      unfolding handleMenderJobFinished_def start_waiting_dom finish_dom ..
    then show ?thesis using h MenderEvent
      by (auto simp: handleMenderEvent_def new_key_def run_mender_def split: if_splits)
        (metis domI domD fst_conv)+
  qed (use h handleEntityUpdate_dom[of w _ _ _ p "(p', xs)"]
       in \<open>auto simp: new_key_def rejectInvalidCoreOSEntity_def handleGetEntityState_def
         handleListApplications_def handleReboot_def run_mender_def\<close>)
qed

lemma add_key_order:
  assumes "map_order ks p" "loop_turn w o1 o2 c p = Some (p', es)"
  shows "map_order (add_key c ks) p'"
  using assms(1) loop_turn_dom[OF assms(2)]
  by (auto simp: map_order_def add_key_def split: option.splits)

definition played :: "system \<times> string list \<Rightarrow> bool" where
  "played x \<longleftrightarrow> reach sys_start sys_step (fst x) \<and> map_order (snd x) (memory (fst x))"

lemma perform_memory: "perform x s = Some s' \<Longrightarrow> memory s' = memory s"
  by (cases x) (auto split: if_splits)

lemma played_perform:
  "perform_n n s = Some s' \<Longrightarrow> played (s, ks) \<Longrightarrow> played (s', ks)"
proof (induction n arbitrary: s)
  case (Suc n)
  show ?case
  proof (cases "todo s")
    case Nil
    then show ?thesis using Suc.prems by simp
  next
    case (Cons x xs)
    then obtain s1 where 1: "perform x s = Some s1" "perform_n n (s1\<lparr>todo := xs\<rparr>) = Some s'"
      using Suc.prems(1) by (auto split: option.splits)
    have "sys_step s (s1\<lparr>todo := xs\<rparr>)" using actor_performs[OF Cons 1(1)] .
    then have "played (s1\<lparr>todo := xs\<rparr>, ks)"
      using Suc.prems(2) perform_memory[OF 1(1)] reach_step by (fastforce simp: played_def)
    then show ?thesis using Suc.IH 1(2) by blast
  qed
qed simp

lemma played_step: "played (s, ks) \<Longrightarrow> sys_step s s' \<Longrightarrow> map_order ks' (memory s') \<Longrightarrow> played (s', ks')"
  using reach_step by (auto simp: played_def)

lemma played_move:
  assumes "played x" "play_move w m x = Some y"
  shows "played y"
proof -
  obtain s ks where x: "x = (s, ks)" by (cases x)
  have o: "map_order ks (memory s)" using assms(1) by (simp add: played_def x)
  show ?thesis
  proof (cases m)
    case (Client c)
    then have "\<forall>e. c \<noteq> MenderEvent e" "length (inbox s) < inboxSize"
      "y = (s\<lparr>inbox := inbox s @ [c]\<rparr>, ks)"
      using assms(2) x by (auto split: if_splits command.splits)
    then show ?thesis using played_step[OF _ client_sends] assms(1) x o by simp
  next
    case (Finish b r)
    then obtain c d code args where b: "b = RunMender c d code args" "b \<in> set (work s)"
      "length (inbox s) < inboxSize"
      "y = (s\<lparr>work := remove1 b (work s),
        inbox := inbox s @ [MenderEvent (runMenderCommand c code args r)]\<rparr>, ks)"
      using assms(2) x by (cases b) (auto split: if_splits)
    then show ?thesis
      using played_step[OF _ work_reports[OF b(2) _ b(3)]] bg_event.intros(1) assms(1) x o by simp
  next
    case Turn
    then obtain c cs p es where t: "inbox s = c # cs" "todo s = []"
      "loop_turn w ks ks c (memory s) = Some (p, es)"
      "y = (s\<lparr>memory := p, inbox := cs, todo := es\<rparr>, add_key c ks)"
      using assms(2) x by (auto split: list.splits if_splits option.splits)
    then show ?thesis
      using played_step[OF _ actor_takes[OF t(2,1) o o t(3)]] add_key_order[OF o t(3)] assms(1) x by simp
  next
    case (Perform n)
    then show ?thesis using assms x played_perform by (auto split: option.splits)
  qed
qed

lemma played_play: "play w ms x = Some y \<Longrightarrow> played x \<Longrightarrow> played y"
  by (induction ms arbitrary: x) (auto split: option.splits dest: played_move)

section \<open>Sample surroundings\<close>

definition entry_of :: "string \<Rightarrow> string \<Rightarrow> tar_entry" where
  "entry_of n c = \<lparr>te_name = n, te_regular = True, te_content = Inr c\<rparr>"

definition demo_untar :: "reader \<Rightarrow> tar_entry list \<times> string option" where
  "demo_untar r =
     (case fst r of
        [c] \<Rightarrow> ([entry_of ''header.tar'' [c, c]], None)
      | [c, d] \<Rightarrow> ([entry_of ''headers/0000/type-info'' [c, c, c]], None)
      | _ \<Rightarrow> ([], None))"

definition demo_json :: "string \<Rightarrow> json go" where
  "demo_json t =
     (case t of
        c # _ \<Rightarrow> Inr (JObject [(''artifact_provides'',
            JObject [(''data-partition.'' @ [c] @ ''.version'', JString ''2'')])])
      | [] \<Rightarrow> Inl ''unexpected end of JSON input'')"

definition demo_world :: world where
  "demo_world = bare_world\<lparr>open_file := \<lambda>f. Inr (f, None), untar := demo_untar, json_syntax := demo_json\<rparr>"

definition demo_start :: "system \<times> string list" where
  "demo_start =
     (case New demo_world [] NotExist of
        Inr (p, es) \<Rightarrow> (\<lparr>memory = p, disk = p, inbox = [], todo = es, work = []\<rparr>,
          [coreOSEntity, coreOSCustomizationEntity])
      | Inl _ \<Rightarrow> undefined)"

lemma demo_start_played: "played demo_start"
proof -
  obtain p es where 1: "New demo_world [] NotExist = Inr (p, es)" "p = setInitialPersistentState demo_world"
    by (simp add: New_def)
  have "sys_start \<lparr>memory = p, disk = p, inbox = [], todo = es, work = []\<rparr>"
    using 1(1) unfolding sys_start_def by blast
  moreover have "map_order [coreOSEntity, coreOSCustomizationEntity] p"
    by (auto simp: 1(2) map_order_def setInitialPersistentState_def coreOSEntity_def
        coreOSCustomizationEntity_def split: if_splits)
  ultimately show ?thesis using 1(1) by (auto simp: played_def demo_start_def intro: reach_start)
qed

definition demo_install :: "string \<Rightarrow> background" where
  "demo_install f = RunMender CmdInstall updateTimeout EvInstallFinished [f]"

definition demo_result :: cmd_result where
  "demo_result = \<lparr>cr_stdout = ''Installed and committed.'' @ [newline], cr_stderr = [], cr_exit = 0,
     cr_err = None\<rparr>"

definition code_of :: "string \<Rightarrow> persistent \<Rightarrow> deploy_code option" where
  "code_of k p = map_option (\<lambda>e. Code (DeployStatus e)) (Entities p k)"

text \<open>Start-up, the update of \<open>a\<close>, and the end of its command.\<close>

definition demo_a_installed :: "move list" where
  "demo_a_installed =
     [Perform 9, Turn, Perform 9, Client (StartApplicationUpdate ''a'' ''a''), Turn, Perform 9,
      Finish (demo_install ''a'') demo_result]"

lemma code_of_inprog: "code_of k p = Some InProgress \<longleftrightarrow> k \<in> inprog p"
  by (auto simp: code_of_def inprog_def has_code_def)

text \<open>A command for \<open>b\<close> waits in the inbox while the end of \<open>a\<close> is handled.\<close>

definition demo_two_updates :: "move list" where
  "demo_two_updates = demo_a_installed @
     [Client (StartApplicationUpdate ''b'' ''b''), Turn, Perform 9, Turn, Perform 9]"

text \<open>The inbox is full when the job of \<open>a\<close> ends.\<close>

definition demo_full_inbox :: "move list" where
  "demo_full_inbox = demo_a_installed @ replicate 9 (Client ListApplications) @
     [Turn, Client ListApplications, Perform 2]"

text \<open>The idle state is on disk, the report is not yet handled.\<close>

definition demo_idle_saved :: "move list" where
  "demo_idle_saved = demo_a_installed @ [Turn, Perform 2]"

definition deadlocked :: "system \<Rightarrow> bool" where
  "deadlocked s \<longleftrightarrow> (case todo s of Send e # xs \<Rightarrow> inboxSize \<le> length (inbox s) | _ \<Rightarrow> False)"

definition both_in_progress :: "system \<Rightarrow> bool" where
  "both_in_progress s \<longleftrightarrow> code_of ''a'' (memory s) = Some InProgress \<and> code_of ''b'' (memory s) = Some InProgress"

lemma demo_two: "case play demo_world demo_two_updates demo_start of None \<Rightarrow> False
   | Some (s, ks) \<Rightarrow> both_in_progress s"
  by code_simp

lemma demo_wrong_entity: "case play demo_world (demo_two_updates @ [Turn]) demo_start of None \<Rightarrow> False
   | Some (s, ks) \<Rightarrow> code_of ''a'' (memory s) = Some InProgress \<and> code_of ''b'' (memory s) = Some Failure \<and>
       work s = [demo_install ''b'']"
  by code_simp

lemma demo_full: "case play demo_world demo_full_inbox demo_start of None \<Rightarrow> False
   | Some (s, ks) \<Rightarrow> deadlocked s \<and> length (inbox s) = inboxSize"
  by code_simp

lemma demo_idle: "case play demo_world demo_idle_saved demo_start of None \<Rightarrow> False
   | Some (s, ks) \<Rightarrow> IsIdle (MenderState (disk s)) \<and> code_of ''a'' (disk s) = Some InProgress"
  by code_simp

text \<open>The same for the reachability relation.\<close>

lemma played_witness:
  assumes "case play demo_world ms demo_start of None \<Rightarrow> False | Some (s, ks) \<Rightarrow> P s"
  obtains s where "reach sys_start sys_step s" "P s"
proof -
  obtain s ks where 1: "play demo_world ms demo_start = Some (s, ks)" "P s"
    using assms by (auto split: option.splits)
  then have "played (s, ks)" using played_play demo_start_played by blast
  then have "reach sys_start sys_step s" by (simp add: played_def)
  then show thesis using that 1(2) by blast
qed

end
