(* ===== verification/Cpu_Commands.thy ===== *)
theory Cpu_Commands
  imports Cpu_Traces
begin

text \<open>
  What a client can rely on when it gives the CPU manager a command: a refused update changes nothing,
  an accepted one is recorded and saved before its installation starts, and a deployment is shown
  as successful exactly when its version is found on the device.
\<close>

section \<open>Update commands\<close>

definition refusals :: "cpu_error_code set" where
  "refusals = {InvalidCoreOSEntityName, EntityUpdateInProgress, ArtifactInvalid, ErrAlreadyDeployed}"

definition untouched :: "string \<Rightarrow> entity_type \<Rightarrow> persistent \<Rightarrow> persistent \<Rightarrow> bool" where
  "untouched name t p p' \<longleftrightarrow> p' = p \<or> Entities p name = None \<and> p' = set_entity name (newEntity name t) p"

lemma entity_for_untouched: "entity_for name t p = (e, p1) \<Longrightarrow> untouched name t p p1 \<and> Entities p1 name = Some e"
  by (auto simp: entity_for_def untouched_def split: option.splits)

lemma start_idle:
  assumes "IsIdle (MenderState p)"
  shows "startEntityUpdate k e p =
    (let e1 = set_status InProgress ''Update is in progress'' e;
         s = (MenderState p)\<lparr>State := Installing, CurrentArtifact := MenderArtifact e,
               CurrentEntityType := EntityType e, CurrentEntityName := Name e, RecoveryAttempts := 0,
               RecoveryOperations := 0\<rparr>;
         p1 = (set_entity k e1 p)\<lparr>MenderState := s\<rparr>
     in (p1, [WriteState p1, Go (RunMender CmdInstall updateTimeout EvInstallFinished [MenderArtifact e])],
         None))"
  using assms
  by (simp add: startEntityUpdate_def StartUpdateJob_def IsIdle_def runMenderInstallInBackGround_def
      save_and_spawn_def run_mender_def Let_def)

lemma accept_cases:
  "accept_update name e a nv p =
     (let e1 = e\<lparr>MenderArtifact := a, DeployingNV := nv\<rparr> in
      if IsIdle (MenderState p)
      then (case startEntityUpdate name e1 (set_entity name e1 p) of (p', es, err) \<Rightarrow> (p', es @ [answer None]))
      else (set_entity name (set_status Waiting ''Mender is busy with another update'' e1) p, [answer None]))"
  using start_idle[of "set_entity name (e\<lparr>MenderArtifact := a, DeployingNV := nv\<rparr>) p"]
  by (simp add: accept_update_def Let_def)

lemma accept_answers: "answer err \<in> set (snd (accept_update name e a nv p)) \<Longrightarrow> err = None"
  using start_idle[of "set_entity name (e\<lparr>MenderArtifact := a, DeployingNV := nv\<rparr>) p" name
      "e\<lparr>MenderArtifact := a, DeployingNV := nv\<rparr>"]
  by (auto simp: accept_cases Let_def answer_def split: if_splits)

lemma update_cases:
  assumes "handleEntityUpdate w name t a p = Some st"
  obtains (refused) err p1 where "st = (p1, [answer (Some err)])" "untouched name t p p1" "err_code err \<in> refusals"
  | (accepted) e p1 nv where "st = accept_update name e a nv p1" "untouched name t p p1"
      "Entities p1 name = Some e" "\<not> has_code InProgress e" "\<not> has_code Waiting e"
      "getVersionFromArtifact w e a = Some (Inr nv)" "getDeployedVersion w e \<noteq> Inr nv"
proof -
  obtain e p1 where e: "entity_for name t p = (e, p1)" by (cases "entity_for name t p")
  note u = entity_for_untouched[OF e]
  show thesis
  proof (cases "rejectInvalidCoreOSEntity name t")
    case (Some err)
    then show thesis
      using assms by (intro refused[of p err])
        (auto simp: handleEntityUpdate_def untouched_def rejectInvalidCoreOSEntity_def newCodedError_def
          refusals_def split: if_splits)
  next
    case n1: None
    show thesis
    proof (cases "rejectUpdateInProgress name e")
      case (Some err)
      then show thesis
        using assms e n1 u by (intro refused[of p1 err])
          (auto simp: handleEntityUpdate_def rejectUpdateInProgress_def newCodedError_def refusals_def
            split: if_splits)
    next
      case n2: None
      then obtain r where r: "getVersionFromArtifact w e a = Some r"
        using assms e n1 by (auto simp: handleEntityUpdate_def split: option.splits)
      show thesis
      proof (cases r)
        case (Inl x)
        then show thesis
          using assms e n1 n2 u r
          by (intro refused[OF _ conjunct1[OF u]]) (auto simp: handleEntityUpdate_def newCodedError_def refusals_def)
      next
        case (Inr nv)
        show thesis
        proof (cases "rejectAlreadyDeployed w name e nv")
          case (Some err)
          then show thesis
            using assms e n1 n2 u r Inr
            by (intro refused[of p1 err]) (auto simp: handleEntityUpdate_def rejectAlreadyDeployed_def
                newCodedError_def refusals_def split: sum.splits if_splits)
        next
          case None
          have "isDeployed w e nv \<noteq> Inr True"
            using None by (auto simp: rejectAlreadyDeployed_def split: sum.splits if_splits)
          then show thesis
            using assms e n1 n2 u r Inr None
            by (intro accepted[of e nv p1])
              (auto simp: handleEntityUpdate_def isDeployed_iff rejectUpdateInProgress_def has_code_def
                split: if_splits)
        qed
      qed
    qed
  qed
qed

text \<open>C13. An update command that is answered with an error has no other effect: no work is started, no
  other entity and nothing of the Mender machine changes (a first refused update of a new name only
  adds the entity as never deployed), and the error is one of the four refusals.\<close>

theorem refused_update_changes_nothing:
  assumes "handleEntityUpdate w name t a p = Some (p', es)" "answer (Some err) \<in> set es"
  shows "es = [answer (Some err)] \<and> untouched name t p p' \<and> err_code err \<in> refusals"
  using assms(1)
proof (cases rule: update_cases)
  case (refused err' p1)
  then show ?thesis using assms(2) by (auto simp: answer_def)
next
  case (accepted e p1 nv)
  then have "answer (Some err) \<in> set (snd (accept_update name e a nv p1))"
    using assms(2) by (metis snd_conv)
  then show ?thesis using accept_answers by blast
qed

theorem refused_update_changes_nothing_witness:
  "untouched ''x'' EntityApplication (setInitialPersistentState bare_world)
     (set_entity ''x'' (newEntity ''x'' EntityApplication) (setInitialPersistentState bare_world))"
proof -
  let ?p = "setInitialPersistentState bare_world"
  have "handleEntityUpdate bare_world ''x'' EntityApplication ''f'' ?p =
      Some (set_entity ''x'' (newEntity ''x'' EntityApplication) ?p,
        [answer (Some (newCodedError ArtifactInvalid (''invalid artifact for entity '' @ wrap_err ''x''
          (wrap_err (''get version from artifact for application '' @ ''x'')
            (wrap_err ''parse artifact headers'' ''no such file'')))))])"
    by (simp add: handleEntityUpdate_def rejectInvalidCoreOSEntity_def entity_for_def
        setInitialPersistentState_def coreOSEntity_def coreOSCustomizationEntity_def
        rejectUpdateInProgress_def newEntity_def getVersionFromArtifact_def appVersionFromArtifact_def
        parseArtifactHeadersTypeInfo_def bare_world_def)
  from refused_update_changes_nothing[OF this] show ?thesis by simp
qed

text \<open>C12. An update command that is answered without an error is on record: the entity holds the artifact
  and its version, which is not the deployed one. If the machine was idle, its job for exactly this
  artifact has been started, and the state was saved with it before the installation; otherwise the
  entity waits and nothing else has changed.\<close>

theorem accepted_update_is_recorded:
  assumes "handleEntityUpdate w name t a p = Some (p', es)" "answer None \<in> set es"
  shows "\<exists>e. Entities p' name = Some e \<and> MenderArtifact e = a \<and>
    getVersionFromArtifact w e a = Some (Inr (DeployingNV e)) \<and>
    getDeployedVersion w e \<noteq> Inr (DeployingNV e) \<and>
    (if IsIdle (MenderState p)
     then has_code InProgress e \<and> State (MenderState p') = Installing \<and>
       CurrentArtifact (MenderState p') = a \<and> CurrentEntityName (MenderState p') = Name e \<and>
       es = [WriteState p', Go (RunMender CmdInstall updateTimeout EvInstallFinished [a]), answer None]
     else has_code Waiting e \<and> MenderState p' = MenderState p \<and> es = [answer None])"
  using assms(1)
proof (cases rule: update_cases)
  case (refused err' p1)
  then show ?thesis using assms(2) by (auto simp: answer_def)
next
  case (accepted e p1 nv)
  let ?e = "e\<lparr>MenderArtifact := a, DeployingNV := nv\<rparr>"
  have m: "MenderState p1 = MenderState p" using accepted(2) by (auto simp: untouched_def)
  have g: "getVersionFromArtifact w (set_status c s ?e) a = Some (Inr nv)"
    "getDeployedVersion w (set_status c s ?e) \<noteq> Inr nv" for c s
    using accepted(6,7) getDeployedVersion_cong[of "set_status c s ?e" e w]
      getVersionFromArtifact_cong[of "set_status c s ?e" e w a] by simp_all
  show ?thesis
  proof (cases "IsIdle (MenderState p)")
    case True
    then have "IsIdle (MenderState (set_entity name ?e p1))" using m by simp
    from start_idle[OF this, of name ?e] show ?thesis
      using accepted(1) True m g[of InProgress] by (auto simp: accept_cases Let_def)
  next
    case False
    then show ?thesis using accepted(1) m g[of Waiting] by (auto simp: accept_cases Let_def)
  qed
qed

lemma demo_update:
  "handleEntityUpdate demo_world ''a'' EntityApplication ''a'' (setInitialPersistentState demo_world) =
   Some (accept_update ''a'' (newEntity ''a'' EntityApplication) ''a'' \<lparr>nv_name = ''a'', nv_version = ''2''\<rparr>
     (set_entity ''a'' (newEntity ''a'' EntityApplication) (setInitialPersistentState demo_world)))"
proof -
  have "getVersionFromArtifact demo_world (newEntity ''a'' EntityApplication) ''a'' =
      Some (Inr \<lparr>nv_name = ''a'', nv_version = ''2''\<rparr>)"
    by code_simp
  moreover have "rejectAlreadyDeployed demo_world ''a'' (newEntity ''a'' EntityApplication)
      \<lparr>nv_name = ''a'', nv_version = ''2''\<rparr> = None"
    by code_simp
  moreover have "entity_for ''a'' EntityApplication (setInitialPersistentState demo_world) =
      (newEntity ''a'' EntityApplication,
       set_entity ''a'' (newEntity ''a'' EntityApplication) (setInitialPersistentState demo_world))"
    by (simp add: entity_for_def setInitialPersistentState_def coreOSEntity_def coreOSCustomizationEntity_def)
  ultimately show ?thesis
    by (simp add: handleEntityUpdate_def rejectInvalidCoreOSEntity_def rejectUpdateInProgress_def)
      (simp add: newEntity_def)
qed

theorem accepted_update_is_recorded_witness:
  "\<exists>e p' es. handleEntityUpdate demo_world ''a'' EntityApplication ''a'' (setInitialPersistentState demo_world) =
      Some (p', es) \<and> Entities p' ''a'' = Some e \<and> MenderArtifact e = ''a'' \<and> has_code InProgress e"
proof -
  obtain p' es where st: "accept_update ''a'' (newEntity ''a'' EntityApplication) ''a''
     \<lparr>nv_name = ''a'', nv_version = ''2''\<rparr>
     (set_entity ''a'' (newEntity ''a'' EntityApplication) (setInitialPersistentState demo_world)) = (p', es)"
    by fastforce
  have idle: "IsIdle (MenderState (setInitialPersistentState demo_world))"
    by (simp add: IsIdle_def setInitialPersistentState_def idle_pstate_def)
  have "answer None \<in> set es"
    using st idle by (auto simp: accept_cases Let_def split: prod.splits)
  from accepted_update_is_recorded[OF demo_update[unfolded st] this] show ?thesis
    using demo_update[unfolded st] idle by auto
qed

section \<open>The end of an update\<close>

text \<open>C17. When a job ends, its entity is shown as deployed successfully exactly when the job succeeded
  and the version that is now found on the device is the one that was to be deployed; otherwise it
  is shown as failed, with the message of the job if the job failed. Its artifact is forgotten.\<close>

theorem success_shown_iff_deployed:
  "(Code (DeployStatus (finishEntityUpdate w success m e)) = Success \<longleftrightarrow>
     success \<and> getDeployedVersion w e = Inr (DeployingNV e)) \<and>
   (Code (DeployStatus (finishEntityUpdate w success m e)) \<in> {Success, Failure}) \<and>
   (success \<or> Message (DeployStatus (finishEntityUpdate w success m e)) = m) \<and>
   MenderArtifact (finishEntityUpdate w success m e) = [] \<and>
   DeployingNV (finishEntityUpdate w success m e) = no_version"
  using isDeployed_iff[of w e "DeployingNV e"]
  by (auto simp: finishEntityUpdate_def set_status_def Let_def)

section \<open>Names of core OS entities\<close>

text \<open>An application that is given the name of the core OS entity is not an application: its update
  command installs the file as a core OS update. Only the opposite mix-up is refused.\<close>

theorem application_named_coreos_is_core_os:
  assumes "Entities p coreOSEntity = Some e"
  shows "handleCommand w o1 o2 (StartApplicationUpdate coreOSEntity f) p =
    handleCommand w o1 o2 (StartCoreOsUpdate f) p"
  using assms by (simp add: handleEntityUpdate_def rejectInvalidCoreOSEntity_def entity_for_def)

theorem application_named_coreos_is_core_os_witness:
  "handleCommand bare_world [] [] (StartApplicationUpdate coreOSEntity ''f'')
     (setInitialPersistentState bare_world) =
   handleCommand bare_world [] [] (StartCoreOsUpdate ''f'') (setInitialPersistentState bare_world)"
  by (rule application_named_coreos_is_core_os[of _ "newEntity coreOSEntity EntityCoreOs"])
    (simp add: setInitialPersistentState_def coreOSEntity_def coreOSCustomizationEntity_def)

end
