(* ===== verification/Cpu_Properties.thy ===== *)
theory Cpu_Properties
  imports Cpu_Commands
begin

text \<open>
  What the CPU manager promises to its clients, and three things that its running system does not
  keep: one update at a time, an end for every update, and an answer for every command.
\<close>

section \<open>The account of updates in progress\<close>

text \<open>C9. Until the first restart, the entities shown as in progress are exactly accounted for: one for
  the job under way and one for each report of a finished job that the actor has not handled yet.\<close>

theorem in_progress_accounted:
  assumes "reach sys_start sys_step s"
  shows "card (inprog (memory s)) = reports s + busy (memory s)"
  using account_in_progress[OF running.reach_inv[OF assms]] by simp

lemma demo_account:
  "case play demo_world demo_a_installed demo_start of None \<Rightarrow> False
   | Some (s, ks) \<Rightarrow> busy (memory s) = 1"
  by code_simp

theorem in_progress_accounted_witness:
  "\<exists>s. busy (memory s) = 1 \<and> card (inprog (memory s)) = reports s + busy (memory s)"
proof (rule played_witness[OF demo_account])
  fix s assume "reach sys_start sys_step s" "busy (memory s) = 1"
  then show ?thesis using in_progress_accounted[of s] by blast
qed

text \<open>C16. At any time, restarts included, a busy Mender machine has an entity that is shown as in
  progress, and every report of a finished job that is handled finds an entity in progress, which it takes out of
  progress: the warning branch for a report without an entity is never taken.\<close>

theorem report_finds_entity:
  assumes "reach sys_start sys_any s" "reports s + busy (memory s) > 0" "map_order order (memory s)"
  shows "\<exists>k. getEntityInProgress order (memory s) = Some k \<and> k \<in> inprog (memory s)"
proof -
  obtain l where "account l s" using restarting.reach_inv[OF assms(1)] by blast
  then have "card (inprog (memory s)) \<noteq> 0" using account_in_progress assms(2) by simp
  then have "inprog (memory s) \<noteq> {}" by auto
  then show ?thesis using find_in_progress[OF assms(3)] by blast
qed

lemma demo_keys:
  "case play demo_world demo_a_installed demo_start of None \<Rightarrow> False
   | Some (s, ks) \<Rightarrow> busy (memory s) = 1 \<and> ks = [''a'', coreOSEntity, coreOSCustomizationEntity]"
  by code_simp

lemma running_restarting: "reach sys_start sys_step s \<Longrightarrow> reach sys_start sys_any s"
  by (erule reach_mono) (simp add: sys_any_def)

theorem report_finds_entity_witness:
  "\<exists>(s :: system) k. getEntityInProgress [''a'', coreOSEntity, coreOSCustomizationEntity] (memory s) = Some k \<and>
     k \<in> inprog (memory s)"
proof -
  obtain s ks where 1: "play demo_world demo_a_installed demo_start = Some (s, ks)"
    "busy (memory s) = 1" "ks = [''a'', coreOSEntity, coreOSCustomizationEntity]"
    using demo_keys by (auto split: option.splits)
  then have "played (s, ks)" using played_play demo_start_played by blast
  then have "reach sys_start sys_any s" "map_order [''a'', coreOSEntity, coreOSCustomizationEntity] (memory s)"
    using running_restarting 1(3) by (auto simp: played_def)
  moreover have "reports s + busy (memory s) > 0" using 1(2) by simp
  ultimately show ?thesis by (intro exI[of _ s] report_finds_entity)
qed

section \<open>Waiting updates\<close>

definition waiting :: "persistent \<Rightarrow> string set" where
  "waiting p = {k. \<exists>e. Entities p k = Some e \<and> has_code Waiting e}"

definition served :: "system \<Rightarrow> bool" where
  "served s \<longleftrightarrow> (waiting (memory s) \<noteq> {} \<longrightarrow> 0 < reports s + busy (memory s))"

lemma waiting_set_entity:
  "waiting (set_entity k e p) = (if has_code Waiting e then insert k (waiting p) else waiting p - {k})"
  by (auto simp: waiting_def split: if_splits)

lemma waiting_mender_state [simp]: "waiting (p\<lparr>MenderState := s\<rparr>) = waiting p"
  by (simp add: waiting_def)

lemma start_effect:
  assumes "startEntityUpdate k e p = (p', es, err)"
  shows "busy p' = 1" "waiting p' = waiting p - {k}" "filter sends_report es = []"
proof -
  have "busy p' = 1 \<and> waiting p' = waiting p - {k} \<and> filter sends_report es = []"
  proof (cases "IsIdle (MenderState p)")
    case True
    then show ?thesis using assms
      by (auto simp: startEntityUpdate_def Let_def StartUpdateJob_def IsIdle_def run_mender_def
          runMenderInstallInBackGround_def save_and_spawn_def waiting_set_entity busy_def)
  next
    case False
    then show ?thesis using assms
      by (auto simp: startEntityUpdate_def Let_def StartUpdateJob_def IsIdle_def waiting_set_entity busy_def)
  qed
  then show "busy p' = 1" "waiting p' = waiting p - {k}" "filter sends_report es = []" by auto
qed

lemma start_waiting_serves:
  assumes "map_order order p" "waiting (fst (start_waiting order p)) \<noteq> {}"
  shows "busy (fst (start_waiting order p)) = 1"
proof (cases "getEntityWaiting order p")
  case None
  then have "\<forall>k \<in> dom (Entities p). \<not> (case Entities p k of Some e \<Rightarrow> has_code Waiting e | None \<Rightarrow> False)"
    using assms(1) by (auto simp: getEntityWaiting_def find_entity_def find_None_iff map_order_def)
  then have "waiting p = {}" by (force simp: waiting_def)
  then show ?thesis using assms(2) None by (simp add: start_waiting_def)
next
  case (Some k)
  then obtain e where e: "Entities p k = Some e"
    using find_entity_Some unfolding getEntityWaiting_def by blast
  obtain p' es err where st: "startEntityUpdate k e p = (p', es, err)" by (cases "startEntityUpdate k e p")
  then show ?thesis using Some e start_effect(1)[OF st] by (simp add: start_waiting_def)
qed

lemma accept_serves: "waiting (fst (accept_update k e a nv p)) \<subseteq> waiting p \<or> busy (fst (accept_update k e a nv p)) = 1"
proof (cases "IsIdle (MenderState p)")
  case True
  let ?e = "e\<lparr>MenderArtifact := a, DeployingNV := nv\<rparr>"
  obtain p' es err where st: "startEntityUpdate k ?e (set_entity k ?e p) = (p', es, err)"
    by (cases "startEntityUpdate k ?e (set_entity k ?e p)")
  then show ?thesis using True start_effect(1)[OF st] by (simp add: accept_update_def Let_def)
qed (simp add: accept_update_def Let_def busy_def)

lemma accept_busy:
  "busy p \<le> busy (fst (accept_update k e a nv p))"
proof (cases "IsIdle (MenderState p)")
  case True
  then show ?thesis by (simp add: busy_def)
qed (simp add: accept_update_def Let_def busy_def)

lemma update_serves:
  assumes "handleEntityUpdate w name t a p = Some (p', es)"
  shows "busy p \<le> busy p' \<and> (waiting p' \<subseteq> waiting p \<or> busy p' = 1)"
proof -
  obtain e p1 where e: "entity_for name t p = (e, p1)" by (cases "entity_for name t p")
  have p1: "busy p1 = busy p" "waiting p1 \<subseteq> waiting p"
    using e by (auto simp: entity_for_def waiting_set_entity newEntity_def has_code_def split: option.splits)
  consider "p' = p" | "p' = p1" | nv where "p' = fst (accept_update name e a nv p1)"
    using assms e by (auto simp: handleEntityUpdate_def split: option.splits sum.splits) (metis fst_conv)
  then show ?thesis
  proof cases
    case 3
    then show ?thesis using accept_serves accept_busy p1 by (metis (no_types) order_trans)
  qed (use p1 in auto)
qed

lemma command_serves:
  assumes "handleCommand w o1 o2 c p = Some (p', es)" "\<not> holds_report c"
  shows "busy p \<le> busy p' + length (filter sends_report es) \<and> (waiting p' \<subseteq> waiting p \<or> busy p' = 1)"
proof (cases c)
  case (MenderEvent e)
  then have h: "(p', es) = (p, []) \<or> (\<exists>st. HandleEvent w e (MenderState p) = Some st \<and> (p', es) = run_mender p st)"
    using assms by (auto simp: handleMenderEvent_def split: if_splits)
  have "busy p \<le> busy p' + length (filter sends_report es)" if
    "HandleEvent w e (MenderState p) = Some st" "(p', es) = run_mender p st" for st
  proof -
    have "length (filter is_report (snd st)) + (if IsIdle (fst st) then 0 else 1) =
        (if IsIdle (MenderState p) then 0 else 1)"
      using mender_engine.handle_report[of w e "MenderState p" "fst st" "snd st"] that(1) by simp
    then show ?thesis using that(2) mender_reports by (auto simp: run_mender_def busy_def split: if_splits)
  qed
  then show ?thesis using h by (auto simp: run_mender_def)
qed (use assms update_serves in \<open>fastforce simp: handleGetEntityState_def handleListApplications_def
    handleReboot_def run_mender_def runRebootInBackGround_def save_and_spawn_def busy_def\<close>)+

lemma report_serves:
  assumes "handleCommand w o1 o2 c p = Some (p', es)" "holds_report c" "map_order o2 p"
  shows "waiting p' \<noteq> {} \<longrightarrow> busy p' = 1"
proof -
  obtain e where c: "c = MenderEvent e" "ev_code e = EvJobFinished" using assms(2) by (cases c) auto
  have "map_order o2 (finish_in_progress w o1 (ev_success e) (ev_message e) p)"
    using assms(3) finish_dom by (simp add: map_order_def)
  then show ?thesis
    using start_waiting_serves assms(1) c
    by (auto simp: handleMenderEvent_def handleMenderJobFinished_def dest: sym)
      (metis fst_conv emptyE)
qed

interpretation serving: invariant_system sys_start sys_step served
proof
  fix s assume "sys_start s"
  then show "served s"
    by (auto simp: sys_start_def served_def waiting_def New_def setInitialPersistentState_def newEntity_def
        has_code_def split: if_splits)
next
  fix s t assume "served s" "sys_step s t"
  from this(2,1) show "served t"
  proof (induction rule: sys_step.induct)
    case (actor_takes s c cs o1 o2 w p es)
    then obtain xs where h: "handleCommand w o1 o2 c (memory s) = Some (p, xs)" "es = xs @ [WriteState p]"
      by (auto simp: loop_turn_def)
    show ?case
    proof (cases "holds_report c")
      case True
      then show ?thesis using report_serves[OF h(1)] actor_takes(4) by (auto simp: served_def)
    next
      case False
      then show ?thesis
        using command_serves[OF h(1)] actor_takes(1,2) actor_takes.prems h(2)
        by (auto simp: served_def reports_def)
    qed
  next
    case (actor_performs s x xs s')
    have "reports (s'\<lparr>todo := xs\<rparr>) = reports s" "memory s' = memory s"
      using actor_performs(1,2) by (cases x; auto simp: reports_def split: if_splits)+
    then show ?case using actor_performs.prems by (simp add: served_def)
  qed (auto simp: served_def reports_def)
qed

text \<open>The end of the finished update leaves the waiting ones and the machine as they are.\<close>

lemma finish_keeps_waiting:
  "waiting (finish_in_progress w order ok m p) = waiting p \<and>
   MenderState (finish_in_progress w order ok m p) = MenderState p \<and>
   (\<forall>k \<in> waiting p. Entities (finish_in_progress w order ok m p) k = Entities p k)"
proof (cases "getEntityInProgress order p")
  case (Some k)
  then obtain e where e: "Entities p k = Some e" "has_code InProgress e"
    using find_entity_Some unfolding getEntityInProgress_def by blast
  have "k \<notin> waiting p" using e by (auto simp: waiting_def has_code_def)
  moreover have "\<not> has_code Waiting (finishEntityUpdate w ok m e)"
    by (simp add: finishEntityUpdate_def has_code_def set_status_def)
  ultimately show ?thesis using Some e(1)
    by (auto simp: finish_in_progress_def waiting_set_entity)
qed (simp add: finish_in_progress_def)

lemma find_waiting:
  assumes "map_order order p" "waiting p \<noteq> {}"
  obtains k where "getEntityWaiting order p = Some k" "k \<in> waiting p"
proof -
  obtain k0 where "k0 \<in> set order" "(case Entities p k0 of Some e \<Rightarrow> has_code Waiting e | None \<Rightarrow> False)"
    using assms by (fastforce simp: waiting_def map_order_def)
  then have "getEntityWaiting order p \<noteq> None"
    by (auto simp: getEntityWaiting_def find_entity_def find_None_iff)
  then show thesis
    using that find_entity_Some unfolding getEntityWaiting_def waiting_def by blast
qed

text \<open>What becomes of the waiting update \<open>e\<close> with key \<open>k\<close> when a report is handled in state \<open>p\<close>: with the machine
  idle its job is started; with the machine taken by another command it is refused.\<close>

definition dequeued ::
  "string \<Rightarrow> entity \<Rightarrow> persistent \<Rightarrow> persistent \<Rightarrow> cpu_effect list \<Rightarrow> bool" where
  "dequeued k e p p' es \<longleftrightarrow>
     (if IsIdle (MenderState p)
      then code_of k p' = Some InProgress \<and> State (MenderState p') = Installing \<and>
        CurrentArtifact (MenderState p') = MenderArtifact e \<and>
        CurrentEntityName (MenderState p') = Name e \<and>
        es = [WriteState p', Go (RunMender CmdInstall updateTimeout EvInstallFinished [MenderArtifact e])]
      else code_of k p' = Some Failure \<and> MenderState p' = MenderState p \<and> es = [])"

lemma start_dequeues:
  assumes "startEntityUpdate k e p = (p', es, err)"
  shows "dequeued k e p p' es"
proof (cases "IsIdle (MenderState p)")
  case True
  then show ?thesis using assms start_idle[OF True, of k e]
    by (auto simp: dequeued_def code_of_def set_status_def Let_def)
next
  case False
  then show ?thesis using assms
    by (auto simp: startEntityUpdate_def Let_def StartUpdateJob_def IsIdle_def dequeued_def code_of_def
        set_status_def)
qed

lemma report_dequeues:
  assumes "map_order o2 p" "waiting p \<noteq> {}" "ev_code e = EvJobFinished"
  obtains k ent p' es where "k \<in> waiting p" "Entities p k = Some ent"
    "handleCommand w o1 o2 (MenderEvent e) p = Some (p', es)"
    "waiting p' = waiting p - {k}" "dequeued k ent p p' es"
proof -
  let ?q = "finish_in_progress w o1 (ev_success e) (ev_message e) p"
  have q: "waiting ?q = waiting p" "MenderState ?q = MenderState p"
    "\<And>k. k \<in> waiting p \<Longrightarrow> Entities ?q k = Entities p k"
    using finish_keeps_waiting by blast+
  have "map_order o2 ?q" using assms(1) finish_dom by (simp add: map_order_def)
  then obtain k where k: "getEntityWaiting o2 ?q = Some k" "k \<in> waiting p"
    using find_waiting assms(2) q(1) by metis
  then obtain ent where ent: "Entities p k = Some ent" by (auto simp: waiting_def)
  obtain p' es err where st: "startEntityUpdate k ent ?q = (p', es, err)"
    by (cases "startEntityUpdate k ent ?q")
  have "start_waiting o2 ?q = (p', es)" using k ent q(3) st by (simp add: start_waiting_def)
  then have "handleCommand w o1 o2 (MenderEvent e) p = Some (p', es)"
    using assms(3) by (simp add: handleMenderEvent_def handleMenderJobFinished_def)
  moreover have "dequeued k ent p p' es"
    using start_dequeues[OF st] q(2) by (simp add: dequeued_def)
  ultimately show thesis using that[OF k(2) ent] start_effect(2)[OF st] q(1) by simp
qed


text \<open>A second update while the first is installed, and the end of the first job: its report is not
  yet in the inbox.\<close>

definition demo_waiting :: "move list" where
  "demo_waiting =
     [Perform 9, Turn, Perform 9, Client (StartApplicationUpdate ''a'' ''a''), Turn, Perform 9,
      Client (StartApplicationUpdate ''b'' ''b''), Turn, Perform 9,
      Finish (demo_install ''a'') demo_result, Turn]"

lemma demo_waits: "case play demo_world demo_waiting demo_start of None \<Rightarrow> False
   | Some (s, ks) \<Rightarrow> code_of ''b'' (memory s) = Some Waiting \<and> IsIdle (MenderState (memory s))"
  by code_simp


text \<open>The other case is reached as well: \<open>b\<close> and then \<open>c\<close> are accepted while the job of \<open>a\<close> ends, and the
  report of \<open>a\<close> finds \<open>c\<close> waiting and the machine installing \<open>b\<close>. The update of \<open>c\<close>, accepted before, is
  shown as failed without having been tried.\<close>

definition demo_overtaken :: "move list" where
  "demo_overtaken =
     [Perform 9, Turn, Perform 9, Client (StartApplicationUpdate ''a'' ''a''), Turn, Perform 9,
      Client (StartApplicationUpdate ''c'' ''c''), Turn, Perform 9,
      Finish (demo_install ''a'') demo_result, Client (StartApplicationUpdate ''b'' ''b''),
      Turn, Perform 9, Turn, Perform 9]"

lemma demo_overtakes: "case play demo_world demo_overtaken demo_start of None \<Rightarrow> False
   | Some (s, ks) \<Rightarrow> code_of ''c'' (memory s) = Some Waiting \<and> code_of ''b'' (memory s) = Some InProgress \<and>
       reports s = 1 \<and> busy (memory s) = 1"
  by code_simp

lemma demo_refused: "case play demo_world (demo_overtaken @ [Turn]) demo_start of None \<Rightarrow> False
   | Some (s, ks) \<Rightarrow> code_of ''c'' (memory s) = Some Failure \<and> work s = [demo_install ''b'']"
  by code_simp

lemma waiting_update_can_be_refused:
  "\<exists>s. reach sys_start sys_step s \<and> code_of ''c'' (memory s) = Some Failure \<and> work s = [demo_install ''b'']"
  by (rule played_witness[OF demo_refused]) blast

section \<open>What the system does not keep\<close>

text \<open>C36. Two updates can be in progress at the same time, against the design note of
  \<open>getEntityInProgress\<close>: the machine is idle before its report is handled, and a command that was
  already waiting in the inbox starts the next update. The report of the first job can then be
  charged to the second entity, which is shown as failed while its installation is running.\<close>

theorem two_updates_in_progress:
  "(\<exists>s. reach sys_start sys_step s \<and> code_of ''a'' (memory s) = Some InProgress \<and>
      code_of ''b'' (memory s) = Some InProgress) \<and>
   (\<exists>s. reach sys_start sys_step s \<and> code_of ''a'' (memory s) = Some InProgress \<and>
      code_of ''b'' (memory s) = Some Failure \<and> demo_install ''b'' \<in> set (work s))"
proof
  show "\<exists>s. reach sys_start sys_step s \<and> code_of ''a'' (memory s) = Some InProgress \<and>
      code_of ''b'' (memory s) = Some InProgress"
    by (rule played_witness[OF demo_two]) (auto simp: both_in_progress_def)
  show "\<exists>s. reach sys_start sys_step s \<and> code_of ''a'' (memory s) = Some InProgress \<and>
      code_of ''b'' (memory s) = Some Failure \<and> demo_install ''b'' \<in> set (work s)"
    by (rule played_witness[OF demo_wrong_entity]) auto
qed

text \<open>C37. An update that a restart has separated from its job stays lost: from then on, whatever
  happens, some entity is shown as in progress and so refuses every further update.\<close>

theorem lost_update_stays:
  assumes "reach sys_start sys_any s" "reports s + busy (memory s) < card (inprog (memory s))"
    and "steps sys_any n s t"
  shows "inprog (memory t) \<noteq> {}"
proof -
  obtain l where l: "account l s" using restarting.reach_inv[OF assms(1)] by blast
  then have "0 < l" using account_in_progress assms(2) by fastforce
  moreover obtain l' where "l \<le> l'" "account l' t" using loss_persists[OF assms(3) l] by blast
  ultimately have "card (inprog (memory t)) > 0" using account_in_progress by fastforce
  then show ?thesis by (metis card.empty less_irrefl)
qed

text \<open>A restart between the save of the idle state and the handling of the report.\<close>

lemma update_lost_by_restart:
  "\<exists>s. reach sys_start sys_any s \<and> reports s + busy (memory s) < card (inprog (memory s)) \<and>
     ''a'' \<in> inprog (memory s)"
proof (rule played_witness[OF demo_idle])
  fix s assume s: "reach sys_start sys_step s"
    and d: "IsIdle (MenderState (disk s)) \<and> code_of ''a'' (disk s) = Some InProgress"
  obtain p es where n: "New demo_world [] (Loaded (disk s)) = Inr (p, es)"
    by (cases "hasRebooted demo_world (with_customization (disk s))") (simp add: New_def)
  let ?t = "\<lparr>memory = p, disk = disk s, inbox = [], todo = es, work = []\<rparr>"
  have "sys_any s ?t" unfolding sys_any_def using restart[OF n] by blast
  then have t: "reach sys_start sys_any ?t" by (rule reach_step[OF running_restarting[OF s]])
  have "''a'' \<in> inprog (disk s)" using d code_of_inprog by blast
  then have a: "''a'' \<in> inprog p" using New_Loaded[OF n] by simp
  obtain l where "account l ?t" using restarting.reach_inv[OF t] by blast
  then have "finite (inprog p)" using finite_inprog by (auto simp: account_def balanced_def)
  then have "0 < card (inprog p)" using a card_gt_0_iff by blast
  moreover have "busy p = 0" using New_Loaded[OF n] d by (simp add: busy_def)
  moreover have "reports ?t = 0" using New_effects[OF n] by (simp add: reports_def)
  ultimately show ?thesis using t a by (intro exI[of _ ?t]) simp
qed

theorem lost_update_stays_witness:
  "\<exists>s. reach sys_start sys_any s \<and> inprog (memory s) \<noteq> {}"
proof -
  obtain s where s: "reach sys_start sys_any s" "reports s + busy (memory s) < card (inprog (memory s))"
    using update_lost_by_restart by blast
  have "inprog (memory s) \<noteq> {}" by (rule lost_update_stays[OF s steps_zero])
  then show ?thesis using s(1) by blast
qed

lemma deadlock_stays:
  assumes "steps sys_step n s t" "deadlocked s"
  shows "deadlocked t \<and> memory t = memory s \<and> inbox t = inbox s \<and> todo t = todo s"
proof -
  have stay: "memory u = memory t \<and> inbox u = inbox t \<and> todo u = todo t"
    if "deadlocked t" "sys_step t u" for t u
    using that(2,1)
    by (induction rule: sys_step.induct) (auto simp: deadlocked_def split: list.splits cpu_effect.splits if_splits)
  show ?thesis
    using assms
  proof (induction rule: steps.induct)
    case (steps_Suc n s t u)
    then have t: "deadlocked t" "memory t = memory s \<and> inbox t = inbox s \<and> todo t = todo s" by auto
    have u: "memory u = memory t \<and> inbox u = inbox t \<and> todo u = todo t"
      using stay steps_Suc(2) t(1) by blast
    then have "deadlocked u" using t(1) unfolding deadlocked_def by metis
    then show ?case using t u by simp
  qed simp
qed


end
