(* ===== verification/Io4edge_Manager.thy ===== *)
theory Io4edge_Manager
  imports Cpu_Types Go_World "HOL-Library.List_Lexorder" "HOL-Library.Char_ord"
begin

text \<open>
  \<open>internal/manager/io4edgemanager\<close> and \<open>internal/io4edgeartifact\<close>: the firmware updates of the io4edge
  devices. The output of \<open>io4edge-cli\<close> is parsed here; running it, the firmware file and the time are
  parameters. Commands that read the device several times take one world per attempt. A map is
  iterated in an unspecified order, which is an argument where it matters.
\<close>

section \<open>Data\<close>

datatype io_code = IoNeverDeployed | IoAlreadyDeployed | IoInProgress | IoSuccess | IoFailure

record io_status =
  io_status_code :: io_code
  io_status_message :: string

datatype io_error_code = DeviceUpdateInProgress | IoAlreadyDeployedErr | IoArtifactInvalid | DeviceNotFound

fun io_error_text :: "io_error_code \<Rightarrow> string" where
  "io_error_text DeviceUpdateInProgress = ''io4e-0001''"
| "io_error_text IoAlreadyDeployedErr = ''io4e-0002''"
| "io_error_text IoArtifactInvalid = ''io4e-0003''"
| "io_error_text DeviceNotFound = ''io4e-0004''"

type_synonym io_error = "io_error_code coded_error"

record io_device =
  dev_name :: string
  dev_status :: io_status
  dev_package :: string
  dev_deploying :: name_version
  dev_current :: name_version
  dev_last_seen :: int

type_synonym devices = "string \<rightharpoonup> io_device"

fun io_code_text :: "io_code \<Rightarrow> string" where
  "io_code_text IoNeverDeployed = ''never_deployed''"
| "io_code_text IoAlreadyDeployed = ''already_deployed''"
| "io_code_text IoInProgress = ''in_progress''"
| "io_code_text IoSuccess = ''success''"
| "io_code_text IoFailure = ''failure''"

definition parse_io_code :: "string \<Rightarrow> io_code option" where
  "parse_io_code s =
     (if s = ''never_deployed'' then Some IoNeverDeployed
      else if s = ''already_deployed'' then Some IoAlreadyDeployed
      else if s = ''in_progress'' then Some IoInProgress
      else if s = ''success'' then Some IoSuccess
      else if s = ''failure'' then Some IoFailure
      else None)"

interpretation io_code_codec: strict_codec io_code_text parse_io_code
proof unfold_locales
  fix x show "io_code_text x \<noteq> []" by (cases x) auto
  show "parse_io_code (io_code_text x) = Some x" by (cases x) (simp_all add: parse_io_code_def)
next
  fix t x assume "parse_io_code t = Some x"
  then show "io_code_text x = t" by (auto simp: parse_io_code_def split: if_splits)
qed

section \<open>The firmware package\<close>

record fw_manifest =
  fm_name :: string
  fm_version :: string
  fm_file :: string

definition entry_name :: "tar_entry \<Rightarrow> string" where
  "entry_name e = trim_prefix (te_name e) ''./''"

fun extractManifestAndEntries ::
  "tar_entry list \<Rightarrow> string option \<Rightarrow> string \<Rightarrow> string list \<Rightarrow> (string \<times> string list) go" where
  "extractManifestAndEntries [] (Some err) raw names = Inl err"
| "extractManifestAndEntries [] None raw names = Inr (raw, names)"
| "extractManifestAndEntries (e # es) end_err raw names =
     (if entry_name e \<noteq> ''manifest.json''
      then extractManifestAndEntries es end_err raw (entry_name e # names)
      else (case te_content e of
              Inl err \<Rightarrow> Inl err
            | Inr b \<Rightarrow> extractManifestAndEntries es end_err b (entry_name e # names)))"

definition decode_manifest :: "world \<Rightarrow> string \<Rightarrow> fw_manifest go" where
  "decode_manifest w raw =
     bind_go (unmarshal_struct w raw) (\<lambda>ms.
       bind_go (decode_str ''name'' ms []) (\<lambda>n.
         bind_go (decode_str ''version'' ms []) (\<lambda>v.
           bind_go (decode_str ''file'' ms []) (\<lambda>f.
             Inr \<lparr>fm_name = n, fm_version = v, fm_file = f\<rparr>))))"

definition GetManifestFromFile :: "world \<Rightarrow> string \<Rightarrow> fw_manifest go" where
  "GetManifestFromFile w path =
     bind_go (open_file w path) (\<lambda>f.
       (let (es, end_err) = untar w f in
        bind_go (extractManifestAndEntries es end_err [] []) (\<lambda>(raw, names).
          if raw = [] then Inl ''invalid firmware package: missing manifest.json''
          else (case decode_manifest w raw of
                  Inl err \<Rightarrow> Inl (wrap_err ''invalid firmware manifest'' err)
                | Inr m \<Rightarrow>
                    if fm_file m \<noteq> [] \<and> fm_file m \<notin> set names
                    then Inl ''invalid firmware package: missing firmware binary''
                    else Inr m))))"

definition tweakNameFromManifest :: "string \<Rightarrow> string" where
  "tweakNameFromManifest name = (if \<not> has_prefix name ''fw-'' then ''fw-'' @ name else name)"

section \<open>The command line tool\<close>

fun parse_device_lines :: "bool \<Rightarrow> string list \<Rightarrow> string list" where
  "parse_device_lines found [] = []"
| "parse_device_lines found (l # ls) =
     (let line = trim_space l in
      if line = [] then parse_device_lines found ls
      else if has_prefix line ''DEVICE ID'' then parse_device_lines True ls
      else if \<not> found then parse_device_lines found ls
      else (let fs = Prelude.fields line in
            if length fs < 4 then parse_device_lines found ls
            else hd fs # parse_device_lines found ls))"

definition parseDevices :: "string \<Rightarrow> string list" where
  "parseDevices output = parse_device_lines False (split_on newline output)"

definition scanDevices :: "world \<Rightarrow> string list go" where
  "scanDevices w =
     (let r = run_command w ''io4edge-cli'' [''scan''] in
      case cr_err r of Some e \<Rightarrow> Inl e | None \<Rightarrow> Inr (parseDevices (cr_stdout r)))"

definition firmware_prefix :: string where "firmware_prefix = ''Firmware name:''"

definition parse_firmware_line :: "string \<Rightarrow> name_version" where
  "parse_firmware_line line =
     (case cut_on CHR '','' (trim_space (trim_prefix line firmware_prefix)) of
        None \<Rightarrow> no_version
      | Some (n, v) \<Rightarrow>
          (let name = trim_space n; version = trim_space (trim_prefix (trim_space v) ''Version'') in
           if name = [] \<or> version = [] then no_version
           else \<lparr>nv_name = name, nv_version = version\<rparr>))"

fun parse_firmware_lines :: "string list \<Rightarrow> name_version" where
  "parse_firmware_lines [] = no_version"
| "parse_firmware_lines (l # ls) =
     (if \<not> has_prefix (trim_space l) firmware_prefix then parse_firmware_lines ls
      else parse_firmware_line (trim_space l))"

definition parseFirmwareVersion :: "string \<Rightarrow> name_version" where
  "parseFirmwareVersion output = parse_firmware_lines (split_on newline output)"

definition firmwareVersionFromDevice :: "world \<Rightarrow> string \<Rightarrow> name_version" where
  "firmwareVersionFromDevice w dev =
     (let r = run_command w ''io4edge-cli'' [''-d'', dev, ''fw''] in
      case cr_err r of Some _ \<Rightarrow> no_version | None \<Rightarrow> parseFirmwareVersion (cr_stdout r))"

section \<open>The devices\<close>

definition removeTimeout :: int where "removeTimeout = 60 * 1000000000"

definition updateDeviceState :: "world \<Rightarrow> int \<Rightarrow> string \<Rightarrow> devices \<Rightarrow> devices" where
  "updateDeviceState w now name devs =
     (let current = firmwareVersionFromDevice w name in
      if nv_name current = [] \<and> nv_version current = [] then
        (case devs name of
           None \<Rightarrow> devs
         | Some d \<Rightarrow> if now - dev_last_seen d > removeTimeout then devs(name := None) else devs)
      else
        (let d = (case devs name of
                    Some d \<Rightarrow> d
                  | None \<Rightarrow> \<lparr>dev_name = name,
                      dev_status = \<lparr>io_status_code = IoNeverDeployed, io_status_message = []\<rparr>,
                      dev_package = [], dev_deploying = no_version, dev_current = no_version,
                      dev_last_seen = 0\<rparr>)
         in devs(name \<mapsto> d\<lparr>dev_current := current, dev_last_seen := now\<rparr>)))"

definition removeNoLongerPresentDevices :: "string list \<Rightarrow> devices \<Rightarrow> devices" where
  "removeNoLongerPresentDevices present devs = (\<lambda>d. if d \<in> set present then devs d else None)"

definition scanAndUpdateDeviceStates :: "world \<Rightarrow> int \<Rightarrow> devices \<Rightarrow> devices" where
  "scanAndUpdateDeviceStates w now devs =
     (case scanDevices w of
        Inl _ \<Rightarrow> devs
      | Inr present \<Rightarrow>
          fold (updateDeviceState w now) present (removeNoLongerPresentDevices present devs))"

section \<open>The actor\<close>

datatype io_command =
    StartFwUpdate string string
  | GetFwState string
  | ListDeviceNames
  | CliEvent string bool string

datatype io_reply =
    FwStarted "io_error option"
  | FwState "io_error + (io_status \<times> name_version)"
  | FwDevices "string list"

datatype io_effect = LoadFirmware string string | IoReply io_reply

type_synonym io_step = "devices \<times> io_effect list"

definition firmwareVerifyRetries :: nat where "firmwareVerifyRetries = 20"

text \<open>The loop of \<open>retryFirmwareVersion\<close>, with the attempt, the attempts left and the last value read.\<close>

fun retry_reads :: "(nat \<Rightarrow> name_version) \<Rightarrow> name_version \<Rightarrow> nat \<Rightarrow> nat \<Rightarrow> name_version \<Rightarrow> name_version" where
  "retry_reads rd expected_nv attempt 0 current = current"
| "retry_reads rd expected_nv attempt (Suc left) current =
     (if rd attempt = expected_nv then rd attempt
      else retry_reads rd expected_nv (Suc attempt) left (rd attempt))"

definition retryFirmwareVersion :: "(nat \<Rightarrow> name_version) \<Rightarrow> name_version \<Rightarrow> nat \<Rightarrow> name_version" where
  "retryFirmwareVersion rd expected_nv attempts = retry_reads rd expected_nv 0 attempts no_version"

definition firmwareVersionAfterUpdate :: "(nat \<Rightarrow> world) \<Rightarrow> string \<Rightarrow> name_version \<Rightarrow> name_version" where
  "firmwareVersionAfterUpdate ws name expected_nv =
     retryFirmwareVersion (\<lambda>i. firmwareVersionFromDevice (ws i) name) expected_nv firmwareVerifyRetries"

definition io_status_of :: "io_code \<Rightarrow> string \<Rightarrow> io_status" where
  "io_status_of c m = \<lparr>io_status_code = c, io_status_message = m\<rparr>"

definition finished_device :: "(nat \<Rightarrow> world) \<Rightarrow> bool \<Rightarrow> string \<Rightarrow> io_device \<Rightarrow> io_device" where
  "finished_device ws success message d =
     (let d1 =
        (if success then
           (let current = firmwareVersionAfterUpdate ws (dev_name d) (dev_deploying d) in
            if nv_name current = nv_name (dev_deploying d) \<and> nv_version current = nv_version (dev_deploying d)
            then d\<lparr>dev_current := current, dev_status := io_status_of IoSuccess ''Update successful''\<rparr>
            else d\<lparr>dev_current := current, dev_status := io_status_of IoFailure
              (''Firmware version after update does not match expected version. Current: '' @
               nv_name current @ '' '' @ nv_version current @ '', Expected: '' @
               nv_name (dev_deploying d) @ '' '' @ nv_version (dev_deploying d))\<rparr>)
         else d\<lparr>dev_status := io_status_of IoFailure (''Update failed: '' @ message)\<rparr>)
      in d1\<lparr>dev_package := [], dev_deploying := no_version\<rparr>)"

definition handleCliEvent :: "(nat \<Rightarrow> world) \<Rightarrow> string \<Rightarrow> bool \<Rightarrow> string \<Rightarrow> devices \<Rightarrow> devices" where
  "handleCliEvent ws name success message devs =
     (case devs name of
        None \<Rightarrow> devs
      | Some d \<Rightarrow> devs(name \<mapsto> finished_device ws success message d))"

definition refuse :: "io_error_code \<Rightarrow> string \<Rightarrow> io_effect list" where
  "refuse c m = [IoReply (FwStarted (Some (newCodedError c m)))]"

definition handleUpdate :: "world \<Rightarrow> string \<Rightarrow> string \<Rightarrow> devices \<Rightarrow> io_step" where
  "handleUpdate w name package devs =
     (case devs name of
        None \<Rightarrow> (devs, refuse DeviceNotFound (''Unknown device '' @ name))
      | Some d \<Rightarrow>
     (if io_status_code (dev_status d) = IoInProgress then
        (devs, refuse DeviceUpdateInProgress (''Update already in progress for device '' @ name))
      else case GetManifestFromFile w package of
        Inl err \<Rightarrow> (devs, refuse IoArtifactInvalid (wrap_err ''Failed to read firmware package'' err))
      | Inr m \<Rightarrow>
     (let fw = tweakNameFromManifest (fm_name m) in
      if fw = nv_name (dev_current d) \<and> fm_version m = nv_version (dev_current d) then
        (devs, refuse IoAlreadyDeployedErr
          (''Device '' @ name @ '' already has firmware version '' @ fm_version m))
      else
        (devs(name \<mapsto> d\<lparr>dev_package := package,
            dev_deploying := \<lparr>nv_name = fw, nv_version = fm_version m\<rparr>,
            dev_status := io_status_of IoInProgress ''Update is in progress''\<rparr>),
         [LoadFirmware name package, IoReply (FwStarted None)]))))"

definition handleGetState :: "string \<Rightarrow> devices \<Rightarrow> io_step" where
  "handleGetState name devs =
     (devs, [IoReply (FwState
       (case devs name of
          None \<Rightarrow> Inl (newCodedError DeviceNotFound (''Unknown device '' @ name))
        | Some d \<Rightarrow> Inr (dev_status d, dev_current d)))])"

text \<open>\<open>sort.Strings\<close> orders by bytes.\<close>

definition handleListDeviceNames :: "string list \<Rightarrow> devices \<Rightarrow> io_step" where
  "handleListDeviceNames order devs = (devs, [IoReply (FwDevices (sort order))])"

text \<open>\<open>order\<close> gives the iteration order of a map from its contents.\<close>

fun io_handleCommand ::
  "(nat \<Rightarrow> world) \<Rightarrow> int \<Rightarrow> (devices \<Rightarrow> string list) \<Rightarrow> io_command \<Rightarrow> devices \<Rightarrow> io_step" where
  "io_handleCommand ws now order (StartFwUpdate name package) devs =
     handleUpdate (ws 1) name package (updateDeviceState (ws 0) now name devs)"
| "io_handleCommand ws now order (GetFwState name) devs =
     handleGetState name (updateDeviceState (ws 0) now name devs)"
| "io_handleCommand ws now order ListDeviceNames devs =
     (let devs' = scanAndUpdateDeviceStates (ws 0) now devs in handleListDeviceNames (order devs') devs')"
| "io_handleCommand ws now order (CliEvent name success message) devs =
     (handleCliEvent ws name success message devs, [])"

text \<open>\<open>New\<close>: no device is known, and all firmware files of an earlier run are removed (the pattern and
  the excluded files of \<open>updatestore.Clean\<close>).\<close>

definition io_New :: "devices \<times> (string \<times> string list)" where
  "io_New = (Map.empty, (''io4edge-*'', []))"

text \<open>The event of the goroutine that loads the firmware.\<close>

definition cli_finished :: "string \<Rightarrow> cmd_result \<Rightarrow> io_command" where
  "cli_finished name r =
     CliEvent name (cr_err r = None) (''err: '' @ (case cr_err r of None \<Rightarrow> ''<nil>'' | Some e \<Rightarrow> e))"

end
