(* ===== verification/Io4edge_Properties.thy ===== *)
theory Io4edge_Properties
  imports Io4edge_Manager Transition
begin

text \<open>
  The io4edge manager: what is read from the output of the command line tool, the state diagram of a
  device, the verification after an update, and the manager together with the firmware loads that
  it has started.
\<close>

section \<open>Reading the tool's output\<close>

lemma split_lines:
  "\<forall>l \<in> set ls. newline \<notin> set l \<Longrightarrow> split_on newline (concat (map (\<lambda>l. l @ [newline]) ls)) = ls @ [[]]"
proof (induction ls)
  case (Cons l ls)
  then show ?case using split_on_append_sep[of newline l "concat (map (\<lambda>l. l @ [newline]) ls)"] by simp
qed simp

type_synonym scan_row = "string \<times> string \<times> string \<times> string"

definition word_ok :: "string \<Rightarrow> bool" where
  "word_ok w \<longleftrightarrow> w \<noteq> [] \<and> list_all plain_char w"

definition row_ok :: "scan_row \<Rightarrow> bool" where
  "row_ok r \<longleftrightarrow> (case r of (d, ip, hw, serial) \<Rightarrow>
     word_ok d \<and> word_ok ip \<and> word_ok hw \<and> word_ok serial \<and> d \<noteq> ''DEVICE'')"

text \<open>A line of the device table, with the given gaps between its columns.\<close>

definition row_line :: "string \<Rightarrow> string \<Rightarrow> string \<Rightarrow> scan_row \<Rightarrow> string" where
  "row_line g1 g2 g3 r = (case r of (d, ip, hw, serial) \<Rightarrow> d @ g1 @ ip @ g2 @ hw @ g3 @ serial)"

definition gap_ok :: "string \<Rightarrow> bool" where
  "gap_ok g \<longleftrightarrow> g \<noteq> [] \<and> list_all (\<lambda>c. c = CHR '' '') g"

lemma gap_spaces: "gap_ok g \<Longrightarrow> g \<noteq> [] \<and> list_all ascii_space g"
  by (auto simp: gap_ok_def list_all_iff ascii_space_def)

lemma plain_not_newline: "list_all plain_char w \<Longrightarrow> newline \<notin> set w"
  by (auto simp: list_all_iff plain_char_def newline_def ascii_space_def)

lemma row_line_fields:
  assumes "row_ok r" "gap_ok g1" "gap_ok g2" "gap_ok g3"
  shows "Prelude.fields (row_line g1 g2 g3 r) = [fst r, fst (snd r), fst (snd (snd r)), snd (snd (snd r))]"
proof -
  obtain d ip hw serial where r: "r = (d, ip, hw, serial)" by (cases r)
  have w: "word_ok d" "word_ok ip" "word_ok hw" "word_ok serial" using assms(1) by (auto simp: row_ok_def r)
  have f: "Prelude.fields (v @ g @ s) = v # Prelude.fields s" if "word_ok v" "gap_ok g" for v g s
    using that gap_spaces fields_word by (auto simp: word_ok_def)
  show ?thesis
    using w(4) fields_last_word[of serial]
    by (simp add: row_line_def r f[OF w(1) assms(2)] f[OF w(2) assms(3)] f[OF w(3) assms(4)] word_ok_def)
qed

lemma row_line_trimmed:
  assumes "row_ok r"
  shows "trim_space (row_line g1 g2 g3 r) = row_line g1 g2 g3 r" "row_line g1 g2 g3 r \<noteq> []"
proof -
  obtain d ip hw serial where r: "r = (d, ip, hw, serial)" by (cases r)
  have w: "word_ok d" "word_ok serial" using assms by (auto simp: row_ok_def r)
  then have e: "row_line g1 g2 g3 r \<noteq> []" "hd (row_line g1 g2 g3 r) = hd d"
    "last (row_line g1 g2 g3 r) = last serial"
    by (auto simp: row_line_def r word_ok_def)
  then show "row_line g1 g2 g3 r \<noteq> []" by blast
  show "trim_space (row_line g1 g2 g3 r) = row_line g1 g2 g3 r"
    using w e by (intro trim_space_ends) (auto simp: word_ok_def list_all_iff)
qed

lemma device_prefix:
  assumes "word_ok d" "d \<noteq> ''DEVICE''" "gap_ok g"
  shows "\<not> has_prefix (d @ g @ s) ''DEVICE ID''"
proof
  assume "has_prefix (d @ g @ s) ''DEVICE ID''"
  then obtain t where t: "d @ g @ s = ''DEVICE'' @ '' ID'' @ t" by (auto simp: has_prefix_iff)
  obtain c g' where g: "g = CHR '' '' # g'" using assms(3) by (cases g) (auto simp: gap_ok_def)
  have "takeWhile (\<lambda>c. c \<noteq> CHR '' '') (d @ g @ s) = d"
    using assms(1) g by (auto simp: word_ok_def list_all_iff plain_char_def ascii_space_def takeWhile_append2)
  moreover have "takeWhile (\<lambda>c. c \<noteq> CHR '' '') (''DEVICE'' @ '' ID'' @ t) = ''DEVICE''" by simp
  ultimately show False using t assms(2) by simp
qed

lemma parse_rows:
  assumes "\<forall>r \<in> set rows. row_ok r" "gap_ok g1" "gap_ok g2" "gap_ok g3"
  shows "parse_device_lines True (map (row_line g1 g2 g3) rows @ [[]]) = map fst rows"
  using assms(1)
proof (induction rows)
  case Nil
  have "trim_space [] = []" by (simp add: trim_space_blank)
  then show ?case by simp
next
  case (Cons r rows)
  have "\<not> has_prefix (row_line g1 g2 g3 r) ''DEVICE ID''"
    using Cons.prems device_prefix assms(2) by (auto simp: row_line_def row_ok_def split: prod.splits)
  then show ?case
    using Cons row_line_trimmed[of r g1 g2 g3] row_line_fields[of r g1 g2 g3] assms(2-4)
    by (simp add: Let_def)
qed

lemma gap_no_newline: "gap_ok g \<Longrightarrow> newline \<notin> set g"
proof -
  have "newline \<noteq> CHR '' ''" by (simp add: newline_def)
  then show "gap_ok g \<Longrightarrow> newline \<notin> set g" unfolding gap_ok_def list_all_iff by metis
qed

lemma row_no_newline:
  "row_ok r \<Longrightarrow> gap_ok g1 \<Longrightarrow> gap_ok g2 \<Longrightarrow> gap_ok g3 \<Longrightarrow> newline \<notin> set (row_line g1 g2 g3 r)"
  using plain_not_newline gap_no_newline[of g1] gap_no_newline[of g2] gap_no_newline[of g3]
  by (cases r) (simp add: row_ok_def row_line_def word_ok_def)

definition header_line :: string where "header_line = ''DEVICE ID      IP       HARDWARE   SERIAL''"

text \<open>The device list is read back from the table that the tool prints: one name per row, in the order
  of the rows, whatever the widths of the columns.\<close>

theorem scan_output_roundtrip:
  assumes "\<forall>r \<in> set rows. row_ok r" "gap_ok g1" "gap_ok g2" "gap_ok g3"
  shows "parseDevices (concat (map (\<lambda>l. l @ [newline]) (header_line # map (row_line g1 g2 g3) rows))) =
    map fst rows"
proof -
  have h: "newline \<notin> set header_line" "trim_space header_line = header_line"
    "header_line \<noteq> []" "has_prefix header_line ''DEVICE ID''"
    by (simp_all add: header_line_def newline_def, code_simp+)
  have "split_on newline (concat (map (\<lambda>l. l @ [newline]) (header_line # map (row_line g1 g2 g3) rows))) =
      (header_line # map (row_line g1 g2 g3) rows) @ [[]]"
    by (rule split_lines) (use assms row_no_newline h(1) in auto)
  then show ?thesis
    unfolding parseDevices_def using parse_rows[OF assms] h by (simp add: Let_def)
qed

theorem scan_output_roundtrip_witness:
  "parseDevices (concat (map (\<lambda>l. l @ [newline])
     (header_line # map (row_line ''  '' '' '' '' '') [(''S100-1'', ''10.0.0.1'', ''s100'', ''x1'')]))) = [''S100-1'']"
proof -
  have "\<forall>r \<in> set [(''S100-1'', ''10.0.0.1'', ''s100'', ''x1'')]. row_ok r" by code_simp
  moreover have "gap_ok ''  ''" "gap_ok '' ''" by (simp_all add: gap_ok_def)
  ultimately show ?thesis using scan_output_roundtrip by fastforce
qed

text \<open>The firmware name and version are read back from the line that the tool prints, wherever it
  stands in the output.\<close>

theorem firmware_line_roundtrip:
  assumes "\<forall>l \<in> set before. newline \<notin> set l \<and> \<not> has_prefix (trim_space l) firmware_prefix"
    and "n \<noteq> []" "plain_char (hd n)" "plain_char (last n)" "CHR '','' \<notin> set n" "newline \<notin> set n"
    and "v \<noteq> []" "plain_char (hd v)" "plain_char (last v)" "newline \<notin> set v"
  shows "parseFirmwareVersion (concat (map (\<lambda>l. l @ [newline])
      (before @ [firmware_prefix @ '' '' @ n @ '', Version '' @ v]))) =
    \<lparr>nv_name = n, nv_version = v\<rparr>"
proof -
  let ?line = "firmware_prefix @ '' '' @ n @ '', Version '' @ v"
  have sp: "list_all ascii_space '' ''" by (simp add: ascii_space_def)
  have line: "trim_space ?line = ?line"
    by (rule trim_space_ends) (use assms in \<open>simp_all add: firmware_prefix_def plain_char_def ascii_space_def\<close>)
  have rest: "trim_space ('' '' @ n @ '', Version '' @ v) = n @ '', Version '' @ v"
    using trim_space_pad[OF sp, of "[]" "n @ '', Version '' @ v"] assms by simp
  have cut: "cut_on CHR '','' (n @ '', Version '' @ v) = Some (n, '' Version '' @ v)"
    using cut_on_append[of "CHR '',''" n "'' Version '' @ v"] assms(5) by simp
  have ver: "trim_space ('' Version '' @ v) = ''Version '' @ v"
    using trim_space_pad[OF sp, of "[]" "''Version '' @ v"] assms by (simp add: plain_char_def ascii_space_def)
  have v: "trim_space ('' '' @ v) = v" using trim_space_pad[OF sp, of "[]" v] assms by simp
  have pl: "parse_firmware_line ?line = \<lparr>nv_name = n, nv_version = v\<rparr>"
    using rest cut ver v trim_space_ends[of n] assms
    by (simp add: parse_firmware_line_def trim_prefix_def has_prefix_def firmware_prefix_def)
  have "parse_firmware_lines (before @ ?line # ls) = \<lparr>nv_name = n, nv_version = v\<rparr>" for ls
    using assms(1) line pl by (induction before) (auto simp: has_prefix_iff)
  moreover have "split_on newline (concat (map (\<lambda>l. l @ [newline]) (before @ [?line]))) =
      (before @ [?line]) @ [[]]"
    by (rule split_lines) (use assms in \<open>auto simp: firmware_prefix_def newline_def\<close>)
  ultimately show ?thesis unfolding parseFirmwareVersion_def by simp
qed

theorem firmware_line_roundtrip_witness:
  "parseFirmwareVersion (concat (map (\<lambda>l. l @ [newline])
      ([''log''] @ [firmware_prefix @ '' '' @ ''fw-iou16'' @ '', Version '' @ ''1.0.3'']))) =
    \<lparr>nv_name = ''fw-iou16'', nv_version = ''1.0.3''\<rparr>"
proof (rule firmware_line_roundtrip)
  show "\<forall>l \<in> set [''log'']. newline \<notin> set l \<and> \<not> has_prefix (trim_space l) firmware_prefix" by code_simp
qed code_simp+

section \<open>The check after an update\<close>

lemma retry_reads_spec:
  "retry_reads rd x a n c =
     (if \<exists>i < n. rd (a + i) = x then x else if n = 0 then c else rd (a + n - 1))"
proof (induction n arbitrary: a c)
  case (Suc n)
  have split: "(\<exists>i < Suc n. rd (a + i) = x) \<longleftrightarrow> rd a = x \<or> (\<exists>i < n. rd (Suc a + i) = x)"
    by (auto simp: less_Suc_eq_0_disj)
  have "retry_reads rd x a (Suc n) c = (if rd a = x then x else retry_reads rd x (Suc a) n (rd a))"
    by simp
  also have "\<dots> = (if rd a = x \<or> (\<exists>i < n. rd (Suc a + i) = x) then x
      else if n = 0 then rd a else rd (Suc a + n - 1))"
    unfolding Suc.IH by (cases "\<exists>i < n. rd (Suc a + i) = x") auto
  finally show ?case unfolding split
    by (cases "rd a = x \<or> (\<exists>i < n. rd (Suc a + i) = x)"; cases n) auto
qed simp

text \<open>The read-back after an update gives the expected version if one of its twenty attempts reads
  it, and otherwise what the last attempt read; a device that is still restarting is not mistaken
  for a failed update before that.\<close>

theorem firmware_read_back:
  "firmwareVersionAfterUpdate ws name x =
     (if \<exists>i < 20. firmwareVersionFromDevice (ws i) name = x then x
      else firmwareVersionFromDevice (ws 19) name)"
  by (auto simp: firmwareVersionAfterUpdate_def retryFirmwareVersion_def firmwareVerifyRetries_def
      retry_reads_spec)

text \<open>After the firmware load of a device has ended, its update is shown as successful exactly when
  the load succeeded and one of the twenty attempts read the expected version.\<close>

theorem io_success_iff_version_read:
  "io_status_code (dev_status (finished_device ws success m d)) =
     (if success \<and> (\<exists>i < 20. firmwareVersionFromDevice (ws i) (dev_name d) = dev_deploying d)
      then IoSuccess else IoFailure)"
proof -
  have "nv_name x = nv_name y \<and> nv_version x = nv_version y \<longleftrightarrow> x = (y :: name_version)" for x y
    by (auto intro: name_version.equality)
  then show ?thesis
    by (auto simp: finished_device_def io_status_of_def Let_def firmwareVersionAfterUpdate_def
        retryFirmwareVersion_def firmwareVerifyRetries_def retry_reads_spec)
qed

section \<open>What one command does to a device\<close>

definition code_in :: "devices \<Rightarrow> string \<Rightarrow> io_code option" where
  "code_in devs k = map_option (\<lambda>d. io_status_code (dev_status d)) (devs k)"

lemma code_in_simps [simp]:
  "devs k = None \<Longrightarrow> code_in devs k = None"
  "devs k = Some d \<Longrightarrow> code_in devs k = Some (io_status_code (dev_status d))"
  by (simp_all add: code_in_def)

text \<open>The firmware loads that are started.\<close>

fun loads :: "io_effect list \<Rightarrow> (string \<times> string) list" where
  "loads [] = []"
| "loads (LoadFirmware d f # es) = (d, f) # loads es"
| "loads (IoReply r # es) = loads es"

lemma loads_set: "(d, f) \<in> set (loads es) \<longleftrightarrow> LoadFirmware d f \<in> set es"
  by (induction es rule: loads.induct) auto

text \<open>A look at device \<open>k\<close>: it is dropped or not found, or found for the first time, or its update state
  stays as it is.\<close>

fun seen :: "string \<Rightarrow> io_device option \<Rightarrow> io_device option \<Rightarrow> bool" where
  "seen k old None = True"
| "seen k None (Some y) = (dev_name y = k \<and> io_status_code (dev_status y) = IoNeverDeployed)"
| "seen k (Some x) (Some y) =
     (dev_name y = dev_name x \<and> dev_status y = dev_status x \<and> dev_deploying y = dev_deploying x)"

lemma seen_refl [simp]: "seen k x x"
  by (cases x) auto

lemma seen_trans: "seen k x y \<Longrightarrow> seen k y z \<Longrightarrow> y \<noteq> None \<or> x = None \<Longrightarrow> seen k x z"
  by (cases x; cases y; cases z) auto

definition answers_fw :: "world \<Rightarrow> string \<Rightarrow> bool" where
  "answers_fw w k \<longleftrightarrow>
     \<not> (nv_name (firmwareVersionFromDevice w k) = [] \<and> nv_version (firmwareVersionFromDevice w k) = [])"

lemma update_other: "k \<noteq> n \<Longrightarrow> updateDeviceState w now n devs k = devs k"
  by (auto simp: updateDeviceState_def Let_def split: option.split)

lemma update_seen: "seen k (devs k) (updateDeviceState w now n devs k)"
proof (cases "k = n")
  case True
  show ?thesis
    by (cases "devs n") (auto simp: True updateDeviceState_def Let_def split: if_splits)
qed (simp add: update_other)

lemma update_answered:
  "answers_fw w k \<Longrightarrow> devs k \<noteq> None \<Longrightarrow> updateDeviceState w now n devs k \<noteq> None"
  by (cases "k = n") (auto simp: update_other, auto simp: updateDeviceState_def answers_fw_def Let_def)

lemma update_unanswered:
  "\<not> answers_fw w k \<Longrightarrow> updateDeviceState w now n devs k \<in> {devs k, None}"
  by (cases "k = n"; cases "devs n")
    (auto simp: update_other, auto simp: updateDeviceState_def answers_fw_def Let_def split: if_splits)

text \<open>Within one scan the tool answers the same for a device, so it is dropped or found, not both.\<close>

lemma scan_fold_seen:
  "seen k (devs k) (fold (updateDeviceState w now) ns devs k) \<and>
   (\<not> answers_fw w k \<longrightarrow> fold (updateDeviceState w now) ns devs k \<in> {devs k, None})"
proof (induction ns arbitrary: devs)
  case (Cons n ns)
  let ?d = "updateDeviceState w now n devs"
  show ?case
  proof (cases "answers_fw w k")
    case True
    then have "?d k \<noteq> None \<or> devs k = None" using update_answered by blast
    then show ?thesis using True Cons.IH[of ?d] seen_trans[OF update_seen] by simp
  next
    case False
    then show ?thesis using update_unanswered[OF False, of now n devs] Cons.IH[of ?d] by auto
  qed
qed simp

lemma scan_absent: "k \<notin> set ns \<Longrightarrow> fold (updateDeviceState w now) ns devs k = devs k"
  by (induction ns arbitrary: devs) (auto simp: update_other)

lemma scan_seen: "seen k (devs k) (scanAndUpdateDeviceStates w now devs k)"
proof (cases "scanDevices w")
  case (Inr ps)
  let ?d = "removeNoLongerPresentDevices ps devs"
  show ?thesis
  proof (cases "k \<in> set ps")
    case True
    then have "?d k = devs k" by (simp add: removeNoLongerPresentDevices_def)
    then show ?thesis using Inr scan_fold_seen[of k ?d w now ps] by (simp add: scanAndUpdateDeviceStates_def)
  next
    case False
    then have "?d k = None" by (simp add: removeNoLongerPresentDevices_def)
    then show ?thesis using Inr scan_absent[OF False, of w now ?d] by (simp add: scanAndUpdateDeviceStates_def)
  qed
qed (simp add: scanAndUpdateDeviceStates_def)

text \<open>What an accepted update makes of the device.\<close>

definition put_in_progress :: "world \<Rightarrow> string \<Rightarrow> io_device \<Rightarrow> io_device \<Rightarrow> bool" where
  "put_in_progress w f d d' \<longleftrightarrow>
     io_status_code (dev_status d) \<noteq> IoInProgress \<and> io_status_code (dev_status d') = IoInProgress \<and>
     dev_name d' = dev_name d \<and> dev_package d' = f \<and>
     (\<exists>m. GetManifestFromFile w f = Inr m \<and>
       dev_deploying d' = \<lparr>nv_name = tweakNameFromManifest (fm_name m), nv_version = fm_version m\<rparr>)"

lemma handleUpdate_cases:
  assumes "handleUpdate w n f devs = (devs', es)"
  obtains (refused) "devs' = devs" "loads es = []"
  | (started) d d' where "devs n = Some d" "devs' = devs(n \<mapsto> d')" "loads es = [(n, f)]"
      "put_in_progress w f d d'"
  using assms
  by (auto simp: handleUpdate_def refuse_def put_in_progress_def io_status_of_def Let_def
      split: option.splits if_splits sum.splits)

text \<open>A command either looks at a device, or starts an update of it, or ends one.\<close>

definition is_end_of :: "string \<Rightarrow> io_command \<Rightarrow> bool" where
  "is_end_of k c \<longleftrightarrow> (case c of CliEvent n ok m \<Rightarrow> n = k | _ \<Rightarrow> False)"

definition quiet :: "io_command \<Rightarrow> io_effect list \<Rightarrow> string \<Rightarrow> bool" where
  "quiet c es k \<longleftrightarrow> k \<notin> fst ` set (loads es) \<and> \<not> is_end_of k c"

lemma command_cases:
  assumes "io_handleCommand ws now order c devs = (devs', es)"
  obtains (looked) "quiet c es k" "seen k (devs k) (devs' k)"
  | (started) f d d' where "c = StartFwUpdate k f" "loads es = [(k, f)]" "seen k (devs k) (Some d)"
      "put_in_progress (ws 1) f d d'" "devs' k = Some d'"
  | (ended) ok m where "c = CliEvent k ok m" "loads es = []"
      "devs' k = map_option (finished_device ws ok m) (devs k)"
proof (cases c)
  case (StartFwUpdate n f)
  let ?d = "updateDeviceState (ws 0) now n devs"
  have s: "seen k (devs k) (?d k)" by (rule update_seen)
  have h: "handleUpdate (ws 1) n f ?d = (devs', es)" using assms StartFwUpdate by simp
  then show thesis
  proof (cases rule: handleUpdate_cases)
    case refused
    then show thesis using looked s StartFwUpdate by (simp add: quiet_def is_end_of_def)
  next
    case (started d d')
    show thesis
    proof (cases "k = n")
      case True
      then show thesis using started that(2)[OF StartFwUpdate[folded True]] s by auto
    next
      case False
      then show thesis using started looked s StartFwUpdate by (auto simp: quiet_def is_end_of_def)
    qed
  qed
next
  case (GetFwState n)
  then show thesis using assms looked update_seen
    by (auto simp: handleGetState_def quiet_def is_end_of_def)
next
  case ListDeviceNames
  then show thesis using assms looked scan_seen
    by (auto simp: handleListDeviceNames_def quiet_def is_end_of_def Let_def)
next
  case (CliEvent n ok m)
  then have d: "devs' = handleCliEvent ws n ok m devs" "es = []" using assms by auto
  show thesis
  proof (cases "k = n")
    case True
    then show thesis using d that(3)[OF CliEvent[folded True]]
      by (auto simp: handleCliEvent_def split: option.splits)
  next
    case False
    then show thesis using d looked CliEvent
      by (auto simp: handleCliEvent_def quiet_def is_end_of_def split: option.splits)
  qed
qed

lemma finished_device_name: "dev_name (finished_device ws ok m d) = dev_name d"
  by (simp add: finished_device_def Let_def)

lemma finished_code: "io_status_code (dev_status (finished_device ws ok m d)) \<in> {IoSuccess, IoFailure}"
  by (auto simp: finished_device_def io_status_of_def Let_def)

section \<open>The manager and its firmware loads\<close>

text \<open>The devices and the loads that are under way, by device and file.\<close>

type_synonym io_system = "devices \<times> (string \<times> string) list"

inductive io_system_step :: "io_system \<Rightarrow> io_system \<Rightarrow> bool" where
  io_client:
    "\<forall>d ok m. c \<noteq> CliEvent d ok m \<Longrightarrow> io_handleCommand ws now order c devs = (devs', es) \<Longrightarrow>
     io_system_step (devs, runs) (devs', loads es @ runs)"
| io_load_ends:
    "(d, f) \<in> set runs \<Longrightarrow> io_handleCommand ws now order (cli_finished d r) devs = (devs', es) \<Longrightarrow>
     io_system_step (devs, runs) (devs', remove1 (d, f) runs)"

definition io_system_start :: "io_system \<Rightarrow> bool" where
  "io_system_start s \<longleftrightarrow> s = (Map.empty, [])"

definition in_progress_loaded :: "io_system \<Rightarrow> bool" where
  "in_progress_loaded s \<longleftrightarrow> (\<forall>k. code_in (fst s) k = Some IoInProgress \<longrightarrow> k \<in> fst ` set (snd s))"

lemma cli_clears: "code_in (handleCliEvent ws d ok m devs) d \<noteq> Some IoInProgress"
  using finished_code[of ws ok m "the (devs d)"] by (cases "devs d") (auto simp: handleCliEvent_def)

lemma cli_other: "k \<noteq> d \<Longrightarrow> code_in (handleCliEvent ws d ok m devs) k = code_in devs k"
  by (cases "devs d") (auto simp: handleCliEvent_def code_in_def)

lemma seen_in_progress:
  "seen k (devs k) (devs' k) \<Longrightarrow> code_in devs' k = Some IoInProgress \<Longrightarrow> code_in devs k = Some IoInProgress"
  by (cases "devs k"; cases "devs' k") auto

interpretation io_loads: invariant_system io_system_start io_system_step in_progress_loaded
proof
  fix s assume "io_system_start s"
  then show "in_progress_loaded s" by (simp add: io_system_start_def in_progress_loaded_def)
next
  fix s t assume s: "in_progress_loaded s" and "io_system_step s t"
  from this(2,1) show "in_progress_loaded t"
  proof (induction rule: io_system_step.induct)
    case (io_client c ws now order devs devs' es runs)
    have "k \<in> fst ` set (loads es @ runs)" if k: "code_in devs' k = Some IoInProgress" for k
      using io_client(2)
    proof (cases rule: command_cases[where k = k])
      case looked
      then have "code_in devs k = Some IoInProgress" using seen_in_progress k by blast
      then have "k \<in> fst ` set runs" using io_client.prems by (simp add: in_progress_loaded_def)
      then show ?thesis by auto
    qed (use io_client(1) in auto)
    then show ?case by (simp add: in_progress_loaded_def)
  next
    case (io_load_ends d f runs ws now order r devs devs' es)
    obtain ok m where d: "devs' = handleCliEvent ws d ok m devs"
      using io_load_ends(2) by (auto simp: cli_finished_def)
    have "k \<in> fst ` set (remove1 (d, f) runs)" if k: "code_in devs' k = Some IoInProgress" for k
    proof -
      have "k \<noteq> d" using k cli_clears unfolding d by auto
      then have e: "code_in devs k = Some IoInProgress" "k \<noteq> d"
        using k cli_other unfolding d by auto
      then obtain g where "(k, g) \<in> set runs" using io_load_ends.prems by (auto simp: in_progress_loaded_def)
      then have "(k, g) \<in> set (remove1 (d, f) runs)" using e(2) by (simp add: in_set_remove1)
      then show ?thesis by force
    qed
    then show ?case by (simp add: in_progress_loaded_def)
  qed
qed

text \<open>C22. A device that is shown as in progress always has a firmware load under way, so every update that
  is shown as in progress comes to an end when that load ends.\<close>

theorem in_progress_has_load:
  assumes "reach io_system_start io_system_step (devs, runs)" "code_in devs k = Some IoInProgress"
  shows "\<exists>f. (k, f) \<in> set runs"
  using io_loads.reach_inv[OF assms(1)] assms(2) by (force simp: in_progress_loaded_def)

section \<open>Two loads of one device\<close>

text \<open>A device that answers with firmware 1, and a package with firmware 2.\<close>

definition fw_world :: world where
  "fw_world = bare_world\<lparr>
     run_command := \<lambda>_ _. \<lparr>cr_stdout = ''Firmware name: fw-a, Version 1'', cr_stderr = [], cr_exit = 0,
       cr_err = None\<rparr>,
     open_file := \<lambda>f. Inr (f, None),
     untar := \<lambda>_. ([\<lparr>te_name = ''manifest.json'', te_regular = True, te_content = Inr ''m''\<rparr>], None),
     json_syntax := \<lambda>_. Inr (JObject [(''name'', JString ''a''), (''version'', JString ''2'')])\<rparr>"

definition fw_step :: "world \<Rightarrow> int \<Rightarrow> io_command \<Rightarrow> devices \<Rightarrow> io_step" where
  "fw_step w now c devs = io_handleCommand (\<lambda>_. w) now (\<lambda>_. []) c devs"

definition fw_updating :: devices where
  "fw_updating = fst (fw_step fw_world 0 (StartFwUpdate ''d'' ''f'') Map.empty)"

definition fw_dropped :: devices where
  "fw_dropped = fst (fw_step bare_world 61000000000 (GetFwState ''d'') fw_updating)"

definition fw_again :: devices where
  "fw_again = fst (fw_step fw_world 62000000000 (StartFwUpdate ''d'' ''g'') fw_dropped)"

lemma fw_facts:
  "loads (snd (fw_step fw_world 0 (StartFwUpdate ''d'' ''f'') Map.empty)) = [(''d'', ''f'')]"
  "code_in fw_updating ''d'' = Some IoInProgress"
  "loads (snd (fw_step bare_world 61000000000 (GetFwState ''d'') fw_updating)) = []"
  "code_in fw_dropped ''d'' = None"
  "loads (snd (fw_step fw_world 62000000000 (StartFwUpdate ''d'' ''g'') fw_dropped)) = [(''d'', ''g'')]"
  "code_in fw_again ''d'' = Some IoInProgress"
  by code_simp+

lemma fw_client:
  assumes "reach io_system_start io_system_step (devs, runs)" "\<forall>d ok m. c \<noteq> CliEvent d ok m"
  shows "reach io_system_start io_system_step (fst (fw_step w now c devs), loads (snd (fw_step w now c devs)) @ runs)"
  by (rule reach_step[OF assms(1)], rule io_client[OF assms(2), of "\<lambda>_. w" now "\<lambda>_. []"])
    (simp add: fw_step_def)

lemma fw_reached:
  "reach io_system_start io_system_step (fw_updating, [(''d'', ''f'')])"
  "reach io_system_start io_system_step (fw_again, [(''d'', ''g''), (''d'', ''f'')])"
proof -
  have "reach io_system_start io_system_step (Map.empty, [])"
    by (rule reach_start) (simp add: io_system_start_def)
  from fw_client[OF this, of "StartFwUpdate ''d'' ''f''" fw_world 0]
  show 1: "reach io_system_start io_system_step (fw_updating, [(''d'', ''f'')])"
    using fw_facts(1) by (simp add: fw_updating_def)
  from fw_client[OF 1, of "GetFwState ''d''" bare_world 61000000000]
  have "reach io_system_start io_system_step (fw_dropped, [(''d'', ''f'')])"
    using fw_facts(3) by (simp add: fw_dropped_def)
  from fw_client[OF this, of "StartFwUpdate ''d'' ''g''" fw_world 62000000000]
  show "reach io_system_start io_system_step (fw_again, [(''d'', ''g''), (''d'', ''f'')])"
    using fw_facts(5) by (simp add: fw_again_def)
qed

theorem in_progress_has_load_witness:
  "\<exists>devs runs f. reach io_system_start io_system_step (devs, runs) \<and>
     code_in devs ''d'' = Some IoInProgress \<and> (''d'', f) \<in> set runs"
  using in_progress_has_load[OF fw_reached(1) fw_facts(2)] fw_reached(1) fw_facts(2) by blast


section \<open>The documented diagram\<close>

text \<open>
  The moves of one device in \<open>docs/io4edgemanager-deploy-status-state-machine.md\<close>, with the command that
  causes them: found for the first time, left alone, requested, and the three ends of a load. A
  device without an entry counts as never deployed for a request, which finds it first. That a look
  at a device can drop its entry is not in the document.
\<close>

definition resting :: "io_device option \<Rightarrow> bool" where
  "resting old \<longleftrightarrow> (case old of None \<Rightarrow> True
     | Some d \<Rightarrow> io_status_code (dev_status d) \<in> {IoNeverDeployed, IoSuccess, IoFailure})"

inductive io_diagram ::
  "(nat \<Rightarrow> world) \<Rightarrow> io_command \<Rightarrow> io_effect list \<Rightarrow> string \<Rightarrow> io_device option \<Rightarrow> io_device option \<Rightarrow> bool"
  for ws :: "nat \<Rightarrow> world" and c :: io_command and es :: "io_effect list" and k :: string where
  io_absent: "quiet c es k \<Longrightarrow> io_diagram ws c es k None None"
| io_discovered:
    "quiet c es k \<Longrightarrow> io_status_code (dev_status d') = IoNeverDeployed \<Longrightarrow>
     io_diagram ws c es k None (Some d')"
| io_stays:
    "quiet c es k \<Longrightarrow> dev_status d' = dev_status d \<Longrightarrow> io_diagram ws c es k (Some d) (Some d')"
| io_dropped: "quiet c es k \<Longrightarrow> io_diagram ws c es k (Some d) None"
| io_requested:
    "c = StartFwUpdate k f \<Longrightarrow> loads es = [(k, f)] \<Longrightarrow> resting old \<Longrightarrow>
     GetManifestFromFile (ws 1) f = Inr m \<Longrightarrow>
     dev_deploying d' = \<lparr>nv_name = tweakNameFromManifest (fm_name m), nv_version = fm_version m\<rparr> \<Longrightarrow>
     io_status_code (dev_status d') = IoInProgress \<Longrightarrow> io_diagram ws c es k old (Some d')"
| io_matched:
    "c = CliEvent k True msg \<Longrightarrow> io_status_code (dev_status d) = IoInProgress \<Longrightarrow>
     i < 20 \<Longrightarrow> firmwareVersionFromDevice (ws i) k = dev_deploying d \<Longrightarrow>
     io_status_code (dev_status d') = IoSuccess \<Longrightarrow> io_diagram ws c es k (Some d) (Some d')"
| io_mismatched:
    "c = CliEvent k True msg \<Longrightarrow> io_status_code (dev_status d) = IoInProgress \<Longrightarrow>
     \<forall>i < 20. firmwareVersionFromDevice (ws i) k \<noteq> dev_deploying d \<Longrightarrow>
     io_status_code (dev_status d') = IoFailure \<Longrightarrow> io_diagram ws c es k (Some d) (Some d')"
| io_load_failed:
    "c = CliEvent k False msg \<Longrightarrow> io_status_code (dev_status d) = IoInProgress \<Longrightarrow>
     io_status_code (dev_status d') = IoFailure \<Longrightarrow> io_diagram ws c es k (Some d) (Some d')"

inductive_cases io_diagram_knownE: "io_diagram ws c es k (Some d) (Some d')"

text \<open>A shown success or failure is left by a new update only.\<close>

lemma result_left_by_update:
  assumes "io_diagram ws c es k (Some d) (Some d')"
    and "io_status_code (dev_status d) \<in> {IoSuccess, IoFailure}"
  shows "dev_status d' = dev_status d \<or> io_status_code (dev_status d') = IoInProgress"
  using assms by (elim io_diagram_knownE) auto

text \<open>The system as long as no device is dropped while its update is in progress. Then each device has
  exactly one load while it is in progress and none otherwise.\<close>

definition io_steady_step :: "io_system \<Rightarrow> io_system \<Rightarrow> bool" where
  "io_steady_step s t \<longleftrightarrow> io_system_step s t \<and>
     (\<forall>k. code_in (fst s) k = Some IoInProgress \<longrightarrow> fst t k \<noteq> None)"

definition loads_of :: "string \<Rightarrow> (string \<times> string) list \<Rightarrow> nat" where
  "loads_of k runs = length (filter (\<lambda>r. fst r = k) runs)"

definition device_ok :: "string \<Rightarrow> io_device option \<Rightarrow> bool" where
  "device_ok k old \<longleftrightarrow> (case old of None \<Rightarrow> True
     | Some d \<Rightarrow> dev_name d = k \<and> io_status_code (dev_status d) \<noteq> IoAlreadyDeployed)"

definition io_accounted :: "io_system \<Rightarrow> bool" where
  "io_accounted s \<longleftrightarrow>
     (\<forall>k. device_ok k (fst s k) \<and>
       loads_of k (snd s) = (if code_in (fst s) k = Some IoInProgress then 1 else 0))"

lemma loads_of_append: "loads_of k (xs @ ys) = loads_of k xs + loads_of k ys"
  by (simp add: loads_of_def)

lemma loads_of_none: "loads_of k runs = 0 \<longleftrightarrow> k \<notin> fst ` set runs"
  by (auto simp: loads_of_def filter_empty_conv)

lemma loads_of_end:
  "(d, f) \<in> set runs \<Longrightarrow> loads_of k (remove1 (d, f) runs) = (if k = d then loads_of k runs - 1 else loads_of k runs)"
  by (auto simp: loads_of_def filter_remove1 length_remove1 remove1_idem)

lemma resting_seen:
  "seen k old (Some d) \<Longrightarrow> io_status_code (dev_status d) \<noteq> IoInProgress \<Longrightarrow> device_ok k old \<Longrightarrow> resting old"
  by (cases old; cases "io_status_code (dev_status d)") (auto simp: resting_def device_ok_def)

text \<open>What a command does to a device that is accounted for.\<close>

lemma accounted_command:
  assumes "io_handleCommand ws now order c devs = (devs', es)"
    and "device_ok k (devs k)" "is_end_of k c \<Longrightarrow> code_in devs k = Some IoInProgress"
  shows "io_diagram ws c es k (devs k) (devs' k) \<and> device_ok k (devs' k)"
  using assms(1)
proof (cases rule: command_cases[where k = k])
  case looked
  then show ?thesis using assms(2)
    by (cases "devs k"; cases "devs' k") (auto simp: device_ok_def intro: io_diagram.intros)
next
  case (started f d d')
  have "resting (devs k)" using resting_seen started assms(2) by (auto simp: put_in_progress_def)
  moreover have "dev_name d' = k"
    using started assms(2) by (cases "devs k") (auto simp: put_in_progress_def device_ok_def)
  ultimately show ?thesis using started
    by (auto simp: put_in_progress_def device_ok_def intro: io_requested)
next
  case (ended ok m)
  then obtain d where d: "devs k = Some d" "io_status_code (dev_status d) = IoInProgress"
    using assms(3) by (auto simp: is_end_of_def code_in_def)
  have n: "dev_name d = k" using assms(2) d(1) by (simp add: device_ok_def)
  let ?d = "finished_device ws ok m d"
  have "io_diagram ws c es k (Some d) (Some ?d)"
  proof (cases ok)
    case False
    then show ?thesis using ended(1) d(2) by (intro io_load_failed) (auto simp: io_success_iff_version_read)
  next
    case True
    show ?thesis
    proof (cases "\<exists>i < 20. firmwareVersionFromDevice (ws i) k = dev_deploying d")
      case found: True
      then obtain i where "i < 20" "firmwareVersionFromDevice (ws i) k = dev_deploying d" by blast
      then show ?thesis using True ended(1) d(2) n found
        by (intro io_matched) (auto simp: io_success_iff_version_read)
    next
      case False
      then show ?thesis using True ended(1) d(2) n
        by (intro io_mismatched) (auto simp: io_success_iff_version_read)
    qed
  qed
  moreover have "device_ok k (Some ?d)"
    using finished_code[of ws ok m d] n by (auto simp: device_ok_def finished_device_name)
  ultimately show ?thesis using ended(3) d(1) by simp
qed

lemma io_accountedD:
  assumes "io_accounted (devs, runs)"
  shows "device_ok k (devs k)" "loads_of k runs = (if code_in devs k = Some IoInProgress then 1 else 0)"
  using assms by (auto simp: io_accounted_def)

lemma io_accounted_run: "io_accounted (devs, runs) \<Longrightarrow> k \<in> fst ` set runs \<Longrightarrow> code_in devs k = Some IoInProgress"
  using io_accountedD(2)[of devs runs k] loads_of_none[of k runs] by (auto split: if_splits)

lemma client_accounted:
  assumes inv: "io_accounted (devs, runs)" and client: "\<forall>d ok m. c \<noteq> CliEvent d ok m"
    and step: "io_handleCommand ws now order c devs = (devs', es)"
    and keep: "\<And>k. code_in devs k = Some IoInProgress \<Longrightarrow> devs' k \<noteq> None"
  shows "io_accounted (devs', loads es @ runs)"
proof -
  have no_end: "\<not> is_end_of k c" for k using client by (auto simp: is_end_of_def split: io_command.splits)
  have "device_ok k (devs' k)" for k using accounted_command[OF step io_accountedD(1)[OF inv]] no_end by blast
  moreover have "loads_of k (loads es @ runs) = (if code_in devs' k = Some IoInProgress then 1 else 0)" for k
    using step
  proof (cases rule: command_cases[where k = k])
    case looked
    then have "loads_of k (loads es) = 0" by (simp add: quiet_def loads_of_none)
    moreover have "code_in devs' k = Some IoInProgress \<longleftrightarrow> code_in devs k = Some IoInProgress"
      using looked(2) keep[of k] by (cases "devs k"; cases "devs' k") auto
    ultimately show ?thesis using io_accountedD(2)[OF inv, of k] by (simp add: loads_of_append)
  next
    case (started f d d')
    then have "code_in devs k \<noteq> Some IoInProgress" "code_in devs' k = Some IoInProgress"
      by (cases "devs k"; auto simp: put_in_progress_def)+
    then show ?thesis using io_accountedD(2)[OF inv, of k] started(2) by (simp add: loads_of_def)
  qed (use no_end[of k] in \<open>simp add: is_end_of_def\<close>)
  ultimately show ?thesis by (simp add: io_accounted_def)
qed

lemma end_accounted:
  assumes inv: "io_accounted (devs, runs)" and run: "(d, f) \<in> set runs"
    and step: "io_handleCommand ws now order (cli_finished d r) devs = (devs', es)"
  shows "io_accounted (devs', remove1 (d, f) runs)"
proof -
  have busy: "code_in devs d = Some IoInProgress" using io_accounted_run[OF inv] run by force
  have "is_end_of k (cli_finished d r) \<Longrightarrow> k = d" for k by (simp add: is_end_of_def cli_finished_def)
  then have "device_ok k (devs' k)" for k
    using accounted_command[OF step io_accountedD(1)[OF inv]] busy by blast
  moreover have "loads_of k (remove1 (d, f) runs) = (if code_in devs' k = Some IoInProgress then 1 else 0)" for k
  proof -
    obtain b m where "devs' = handleCliEvent ws d b m devs" using step by (auto simp: cli_finished_def)
    then have "code_in devs' k = Some IoInProgress \<longleftrightarrow> k \<noteq> d \<and> code_in devs k = Some IoInProgress"
      using cli_clears cli_other by metis
    then show ?thesis using loads_of_end[OF run] io_accountedD(2)[OF inv, of k] busy by auto
  qed
  ultimately show ?thesis by (simp add: io_accounted_def)
qed

interpretation io_steady: invariant_system io_system_start io_steady_step io_accounted
proof
  fix s assume "io_system_start s"
  then show "io_accounted s"
    by (simp add: io_system_start_def io_accounted_def device_ok_def loads_of_def)
next
  fix s t assume inv: "io_accounted s" and "io_steady_step s t"
  then have "io_system_step s t" and keep: "\<And>k. code_in (fst s) k = Some IoInProgress \<Longrightarrow> fst t k \<noteq> None"
    by (auto simp: io_steady_step_def)
  from this(1) inv keep show "io_accounted t"
  proof (induction rule: io_system_step.induct)
    case (io_client c ws now order devs devs' es runs)
    then show ?case using client_accounted by (metis fst_conv)
  next
    case (io_load_ends d f runs ws now order r devs devs' es)
    then show ?case using end_accounted by blast
  qed
qed


text \<open>The load of the device that is updated in \<open>fw_updating\<close> succeeds, and the device reports firmware 2
  afterwards.\<close>

definition fw_new_world :: world where
  "fw_new_world = fw_world\<lparr>
     run_command := \<lambda>_ _. \<lparr>cr_stdout = ''Firmware name: fw-a, Version 2'', cr_stderr = [], cr_exit = 0,
       cr_err = None\<rparr>\<rparr>"

definition fw_done :: devices where
  "fw_done = fst (fw_step fw_new_world 1 (CliEvent ''d'' True []) fw_updating)"

lemma fw_done_code: "code_in fw_done ''d'' = Some IoSuccess"
  by code_simp

lemma fw_steady: "reach io_system_start io_steady_step (fw_updating, [(''d'', ''f'')])"
proof -
  have "reach io_system_start io_steady_step (Map.empty, [])"
    by (rule reach_start) (simp add: io_system_start_def)
  moreover have "io_system_step (Map.empty, []) (fw_updating, [(''d'', ''f'')])"
    using io_client[of "StartFwUpdate ''d'' ''f''" "\<lambda>_. fw_world" 0 "\<lambda>_. []" Map.empty fw_updating
        "snd (fw_step fw_world 0 (StartFwUpdate ''d'' ''f'') Map.empty)" "[]"] fw_facts(1)
    by (simp add: fw_updating_def fw_step_def)
  ultimately show ?thesis by (auto intro: reach_step simp: io_steady_step_def)
qed


end
