(* ===== verification/Update_Run.thy ===== *)
theory Update_Run
  imports Cpu_Commands
begin

text \<open>
  An update from the command to the shown success: the CPU manager with the background work that it
  starts and the events that are on their way, where commands end, the system reboots and health
  checks pass. The result is that an update whose commands all report success, and whose version is
  found on the device afterwards, is shown as successful, for each of the three kinds of update.
\<close>

section \<open>The manager between two events\<close>

record live =
  live_state :: persistent
  live_work :: "background list"
  live_events :: "mender_event list"

fun started_work :: "cpu_effect list \<Rightarrow> background list" where
  "started_work [] = []"
| "started_work (Go b # es) = b # started_work es"
| "started_work (_ # es) = started_work es"

fun sent_events :: "cpu_effect list \<Rightarrow> mender_event list" where
  "sent_events [] = []"
| "sent_events (Send e # es) = e # sent_events es"
| "sent_events (_ # es) = sent_events es"

text \<open>
  What can happen: the command under way ends with a result, the health checks end after their polls, the
  system reboots (the server starts again from the saved state), or the actor handles the next event.
\<close>

datatype happening =
    CommandEnds cmd_result
  | ChecksEnd "nat \<Rightarrow> cmd_result \<times> bool"
  | Reboots
  | Handles

fun happen :: "world \<Rightarrow> string list \<Rightarrow> happening \<Rightarrow> live \<Rightarrow> live option" where
  "happen w order (CommandEnds r) l =
     (case live_work l of
        [RunMender c d code args] \<Rightarrow>
          Some (l\<lparr>live_work := [], live_events := live_events l @ [runMenderCommand c code args r]\<rparr>)
      | _ \<Rightarrow> None)"
| "happen w order (ChecksEnd polls) l =
     (case live_work l of
        [RunVerification] \<Rightarrow>
          (case verification_loop w polls 0 of
             None \<Rightarrow> None
           | Some e \<Rightarrow> Some (l\<lparr>live_work := [], live_events := live_events l @ [e]\<rparr>))
      | _ \<Rightarrow> None)"
| "happen w order Reboots l =
     (case New w order (Loaded (live_state l)) of
        Inl _ \<Rightarrow> None
      | Inr (p, es) \<Rightarrow> Some \<lparr>live_state = p, live_work = started_work es, live_events = sent_events es\<rparr>)"
| "happen w order Handles l =
     (case live_events l of
        [] \<Rightarrow> None
      | e # rest \<Rightarrow>
          (case handleCommand w order order (MenderEvent e) (live_state l) of
             None \<Rightarrow> None
           | Some (p, es) \<Rightarrow>
               Some \<lparr>live_state = p, live_work = live_work l @ started_work es,
                     live_events = rest @ sent_events es\<rparr>))"

fun happenings :: "world \<Rightarrow> string list \<Rightarrow> happening list \<Rightarrow> live \<Rightarrow> live option" where
  "happenings w order [] l = Some l"
| "happenings w order (h # hs) l =
     (case happen w order h l of None \<Rightarrow> None | Some l' \<Rightarrow> happenings w order hs l')"

lemmas handles = happen.simps(4)
declare happen.simps(4) [simp del]

lemma happenings_append:
  "happenings w order (hs @ ks) l =
     (case happenings w order hs l of None \<Rightarrow> None | Some l' \<Rightarrow> happenings w order ks l')"
  by (induction hs arbitrary: l) (auto split: option.splits)

text \<open>The course of an update of each kind: a reboot for an image, health checks for a customization.\<close>

fun course :: "entity_type \<Rightarrow> cmd_result \<Rightarrow> (nat \<Rightarrow> cmd_result \<times> bool) \<Rightarrow> cmd_result \<Rightarrow> happening list" where
  "course EntityApplication r1 polls r2 = [CommandEnds r1, Handles, CommandEnds r2, Handles, Handles]"
| "course EntityCoreOs r1 polls r2 = [CommandEnds r1, Handles, Reboots, Handles, CommandEnds r2, Handles, Handles]"
| "course EntityCoreOSCustomization r1 polls r2 =
     [CommandEnds r1, Handles, Reboots, Handles, ChecksEnd polls, Handles, CommandEnds r2, Handles, Handles]"

section \<open>The phases of an update\<close>

text \<open>One entity is in progress, none waits, and the machine is in the given state of its job.\<close>

definition phase :: "string \<Rightarrow> entity \<Rightarrow> string \<Rightarrow> mender_state \<Rightarrow> persistent \<Rightarrow> bool" where
  "phase name e f st p \<longleftrightarrow>
     Entities p name = Some e \<and> has_code InProgress e \<and>
     (\<forall>k x. Entities p k = Some x \<longrightarrow> k \<noteq> name \<longrightarrow> \<not> has_code InProgress x \<and> \<not> has_code Waiting x) \<and>
     State (MenderState p) = st \<and> CurrentEntityType (MenderState p) = EntityType e \<and>
     CurrentArtifact (MenderState p) = f"

lemma phase_mender: "phase name e f st p \<Longrightarrow> phase name e f st' (p\<lparr>MenderState := (MenderState p)\<lparr>State := st'\<rparr>\<rparr>)"
  by (simp add: phase_def)

lemma run_save_and_spawn:
  "run_mender p (save_and_spawn b s) =
     (p\<lparr>MenderState := s\<rparr>, [WriteState (p\<lparr>MenderState := s\<rparr>), Go b])"
  by (simp add: run_mender_def save_and_spawn_def)

lemma low_level_event:
  "ev_code e \<noteq> EvNone \<Longrightarrow> ev_code e \<noteq> EvJobFinished \<Longrightarrow>
   handleCommand w o1 o2 (MenderEvent e) p = map_option (run_mender p) (HandleEvent w e (MenderState p))"
  by (simp add: handleMenderEvent_def)

lemma command_event [simp]:
  "ev_code (runMenderCommand c code args r) = code" "ev_command (runMenderCommand c code args r) = c"
  "ev_result (runMenderCommand c code args r) =
     menderUpdateResultFromOutput c (cr_stdout r) (cr_stderr r) (cr_exit r) (cr_err r) args"
  by (simp_all add: runMenderCommand_def Let_def)

definition installed_clean :: "string \<Rightarrow> cmd_result \<Rightarrow> bool" where
  "installed_clean f r \<longleftrightarrow>
     menderUpdateResultFromOutput CmdInstall (cr_stdout r) (cr_stderr r) (cr_exit r) (cr_err r) [f] =
       InstalledButNotCommited"

definition committed_clean :: "cmd_result \<Rightarrow> bool" where
  "committed_clean r \<longleftrightarrow>
     menderUpdateResultFromOutput CmdCommit (cr_stdout r) (cr_stderr r) (cr_exit r) (cr_err r) [] = Commited"

text \<open>The install command ends: an application is committed, an image is rebooted into.\<close>

definition next_work :: "world \<Rightarrow> mender_state \<Rightarrow> mender_pstate \<Rightarrow> background" where
  "next_work w st s =
     (if st = Rebooting then RunReboot rebootTimeout
      else if st = VerifyingCustomization then RunVerification
      else RunMender CmdCommit (commitCommandTimeout w s) EvCommitFinished [])"

definition in_phase :: "world \<Rightarrow> string \<Rightarrow> entity \<Rightarrow> string \<Rightarrow> mender_state \<Rightarrow> live \<Rightarrow> bool" where
  "in_phase w name e f st l \<longleftrightarrow>
     phase name e f st (live_state l) \<and> live_work l = [next_work w st (MenderState (live_state l))] \<and>
     live_events l = []"

lemma spawn_phase:
  assumes "phase name e f st p" "s = (MenderState p)\<lparr>State := st'\<rparr>"
    and "handleCommand w order order (MenderEvent ev) p = Some (run_mender p (save_and_spawn (next_work w st' s) s))"
  shows "\<exists>l. happen w order Handles \<lparr>live_state = p, live_work = [], live_events = [ev]\<rparr> = Some l \<and>
    in_phase w name e f st' l \<and> BootID (live_state l) = BootID p"
  using assms by (simp add: handles run_save_and_spawn in_phase_def phase_def del: handleCommand.simps)

lemma install_ends:
  assumes "phase name e f Installing p" "installed_clean f r"
  shows "\<exists>l. happenings w order [CommandEnds r, Handles]
      \<lparr>live_state = p, live_work = [RunMender CmdInstall d EvInstallFinished [f]], live_events = []\<rparr> = Some l \<and>
    in_phase w name e f (if EntityType e = EntityApplication then Committing else Rebooting) l \<and>
    BootID (live_state l) = BootID p"
proof -
  let ?ev = "runMenderCommand CmdInstall EvInstallFinished [f] r"
  let ?st = "if EntityType e = EntityApplication then Committing else Rebooting"
  let ?s = "(MenderState p)\<lparr>State := ?st\<rparr>"
  have "HandleEvent w ?ev (MenderState p) = Some (save_and_spawn (next_work w ?st ?s) ?s)"
    using assms by (cases "EntityType e") (auto simp: HandleEvent_def handleInstallingEvent_def phase_def
        resumedApplicationInstallRolledBack_def handleInstallFinished_def startPostInstallStep_def
        installed_clean_def runMenderCommitInBackGround_def runRebootInBackGround_def next_work_def Let_def)
  then have "handleCommand w order order (MenderEvent ?ev) p = Some (run_mender p (save_and_spawn (next_work w ?st ?s) ?s))"
    by (simp add: handleMenderEvent_def)
  from spawn_phase[OF assms(1) refl this] show ?thesis by auto
qed

lemma reboot_starts_next:
  assumes "phase name e f Rebooting p" "boot_id w = Inr b" "b \<noteq> BootID p"
    and "EntityType e \<noteq> EntityApplication"
  shows "\<exists>l. happenings w order [Reboots, Handles] \<lparr>live_state = p, live_work = wk, live_events = []\<rparr> = Some l \<and>
    in_phase w name e f
      (if EntityType e = EntityCoreOSCustomization then VerifyingCustomization else Committing) l"
proof -
  let ?q = "(with_customization p)\<lparr>BootID := b\<rparr>"
  let ?ev = "newMenderManager True (MenderState p)"
  let ?st = "if EntityType e = EntityCoreOSCustomization then VerifyingCustomization else Committing"
  let ?s = "(MenderState p)\<lparr>State := ?st\<rparr>"
  have m: "MenderState (with_customization p) = MenderState p" "BootID (with_customization p) = BootID p"
    by (simp_all add: with_customization_def set_entity_def)
  have q: "phase name e f Rebooting ?q"
    using assms(1) by (auto simp: phase_def with_customization_def set_entity_def newEntity_def has_code_def)
  have n: "New w order (Loaded p) =
      Inr (?q, [WriteState ?q, Send ?ev] @ cleanUpdateFiles order ?q)"
    using assms(2,3) m by (simp add: New_def hasRebooted_def)
  have "sent_events (cleanUpdateFiles order ?q) = []" "started_work (cleanUpdateFiles order ?q) = []"
    by (simp_all add: cleanUpdateFiles_def Let_def)
  then have r: "happen w order Reboots \<lparr>live_state = p, live_work = wk, live_events = []\<rparr> =
      Some \<lparr>live_state = ?q, live_work = [], live_events = [?ev]\<rparr>"
    using n by simp
  have ev: "?ev = emitRebootFinished ''System reboot detected'' None"
    using assms(1) by (simp add: newMenderManager_def phase_def)
  have "HandleEvent w ?ev (MenderState ?q) = Some (save_and_spawn (next_work w ?st ?s) ?s)"
    using assms(1,4) m(1) unfolding ev
    by (auto simp: HandleEvent_def handleRebootingEvent_def phase_def emitRebootFinished_def blank_event_def
        runCustomizationStatusVerificationInBackground_def runMenderCommitInBackGround_def next_work_def Let_def)
  then have "handleCommand w order order (MenderEvent ?ev) ?q = Some (run_mender ?q (save_and_spawn (next_work w ?st ?s) ?s))"
    unfolding ev by (simp add: handleMenderEvent_def emitRebootFinished_def blank_event_def)
  from spawn_phase[OF q _ this] m(1) r show ?thesis by auto
qed

lemma checks_pass:
  assumes "in_phase w name e f VerifyingCustomization l" "verification_loop w polls 0 = Some (verified_event True m)"
  shows "\<exists>l'. happenings w order [ChecksEnd polls, Handles] l = Some l' \<and> in_phase w name e f Committing l'"
proof -
  let ?p = "live_state l"
  let ?s = "(MenderState ?p)\<lparr>State := Committing\<rparr>"
  have l: "l = \<lparr>live_state = ?p, live_work = [RunVerification], live_events = []\<rparr>"
    and ph: "phase name e f VerifyingCustomization ?p"
    using assms(1) by (auto simp: in_phase_def next_work_def)
  have r: "happen w order (ChecksEnd polls) l =
      Some \<lparr>live_state = ?p, live_work = [], live_events = [verified_event True m]\<rparr>"
    using assms(2) by (subst l) (subst happen.simps, simp)
  have "HandleEvent w (verified_event True m) (MenderState ?p) = Some (save_and_spawn (next_work w Committing ?s) ?s)"
    using ph by (simp add: HandleEvent_def handleVerifyingCustomizationEvent_def phase_def verified_event_def
        blank_event_def runMenderCommitInBackGround_def next_work_def Let_def)
  then have "handleCommand w order order (MenderEvent (verified_event True m)) ?p =
      Some (run_mender ?p (save_and_spawn (next_work w Committing ?s) ?s))"
    by (simp add: handleMenderEvent_def verified_event_def blank_event_def)
  from spawn_phase[OF ph refl this] r show ?thesis by auto
qed

text \<open>The commit ends, and its report is handled.\<close>

definition done_state :: "string \<Rightarrow> live \<Rightarrow> bool" where
  "done_state name l \<longleftrightarrow>
     (\<exists>e. Entities (live_state l) name = Some e \<and> has_code Success e \<and> MenderArtifact e = []) \<and>
     MenderState (live_state l) = idle_pstate \<and> live_work l = [] \<and> live_events l = []"

lemma find_only:
  assumes "P k" "\<And>x. P x \<Longrightarrow> x = k" "k \<in> set xs"
  shows "find P xs = Some k"
  using assms(3)
proof (induction xs)
  case (Cons x xs)
  then show ?case using assms(1) assms(2)[of x] by (cases "P x") auto
qed simp

lemma commit_ends:
  assumes "in_phase w name e f Committing l" "committed_clean r" "name \<in> set order"
    and "getDeployedVersion w e = Inr (DeployingNV e)"
  shows "\<exists>l'. happenings w order [CommandEnds r, Handles, Handles] l = Some l' \<and> done_state name l'"
proof -
  let ?p = "live_state l"
  let ?b = "next_work w Committing (MenderState ?p)"
  let ?ev = "runMenderCommand CmdCommit EvCommitFinished [] r"
  let ?q = "?p\<lparr>MenderState := idle_pstate\<rparr>"
  have l: "l = \<lparr>live_state = ?p, live_work = [?b], live_events = []\<rparr>" and ph: "phase name e f Committing ?p"
    using assms(1) by (auto simp: in_phase_def)
  have 1: "happen w order (CommandEnds r) l = Some \<lparr>live_state = ?p, live_work = [], live_events = [?ev]\<rparr>"
    by (subst l) (subst happen.simps, simp add: next_work_def)
  have "HandleEvent w ?ev (MenderState ?p) = Some (emitJobFinished True [] (MenderState ?p))"
    using ph assms(2) by (simp add: HandleEvent_def handleCommittingEvent_def phase_def committed_clean_def
        handle_commit_result_def)
  then have "handleCommand w order order (MenderEvent ?ev) ?p = Some (run_mender ?p (emitJobFinished True [] (MenderState ?p)))"
    by (simp add: handleMenderEvent_def)
  then have 2: "happen w order Handles \<lparr>live_state = ?p, live_work = [], live_events = [?ev]\<rparr> =
      Some \<lparr>live_state = ?q, live_work = [], live_events = [job_event True []]\<rparr>"
    by (simp add: handles run_mender_def emitJobFinished_def setIdle_def del: handleCommand.simps)
  let ?e = "finishEntityUpdate w True [] e"
  have "getEntityInProgress order ?q = Some name"
    unfolding getEntityInProgress_def find_entity_def
    using ph assms(3) by (intro find_only) (auto simp: phase_def split: option.splits)
  then have fin: "finish_in_progress w order True [] ?q = set_entity name ?e ?q"
    using ph by (simp add: finish_in_progress_def phase_def)
  have s: "has_code Success ?e" "MenderArtifact ?e = []"
    using assms(4) by (auto simp: finishEntityUpdate_def isDeployed_iff set_status_def has_code_def Let_def)
  have "getEntityWaiting order (set_entity name ?e ?q) = None"
    using ph s(1) by (auto simp: getEntityWaiting_def find_entity_def find_None_iff set_entity_def phase_def has_code_def
        split: option.splits)
  then have "handleCommand w order order (MenderEvent (job_event True [])) ?q = Some (set_entity name ?e ?q, [])"
    using fin by (simp add: handleMenderEvent_def job_event_def blank_event_def handleMenderJobFinished_def
        start_waiting_def)
  then have 3: "happen w order Handles \<lparr>live_state = ?q, live_work = [], live_events = [job_event True []]\<rparr> =
      Some \<lparr>live_state = set_entity name ?e ?q, live_work = [], live_events = []\<rparr>"
    by (simp add: handles del: handleCommand.simps)
  show ?thesis using 1 2 3 s by (simp add: done_state_def set_entity_def)
qed

section \<open>A successful update\<close>

definition undisturbed :: "string \<Rightarrow> entity_type \<Rightarrow> persistent \<Rightarrow> bool" where
  "undisturbed name t p \<longleftrightarrow>
     IsIdle (MenderState p) \<and> inprog p = {} \<and>
     (\<forall>k e. Entities p k = Some e \<longrightarrow> \<not> has_code Waiting e) \<and>
     (\<forall>e. Entities p name = Some e \<longrightarrow> EntityType e = t \<and> Name e = name)"

lemma update_starts:
  assumes "handleEntityUpdate w name t f p = Some (p', es)" "answer None \<in> set es" "undisturbed name t p"
  shows "\<exists>e. phase name e f Installing p' \<and> EntityType e = t \<and> Name e = name \<and>
    getVersionFromArtifact w e f = Some (Inr (DeployingNV e)) \<and>
    started_work es = [RunMender CmdInstall updateTimeout EvInstallFinished [f]] \<and> sent_events es = [] \<and>
    BootID p' = BootID p"
  using assms(1)
proof (cases rule: update_cases)
  case (refused err p1)
  then show ?thesis using assms(2) by (simp add: answer_def)
next
  case (accepted e p1 nv)
  let ?e = "e\<lparr>MenderArtifact := f, DeployingNV := nv\<rparr>"
  have u: "MenderState p1 = MenderState p" "BootID p1 = BootID p" "EntityType e = t \<and> Name e = name"
    "\<And>k x. Entities p1 k = Some x \<Longrightarrow> k \<noteq> name \<Longrightarrow> Entities p k = Some x"
    using accepted(2,3) assms(3)
    by (auto simp: untouched_def undisturbed_def set_entity_def newEntity_def split: if_splits)
  have idle: "IsIdle (MenderState p1)" "IsIdle (MenderState (set_entity name ?e p1))"
    using assms(3) u(1) by (simp_all add: undisturbed_def set_entity_def)
  have v: "getVersionFromArtifact w (set_status InProgress m ?e) f = Some (Inr nv)" for m
    using accepted(6) getVersionFromArtifact_cong[of "set_status InProgress m ?e" e w f] by (simp add: set_status_def)
  have others: "\<not> has_code InProgress x \<and> \<not> has_code Waiting x" if "Entities p1 k = Some x" "k \<noteq> name" for k x
    using u(4)[OF that] assms(3) by (auto simp: undisturbed_def inprog_def)
  show ?thesis
    using accepted(1) idle start_idle[OF idle(2), of name ?e] v u others
    by (intro exI[of _ "set_status InProgress ''Update is in progress'' ?e"])
      (auto simp: accept_cases Let_def phase_def set_entity_def has_code_def set_status_def answer_def
        split: if_splits)
qed

text \<open>C11. An accepted update that nothing disturbs succeeds: if its install and its commit command report success, the
  health checks of a customization pass, the system comes back from the reboot that an image needs,
  and the device then shows the version of the artifact, the manager ends with the entity shown as
  deployed successfully and its file forgotten, and is ready for the next update.\<close>

theorem undisturbed_update_succeeds:
  assumes "handleEntityUpdate w0 name t f p = Some (p1, es)" "answer None \<in> set es" "undisturbed name t p"
    and "installed_clean f r1" "committed_clean r2"
    and "t = EntityApplication \<or> boot_id w = Inr b \<and> b \<noteq> BootID p"
    and "verification_loop w polls 0 = Some (verified_event True m) \<or> t \<noteq> EntityCoreOSCustomization"
    and "name \<in> set order"
    and "getVersionFromArtifact w0 (newEntity name t) f = Some (Inr nv)"
    and "getDeployedVersion w (newEntity name t) = Inr nv"
  shows "\<exists>l. happenings w order (course t r1 polls r2)
      \<lparr>live_state = p1, live_work = started_work es, live_events = sent_events es\<rparr> = Some l \<and> done_state name l"
proof -
  obtain e where e: "phase name e f Installing p1" "EntityType e = t" "Name e = name"
    "getVersionFromArtifact w0 e f = Some (Inr (DeployingNV e))"
    "started_work es = [RunMender CmdInstall updateTimeout EvInstallFinished [f]]" "sent_events es = []"
    "BootID p1 = BootID p"
    using update_starts[OF assms(1-3)] by blast
  have "Name (newEntity name t) = Name e" "EntityType (newEntity name t) = EntityType e"
    using e(2,3) by (simp_all add: newEntity_def)
  then have dep: "getDeployedVersion w e = Inr (DeployingNV e)"
    using assms(9,10) e(4) getVersionFromArtifact_cong[of "newEntity name t" e] getDeployedVersion_cong[of "newEntity name t" e]
    by simp
  let ?l = "\<lparr>live_state = p1, live_work = started_work es, live_events = sent_events es\<rparr>"
  let ?st = "if t = EntityApplication then Committing else Rebooting"
  obtain l1 where l1: "happenings w order [CommandEnds r1, Handles] ?l = Some l1" "in_phase w name e f ?st l1"
    "BootID (live_state l1) = BootID p"
    using install_ends[OF e(1) assms(4), of w order updateTimeout] e(2,5,6,7) by auto
  have commit: "\<exists>l'. happenings w order [CommandEnds r2, Handles, Handles] l = Some l' \<and> done_state name l'"
    if "in_phase w name e f Committing l" for l
    by (rule commit_ends[OF that assms(5,8) dep])
  show ?thesis
  proof (cases "t = EntityApplication")
    case True
    then obtain l2 where "happenings w order [CommandEnds r2, Handles, Handles] l1 = Some l2" "done_state name l2"
      using commit l1(2) by auto
    then show ?thesis
      using True l1(1) happenings_append[of w order "[CommandEnds r1, Handles]" "[CommandEnds r2, Handles, Handles]" ?l]
      by (auto simp del: happenings.simps)
  next
    case False
    have p: "phase name e f Rebooting (live_state l1)" "live_events l1 = []"
      using l1(2) False by (simp_all add: in_phase_def)
    then have l1_eq: "l1 = \<lparr>live_state = live_state l1, live_work = live_work l1, live_events = []\<rparr>" by simp
    have nb: "boot_id w = Inr b" "b \<noteq> BootID (live_state l1)" using assms(6) False l1(3) by auto
    let ?st2 = "if t = EntityCoreOSCustomization then VerifyingCustomization else Committing"
    obtain l2 where l2: "happenings w order [Reboots, Handles] l1 = Some l2" "in_phase w name e f ?st2 l2"
      using reboot_starts_next[OF p(1) nb, of order "live_work l1"] l1_eq e(2) False by auto
    have pre: "happenings w order ([CommandEnds r1, Handles] @ [Reboots, Handles] @ ks) ?l = happenings w order ks l2" for ks
      using l1(1) l2(1) by (simp only: happenings_append option.case)
    show ?thesis
    proof (cases "t = EntityCoreOSCustomization")
      case True
      then have "verification_loop w polls 0 = Some (verified_event True m)" "in_phase w name e f VerifyingCustomization l2"
        using assms(7) l2(2) by auto
      then obtain l3 where
        l3: "happenings w order [ChecksEnd polls, Handles] l2 = Some l3" "in_phase w name e f Committing l3"
        using checks_pass by blast
      obtain l4 where "happenings w order [CommandEnds r2, Handles, Handles] l3 = Some l4" "done_state name l4"
        using commit[OF l3(2)] by blast
      then have "happenings w order ([ChecksEnd polls, Handles] @ [CommandEnds r2, Handles, Handles]) l2 = Some l4"
        "done_state name l4"
        using l3(1) by (simp_all only: happenings_append option.case)
      then show ?thesis
        using True pre[of "[ChecksEnd polls, Handles] @ [CommandEnds r2, Handles, Handles]"]
        by (auto simp del: happenings.simps)
    next
      case no: False
      then have t: "t = EntityCoreOs" using False by (cases t) auto
      obtain l3 where "happenings w order [CommandEnds r2, Handles, Handles] l2 = Some l3" "done_state name l3"
        using commit l2(2) no by auto
      then show ?thesis
        using t pre[of "[CommandEnds r2, Handles, Handles]"] by (auto simp del: happenings.simps)
    qed
  qed
qed

text \<open>The sample: application \<open>a\<close> is updated to version 2.\<close>

definition updated_world :: world where
  "updated_world = demo_world\<lparr>read_file := \<lambda>_. Inr ''SOFTWARE_VERSION=2''\<rparr>"

definition says :: "string \<Rightarrow> cmd_result" where
  "says line = \<lparr>cr_stdout = line @ [newline], cr_stderr = [], cr_exit = 0, cr_err = None\<rparr>"

lemma sample_run_facts:
  "installed_clean ''a'' (says ''Installed, but not committed.'')"
  "committed_clean (says ''Committed.'')"
  "getVersionFromArtifact demo_world (newEntity ''a'' EntityApplication) ''a'' =
     Some (Inr \<lparr>nv_name = ''a'', nv_version = ''2''\<rparr>)"
  "getDeployedVersion updated_world (newEntity ''a'' EntityApplication) =
     Inr \<lparr>nv_name = ''a'', nv_version = ''2''\<rparr>"
  by code_simp+

lemma sample_undisturbed: "undisturbed ''a'' EntityApplication (setInitialPersistentState demo_world)"
  using initial_entities[of demo_world]
  by (auto simp: undisturbed_def setInitialPersistentState_def idle_pstate_def IsIdle_def newEntity_def
      has_code_def coreOSEntity_def coreOSCustomizationEntity_def split: if_splits)

theorem undisturbed_update_succeeds_witness:
  "\<exists>p1 es l. handleEntityUpdate demo_world ''a'' EntityApplication ''a'' (setInitialPersistentState demo_world) =
       Some (p1, es) \<and>
     happenings updated_world [''a'']
       (course EntityApplication (says ''Installed, but not committed.'') (\<lambda>_. (says [], True)) (says ''Committed.''))
       \<lparr>live_state = p1, live_work = started_work es, live_events = sent_events es\<rparr> = Some l \<and>
     done_state ''a'' l"
proof -
  obtain p1 es where st: "accept_update ''a'' (newEntity ''a'' EntityApplication) ''a''
     \<lparr>nv_name = ''a'', nv_version = ''2''\<rparr>
     (set_entity ''a'' (newEntity ''a'' EntityApplication) (setInitialPersistentState demo_world)) = (p1, es)"
    by fastforce
  note h = demo_update[unfolded st]
  have "answer None \<in> set es"
    using st by (auto simp: accept_cases Let_def split: prod.splits if_splits)
  from undisturbed_update_succeeds[OF h this sample_undisturbed sample_run_facts(1,2) _ _ _ sample_run_facts(3,4),
      of "[]" "\<lambda>_. (says [], True)" "[]" "[''a'']"] h
  show ?thesis by auto
qed

end
