(* ===== verification/Update_Store.thy ===== *)
theory Update_Store
  imports Cpu_Commands
begin

text \<open>
  \<open>internal/updatestore\<close>: the directory of uploaded update files and its cleaning. The directory is the
  list of its file names; whether a file can be removed is a parameter. Patterns use literal
  characters and \<open>*\<close> only, as all callers do. The lemmas show what the clean-up at the start of the CPU
  manager removes and what it leaves.
\<close>

text \<open>\<open>filepath.Base\<close>.\<close>

fun drop_slashes :: "string \<Rightarrow> string" where
  "drop_slashes [] = []"
| "drop_slashes (c # s) = (if c = CHR ''/'' then drop_slashes s else c # s)"

definition filepath_base :: "string \<Rightarrow> string" where
  "filepath_base p =
     (if p = [] then ''.''
      else let r = takeWhile (\<lambda>c. c \<noteq> CHR ''/'') (drop_slashes (rev p))
           in if r = [] then ''/'' else rev r)"

text \<open>\<open>filepath.Match\<close> of a name against a pattern.\<close>

fun glob_match :: "string \<Rightarrow> string \<Rightarrow> bool" where
  "glob_match [] s \<longleftrightarrow> s = []"
| "glob_match (p # ps) [] \<longleftrightarrow> p = CHR ''*'' \<and> glob_match ps []"
| "glob_match (p # ps) (c # s) \<longleftrightarrow>
     (if p = CHR ''*'' then glob_match ps (c # s) \<or> c \<noteq> CHR ''/'' \<and> glob_match (p # ps) s
      else p = c \<and> glob_match ps s)"

definition victims :: "string \<Rightarrow> string list \<Rightarrow> string list \<Rightarrow> string list" where
  "victims pattern excluded files =
     filter (\<lambda>f. filepath_base f \<notin> set (map filepath_base excluded)) (filter (glob_match pattern) files)"

definition updatestore_Clean ::
  "(string \<Rightarrow> bool) \<Rightarrow> string \<Rightarrow> string list \<Rightarrow> string list \<Rightarrow> string list \<times> unit go" where
  "updatestore_Clean removable pattern excluded files =
     (let vs = victims pattern excluded files;
          errCount = length (filter (\<lambda>f. \<not> removable f) vs)
      in (filter (\<lambda>f. \<not> (f \<in> set vs \<and> removable f)) files,
          if errCount > 0 then Inl (wrap_err ''failed to remove files'' (nat_digits errCount)) else Inr ()))"

definition updateFilePath :: string where "updateFilePath = ''/data/core-api-server/updates/''"

definition GetPath :: "world \<Rightarrow> string" where
  "GetPath w = prefix_path w updateFilePath"

text \<open>The effects of the manager's clean-up, carried out on the directory; errors are only logged.\<close>

fun clean_effects :: "(string \<Rightarrow> bool) \<Rightarrow> cpu_effect list \<Rightarrow> string list \<Rightarrow> string list" where
  "clean_effects removable [] files = files"
| "clean_effects removable (CleanFiles pattern excluded # es) files =
     clean_effects removable es (fst (updatestore_Clean removable pattern excluded files))"
| "clean_effects removable (_ # es) files = clean_effects removable es files"

section \<open>What is removed\<close>

lemma glob_star: "glob_match ''*'' s \<longleftrightarrow> CHR ''/'' \<notin> set s"
  by (induction s) auto

lemma glob_prefix_star: "CHR ''*'' \<notin> set p \<Longrightarrow> glob_match (p @ ''*'') f \<longleftrightarrow> (\<exists>s. f = p @ s \<and> CHR ''/'' \<notin> set s)"
proof (induction p arbitrary: f)
  case Nil
  then show ?case using glob_star by simp
next
  case (Cons x p)
  then show ?case by (cases f) auto
qed

lemma drop_slashes_rev: "f \<noteq> [] \<Longrightarrow> CHR ''/'' \<notin> set f \<Longrightarrow> drop_slashes (rev f @ r) = rev f @ r"
  by (cases f rule: rev_cases) auto

lemma until_slash:
  assumes "CHR ''/'' \<notin> set f"
  shows "takeWhile (\<lambda>c. c \<noteq> CHR ''/'') (rev f @ CHR ''/'' # r) = rev f"
    "takeWhile (\<lambda>c. c \<noteq> CHR ''/'') (rev f) = rev f"
proof -
  have "\<And>x. x \<in> set (rev f) \<Longrightarrow> x \<noteq> CHR ''/''" using assms unfolding set_rev by metis
  from takeWhile_append2[of "rev f" "\<lambda>c. c \<noteq> CHR ''/''" "CHR ''/'' # r", OF this]
    takeWhile_append2[of "rev f" "\<lambda>c. c \<noteq> CHR ''/''" "[]", OF this]
  show "takeWhile (\<lambda>c. c \<noteq> CHR ''/'') (rev f @ CHR ''/'' # r) = rev f"
    "takeWhile (\<lambda>c. c \<noteq> CHR ''/'') (rev f) = rev f"
    by simp_all
qed

lemma base_plain:
  assumes "f \<noteq> []" "CHR ''/'' \<notin> set f"
  shows "filepath_base f = f"
  using drop_slashes_rev[OF assms, of "[]"] until_slash(2)[OF assms(2)] assms(1)
  by (simp only: filepath_base_def append_Nil2 Let_def rev_is_Nil_conv if_False rev_rev_ident)

lemma base_dir:
  assumes "f \<noteq> []" "CHR ''/'' \<notin> set f"
  shows "filepath_base (d @ ''/'' @ f) = f"
  using drop_slashes_rev[OF assms, of "CHR ''/'' # rev d"] until_slash(1)[OF assms(2), of "rev d"] assms(1)
  by (simp add: filepath_base_def)

lemma Clean_files:
  "f \<in> set (fst (updatestore_Clean removable pattern excluded files)) \<longleftrightarrow>
     f \<in> set files \<and> \<not> (glob_match pattern f \<and> filepath_base f \<notin> filepath_base ` set excluded \<and> removable f)"
  by (auto simp: updatestore_Clean_def victims_def Let_def)

definition update_patterns :: "string list" where
  "update_patterns = [''app-*'', ''coreos-*'', ''core-os-customization-*'']"

text \<open>The files that the persistent state still needs.\<close>

definition needed :: "persistent \<Rightarrow> string set" where
  "needed p = ({CurrentArtifact (MenderState p)} \<union>
     {MenderArtifact e | e k. Entities p k = Some e}) - {[]}"

lemma clean_start:
  assumes "map_order order p"
  shows "f \<in> set (clean_effects removable (cleanUpdateFiles order p) files) \<longleftrightarrow>
    f \<in> set files \<and> \<not> ((\<exists>pat \<in> set update_patterns. glob_match pat f) \<and>
      filepath_base f \<notin> filepath_base ` needed p \<and> removable f)"
proof -
  let ?ex = "(if CurrentArtifact (MenderState p) \<noteq> [] then [CurrentArtifact (MenderState p)] else []) @
        filter (\<lambda>a. a \<noteq> []) (map (\<lambda>k. case Entities p k of Some e \<Rightarrow> MenderArtifact e | None \<Rightarrow> []) order)"
  have "set ?ex = needed p"
    using assms by (force simp: needed_def map_order_def split: option.splits if_splits)
  then show ?thesis
    by (auto simp: cleanUpdateFiles_def Let_def update_patterns_def Clean_files simp del: updatestore_Clean_def)
qed

text \<open>C28. The clean-up at start keeps exactly the update files that are still needed: a file in the
  directory whose name is that of the artifact of an entity or of the job under way stays, every
  other removable file left by an upload for the CPU goes, and all other files stay.\<close>

theorem startup_clean_keeps_needed_files:
  assumes "New w order loaded = Inr (p, es)" "map_order order p"
  shows "set (clean_effects removable es files) =
    {f \<in> set files. \<not> (list_ex (\<lambda>pat. glob_match pat f) update_patterns \<and>
       filepath_base f \<notin> filepath_base ` needed p \<and> removable f)}"
proof -
  have "clean_effects removable es files = clean_effects removable (cleanUpdateFiles order p) files"
    using assms(1) by (auto simp: New_def split: sum.splits)
  then show ?thesis using clean_start[OF assms(2)] by (auto simp: list_ex_iff)
qed

definition clean_sample :: persistent where
  "clean_sample = set_entity ''a'' ((newEntity ''a'' EntityApplication)\<lparr>MenderArtifact := ''/u/app-a-1''\<rparr>)
     (setInitialPersistentState bare_world)"

theorem startup_clean_keeps_needed_files_witness:
  "set (clean_effects (\<lambda>_. True) (snd (case New bare_world [''a'', coreOSEntity, coreOSCustomizationEntity]
       (Loaded clean_sample) of Inr st \<Rightarrow> st | Inl _ \<Rightarrow> undefined))
     [''app-a-1'', ''app-a-2'', ''io4edge-x'']) =
   {f \<in> {''app-a-1'', ''app-a-2'', ''io4edge-x''}. \<not> (list_ex (\<lambda>pat. glob_match pat f) update_patterns \<and>
       filepath_base f \<notin> filepath_base ` needed clean_sample)}"
proof -
  let ?o = "[''a'', coreOSEntity, coreOSCustomizationEntity]"
  have e: "Entities clean_sample coreOSCustomizationEntity \<noteq> None"
    by (simp add: clean_sample_def setInitialPersistentState_def)
  obtain es where n: "New bare_world ?o (Loaded clean_sample) = Inr (clean_sample, es)"
    using e by (simp add: New_def with_customization_def hasRebooted_def boot_id_def bare_world_def)
  have o: "map_order ?o clean_sample"
    by (auto simp: map_order_def clean_sample_def setInitialPersistentState_def coreOSEntity_def
        coreOSCustomizationEntity_def split: if_splits)
  show ?thesis using startup_clean_keeps_needed_files[OF n o, of "\<lambda>_. True"] by (simp add: n)
qed

end
