(* ===== verification/Server_Api.thy ===== *)
theory Server_Api
  imports Update_Store Io4edge_Manager
begin

text \<open>
  The HTTP server of \<open>internal/server\<close>: its routes, the upload of update files, the translation of the
  managers' answers into responses, and the hardware information. A handler is a function of its
  request and of the answer of the manager (an argument \<open>ask\<close> from commands to answers); its
  value is the response with what it does to the files of the update directory, in order.
\<close>

section \<open>Requests and responses\<close>

datatype route =
    LoadCoreOS
  | GetCoreOS
  | LoadCoreOSCustomization
  | GetCoreOSCustomization
  | LoadApplication string
  | GetApplication string
  | ListApps
  | RebootSystem
  | GetIo4Edge string
  | LoadIo4Edge string
  | GetHardware
  | ListIo4EdgeDevices

definition api_prefix :: "string list" where "api_prefix = [''api'', ''v1'']"

text \<open>
  \<open>routes\<close>, over the path segments as \<open>ServeMux\<close> splits and unescapes them (a segment for a wildcard is
  not empty). A \<open>GET\<close> pattern also serves \<open>HEAD\<close>.
\<close>

definition is_get :: "string \<Rightarrow> bool" where "is_get m \<longleftrightarrow> m = ''GET'' \<or> m = ''HEAD''"

definition software_route :: "string \<Rightarrow> string list \<Rightarrow> route option" where
  "software_route m segs =
     (if segs = [''core-os''] then
        (if m = ''PUT'' then Some LoadCoreOS else if is_get m then Some GetCoreOS else None)
      else if segs = [''core-os-customization''] then
        (if m = ''PUT'' then Some LoadCoreOSCustomization
         else if is_get m then Some GetCoreOSCustomization else None)
      else if segs = [''applications''] then (if is_get m then Some ListApps else None)
      else case segs of
        [kind, name] \<Rightarrow>
          (if name = [] then None
           else if kind = ''application'' then
             (if m = ''PUT'' then Some (LoadApplication name)
              else if is_get m then Some (GetApplication name) else None)
           else if kind = ''io4edge'' then
             (if is_get m then Some (GetIo4Edge name)
              else if m = ''PUT'' then Some (LoadIo4Edge name) else None)
           else None)
      | _ \<Rightarrow> None)"

definition routes :: "string \<Rightarrow> string list \<Rightarrow> route option" where
  "routes m path =
     (if take 2 path \<noteq> api_prefix then None
      else case drop 2 path of
        [] \<Rightarrow> None
      | area # rest \<Rightarrow>
          (if area = ''software'' then software_route m rest
           else if area = ''system'' then
             (if rest = [''reboot''] \<and> m = ''POST'' then Some RebootSystem else None)
           else if area = ''hardware'' then
             (if \<not> is_get m then None
              else if rest = [] then Some GetHardware
              else if rest = [''io4edge-devices''] then Some ListIo4EdgeDevices else None)
           else None))"

record hardwareInfo =
  hw_vendor :: string
  hw_model :: string
  hw_variant :: int
  hw_major :: int
  hw_serial :: string

datatype body =
    NoBody
  | ErrorPayload string string
  | StatusBody entity_status
  | NamesBody "string list"
  | FirmwareBody io_status name_version
  | HardwareBody hardwareInfo
  | EmptyObject

record response =
  rs_status :: nat
  rs_body :: body

definition writeJSONError :: "nat \<Rightarrow> string \<Rightarrow> string \<Rightarrow> response" where
  "writeJSONError s code message = \<lparr>rs_status = s, rs_body = ErrorPayload code message\<rparr>"

definition writeJSON :: "body \<Rightarrow> response" where
  "writeJSON b = \<lparr>rs_status = 200, rs_body = b\<rparr>"

definition accepted :: response where
  "accepted = \<lparr>rs_status = 202, rs_body = NoBody\<rparr>"

definition errUnknown :: string where "errUnknown = ''api-0000''"
definition errCodeBadRequest :: string where "errCodeBadRequest = ''api-0001''"
definition errCodeCreateTempFailed :: string where "errCodeCreateTempFailed = ''api-0002''"
definition errCodeReadBodyFailed :: string where "errCodeReadBodyFailed = ''api-0003''"
definition errCodeFinalizeFileFailed :: string where "errCodeFinalizeFileFailed = ''api-0004''"
definition errCodeEeInvFailed :: string where "errCodeEeInvFailed = ''api-0006''"

section \<open>Asking the managers\<close>

text \<open>
  \<open>Ask\<close>: what its two \<open>select\<close> statements choose. The caller gets the answer, or the error of its context
  before or after the command has gone to the inbox.
\<close>

datatype patience = Stays | GoneBeforeSend | GoneAfterSend

definition sent :: "patience \<Rightarrow> bool" where "sent c \<longleftrightarrow> c \<noteq> GoneBeforeSend"

definition Ask :: "patience \<Rightarrow> 'r \<Rightarrow> 'r option" where
  "Ask c r = (if c = Stays then Some r else None)"

text \<open>
  The result of \<open>Ask\<close> for a caller: \<open>Inl None\<close> is the context's error. \<open>ExtractCode\<close> finds code and message of a
  coded error.
\<close>

definition ExtractCode :: "('c \<Rightarrow> string) \<Rightarrow> 'c coded_error option \<Rightarrow> (string \<times> string) option" where
  "ExtractCode text e = map_option (\<lambda>c. (text (err_code c), err_message c)) e"

definition exec_command :: "('c \<Rightarrow> string) \<Rightarrow> 'c coded_error option + 'v \<Rightarrow> (string \<times> string) + 'v" where
  "exec_command text res =
     (case res of
        Inl e \<Rightarrow> (case ExtractCode text e of
                  Some (code, message) \<Rightarrow> Inl (code, message)
                | None \<Rightarrow> Inl (errUnknown, []))
      | Inr v \<Rightarrow> Inr v)"

definition execCPUManagerCommand :: "cpu_error option + 'v \<Rightarrow> (string \<times> string) + 'v" where
  "execCPUManagerCommand = exec_command cpu_error_text"

definition execIo4edgeManagerCommand :: "io_error option + 'v \<Rightarrow> (string \<times> string) + 'v" where
  "execIo4edgeManagerCommand = exec_command io_error_text"

definition statusFromCPUManagerCode :: "string \<Rightarrow> nat" where
  "statusFromCPUManagerCode code =
     (if code = cpu_error_text ErrAlreadyDeployed then 409
      else if code = cpu_error_text ArtifactInvalid then 400
      else if code = cpu_error_text EntityNotFound then 404
      else if code = cpu_error_text InvalidCoreOSEntityName then 400
      else if code = cpu_error_text EntityUpdateInProgress \<or> code = cpu_error_text MenderBusy then 412
      else 500)"

definition statusFromIO4EdgeManagerCode :: "string \<Rightarrow> nat" where
  "statusFromIO4EdgeManagerCode code =
     (if code = io_error_text IoAlreadyDeployedErr then 409
      else if code = io_error_text IoArtifactInvalid \<or> code = io_error_text DeviceNotFound then 400
      else if code = io_error_text DeviceUpdateInProgress then 412
      else 500)"

text \<open>
  The reply channels are typed; a reply of another kind, which no handler sends (shown below), is
  mapped to the context's error.
\<close>

fun done_result :: "reply option \<Rightarrow> cpu_error option + unit" where
  "done_result (Some (Done None)) = Inr ()"
| "done_result (Some (Done (Some e))) = Inl (Some e)"
| "done_result _ = Inl None"

fun status_result :: "reply option \<Rightarrow> cpu_error option + entity_status" where
  "status_result (Some (StatusReply (Inr s))) = Inr s"
| "status_result (Some (StatusReply (Inl e))) = Inl (Some e)"
| "status_result _ = Inl None"

fun apps_result :: "reply option \<Rightarrow> cpu_error option + string list" where
  "apps_result (Some (AppsReply (Inr s))) = Inr s"
| "apps_result (Some (AppsReply (Inl e))) = Inl (Some e)"
| "apps_result _ = Inl None"

fun started_result :: "io_reply option \<Rightarrow> io_error option + unit" where
  "started_result (Some (FwStarted None)) = Inr ()"
| "started_result (Some (FwStarted (Some e))) = Inl (Some e)"
| "started_result _ = Inl None"

fun fw_result :: "io_reply option \<Rightarrow> io_error option + (io_status \<times> name_version)" where
  "fw_result (Some (FwState (Inr s))) = Inr s"
| "fw_result (Some (FwState (Inl e))) = Inl (Some e)"
| "fw_result _ = Inl None"

fun devices_result :: "io_reply option \<Rightarrow> io_error option + string list" where
  "devices_result (Some (FwDevices ds)) = Inr ds"
| "devices_result _ = Inl None"

section \<open>Uploads\<close>

text \<open>
  An upload: the body as far as it is delivered, how creating, filling and closing the file end, and the random part of
  the file's name.
\<close>

record upload =
  up_body :: string
  up_create_err :: "string option"
  up_read_err :: "string option"
  up_close_err :: "string option"
  up_random :: string

datatype upload_op = CreateTmp string | FillTmp string string | RemoveTmp string

text \<open>\<open>os.CreateTemp\<close>: the last star of the pattern is replaced; a pattern with a slash is refused.\<close>

definition temp_name :: "string \<Rightarrow> string \<Rightarrow> string" where
  "temp_name pattern rnd =
     (if CHR ''*'' \<in> set pattern
      then butlast (rev (dropWhile (\<lambda>c. c \<noteq> CHR ''*'') (rev pattern))) @ rnd @
           rev (takeWhile (\<lambda>c. c \<noteq> CHR ''*'') (rev pattern))
      else pattern @ rnd)"

definition join_path :: "string \<Rightarrow> string \<Rightarrow> string" where
  "join_path dir name = (if has_suffix dir ''/'' then dir @ name else dir @ ''/'' @ name)"

definition create_temp :: "upload \<Rightarrow> string \<Rightarrow> string \<Rightarrow> string go" where
  "create_temp up dir pattern =
     (if CHR ''/'' \<in> set pattern
      then Inl (''createtemp '' @ pattern @ '': pattern contains path separator'')
      else case up_create_err up of
        Some e \<Rightarrow> Inl e
      | None \<Rightarrow> Inr (join_path dir (temp_name pattern (up_random up))))"

definition saveBodyToFile ::
  "world \<Rightarrow> upload \<Rightarrow> string \<Rightarrow> ((string \<times> string) + string) \<times> upload_op list" where
  "saveBodyToFile w up pattern =
     (case create_temp up (GetPath w) pattern of
        Inl e \<Rightarrow> (Inl (errCodeCreateTempFailed, wrap_err ''failed to create temporary file'' e), [])
      | Inr tmp \<Rightarrow>
          (case up_read_err up of
             Some e \<Rightarrow> (Inl (errCodeReadBodyFailed, wrap_err ''failed to read request body'' e),
                        [CreateTmp tmp, FillTmp tmp (up_body up)])
           | None \<Rightarrow>
               (case up_close_err up of
                  Some e \<Rightarrow> (Inl (errCodeFinalizeFileFailed, wrap_err ''failed to finalize update file'' e),
                             [CreateTmp tmp, FillTmp tmp (up_body up)])
                | None \<Rightarrow> (Inr tmp, [CreateTmp tmp, FillTmp tmp (up_body up)]))))"

text \<open>\<open>filepath.Clean\<close>: the components without empty ones and dots, each \<open>..\<close> taking the one before it.\<close>

fun clean_step :: "bool \<Rightarrow> string list \<Rightarrow> string \<Rightarrow> string list" where
  "clean_step rooted acc c =
     (if c = [] \<or> c = ''.'' then acc
      else if c = ''..'' then
        (case acc of
           x # xs \<Rightarrow> if x = ''..'' then ''..'' # acc else xs
         | [] \<Rightarrow> if rooted then [] else [''..''])
      else c # acc)"

definition clean_parts :: "string \<Rightarrow> string list" where
  "clean_parts p = rev (foldl (clean_step (has_prefix p ''/'')) [] (split_on (CHR ''/'') p))"

definition filepath_clean :: "string \<Rightarrow> string" where
  "filepath_clean p =
     (if p = [] then ''.''
      else if has_prefix p ''/'' then CHR ''/'' # join_with ''/'' (clean_parts p)
      else if clean_parts p = [] then ''.''
      else join_with ''/'' (clean_parts p))"

definition removeTempUpdateFile :: "world \<Rightarrow> string \<Rightarrow> string go" where
  "removeTempUpdateFile w tmp =
     (let base = filepath_clean (GetPath w); p = filepath_clean tmp in
      if has_prefix p (base @ ''/'') then Inr p
      else Inl (wrap_err ''refusing to remove file outside update directory'' p))"

definition remove_temp_ops :: "world \<Rightarrow> string \<Rightarrow> upload_op list" where
  "remove_temp_ops w tmp = (case removeTempUpdateFile w tmp of Inl _ \<Rightarrow> [] | Inr p \<Rightarrow> [RemoveTmp p])"

section \<open>The handlers\<close>

type_synonym http_step = "response \<times> upload_op list"

definition save_failed :: "string \<times> string \<Rightarrow> response" where
  "save_failed ce = writeJSONError 500 (fst ce) (wrap_err ''failed to save update file'' (snd ce))"

definition cpu_error_response :: "string \<times> string \<Rightarrow> response" where
  "cpu_error_response cm = writeJSONError (statusFromCPUManagerCode (fst cm)) (fst cm) (snd cm)"

definition io_error_response :: "string \<times> string \<Rightarrow> response" where
  "io_error_response cm = writeJSONError (statusFromIO4EdgeManagerCode (fst cm)) (fst cm) (snd cm)"

definition handleLoadCoreOS :: "world \<Rightarrow> upload \<Rightarrow> (command \<Rightarrow> reply option) \<Rightarrow> http_step" where
  "handleLoadCoreOS w up ask =
     (case saveBodyToFile w up ''coreos-*'' of
        (Inl ce, ops) \<Rightarrow> (save_failed ce, ops)
      | (Inr tmp, ops) \<Rightarrow>
          (case execCPUManagerCommand (done_result (ask (StartCoreOsUpdate tmp))) of
             Inl cm \<Rightarrow> (cpu_error_response cm, ops @ [RemoveTmp tmp])
           | Inr _ \<Rightarrow> (accepted, ops)))"

definition handleLoadCoreOSCustomization ::
  "world \<Rightarrow> upload \<Rightarrow> (command \<Rightarrow> reply option) \<Rightarrow> http_step" where
  "handleLoadCoreOSCustomization w up ask =
     (case saveBodyToFile w up ''core-os-customization-*'' of
        (Inl ce, ops) \<Rightarrow> (save_failed ce, ops)
      | (Inr tmp, ops) \<Rightarrow>
          (case execCPUManagerCommand (done_result (ask (StartCoreOSCustomizationUpdate tmp))) of
             Inl cm \<Rightarrow> (cpu_error_response cm, ops @ remove_temp_ops w tmp)
           | Inr _ \<Rightarrow> (accepted, ops)))"

definition handleLoadNamedUpdate ::
  "world \<Rightarrow> upload \<Rightarrow> string \<Rightarrow> string \<Rightarrow> string \<Rightarrow> (string \<Rightarrow> response option) \<Rightarrow> http_step" where
  "handleLoadNamedUpdate w up name required pattern start =
     (if name = [] then (writeJSONError 400 errCodeBadRequest required, [])
      else case saveBodyToFile w up pattern of
        (Inl ce, ops) \<Rightarrow> (save_failed ce, ops)
      | (Inr tmp, ops) \<Rightarrow>
          (case start tmp of
             Some err \<Rightarrow> (err, ops @ remove_temp_ops w tmp)
           | None \<Rightarrow> (accepted, ops)))"

definition handleLoadApplication ::
  "world \<Rightarrow> upload \<Rightarrow> string \<Rightarrow> (command \<Rightarrow> reply option) \<Rightarrow> http_step" where
  "handleLoadApplication w up name ask =
     handleLoadNamedUpdate w up name ''application name is required'' (''app-'' @ name @ ''-*'')
       (\<lambda>tmp. case execCPUManagerCommand (done_result (ask (StartApplicationUpdate name tmp))) of
                 Inl cm \<Rightarrow> Some (cpu_error_response cm) | Inr _ \<Rightarrow> None)"

definition handleLoadIo4EdgeSoftware ::
  "world \<Rightarrow> upload \<Rightarrow> string \<Rightarrow> (io_command \<Rightarrow> io_reply option) \<Rightarrow> http_step" where
  "handleLoadIo4EdgeSoftware w up name ask =
     handleLoadNamedUpdate w up name ''device name is required'' (''io4edge-'' @ name @ ''-*'')
       (\<lambda>tmp. case execIo4edgeManagerCommand (started_result (ask (StartFwUpdate name tmp))) of
                 Inl cm \<Rightarrow> Some (io_error_response cm) | Inr _ \<Rightarrow> None)"

definition cpu_response :: "('v \<Rightarrow> body) \<Rightarrow> cpu_error option + 'v \<Rightarrow> response" where
  "cpu_response f res =
     (case execCPUManagerCommand res of Inl cm \<Rightarrow> cpu_error_response cm | Inr v \<Rightarrow> writeJSON (f v))"

definition io_response :: "('v \<Rightarrow> body) \<Rightarrow> io_error option + 'v \<Rightarrow> response" where
  "io_response f res =
     (case execIo4edgeManagerCommand res of Inl cm \<Rightarrow> io_error_response cm | Inr v \<Rightarrow> writeJSON (f v))"

definition handleGetCoreOS :: "(command \<Rightarrow> reply option) \<Rightarrow> response" where
  "handleGetCoreOS ask = cpu_response StatusBody (status_result (ask GetCoreOsState))"

definition handleGetCoreOSCustomization :: "(command \<Rightarrow> reply option) \<Rightarrow> response" where
  "handleGetCoreOSCustomization ask = cpu_response StatusBody (status_result (ask GetCoreOSCustomizationState))"

definition handleGetApplication :: "string \<Rightarrow> (command \<Rightarrow> reply option) \<Rightarrow> response" where
  "handleGetApplication name ask =
     (if name = [] then writeJSONError 400 errCodeBadRequest ''application name is required''
      else cpu_response StatusBody (status_result (ask (GetApplicationState name))))"

definition server_handleListApplications :: "(command \<Rightarrow> reply option) \<Rightarrow> response" where
  "server_handleListApplications ask = cpu_response NamesBody (apps_result (ask ListApplications))"

definition server_handleReboot :: "(command \<Rightarrow> reply option) \<Rightarrow> response" where
  "server_handleReboot ask = cpu_response (\<lambda>_. EmptyObject) (done_result (ask Reboot))"

definition handleGetIo4EdgeSoftware :: "string \<Rightarrow> (io_command \<Rightarrow> io_reply option) \<Rightarrow> response" where
  "handleGetIo4EdgeSoftware name ask =
     (if name = [] then writeJSONError 400 errCodeBadRequest ''device name is required''
      else io_response (\<lambda>(s, nv). FirmwareBody s nv) (fw_result (ask (GetFwState name))))"

definition handleListIo4EdgeDevices :: "(io_command \<Rightarrow> io_reply option) \<Rightarrow> response" where
  "handleListIo4EdgeDevices ask = io_response NamesBody (devices_result (ask ListDeviceNames))"

section \<open>Hardware information\<close>

text \<open>
  \<open>parseHardwareInfo\<close>: the members are decoded in the order of the document; the first value of a wrong
  type gives the error. A JSON number is an integer if \<open>strconv.ParseInt\<close> takes it.
\<close>

definition parse_int64 :: "string \<Rightarrow> int option" where
  "parse_int64 s =
     (let neg = has_prefix s ''-''; ds = (if neg then tl s else s) in
      if ds = [] \<or> \<not> list_all (\<lambda>c. CHR ''0'' \<le> c \<and> c \<le> CHR ''9'') ds then None
      else let n = foldl (\<lambda>v c. 10 * v + (of_char c - 48)) (0 :: int) ds; v = (if neg then - n else n)
           in if - (2 ^ 63) \<le> v \<and> v < 2 ^ 63 then Some v else None)"

fun json_kind :: "json \<Rightarrow> string" where
  "json_kind JNull = ''null''"
| "json_kind (JBool _) = ''bool''"
| "json_kind (JNumber _) = ''number''"
| "json_kind (JString _) = ''string''"
| "json_kind (JArray _) = ''array''"
| "json_kind (JObject _) = ''object''"

definition type_error :: "string \<Rightarrow> string \<Rightarrow> string \<Rightarrow> string option \<Rightarrow> string option" where
  "type_error kind field typ old =
     (case old of
        Some e \<Rightarrow> Some e
      | None \<Rightarrow> Some (''json: cannot unmarshal '' @ kind @ '' into Go struct field hardwareInfo.'' @ field @
                      '' of type '' @ typ))"

text \<open>A field is a setter for a string or for an int.\<close>

definition put_string ::
  "string \<Rightarrow> (string \<Rightarrow> hardwareInfo \<Rightarrow> hardwareInfo) \<Rightarrow> json \<Rightarrow> hardwareInfo \<times> string option
   \<Rightarrow> hardwareInfo \<times> string option" where
  "put_string field set_it j st =
     (case j of
        JNull \<Rightarrow> st
      | JString s \<Rightarrow> (set_it s (fst st), snd st)
      | _ \<Rightarrow> (fst st, type_error (json_kind j) field ''string'' (snd st)))"

definition put_int ::
  "string \<Rightarrow> (int \<Rightarrow> hardwareInfo \<Rightarrow> hardwareInfo) \<Rightarrow> json \<Rightarrow> hardwareInfo \<times> string option
   \<Rightarrow> hardwareInfo \<times> string option" where
  "put_int field set_it j st =
     (case j of
        JNull \<Rightarrow> st
      | JNumber s \<Rightarrow>
          (case parse_int64 s of
             Some v \<Rightarrow> (set_it v (fst st), snd st)
           | None \<Rightarrow> (fst st, type_error (''number '' @ s) field ''int'' (snd st)))
      | _ \<Rightarrow> (fst st, type_error (json_kind j) field ''int'' (snd st)))"

definition put_hw_member ::
  "hardwareInfo \<times> string option \<Rightarrow> string \<times> json \<Rightarrow> hardwareInfo \<times> string option" where
  "put_hw_member st kj =
     (let (k, j) = kj in
      if field_matches ''vendor'' k then put_string ''vendor'' (\<lambda>s h. h\<lparr>hw_vendor := s\<rparr>) j st
      else if field_matches ''model'' k then put_string ''model'' (\<lambda>s h. h\<lparr>hw_model := s\<rparr>) j st
      else if field_matches ''variant'' k then put_int ''variant'' (\<lambda>v h. h\<lparr>hw_variant := v\<rparr>) j st
      else if field_matches ''majorVersion'' k then put_int ''majorVersion'' (\<lambda>v h. h\<lparr>hw_major := v\<rparr>) j st
      else if field_matches ''serial'' k then put_string ''serial'' (\<lambda>s h. h\<lparr>hw_serial := s\<rparr>) j st
      else st)"

definition no_hardware :: hardwareInfo where
  "no_hardware = \<lparr>hw_vendor = [], hw_model = [], hw_variant = 0, hw_major = 0, hw_serial = []\<rparr>"

definition parseHardwareInfo :: "world \<Rightarrow> string \<Rightarrow> hardwareInfo go" where
  "parseHardwareInfo w s =
     bind_go (unmarshal_struct w s) (\<lambda>ms.
       case foldl put_hw_member (no_hardware, None) ms of
         (h, None) \<Rightarrow> Inr h
       | (_, Some e) \<Rightarrow> Inl e)"

definition eepromSpec :: string where "eepromSpec = ''/sys/bus/i2c/devices/3-0050/eeprom@256:256''"

definition handleGetHardwareInfo :: "world \<Rightarrow> response" where
  "handleGetHardwareInfo w =
     (let r = run_command w ''ee-inv'' [eepromSpec] in
      case cr_err r of
        Some e \<Rightarrow> writeJSONError 500 errCodeEeInvFailed (wrap_err ''failed to get hardware info'' e)
      | None \<Rightarrow>
          (case parseHardwareInfo w (cr_stdout r) of
             Inl e \<Rightarrow> writeJSONError 500 errCodeEeInvFailed (wrap_err ''failed to parse hardware info'' e)
           | Inr h \<Rightarrow> writeJSON (HardwareBody h)))"

section \<open>Dispatch\<close>

fun serve ::
  "world \<Rightarrow> upload \<Rightarrow> (command \<Rightarrow> reply option) \<Rightarrow> (io_command \<Rightarrow> io_reply option) \<Rightarrow> route \<Rightarrow> http_step" where
  "serve w up ask io_ask LoadCoreOS = handleLoadCoreOS w up ask"
| "serve w up ask io_ask GetCoreOS = (handleGetCoreOS ask, [])"
| "serve w up ask io_ask LoadCoreOSCustomization = handleLoadCoreOSCustomization w up ask"
| "serve w up ask io_ask GetCoreOSCustomization = (handleGetCoreOSCustomization ask, [])"
| "serve w up ask io_ask (LoadApplication name) = handleLoadApplication w up name ask"
| "serve w up ask io_ask (GetApplication name) = (handleGetApplication name ask, [])"
| "serve w up ask io_ask ListApps = (server_handleListApplications ask, [])"
| "serve w up ask io_ask RebootSystem = (server_handleReboot ask, [])"
| "serve w up ask io_ask (GetIo4Edge name) = (handleGetIo4EdgeSoftware name io_ask, [])"
| "serve w up ask io_ask (LoadIo4Edge name) = handleLoadIo4EdgeSoftware w up name io_ask"
| "serve w up ask io_ask GetHardware = (handleGetHardwareInfo w, [])"
| "serve w up ask io_ask ListIo4EdgeDevices = (handleListIo4EdgeDevices io_ask, [])"

end
