(* ===== verification/Server_Paths.thy ===== *)
theory Server_Paths
  imports Server_Api
begin

text \<open>
  Paths of uploaded files: what \<open>filepath.Clean\<close> makes of a path, where the temporary files lie, and
  which paths \<open>removeTempUpdateFile\<close> takes.
\<close>

section \<open>Clean paths\<close>

definition plain_part :: "string \<Rightarrow> bool" where
  "plain_part c \<longleftrightarrow> c \<noteq> [] \<and> c \<noteq> ''.'' \<and> c \<noteq> ''..'' \<and> CHR ''/'' \<notin> set c"

text \<open>The form of a clean path: \<open>..\<close> only at the front, and none if the path is rooted.\<close>

definition clean_form :: "bool \<Rightarrow> string list \<Rightarrow> bool" where
  "clean_form rooted ps \<longleftrightarrow>
     (\<exists>n ys. ps = replicate n ''..'' @ ys \<and> (\<forall>y \<in> set ys. plain_part y) \<and> (rooted \<longrightarrow> n = 0))"

declare clean_step.simps [simp del]

lemma clean_step_plain: "plain_part c \<Longrightarrow> clean_step r acc c = c # acc"
  by (simp add: plain_part_def clean_step.simps)

lemma clean_step_skip [simp]: "clean_step r acc [] = acc" "clean_step r acc ''.'' = acc"
  by (simp_all add: clean_step.simps)

lemma clean_step_up:
  "clean_step r (x # acc) ''..'' = (if x = ''..'' then ''..'' # x # acc else acc)"
  "clean_step r [] ''..'' = (if r then [] else [''..''])"
  by (simp_all add: clean_step.simps)

lemma clean_step_form:
  assumes "clean_form r (rev acc)" "CHR ''/'' \<notin> set c"
  shows "clean_form r (rev (clean_step r acc c))"
proof -
  obtain n ys where acc: "rev acc = replicate n ''..'' @ ys" "\<forall>y \<in> set ys. plain_part y" "r \<longrightarrow> n = 0"
    using assms(1) by (auto simp: clean_form_def)
  consider "c = [] \<or> c = ''.''" | "c = ''..''" | "plain_part c" using assms(2) by (auto simp: plain_part_def)
  then show ?thesis
  proof cases
    case 1
    then show ?thesis using assms(1) by auto
  next
    case 2
    show ?thesis
    proof (cases ys rule: rev_cases)
      case Nil
      then have a: "acc = replicate n ''..''" using acc(1) by (metis append_Nil2 rev_replicate rev_rev_ident)
      show ?thesis
      proof (cases r)
        case True
        then show ?thesis using a acc(3) 2 by (simp add: clean_form_def clean_step_up)
      next
        case False
        have "rev (clean_step r acc c) = replicate (Suc n) ''..''"
          using a 2 False by (cases n) (simp_all add: clean_step_up replicate_append_same)
        then show ?thesis using False unfolding clean_form_def by (intro exI[of _ "Suc n"] exI[of _ "[]"]) simp
      qed
    next
      case (snoc zs z)
      then have "rev acc = (replicate n ''..'' @ zs) @ [z]" using acc(1) by simp
      then have "acc = rev ((replicate n ''..'' @ zs) @ [z])" by (metis rev_rev_ident)
      then have "acc = z # rev (replicate n ''..'' @ zs)" by simp
      then have "rev (clean_step r acc c) = replicate n ''..'' @ zs"
        using 2 acc(2) snoc by (simp add: plain_part_def clean_step_up)
      then show ?thesis using acc(2,3) snoc unfolding clean_form_def by fastforce
    qed
  next
    case 3
    then have "rev (clean_step r acc c) = replicate n ''..'' @ (ys @ [c])"
      using acc(1) by (simp add: clean_step_plain)
    then show ?thesis using acc(2,3) 3 unfolding clean_form_def by fastforce
  qed
qed

lemma foldl_clean_form:
  "clean_form r (rev acc) \<Longrightarrow> \<forall>c \<in> set cs. CHR ''/'' \<notin> set c \<Longrightarrow> clean_form r (rev (foldl (clean_step r) acc cs))"
proof (induction cs arbitrary: acc)
  case (Cons c cs)
  then show ?case using clean_step_form[of r acc c] by simp
qed simp

lemma clean_parts_form: "clean_form (has_prefix p ''/'') (clean_parts p)"
proof -
  have "clean_form (has_prefix p ''/'') (rev [])" by (simp add: clean_form_def)
  from foldl_clean_form[OF this, of "split_on (CHR ''/'') p"] show ?thesis
    using split_on_pieces[of _ "CHR ''/''" p] by (auto simp: clean_parts_def)
qed

lemma foldl_plain: "\<forall>y \<in> set ys. plain_part y \<Longrightarrow> foldl (clean_step r) acc ys = rev ys @ acc"
  by (induction ys arbitrary: acc) (simp_all add: clean_step_plain)

lemma foldl_up: "foldl (clean_step False) (replicate m ''..'') (replicate n ''..'') = replicate (m + n) ''..''"
proof (induction n arbitrary: m)
  case (Suc n)
  have "clean_step False (replicate m ''..'') ''..'' = replicate (Suc m) ''..''"
    by (cases m) (simp_all add: clean_step_up)
  then show ?case using Suc[of "Suc m"] by simp
qed simp

lemma foldl_clean_id: "clean_form r cs \<Longrightarrow> foldl (clean_step r) [] cs = rev cs"
  using foldl_up[of 0] by (auto simp: clean_form_def foldl_plain)

section \<open>Splitting a joined path\<close>

lemma split_join:
  "xs \<noteq> [] \<Longrightarrow> \<forall>x \<in> set xs. c \<notin> set x \<Longrightarrow> split_on c (join_with [c] xs) = xs"
proof (induction xs rule: induct_list012)
  case (2 x)
  then show ?case using split_on_no_sep[of c x] by simp
next
  case (3 x y ys)
  have "split_on c (join_with [c] (x # y # ys)) = x # split_on c (join_with [c] (y # ys))"
    using 3(3,4) split_on_append_sep[of c x "join_with [c] (y # ys)"] by simp
  moreover have "split_on c (join_with [c] (y # ys)) = y # ys"
    by (rule 3(2)) (use 3(4) in auto)
  ultimately show ?case by (simp only:)
qed simp

lemma join_append_sep: "xs \<noteq> [] \<Longrightarrow> ys \<noteq> [] \<Longrightarrow> join_with s (xs @ ys) = join_with s xs @ s @ join_with s ys"
proof (induction xs rule: induct_list012)
  case (2 x)
  then show ?case by (cases ys) simp_all
next
  case (3 x y zs)
  have "join_with s ((y # zs) @ ys) = join_with s (y # zs) @ s @ join_with s ys"
    by (rule 3(2)[OF list.distinct(2) 3(4)])
  then show ?case by (simp only: append_Cons join_with.simps append_assoc)
qed simp

lemma form_no_slash:
  assumes "clean_form r ps" "p \<in> set ps"
  shows "CHR ''/'' \<notin> set p \<and> p \<noteq> []"
proof -
  obtain n ys where ps: "ps = replicate n ''..'' @ ys" and ys: "\<forall>y \<in> set ys. plain_part y"
    using assms(1) unfolding clean_form_def by blast
  consider "p = ''..''" | "p \<in> set ys" using assms(2) unfolding ps by (metis Un_iff in_set_replicate set_append)
  then show ?thesis
  proof cases
    case 2
    then show ?thesis using ys by (simp add: plain_part_def)
  qed simp
qed

lemma join_no_root:
  assumes "ps \<noteq> []" "\<And>p. p \<in> set ps \<Longrightarrow> CHR ''/'' \<notin> set p \<and> p \<noteq> []"
  shows "\<not> has_prefix (join_with ''/'' ps) ''/'' \<and> join_with ''/'' ps \<noteq> []"
proof (cases ps)
  case (Cons p qs)
  then obtain c p' where p: "p = c # p'" "c \<noteq> CHR ''/''" using assms(2)[of p] by (cases p) auto
  then show ?thesis unfolding Cons by (cases qs) auto
qed (use assms(1) in simp)

section \<open>The clean form of a path\<close>

lemma clean_parts_ordinary: "p \<in> set (clean_parts q) \<Longrightarrow> CHR ''/'' \<notin> set p \<and> p \<noteq> []"
  using form_no_slash clean_parts_form by blast

lemma rooted_clean: "clean_parts p \<noteq> [] \<Longrightarrow> has_prefix (filepath_clean p) ''/'' = has_prefix p ''/''"
  using join_no_root[of "clean_parts p"] clean_parts_ordinary
  by (auto simp: filepath_clean_def clean_parts_def)

text \<open>The components of a clean path are those of the path, after an empty one if it is rooted.\<close>

lemma split_clean:
  assumes "clean_parts p \<noteq> []"
  shows "split_on (CHR ''/'') (filepath_clean p) = (if has_prefix p ''/'' then [[]] else []) @ clean_parts p"
proof -
  have "split_on (CHR ''/'') (join_with ''/'' (clean_parts p)) = clean_parts p"
    using split_join[OF assms, of "CHR ''/''"] clean_parts_ordinary by blast
  moreover have "p \<noteq> []" using assms by (auto simp: clean_parts_def)
  ultimately show ?thesis using assms by (simp add: filepath_clean_def)
qed

lemma clean_parts_clean: "clean_parts p \<noteq> [] \<Longrightarrow> clean_parts (filepath_clean p) = clean_parts p"
  using foldl_clean_id[OF clean_parts_form[of p]] rooted_clean[of p] split_clean[of p]
  by (auto simp: clean_parts_def[of "filepath_clean p"])

lemma clean_idem: "clean_parts p \<noteq> [] \<Longrightarrow> filepath_clean (filepath_clean p) = filepath_clean p"
proof -
  assume a: "clean_parts p \<noteq> []"
  have p: "p \<noteq> []" using a by (auto simp: clean_parts_def)
  have "filepath_clean p \<noteq> []"
    using join_no_root[of "clean_parts p"] clean_parts_ordinary a by (auto simp: filepath_clean_def)
  then have "filepath_clean (filepath_clean p) =
      (if has_prefix p ''/'' then CHR ''/'' # join_with ''/'' (clean_parts p) else join_with ''/'' (clean_parts p))"
    using a clean_parts_clean[OF a] rooted_clean[OF a] by (subst filepath_clean_def) (simp only: if_False simp_thms split: if_split)
  then show ?thesis using a p by (simp add: filepath_clean_def[of p])
qed

section \<open>The update directory\<close>

definition update_parts :: "string list" where
  "update_parts = [''data'', ''core-api-server'', ''updates'']"

lemma GetPath_shape: "\<exists>pre. GetPath w = pre @ ''/data/core-api-server/updates/''"
  by (simp add: GetPath_def prefix_path_def updateFilePath_def Let_def)

text \<open>The components of the directory are those of the root prefix, which only tests set, and its own.\<close>

lemma update_dir_parts:
  "\<exists>ps. clean_parts (GetPath w) = ps @ update_parts \<and>
     (\<forall>n. plain_part n \<longrightarrow> clean_parts (GetPath w @ n) = ps @ update_parts @ [n] \<and>
        has_prefix (GetPath w @ n) ''/'' = has_prefix (GetPath w) ''/'')"
proof -
  obtain pre where g: "GetPath w = pre @ CHR ''/'' # ''data/core-api-server/updates/''"
    using GetPath_shape[of w] by auto
  define r where "r = has_prefix (GetPath w) ''/''"
  have rooted: "has_prefix (GetPath w @ n) ''/'' = r" for n
    unfolding r_def g by (cases pre) auto
  have split: "split_on (CHR ''/'') (GetPath w @ n) = split_on (CHR ''/'') pre @ update_parts @ split_on (CHR ''/'') n" for n
    using split_on_append[of "CHR ''/''" pre "''data/core-api-server/updates/'' @ n"]
    by (simp add: g update_parts_def)
  have upd: "foldl (clean_step r) acc update_parts = rev update_parts @ acc" for acc
    by (rule foldl_plain) (simp add: update_parts_def plain_part_def)
  let ?ps = "rev (foldl (clean_step r) [] (split_on (CHR ''/'') pre))"
  have "clean_parts (GetPath w) = ?ps @ update_parts"
    using split[of "[]"] rooted[of "[]"] upd by (simp add: clean_parts_def)
  moreover have "clean_parts (GetPath w @ n) = ?ps @ update_parts @ [n]" if "plain_part n" for n
    using split[of n] rooted[of n] upd that
    by (simp add: clean_parts_def split_on_no_sep plain_part_def[of n] clean_step_plain[OF that])
  ultimately show ?thesis using rooted r_def by blast
qed

lemma clean_in_dir:
  assumes "plain_part n"
  shows "filepath_clean (GetPath w @ n) = filepath_clean (GetPath w) @ ''/'' @ n"
    "clean_parts (GetPath w @ n) \<noteq> []"
proof -
  obtain ps where ps: "clean_parts (GetPath w) = ps @ update_parts"
    "clean_parts (GetPath w @ n) = (ps @ update_parts) @ [n]"
    "has_prefix (GetPath w @ n) ''/'' = has_prefix (GetPath w) ''/''"
    using update_dir_parts[of w] assms by auto
  have "ps @ update_parts \<noteq> []" "GetPath w \<noteq> []" "update_parts \<noteq> []"
    using GetPath_shape[of w] by (auto simp: update_parts_def)
  then show "filepath_clean (GetPath w @ n) = filepath_clean (GetPath w) @ ''/'' @ n"
    using ps join_append_sep[of "ps @ update_parts" "[n]" "''/''"] by (simp add: filepath_clean_def)
  show "clean_parts (GetPath w @ n) \<noteq> []" using ps by simp
qed

text \<open>A file of the directory is never refused, and what is removed lies below the directory.\<close>

lemma removes_own_file: "plain_part n \<Longrightarrow> removeTempUpdateFile w (GetPath w @ n) = Inr (filepath_clean (GetPath w @ n))"
  using has_prefix_append[of "filepath_clean (GetPath w) @ ''/''" n]
  by (simp add: removeTempUpdateFile_def clean_in_dir(1) Let_def)

lemma append_eq_ups: "xs @ ''updates'' # zs = replicate n ''..'' @ ys \<Longrightarrow> set zs \<subseteq> set ys"
proof (induction n arbitrary: xs)
  case (Suc n)
  then show ?case by (cases xs) auto
qed auto

lemma removed_below:
  assumes "removeTempUpdateFile w p = Inr q"
  shows "q = filepath_clean p \<and>
    (\<exists>rest. clean_parts p = clean_parts (GetPath w) @ rest \<and> rest \<noteq> [] \<and> list_all plain_part rest)"
proof -
  let ?base = "filepath_clean (GetPath w)"
  have q: "q = filepath_clean p" and "has_prefix q (?base @ ''/'')"
    using assms by (auto simp: removeTempUpdateFile_def Let_def split: if_splits)
  then obtain s where s: "filepath_clean p = ?base @ CHR ''/'' # s" by (auto simp: has_prefix_iff)
  obtain ps where ps: "clean_parts (GetPath w) = ps @ update_parts" using update_dir_parts by blast
  then have ne: "clean_parts (GetPath w) \<noteq> []" by (simp add: update_parts_def)
  have "?base \<noteq> []" using split_clean[OF ne] ne ps by (auto simp: update_parts_def split: if_splits)
  then have root: "has_prefix (filepath_clean p) ''/'' = has_prefix ?base ''/''"
    unfolding s by (cases ?base) auto
  have np: "clean_parts p \<noteq> []"
  proof
    assume "clean_parts p = []"
    then have "filepath_clean p = ''/'' \<or> filepath_clean p = ''.''" by (simp add: filepath_clean_def)
    then show False using s \<open>?base \<noteq> []\<close> by (auto simp: append_eq_Cons_conv)
  qed
  have "split_on (CHR ''/'') (filepath_clean p) = split_on (CHR ''/'') ?base @ split_on (CHR ''/'') s"
    unfolding s by (rule split_on_append)
  then have eq: "clean_parts p = clean_parts (GetPath w) @ split_on (CHR ''/'') s"
    using split_clean[OF ne] split_clean[OF np] root rooted_clean[OF ne] rooted_clean[OF np]
    by (simp split: if_splits)
  obtain n ys where f: "clean_parts p = replicate n ''..'' @ ys" "\<forall>y \<in> set ys. plain_part y"
    using clean_parts_form[of p] by (auto simp: clean_form_def)
  have "(ps @ [''data'', ''core-api-server'']) @ ''updates'' # split_on (CHR ''/'') s = replicate n ''..'' @ ys"
    using eq ps f(1) by (simp add: update_parts_def)
  from append_eq_ups[OF this] have "list_all plain_part (split_on (CHR ''/'') s)"
    using f(2) by (auto simp: list_all_iff)
  then show ?thesis using q eq by auto
qed

section \<open>Temporary names\<close>

lemma temp_name_star:
  assumes "CHR ''*'' \<notin> set b"
  shows "temp_name (a @ ''*'' @ b) rnd = a @ rnd @ b"
proof -
  have b: "\<And>x. x \<in> set (rev b) \<Longrightarrow> x \<noteq> CHR ''*''" using assms by auto
  have "takeWhile (\<lambda>c. c \<noteq> CHR ''*'') (rev b @ CHR ''*'' # rev a) = rev b"
    "dropWhile (\<lambda>c. c \<noteq> CHR ''*'') (rev b @ CHR ''*'' # rev a) = CHR ''*'' # rev a"
    using takeWhile_append2[where xs = "rev b", OF b] dropWhile_append2[where xs = "rev b", OF b] by simp_all
  then show ?thesis by (simp add: temp_name_def)
qed

lemma join_update_dir: "join_path (GetPath w) n = GetPath w @ n"
  using GetPath_shape[of w] by (auto simp: join_path_def has_suffix_iff)

lemma plain_with_prefix:
  assumes "a \<noteq> []" "hd a \<noteq> CHR ''.''" "CHR ''/'' \<notin> set (a @ b)"
  shows "plain_part (a @ b)"
  using assms by (cases a) (auto simp: plain_part_def)

end
