(* ===== verification/Command_Service.thy ===== *)
theory Command_Service
  imports Main
begin

text \<open>
  The interface between the HTTP server and the two managers: a manager handles one command after another, and
  its handler gives answers, each of a kind. The law is that a command gets exactly the answers that its reply
  channel is made for: one, or none for the events that a manager sends to itself.
\<close>

text \<open>The commands of an inbox in order; a command on which the handler does not return ends the run.\<close>

fun run_commands :: "('c \<Rightarrow> 's \<Rightarrow> ('s \<times> 'r list) option) \<Rightarrow> 'c list \<Rightarrow> 's \<Rightarrow> ('s \<times> 'r list) option" where
  "run_commands handle [] s = Some (s, [])"
| "run_commands handle (c # cs) s =
     (case handle c s of
        None \<Rightarrow> None
      | Some (t, rs) \<Rightarrow> map_option (\<lambda>(u, qs). (u, rs @ qs)) (run_commands handle cs t))"

locale command_service =
  fixes handle :: "'c \<Rightarrow> 's \<Rightarrow> ('s \<times> 'r list) option"
    and kind_of :: "'r \<Rightarrow> 'k"
    and kinds :: "'c \<Rightarrow> 'k list"
  assumes answers: "handle c s = Some (t, rs) \<Longrightarrow> map kind_of rs = kinds c"
begin

lemma one_answer: "handle c s = Some (t, rs) \<Longrightarrow> kinds c = [k] \<Longrightarrow> \<exists>r. rs = [r] \<and> kind_of r = k"
  using answers[of c s t rs] by auto

lemma no_answer: "handle c s = Some (t, rs) \<Longrightarrow> kinds c = [] \<Longrightarrow> rs = []"
  using answers[of c s t rs] by simp

lemma run_answers: "run_commands handle cs s = Some (t, rs) \<Longrightarrow> map kind_of rs = concat (map kinds cs)"
proof (induction cs arbitrary: s t rs)
  case (Cons c cs)
  then show ?case using answers[of c s] by (fastforce split: option.splits)
qed simp

end

end
