(* ===== verification/Server_Properties.thy ===== *)
theory Server_Properties
  imports Server_Paths Cpu_Commands Command_Service
begin

text \<open>
  The server together with the CPU manager: what becomes of an uploaded file, which requests reach
  which handler, and that every command is answered once on the channel of its type.
\<close>

section \<open>Replies\<close>

text \<open>What the reply channel of a command carries.\<close>

datatype reply_kind = NoReply | DoneKind | StatusKind | AppsKind

fun kind_of_command :: "command \<Rightarrow> reply_kind" where
  "kind_of_command (MenderEvent e) = NoReply"
| "kind_of_command GetCoreOsState = StatusKind"
| "kind_of_command GetCoreOSCustomizationState = StatusKind"
| "kind_of_command (GetApplicationState n) = StatusKind"
| "kind_of_command ListApplications = AppsKind"
| "kind_of_command _ = DoneKind"

fun kind_of_reply :: "reply \<Rightarrow> reply_kind" where
  "kind_of_reply (Done e) = DoneKind"
| "kind_of_reply (StatusReply s) = StatusKind"
| "kind_of_reply (AppsReply a) = AppsKind"

fun replies :: "cpu_effect list \<Rightarrow> reply list" where
  "replies [] = []"
| "replies (Reply r # es) = r # replies es"
| "replies (_ # es) = replies es"

lemma replies_append [simp]: "replies (xs @ ys) = replies xs @ replies ys"
  by (induction xs rule: replies.induct) auto

lemma replies_run_mender [simp]: "replies (snd (run_mender p st)) = []"
proof -
  have "replies (map (mender_effect p) es) = []" for es
  proof (induction es)
    case (Cons e es)
    then show ?case by (cases e) auto
  qed simp
  then show ?thesis by (simp add: run_mender_def)
qed

lemma replies_run: "run_mender p st = (p', es) \<Longrightarrow> replies es = []"
  using replies_run_mender[of p st] by simp

lemma replies_start: "startEntityUpdate k e p = (p', es, err) \<Longrightarrow> replies es = []"
  by (auto simp: startEntityUpdate_def Let_def split: sum.splits prod.splits dest: replies_run)

lemma replies_accept: "replies (snd (accept_update name e a nv p)) = [Done None]"
  by (auto simp: accept_cases Let_def answer_def split: prod.splits dest: replies_start)

lemma replies_entity_update:
  assumes "handleEntityUpdate w name t a p = Some (p', es)"
  shows "\<exists>err. replies es = [Done err]"
  using assms
proof (cases rule: update_cases)
  case (accepted e p1 nv)
  then show ?thesis using replies_accept[of name e a nv p1] by (metis snd_conv)
qed (simp add: answer_def)

lemma replies_job_finished: "replies (snd (handleMenderJobFinished w o1 o2 ok m p)) = []"
  by (auto simp: handleMenderJobFinished_def start_waiting_def split: option.splits prod.splits
      dest: replies_start)

text \<open>The kinds of the answers to a command: one, and none to an event of the Mender machine.\<close>

definition kinds_of_command :: "command \<Rightarrow> reply_kind list" where
  "kinds_of_command c = (if kind_of_command c = NoReply then [] else [kind_of_command c])"

lemma cpu_answers:
  assumes "handleCommand w o1 o2 c p = Some (p', es)"
  shows "map kind_of_reply (replies es) = kinds_of_command c"
proof (cases c)
  case (MenderEvent e)
  consider "ev_code e = EvNone" | "ev_code e = EvJobFinished" | "ev_code e \<noteq> EvNone" "ev_code e \<noteq> EvJobFinished"
    by blast
  then show ?thesis
  proof cases
    case 2
    then show ?thesis
      using assms MenderEvent replies_job_finished[of w o1 o2 "ev_success e" "ev_message e" p]
      by (simp add: handleMenderEvent_def kinds_of_command_def)
  next
    case 3
    then show ?thesis
      using assms MenderEvent by (auto simp: handleMenderEvent_def kinds_of_command_def dest: replies_run)
  qed (use assms MenderEvent in \<open>simp add: handleMenderEvent_def kinds_of_command_def\<close>)
next
  case Reboot
  then show ?thesis
    using assms by (auto simp: handleReboot_def answer_def kinds_of_command_def split: prod.splits dest: replies_run)
qed (use assms in \<open>auto simp: handleGetEntityState_def handleListApplications_def kinds_of_command_def dest: replies_entity_update\<close>)

text \<open>A turn of the actor with the surroundings and map orders it meets.\<close>

type_synonym cpu_turn = "world \<times> string list \<times> string list \<times> command"

fun cpu_turn :: "cpu_turn \<Rightarrow> persistent \<Rightarrow> (persistent \<times> reply list) option" where
  "cpu_turn (w, o1, o2, c) p = map_option (\<lambda>(p', es). (p', replies es)) (handleCommand w o1 o2 c p)"

fun turn_kinds :: "cpu_turn \<Rightarrow> reply_kind list" where
  "turn_kinds (w, o1, o2, c) = kinds_of_command c"

interpretation cpu_service: command_service cpu_turn kind_of_reply turn_kinds
proof
  fix c :: cpu_turn and p p' rs
  assume "cpu_turn c p = Some (p', rs)"
  then show "map kind_of_reply rs = turn_kinds c" by (cases c) (auto dest: cpu_answers)
qed

text \<open>C20. The CPU manager answers the commands of its inbox in order, each exactly once and with a value of the type
  that its reply channel carries; events of the Mender machine are not answered. So a reply never blocks the
  actor, whose reply channels hold one value, and no caller waits for an answer that does not come.\<close>

theorem commands_answered_in_order:
  assumes "run_commands cpu_turn cs p = Some (p', rs)"
  shows "map kind_of_reply rs = concat (map (\<lambda>(w, o1, o2, c). kinds_of_command c) cs)"
proof -
  have "(\<lambda>(w, o1, o2, c). kinds_of_command c) = turn_kinds" by (simp add: fun_eq_iff)
  then show ?thesis using cpu_service.run_answers[OF assms] by simp
qed

theorem commands_answered_in_order_witness:
  "\<exists>p rs. run_commands cpu_turn [(bare_world, [], [], Reboot), (bare_world, [], [], ListApplications)]
      (setInitialPersistentState bare_world) = Some (p, rs) \<and>
    map kind_of_reply rs = [DoneKind, AppsKind]"
proof -
  let ?cs = "[(bare_world, [], [], Reboot), (bare_world, [], [], ListApplications)]"
  obtain p rs where r: "run_commands cpu_turn ?cs (setInitialPersistentState bare_world) = Some (p, rs)"
    by (cases "handleReboot (setInitialPersistentState bare_world)") (simp add: handleListApplications_def)
  from commands_answered_in_order[OF r] r show ?thesis by (auto simp: kinds_of_command_def)
qed

section \<open>The life of an uploaded file\<close>

text \<open>The files of the update directory by their clean paths, and what the handlers do to them.\<close>

fun apply_upload :: "upload_op \<Rightarrow> (string \<rightharpoonup> string) \<Rightarrow> (string \<rightharpoonup> string)" where
  "apply_upload (CreateTmp p) files = files(filepath_clean p \<mapsto> [])"
| "apply_upload (FillTmp p s) files = files(filepath_clean p \<mapsto> s)"
| "apply_upload (RemoveTmp p) files = files(filepath_clean p := None)"

definition after_ops :: "upload_op list \<Rightarrow> (string \<rightharpoonup> string) \<Rightarrow> (string \<rightharpoonup> string)" where
  "after_ops ops files = fold apply_upload ops files"

text \<open>The update requests for the CPU: pattern of the file name, command, entity.\<close>

fun cpu_load :: "route \<Rightarrow> (string \<times> (string \<Rightarrow> command) \<times> string \<times> entity_type) option" where
  "cpu_load LoadCoreOS = Some (''coreos-*'', StartCoreOsUpdate, coreOSEntity, EntityCoreOs)"
| "cpu_load LoadCoreOSCustomization =
     Some (''core-os-customization-*'', StartCoreOSCustomizationUpdate, coreOSCustomizationEntity,
           EntityCoreOSCustomization)"
| "cpu_load (LoadApplication name) =
     (if name = [] then None
      else Some (''app-'' @ name @ ''-*'', StartApplicationUpdate name, name, EntityApplication))"
| "cpu_load _ = None"

text \<open>The manager's answer to the one command of a request, for a client that stays or leaves.\<close>

definition manager_ask ::
  "world \<Rightarrow> patience \<Rightarrow> string list \<Rightarrow> string list \<Rightarrow> persistent \<Rightarrow> command \<Rightarrow> reply option" where
  "manager_ask w c o1 o2 p cmd =
     (case handleCommand w o1 o2 cmd p of
        None \<Rightarrow> None
      | Some (p', es) \<Rightarrow> (case replies es of [] \<Rightarrow> None | r # _ \<Rightarrow> Ask c r))"

text \<open>A client that waits gets an answer of its kind.\<close>

lemma manager_ask_kind:
  assumes "handleCommand w o1 o2 c p = Some (p', es)" "kind_of_command c \<noteq> NoReply"
  shows "\<exists>r. manager_ask w Stays o1 o2 p c = Some r \<and> kind_of_reply r = kind_of_command c"
  using cpu_service.one_answer[of "(w, o1, o2, c)" p p' "replies es" "kind_of_command c"] assms
  by (auto simp: manager_ask_def Ask_def kinds_of_command_def)

definition good_upload :: "upload \<Rightarrow> bool" where
  "good_upload up \<longleftrightarrow> up_create_err up = None \<and> up_read_err up = None \<and> up_close_err up = None \<and>
     CHR ''/'' \<notin> set (up_random up)"

definition upload_path :: "world \<Rightarrow> upload \<Rightarrow> string \<Rightarrow> string" where
  "upload_path w up pattern = join_path (GetPath w) (temp_name pattern (up_random up))"

text \<open>The patterns begin with a letter and end with their only star that matters.\<close>

lemma cpu_load_pattern:
  assumes "cpu_load r = Some (pattern, cmd, name, t)"
  obtains a where "pattern = a @ ''*''" "a \<noteq> []" "hd a \<noteq> CHR ''.''"
  using assms
proof (cases r)
  case LoadCoreOS
  then show thesis using assms that[of "''coreos-''"] by simp
next
  case LoadCoreOSCustomization
  then show thesis using assms that[of "''core-os-customization-''"] by simp
next
  case (LoadApplication n)
  then show thesis using assms that[of "''app-'' @ n @ ''-''"] by (auto split: if_splits)
qed simp_all

lemma upload_path_plain:
  assumes "cpu_load r = Some (pattern, cmd, name, t)" "good_upload up" "CHR ''/'' \<notin> set pattern"
  shows "\<exists>n. upload_path w up pattern = GetPath w @ n \<and> plain_part n"
proof -
  obtain a where a: "pattern = a @ ''*''" "a \<noteq> []" "hd a \<noteq> CHR ''.''"
    using cpu_load_pattern[OF assms(1)] .
  have "temp_name pattern (up_random up) = a @ up_random up"
    using temp_name_star[of "[]" a] a(1) by simp
  moreover have "plain_part (a @ up_random up)"
    using a assms(2,3) by (intro plain_with_prefix) (auto simp: good_upload_def)
  ultimately show ?thesis by (auto simp: upload_path_def join_update_dir)
qed

lemma save_good:
  "good_upload up \<Longrightarrow> CHR ''/'' \<notin> set pattern \<Longrightarrow>
   saveBodyToFile w up pattern =
     (Inr (upload_path w up pattern),
      [CreateTmp (upload_path w up pattern), FillTmp (upload_path w up pattern) (up_body up)])"
  by (simp add: saveBodyToFile_def create_temp_def good_upload_def upload_path_def)

text \<open>The three handlers in one form.\<close>

lemma serve_load:
  assumes "cpu_load r = Some (pattern, cmd, name, t)" "good_upload up" "CHR ''/'' \<notin> set pattern"
    and tmp_def: "tmp = upload_path w up pattern"
  shows "\<exists>gone. (\<forall>files. apply_upload gone files = files(filepath_clean tmp := None)) \<and>
    serve w up ask io_ask r =
      (case execCPUManagerCommand (done_result (ask (cmd tmp))) of
         Inl cm \<Rightarrow> (cpu_error_response cm, [CreateTmp tmp, FillTmp tmp (up_body up), gone])
       | Inr u \<Rightarrow> (accepted, [CreateTmp tmp, FillTmp tmp (up_body up)]))"
proof -
  obtain n where n: "tmp = GetPath w @ n" "plain_part n"
    using upload_path_plain[OF assms(1-3)] unfolding tmp_def by blast
  have gone: "remove_temp_ops w tmp = [RemoveTmp (filepath_clean tmp)]"
    using removes_own_file[OF n(2)] by (simp add: remove_temp_ops_def n(1))
  have idem: "filepath_clean (filepath_clean tmp) = filepath_clean tmp"
    using clean_idem clean_in_dir(2)[OF n(2)] unfolding n(1) by blast
  note save = save_good[OF assms(2,3), of w, folded tmp_def]
  show ?thesis
  proof (cases r)
    case LoadCoreOS
    then show ?thesis
      using assms(1) save by (intro exI[of _ "RemoveTmp tmp"]) (auto simp: handleLoadCoreOS_def split: sum.splits)
  next
    case LoadCoreOSCustomization
    then show ?thesis
      using assms(1) save gone idem
      by (intro exI[of _ "RemoveTmp (filepath_clean tmp)"])
        (auto simp: handleLoadCoreOSCustomization_def split: sum.splits)
  next
    case (LoadApplication a)
    then show ?thesis
      using assms(1) save gone idem
      by (intro exI[of _ "RemoveTmp (filepath_clean tmp)"])
        (auto simp: handleLoadApplication_def handleLoadNamedUpdate_def split: sum.splits if_splits)
  qed (use assms(1) in simp_all)
qed

lemma accept_records:
  assumes "accept_update name e tmp nv p = (p', es)"
  shows "\<exists>e. Entities p' name = Some e \<and> MenderArtifact e = tmp \<and> (has_code InProgress e \<or> has_code Waiting e)"
proof (cases "IsIdle (MenderState p)")
  case True
  let ?e = "e\<lparr>MenderArtifact := tmp, DeployingNV := nv\<rparr>"
  have "IsIdle (MenderState (set_entity name ?e p))" using True by (simp add: set_entity_def)
  from start_idle[OF this, of name ?e] show ?thesis
    using assms True by (auto simp: accept_cases Let_def set_entity_def set_status_def has_code_def)
next
  case False
  then show ?thesis using assms by (auto simp: accept_cases Let_def set_entity_def set_status_def has_code_def)
qed

definition no_slash :: "string \<Rightarrow> bool" where "no_slash s \<longleftrightarrow> CHR ''/'' \<notin> set s"

lemma load_command_is_update:
  "cpu_load r = Some (pattern, cmd, name, t) \<Longrightarrow>
   handleCommand w o1 o2 (cmd tmp) p = handleEntityUpdate w name t tmp p"
  by (cases r) (auto split: if_splits)

lemma refusal_status:
  "err_code err \<in> refusals \<Longrightarrow>
   rs_status (cpu_error_response (cpu_error_text (err_code err), m)) \<in> {400, 409, 412}"
  by (auto simp: refusals_def cpu_error_response_def writeJSONError_def statusFromCPUManagerCode_def)

text \<open>C14. A client that waits for its answer can rely on it: the response to the upload of an update is 202 exactly
  when the manager took the update, which then is in progress or waiting, and then the uploaded file is
  there with its content and the entity refers to it. Otherwise the response is 400, 409 or 412, the file has been removed and
  the manager has changed nothing.\<close>

theorem upload_kept_iff_accepted:
  assumes "cpu_load r = Some (pattern, cmd, name, t)" "no_slash pattern" "good_upload up"
    and "tmp = upload_path w up pattern" "files (filepath_clean tmp) = None"
    and "handleCommand w' o1 o2 (cmd tmp) p = Some (p', es)"
    and "serve w up (manager_ask w' Stays o1 o2 p) io_ask r = (resp, ops)"
  shows "rs_status resp = 202 \<and> after_ops ops files = files(filepath_clean tmp \<mapsto> up_body up) \<and>
      (\<exists>e. Entities p' name = Some e \<and> MenderArtifact e = tmp \<and> (has_code InProgress e \<or> has_code Waiting e)) \<or>
    rs_status resp \<in> {400, 409, 412} \<and> after_ops ops files = files \<and> untouched name t p p'"
proof -
  let ?ask = "manager_ask w' Stays o1 o2 p"
  have upd: "handleEntityUpdate w' name t tmp p = Some (p', es)"
    using load_command_is_update[OF assms(1)] assms(6) by simp
  obtain gone where gone: "\<And>files. apply_upload gone files = files(filepath_clean tmp := None)"
    and sv: "serve w up ?ask io_ask r =
      (case execCPUManagerCommand (done_result (?ask (cmd tmp))) of
         Inl cm \<Rightarrow> (cpu_error_response cm, [CreateTmp tmp, FillTmp tmp (up_body up), gone])
       | Inr u \<Rightarrow> (accepted, [CreateTmp tmp, FillTmp tmp (up_body up)]))"
    using serve_load[OF assms(1,3) _ assms(4), of ?ask io_ask] assms(2) unfolding no_slash_def by blast
  have ask: "?ask (cmd tmp) = Some r0" if "replies es = [r0]" for r0
    using that assms(6) by (simp add: manager_ask_def Ask_def)
  from upd show ?thesis
  proof (cases rule: update_cases)
    case (refused err p1)
    then have "?ask (cmd tmp) = Some (Done (Some err))" by (intro ask) (simp add: answer_def)
    then have "(resp, ops) = (cpu_error_response (cpu_error_text (err_code err), err_message err),
        [CreateTmp tmp, FillTmp tmp (up_body up), gone])"
      using sv assms(7) by (simp add: execCPUManagerCommand_def exec_command_def ExtractCode_def)
    moreover have "after_ops [CreateTmp tmp, FillTmp tmp (up_body up), gone] files = files"
      using assms(5) by (simp add: after_ops_def gone fun_upd_idem)
    ultimately show ?thesis using refusal_status[OF refused(3)] refused(1,2) by auto
  next
    case (accepted e p1 nv)
    have "replies es = [Done None]" using replies_accept[of name e tmp nv p1] accepted(1) by (metis snd_conv)
    then have "?ask (cmd tmp) = Some (Done None)" by (rule ask)
    then have r: "(resp, ops) = (Server_Api.accepted, [CreateTmp tmp, FillTmp tmp (up_body up)])"
      using sv assms(7) by (simp add: execCPUManagerCommand_def exec_command_def)
    have "\<exists>e. Entities p' name = Some e \<and> MenderArtifact e = tmp \<and> (has_code InProgress e \<or> has_code Waiting e)"
      using accepted(1) by (intro accept_records[of name e tmp nv p1 p' es]) simp
    then show ?thesis using r by (simp add: after_ops_def Server_Api.accepted_def)
  qed
qed

text \<open>The sample upload: its body is an artifact for application \<open>a\<close>.\<close>

definition demo_upload :: upload where
  "demo_upload = \<lparr>up_body = ''a'', up_create_err = None, up_read_err = None, up_close_err = None, up_random = ''7''\<rparr>"

definition uploaded_world :: world where
  "uploaded_world = demo_world\<lparr>open_file := \<lambda>_. Inr (''a'', None)\<rparr>"

definition demo_path :: string where "demo_path = upload_path uploaded_world demo_upload ''app-a-*''"

lemma demo_taken:
  "case handleCommand uploaded_world [] [] (StartApplicationUpdate ''a'' demo_path)
      (setInitialPersistentState uploaded_world) of
     None \<Rightarrow> False | Some (p', es) \<Rightarrow> replies es = [Done None]"
  by code_simp

lemma demo_taken_step:
  obtains p' es where "handleCommand uploaded_world [] [] (StartApplicationUpdate ''a'' demo_path)
      (setInitialPersistentState uploaded_world) = Some (p', es)" "replies es = [Done None]"
  using demo_taken by (auto split: option.splits)

lemma demo_load:
  "cpu_load (LoadApplication ''a'') =
     Some (''app-a-*'', StartApplicationUpdate ''a'', ''a'', EntityApplication)"
  "no_slash ''app-a-*''" "good_upload demo_upload"
  by (simp_all add: no_slash_def good_upload_def demo_upload_def)

theorem upload_kept_iff_accepted_witness:
  "\<exists>resp ops p'. serve uploaded_world demo_upload
       (manager_ask uploaded_world Stays [] [] (setInitialPersistentState uploaded_world)) (\<lambda>_. None)
       (LoadApplication ''a'') = (resp, ops) \<and>
     (rs_status resp = 202 \<and> after_ops ops Map.empty = [filepath_clean demo_path \<mapsto> up_body demo_upload] \<and>
      (\<exists>e. Entities p' ''a'' = Some e \<and> MenderArtifact e = demo_path \<and>
         (has_code InProgress e \<or> has_code Waiting e)) \<or>
      rs_status resp \<in> {400, 409, 412} \<and> after_ops ops Map.empty = Map.empty \<and>
      untouched ''a'' EntityApplication (setInitialPersistentState uploaded_world) p')"
proof -
  obtain p' es where h: "handleCommand uploaded_world [] [] (StartApplicationUpdate ''a'' demo_path)
      (setInitialPersistentState uploaded_world) = Some (p', es)"
    using demo_taken_step by blast
  obtain resp ops where s: "serve uploaded_world demo_upload
       (manager_ask uploaded_world Stays [] [] (setInitialPersistentState uploaded_world)) (\<lambda>_. None)
       (LoadApplication ''a'') = (resp, ops)"
    by fastforce
  have "(Map.empty :: string \<rightharpoonup> string) (filepath_clean demo_path) = None" by simp
  from upload_kept_iff_accepted[OF demo_load demo_path_def this h s] s show ?thesis by blast
qed

text \<open>C35. A client that leaves after its command went to the manager, and before the answer, takes the file
  of an accepted update with it: the handler removes the file, although the entity refers to it and its
  installation is in progress or waiting.\<close>

theorem abandoned_upload_loses_file:
  assumes "cpu_load r = Some (pattern, cmd, name, t)" "no_slash pattern" "good_upload up"
    and "tmp = upload_path w up pattern" "files (filepath_clean tmp) = None"
    and "handleCommand w' o1 o2 (cmd tmp) p = Some (p', es)" "replies es = [Done None]"
    and "serve w up (manager_ask w' GoneAfterSend o1 o2 p) io_ask r = (resp, ops)"
  shows "rs_status resp = 500 \<and> after_ops ops files = files \<and>
    (\<exists>e. Entities p' name = Some e \<and> MenderArtifact e = tmp \<and> (has_code InProgress e \<or> has_code Waiting e))"
proof -
  let ?ask = "manager_ask w' GoneAfterSend o1 o2 p"
  have "handleEntityUpdate w' name t tmp p = Some (p', es)"
    using load_command_is_update[OF assms(1)] assms(6) by simp
  then have e: "\<exists>e. Entities p' name = Some e \<and> MenderArtifact e = tmp \<and>
      (has_code InProgress e \<or> has_code Waiting e)"
  proof (cases rule: update_cases)
    case (accepted e p1 nv)
    then show ?thesis by (intro accept_records[of name e tmp nv p1 p' es]) simp
  qed (use assms(7) in \<open>simp add: answer_def\<close>)
  obtain gone where gone: "\<And>files. apply_upload gone files = files(filepath_clean tmp := None)"
    and sv: "serve w up ?ask io_ask r =
      (case execCPUManagerCommand (done_result (?ask (cmd tmp))) of
         Inl cm \<Rightarrow> (cpu_error_response cm, [CreateTmp tmp, FillTmp tmp (up_body up), gone])
       | Inr u \<Rightarrow> (Server_Api.accepted, [CreateTmp tmp, FillTmp tmp (up_body up)]))"
    using serve_load[OF assms(1,3) _ assms(4), of ?ask io_ask] assms(2) unfolding no_slash_def by blast
  have "?ask (cmd tmp) = None" using assms(6,7) by (simp add: manager_ask_def Ask_def)
  then have "(resp, ops) = (cpu_error_response (errUnknown, []), [CreateTmp tmp, FillTmp tmp (up_body up), gone])"
    using sv assms(8) by (simp add: execCPUManagerCommand_def exec_command_def ExtractCode_def)
  moreover have "rs_status (cpu_error_response (errUnknown, [])) = 500"
    by (simp add: cpu_error_response_def statusFromCPUManagerCode_def errUnknown_def writeJSONError_def)
  moreover have "after_ops [CreateTmp tmp, FillTmp tmp (up_body up), gone] files = files"
    using assms(5) by (simp add: after_ops_def gone fun_upd_idem)
  ultimately show ?thesis using e by simp
qed

theorem abandoned_upload_loses_file_witness:
  "\<exists>resp ops (p' :: persistent) e. serve uploaded_world demo_upload
       (manager_ask uploaded_world GoneAfterSend [] [] (setInitialPersistentState uploaded_world)) (\<lambda>_. None)
       (LoadApplication ''a'') = (resp, ops) \<and>
     rs_status resp = 500 \<and> after_ops ops Map.empty = Map.empty \<and>
     Entities p' ''a'' = Some e \<and> MenderArtifact e = demo_path"
proof -
  obtain p' es where h: "handleCommand uploaded_world [] [] (StartApplicationUpdate ''a'' demo_path)
      (setInitialPersistentState uploaded_world) = Some (p', es)" "replies es = [Done None]"
    using demo_taken_step by blast
  obtain resp ops where s: "serve uploaded_world demo_upload
       (manager_ask uploaded_world GoneAfterSend [] [] (setInitialPersistentState uploaded_world)) (\<lambda>_. None)
       (LoadApplication ''a'') = (resp, ops)"
    by fastforce
  have "(Map.empty :: string \<rightharpoonup> string) (filepath_clean demo_path) = None" by simp
  from abandoned_upload_loses_file[OF demo_load demo_path_def this h s] obtain e where
    "rs_status resp = 500" "after_ops ops Map.empty = Map.empty" "Entities p' ''a'' = Some e"
    "MenderArtifact e = demo_path"
    by blast
  with s show ?thesis by (intro exI conjI)
qed

text \<open>An upload that breaks off leaves its file behind: the response is 500, and nothing removes what has
  been received, while no entity refers to it.\<close>

theorem broken_upload_leaves_file:
  assumes "cpu_load r = Some (pattern, cmd, name, t)" "no_slash pattern"
    and "up_create_err up = None" "up_read_err up = Some e"
    and "serve w up ask io_ask r = (resp, ops)"
  shows "rs_status resp = 500 \<and>
    after_ops ops files = files(filepath_clean (upload_path w up pattern) \<mapsto> up_body up)"
proof -
  have "saveBodyToFile w up pattern =
      (Inl (errCodeReadBodyFailed, wrap_err ''failed to read request body'' e),
       [CreateTmp (upload_path w up pattern), FillTmp (upload_path w up pattern) (up_body up)])"
    using assms(2-4) by (simp add: saveBodyToFile_def create_temp_def no_slash_def upload_path_def)
  moreover have "rs_status (save_failed ce) = 500" for ce by (simp add: save_failed_def writeJSONError_def)
  ultimately show ?thesis
    using assms(1,5)
    by (cases r) (auto simp: handleLoadCoreOS_def handleLoadCoreOSCustomization_def handleLoadApplication_def
        handleLoadNamedUpdate_def after_ops_def split: if_splits)
qed

theorem broken_upload_leaves_file_witness:
  "\<exists>resp ops. serve bare_world (demo_upload\<lparr>up_read_err := Some ''EOF''\<rparr>) (\<lambda>_. None) (\<lambda>_. None) LoadCoreOS =
      (resp, ops) \<and> rs_status resp = 500 \<and>
    after_ops ops Map.empty =
      [filepath_clean (upload_path bare_world (demo_upload\<lparr>up_read_err := Some ''EOF''\<rparr>) ''coreos-*'') \<mapsto> ''a'']"
proof -
  let ?up = "demo_upload\<lparr>up_read_err := Some ''EOF''\<rparr>"
  obtain resp ops where s: "serve bare_world ?up (\<lambda>_. None) (\<lambda>_. None) LoadCoreOS = (resp, ops)"
    by fastforce
  have "cpu_load LoadCoreOS = Some (''coreos-*'', StartCoreOsUpdate, coreOSEntity, EntityCoreOs)"
    "no_slash ''coreos-*''" "up_create_err ?up = None" "up_read_err ?up = Some ''EOF''" "up_body ?up = ''a''"
    by (simp_all add: no_slash_def demo_upload_def)
  from broken_upload_leaves_file[OF this(1-4) s, of Map.empty] s this(5) show ?thesis by auto
qed

section \<open>Removal stays inside the update directory\<close>

text \<open>C32. What a handler removes lies below the update directory, whatever the path it was given: its clean
  components are those of the directory followed by at least one ordinary name, and none of them leads up. Paths
  of uploaded files are always accepted.\<close>

theorem removal_stays_below:
  assumes "removeTempUpdateFile w p = Inr q"
  shows "q = filepath_clean p \<and>
    (\<exists>rest. clean_parts p = clean_parts (GetPath w) @ rest \<and> rest \<noteq> [] \<and> list_all plain_part rest)"
  by (rule removed_below[OF assms])

theorem removal_stays_below_witness:
  "\<exists>q. removeTempUpdateFile bare_world ''/data/core-api-server/x/../updates/./coreos-1'' = Inr q \<and>
     q = filepath_clean ''/data/core-api-server/x/../updates/./coreos-1''"
proof -
  have "removeTempUpdateFile bare_world ''/data/core-api-server/x/../updates/./coreos-1'' =
      Inr ''/data/core-api-server/updates/coreos-1''"
    by code_simp
  from this removal_stays_below[OF this] show ?thesis by blast
qed

section \<open>Routes\<close>

text \<open>The documented requests.\<close>

fun route_path :: "route \<Rightarrow> string list" where
  "route_path LoadCoreOS = [''software'', ''core-os'']"
| "route_path GetCoreOS = [''software'', ''core-os'']"
| "route_path LoadCoreOSCustomization = [''software'', ''core-os-customization'']"
| "route_path GetCoreOSCustomization = [''software'', ''core-os-customization'']"
| "route_path (LoadApplication n) = [''software'', ''application'', n]"
| "route_path (GetApplication n) = [''software'', ''application'', n]"
| "route_path ListApps = [''software'', ''applications'']"
| "route_path RebootSystem = [''system'', ''reboot'']"
| "route_path (GetIo4Edge n) = [''software'', ''io4edge'', n]"
| "route_path (LoadIo4Edge n) = [''software'', ''io4edge'', n]"
| "route_path GetHardware = [''hardware'']"
| "route_path ListIo4EdgeDevices = [''hardware'', ''io4edge-devices'']"

fun route_methods :: "route \<Rightarrow> string set" where
  "route_methods LoadCoreOS = {''PUT''}"
| "route_methods LoadCoreOSCustomization = {''PUT''}"
| "route_methods (LoadApplication n) = (if n = [] then {} else {''PUT''})"
| "route_methods (LoadIo4Edge n) = (if n = [] then {} else {''PUT''})"
| "route_methods (GetApplication n) = (if n = [] then {} else {''GET'', ''HEAD''})"
| "route_methods (GetIo4Edge n) = (if n = [] then {} else {''GET'', ''HEAD''})"
| "route_methods RebootSystem = {''POST''}"
| "route_methods _ = {''GET'', ''HEAD''}"

lemma software_route_path:
  "software_route m segs = Some r \<Longrightarrow> route_path r = ''software'' # segs \<and> m \<in> route_methods r"
  by (auto simp: software_route_def is_get_def split: if_splits list.splits)

lemma routes_sound:
  assumes "routes m path = Some r"
  shows "path = api_prefix @ route_path r \<and> m \<in> route_methods r"
proof -
  have t: "take 2 path = api_prefix" using assms by (auto simp: routes_def split: if_splits)
  obtain area rest where d: "drop 2 path = area # rest"
    using assms t by (auto simp: routes_def split: list.splits)
  have "path = api_prefix @ area # rest" using t d by (metis append_take_drop_id)
  moreover have "area # rest = route_path r \<and> m \<in> route_methods r"
    using assms t d software_route_path
    by (auto simp: routes_def is_get_def split: if_splits)
  ultimately show ?thesis by simp
qed

lemma routes_complete:
  assumes "m \<in> route_methods r"
  shows "routes m (api_prefix @ route_path r) = Some r"
  using assms by (cases r) (auto simp: routes_def software_route_def api_prefix_def is_get_def split: if_splits)

text \<open>The server serves exactly the documented requests, each by its own handler and with the name from its
  path: twelve routes, no request reaches two of them, and an empty name reaches none.\<close>

theorem routes_documented:
  "routes m path = Some r \<longleftrightarrow> path = api_prefix @ route_path r \<and> m \<in> route_methods r"
  using routes_sound routes_complete by blast

end
