(* ===== verification/Server_Firmware.thy ===== *)
theory Server_Firmware
  imports Server_Properties Io4edge_Properties
begin

text \<open>
  The server together with the io4edge manager: what becomes of an uploaded firmware package, and that
  every command is answered once on the channel of its type.
\<close>

fun io_replies :: "io_effect list \<Rightarrow> io_reply list" where
  "io_replies [] = []"
| "io_replies (IoReply r # es) = r # io_replies es"
| "io_replies (LoadFirmware d f # es) = io_replies es"

definition io_manager_ask ::
  "(nat \<Rightarrow> world) \<Rightarrow> patience \<Rightarrow> int \<Rightarrow> (devices \<Rightarrow> string list) \<Rightarrow> devices \<Rightarrow> io_command \<Rightarrow> io_reply option" where
  "io_manager_ask ws c now order devs cmd =
     (case io_replies (snd (io_handleCommand ws now order cmd devs)) of [] \<Rightarrow> None | r # _ \<Rightarrow> Ask c r)"

lemma update_reply:
  obtains (started) nv where
      "handleUpdate w name f devs =
         (devs(name \<mapsto> (the (devs name))\<lparr>dev_package := f, dev_deploying := nv,
            dev_status := io_status_of IoInProgress ''Update is in progress''\<rparr>),
          [LoadFirmware name f, IoReply (FwStarted None)])" "devs name \<noteq> None"
  | (refused) c m where "handleUpdate w name f devs = (devs, [IoReply (FwStarted (Some (newCodedError c m)))])"
proof (cases "devs name")
  case None
  then show ?thesis by (intro refused) (simp add: handleUpdate_def refuse_def)
next
  case d: (Some d)
  show ?thesis
  proof (cases "io_status_code (dev_status d) = IoInProgress")
    case True
    with d show ?thesis by (intro refused) (simp add: handleUpdate_def refuse_def)
  next
    case idle: False
    show ?thesis
    proof (cases "GetManifestFromFile w f")
      case (Inl err)
      with d idle show ?thesis by (intro refused) (simp add: handleUpdate_def refuse_def)
    next
      case m: (Inr m)
      let ?same = "tweakNameFromManifest (fm_name m) = nv_name (dev_current d) \<and> fm_version m = nv_version (dev_current d)"
      show ?thesis
      proof (cases ?same)
        case True
        with d idle m show ?thesis by (intro refused) (simp add: handleUpdate_def refuse_def)
      next
        case False
        with d idle m show ?thesis by (intro started) (auto simp: handleUpdate_def Let_def)
      qed
    qed
  qed
qed

lemma io_status_refused: "rs_status (io_error_response (io_error_text c, m)) \<in> {400, 409, 412}"
  by (cases c) (auto simp: io_error_response_def writeJSONError_def statusFromIO4EdgeManagerCode_def)

lemma serve_firmware:
  assumes "name \<noteq> []" "no_slash name" "good_upload up" "tmp = upload_path w up (''io4edge-'' @ name @ ''-*'')"
  shows "serve w up ask io_ask (LoadIo4Edge name) =
    (case execIo4edgeManagerCommand (started_result (io_ask (StartFwUpdate name tmp))) of
       Inl cm \<Rightarrow> (io_error_response cm, [CreateTmp tmp, FillTmp tmp (up_body up), RemoveTmp (filepath_clean tmp)])
     | Inr u \<Rightarrow> (accepted, [CreateTmp tmp, FillTmp tmp (up_body up)]))"
    "filepath_clean (filepath_clean tmp) = filepath_clean tmp"
proof -
  let ?a = "''io4edge-'' @ name @ ''-''"
  have pat: "CHR ''/'' \<notin> set (''io4edge-'' @ name @ ''-*'')" using assms(2) by (simp add: no_slash_def)
  have "temp_name (''io4edge-'' @ name @ ''-*'') (up_random up) = ?a @ up_random up"
    using temp_name_star[of "[]" ?a "up_random up"] by simp
  moreover have pl: "plain_part (?a @ up_random up)"
    using assms(2,3) by (intro plain_with_prefix) (auto simp: good_upload_def no_slash_def)
  ultimately have n: "tmp = GetPath w @ (?a @ up_random up)"
    using assms(4) by (simp add: upload_path_def join_update_dir)
  have gone: "remove_temp_ops w tmp = [RemoveTmp (filepath_clean tmp)]"
    unfolding remove_temp_ops_def n removes_own_file[OF pl] by simp
  show "filepath_clean (filepath_clean tmp) = filepath_clean tmp"
    unfolding n by (rule clean_idem[OF clean_in_dir(2)[OF pl]])
  have "saveBodyToFile w up (''io4edge-'' @ name @ ''-*'') = (Inr tmp, [CreateTmp tmp, FillTmp tmp (up_body up)])"
    using save_good[OF assms(3) pat, of w] unfolding assms(4)[symmetric] .
  then show "serve w up ask io_ask (LoadIo4Edge name) =
    (case execIo4edgeManagerCommand (started_result (io_ask (StartFwUpdate name tmp))) of
       Inl cm \<Rightarrow> (io_error_response cm, [CreateTmp tmp, FillTmp tmp (up_body up), RemoveTmp (filepath_clean tmp)])
     | Inr u \<Rightarrow> (accepted, [CreateTmp tmp, FillTmp tmp (up_body up)]))"
    using assms(1) gone
    by (simp add: handleLoadIo4EdgeSoftware_def handleLoadNamedUpdate_def split: sum.split)
qed

text \<open>C23. A client that waits for its answer can rely on it: the response to the upload of a firmware package
  is 202 exactly when its load into the device has been started, and then the package is there for the load and
  the device is in progress. Otherwise the response is 400, 409 or 412, the package has been removed
  and no load has been started.\<close>

theorem firmware_kept_iff_started:
  assumes "name \<noteq> []" "no_slash name" "good_upload up"
    and "tmp = upload_path w up (''io4edge-'' @ name @ ''-*'')" "files (filepath_clean tmp) = None"
    and "io_handleCommand ws now order (StartFwUpdate name tmp) devs = (devs', es)"
    and "serve w up ask (io_manager_ask ws Stays now order devs) (LoadIo4Edge name) = (resp, ops)"
  shows "rs_status resp = 202 \<and> after_ops ops files = files(filepath_clean tmp \<mapsto> up_body up) \<and>
      loads es = [(name, tmp)] \<and> code_in devs' name = Some IoInProgress \<or>
    rs_status resp \<in> {400, 409, 412} \<and> after_ops ops files = files \<and> loads es = []"
proof -
  let ?io = "io_manager_ask ws Stays now order devs"
  note sv = serve_firmware(1)[OF assms(1-4), of ask ?io] serve_firmware(2)[OF assms(1-4)]
  have io: "handleUpdate (ws 1) name tmp (updateDeviceState (ws 0) now name devs) = (devs', es)"
    using assms(6) by simp
  show ?thesis
  proof (rule update_reply[of "ws 1" name tmp "updateDeviceState (ws 0) now name devs"])
    fix nv assume st: "handleUpdate (ws 1) name tmp (updateDeviceState (ws 0) now name devs) =
        ((updateDeviceState (ws 0) now name devs)(name \<mapsto> (the (updateDeviceState (ws 0) now name devs name))
            \<lparr>dev_package := tmp, dev_deploying := nv, dev_status := io_status_of IoInProgress ''Update is in progress''\<rparr>),
         [LoadFirmware name tmp, IoReply (FwStarted None)])"
    then have "?io (StartFwUpdate name tmp) = Some (FwStarted None)"
      by (simp add: io_manager_ask_def Ask_def)
    then have "(resp, ops) = (accepted, [CreateTmp tmp, FillTmp tmp (up_body up)])"
      using sv(1) assms(7) by (simp add: execIo4edgeManagerCommand_def exec_command_def)
    moreover have "loads es = [(name, tmp)]" "code_in devs' name = Some IoInProgress"
      using io st by (auto simp: code_in_def io_status_of_def)
    ultimately show ?thesis by (simp add: after_ops_def accepted_def)
  next
    fix c m assume st: "handleUpdate (ws 1) name tmp (updateDeviceState (ws 0) now name devs) =
        (updateDeviceState (ws 0) now name devs, [IoReply (FwStarted (Some (newCodedError c m)))])"
    then have "?io (StartFwUpdate name tmp) = Some (FwStarted (Some (newCodedError c m)))"
      by (simp add: io_manager_ask_def Ask_def)
    then have "(resp, ops) = (io_error_response (io_error_text c, m),
        [CreateTmp tmp, FillTmp tmp (up_body up), RemoveTmp (filepath_clean tmp)])"
      using sv(1) assms(7) by (simp add: execIo4edgeManagerCommand_def exec_command_def ExtractCode_def newCodedError_def)
    moreover have "loads es = []" using io st by auto
    moreover have "after_ops [CreateTmp tmp, FillTmp tmp (up_body up), RemoveTmp (filepath_clean tmp)] files = files"
      using assms(5) sv(2) by (simp add: after_ops_def fun_upd_idem)
    ultimately show ?thesis using io_status_refused[of c m] by auto
  qed
qed

definition fw_path :: string where "fw_path = upload_path fw_world demo_upload ''io4edge-d-*''"

lemma fw_path_load:
  "loads (snd (io_handleCommand (\<lambda>_. fw_world) 0 (\<lambda>_. []) (StartFwUpdate ''d'' fw_path) Map.empty)) = [(''d'', fw_path)]"
  by code_simp

theorem firmware_kept_iff_started_witness:
  "\<exists>resp ops devs es. serve fw_world demo_upload (\<lambda>_. None)
       (io_manager_ask (\<lambda>_. fw_world) Stays 0 (\<lambda>_. []) Map.empty) (LoadIo4Edge ''d'') = (resp, ops) \<and>
     io_handleCommand (\<lambda>_. fw_world) 0 (\<lambda>_. []) (StartFwUpdate ''d'' fw_path) Map.empty = (devs, es) \<and>
     rs_status resp = 202 \<and> after_ops ops Map.empty = [filepath_clean fw_path \<mapsto> up_body demo_upload] \<and>
     loads es = [(''d'', fw_path)] \<and> code_in devs ''d'' = Some IoInProgress"
proof -
  obtain devs es where
    h: "io_handleCommand (\<lambda>_. fw_world) 0 (\<lambda>_. []) (StartFwUpdate ''d'' fw_path) Map.empty = (devs, es)"
    by fastforce
  obtain resp ops where
    s: "serve fw_world demo_upload (\<lambda>_. None)
       (io_manager_ask (\<lambda>_. fw_world) Stays 0 (\<lambda>_. []) Map.empty) (LoadIo4Edge ''d'') = (resp, ops)"
    by fastforce
  have l: "loads es = [(''d'', fw_path)]" using fw_path_load h by simp
  have "fw_path = upload_path fw_world demo_upload (''io4edge-'' @ ''d'' @ ''-*'')" by (simp add: fw_path_def)
  moreover have "no_slash ''d''" by (simp add: no_slash_def)
  moreover have "(Map.empty :: string \<rightharpoonup> string) (filepath_clean fw_path) = None" by simp
  ultimately show ?thesis
    using firmware_kept_iff_started[OF _ _ demo_load(3) _ _ h s, of Map.empty] h s l by auto
qed

section \<open>Answers\<close>

text \<open>Every command of a client is answered once, in the type of its reply channel, and the end of a load is not
  answered: the reply channels hold one value, so no reply blocks the actor.\<close>

datatype io_reply_kind = FwStartedKind | FwStateKind | FwDevicesKind

fun kind_of_io_reply :: "io_reply \<Rightarrow> io_reply_kind" where
  "kind_of_io_reply (FwStarted _) = FwStartedKind"
| "kind_of_io_reply (FwState _) = FwStateKind"
| "kind_of_io_reply (FwDevices _) = FwDevicesKind"

fun kinds_of_io_command :: "io_command \<Rightarrow> io_reply_kind list" where
  "kinds_of_io_command (StartFwUpdate _ _) = [FwStartedKind]"
| "kinds_of_io_command (GetFwState _) = [FwStateKind]"
| "kinds_of_io_command ListDeviceNames = [FwDevicesKind]"
| "kinds_of_io_command (CliEvent _ _ _) = []"

lemma io_answers:
  "map kind_of_io_reply (io_replies (snd (io_handleCommand ws now order c devs))) = kinds_of_io_command c"
proof (cases c)
  case (StartFwUpdate name f)
  show ?thesis
    by (rule update_reply[of "ws 1" name f "updateDeviceState (ws 0) now name devs"]) (simp_all add: StartFwUpdate)
qed (simp_all add: handleGetState_def handleListDeviceNames_def Let_def)

lemma io_answers':
  "io_handleCommand ws now order c devs = (devs', es) \<Longrightarrow> map kind_of_io_reply (io_replies es) = kinds_of_io_command c"
  using io_answers[of ws now order c devs] by simp

type_synonym io_turn = "(nat \<Rightarrow> world) \<times> int \<times> (devices \<Rightarrow> string list) \<times> io_command"

fun io_turn :: "io_turn \<Rightarrow> devices \<Rightarrow> (devices \<times> io_reply list) option" where
  "io_turn (ws, now, order, c) devs =
     (case io_handleCommand ws now order c devs of (devs', es) \<Rightarrow> Some (devs', io_replies es))"

fun io_turn_kinds :: "io_turn \<Rightarrow> io_reply_kind list" where
  "io_turn_kinds (ws, now, order, c) = kinds_of_io_command c"

interpretation io_service: command_service io_turn kind_of_io_reply io_turn_kinds
proof
  fix c :: io_turn and devs devs' rs
  assume "io_turn c devs = Some (devs', rs)"
  then show "map kind_of_io_reply rs = io_turn_kinds c"
    by (cases c) (auto split: prod.splits dest: io_answers')
qed

text \<open>The io4edge manager handles every sequence of commands to its end, and answers it in order.\<close>

theorem io_commands_answered_in_order:
  "\<exists>devs' rs. run_commands io_turn cs devs = Some (devs', rs) \<and>
     map kind_of_io_reply rs = concat (map (\<lambda>(ws, now, order, c). kinds_of_io_command c) cs)"
proof -
  have "\<exists>devs' rs. run_commands io_turn cs devs = Some (devs', rs)"
  proof (induction cs arbitrary: devs)
    case (Cons c cs)
    obtain ws now order k where c: "c = (ws, now, order, k)" by (cases c)
    obtain d es where h: "io_handleCommand ws now order k devs = (d, es)" by fastforce
    obtain d' rs where "run_commands io_turn cs d = Some (d', rs)" using Cons by blast
    then show ?case by (simp add: c h)
  qed simp
  moreover have "(\<lambda>(ws, now, order, c). kinds_of_io_command c) = io_turn_kinds" by (simp add: fun_eq_iff)
  ultimately show ?thesis using io_service.run_answers by fastforce
qed

end
