(* ===== verification/Disk_State.thy ===== *)
theory Disk_State
  imports Go_World
begin

text \<open>
  \<open>pkg/diskstate\<close>: saving the state file so that a crash at any moment leaves the old or the new
  state. The file system is modelled with what POSIX promises about crashes: names point to inodes;
  the data of an inode survives only if it was synced; of the directory any version since its last
  sync may survive. The branch for Windows is not modelled.
\<close>

section \<open>The file system\<close>

record fs =
  fs_data :: "nat \<Rightarrow> string"
  fs_synced :: "nat \<Rightarrow> bool"
  fs_next :: nat
  fs_dirs :: "(string \<rightharpoonup> nat) list"

datatype fs_op =
    OpCreate string
  | OpWrite string string
  | OpSync string
  | OpRename string string
  | OpRemove string
  | OpSyncDir

text \<open>The first directory of the list is the current one, the last one the version last synced.\<close>

definition cur_dir :: "fs \<Rightarrow> (string \<rightharpoonup> nat)" where
  "cur_dir fs = hd (fs_dirs fs)"

definition push_dir :: "(string \<rightharpoonup> nat) \<Rightarrow> fs \<Rightarrow> fs" where
  "push_dir d fs = fs\<lparr>fs_dirs := d # fs_dirs fs\<rparr>"

fun apply_op :: "fs_op \<Rightarrow> fs \<Rightarrow> fs" where
  "apply_op (OpCreate n) fs =
     push_dir ((cur_dir fs)(n \<mapsto> fs_next fs))
       (fs\<lparr>fs_data := (fs_data fs)(fs_next fs := []), fs_synced := (fs_synced fs)(fs_next fs := False),
           fs_next := Suc (fs_next fs)\<rparr>)"
| "apply_op (OpWrite n s) fs =
     (case cur_dir fs n of
        None \<Rightarrow> fs
      | Some i \<Rightarrow> fs\<lparr>fs_data := (fs_data fs)(i := fs_data fs i @ s), fs_synced := (fs_synced fs)(i := False)\<rparr>)"
| "apply_op (OpSync n) fs =
     (case cur_dir fs n of None \<Rightarrow> fs | Some i \<Rightarrow> fs\<lparr>fs_synced := (fs_synced fs)(i := True)\<rparr>)"
| "apply_op (OpRename a b) fs =
     (case cur_dir fs a of None \<Rightarrow> fs | Some i \<Rightarrow> push_dir ((cur_dir fs)(a := None, b \<mapsto> i)) fs)"
| "apply_op (OpRemove n) fs = push_dir ((cur_dir fs)(n := None)) fs"
| "apply_op OpSyncDir fs = fs\<lparr>fs_dirs := [cur_dir fs]\<rparr>"

definition apply_ops :: "fs_op list \<Rightarrow> fs \<Rightarrow> fs" where
  "apply_ops ops fs = fold apply_op ops fs"

text \<open>What may be read from a name after a crash; unsynced data may be anything.\<close>

definition crash_read :: "fs \<Rightarrow> string \<Rightarrow> string option \<Rightarrow> bool" where
  "crash_read fs n c \<longleftrightarrow>
     (\<exists>d \<in> set (fs_dirs fs).
        case d n of None \<Rightarrow> c = None | Some i \<Rightarrow> \<exists>s. c = Some s \<and> (fs_synced fs i \<longrightarrow> s = fs_data fs i))"

section \<open>Saving\<close>

text \<open>
  \<open>saveUnlocked\<close>: \<open>fails i\<close> tells whether the i-th call of the file system fails, \<open>written\<close> what a failing
  encoder had written by then. The value is the operations that take effect, and the error.
\<close>

definition saveUnlocked ::
  "string \<Rightarrow> string \<Rightarrow> string \<Rightarrow> (nat \<Rightarrow> bool) \<Rightarrow> string \<Rightarrow> fs_op list \<times> string option" where
  "saveUnlocked path tmp data fails written =
     (if fails 0 then ([], Some ''create temp'')
      else if fails 1 then ([OpCreate tmp, OpWrite tmp written, OpRemove tmp], Some ''encode temp'')
      else if fails 2 then ([OpCreate tmp, OpWrite tmp data, OpRemove tmp], Some ''fsync temp'')
      else if fails 3 then ([OpCreate tmp, OpWrite tmp data, OpSync tmp, OpRemove tmp], Some ''close temp'')
      else if fails 4 then
        ([OpCreate tmp, OpWrite tmp data, OpSync tmp, OpRemove tmp], Some ''rename into place'')
      else if fails 5 then
        ([OpCreate tmp, OpWrite tmp data, OpSync tmp, OpRename tmp path], Some ''fsync dir'')
      else ([OpCreate tmp, OpWrite tmp data, OpSync tmp, OpRename tmp path, OpSyncDir], None))"

section \<open>Crash safety\<close>

text \<open>Every crash leaves the name with one of the contents \<open>S\<close>; directories point to inodes in use.\<close>

definition good_dir :: "fs \<Rightarrow> string \<Rightarrow> string option set \<Rightarrow> (string \<rightharpoonup> nat) \<Rightarrow> bool" where
  "good_dir fs n S d \<longleftrightarrow>
     (\<forall>x i. d x = Some i \<longrightarrow> i < fs_next fs) \<and> (d n = None \<longrightarrow> None \<in> S) \<and>
     (\<forall>i. d n = Some i \<longrightarrow> fs_synced fs i \<and> Some (fs_data fs i) \<in> S)"

definition holds :: "fs \<Rightarrow> string \<Rightarrow> string option set \<Rightarrow> bool" where
  "holds fs n S \<longleftrightarrow> fs_dirs fs \<noteq> [] \<and> (\<forall>d \<in> set (fs_dirs fs). good_dir fs n S d)"

lemma holds_crash: "holds fs n S \<Longrightarrow> crash_read fs n c \<Longrightarrow> c \<in> S"
  by (auto simp: holds_def good_dir_def crash_read_def split: option.splits)

lemma good_dir_mono: "good_dir fs n S d \<Longrightarrow> S \<subseteq> T \<Longrightarrow> good_dir fs n T d"
  by (auto simp: good_dir_def)

lemma holds_mono: "holds fs n S \<Longrightarrow> S \<subseteq> T \<Longrightarrow> holds fs n T"
  using good_dir_mono by (auto simp: holds_def)

text \<open>The temporary file, on an inode of its own.\<close>

definition staged :: "fs \<Rightarrow> string \<Rightarrow> string \<Rightarrow> string option set \<Rightarrow> nat \<Rightarrow> bool" where
  "staged fs n tmp S i \<longleftrightarrow> holds fs n S \<and> cur_dir fs tmp = Some i \<and>
     (\<forall>d \<in> set (fs_dirs fs). d n \<noteq> Some i)"

lemma cur_dir_in: "fs_dirs fs \<noteq> [] \<Longrightarrow> cur_dir fs \<in> set (fs_dirs fs)"
  by (simp add: cur_dir_def)

lemma cur_dir_push [simp]: "cur_dir (push_dir d fs) = d"
  by (simp add: cur_dir_def push_dir_def)

lemma good_dir_push [simp]: "good_dir (push_dir e fs) n S d = good_dir fs n S d"
  by (simp add: good_dir_def push_dir_def)

lemma push_dirs [simp]: "fs_dirs (push_dir d fs) = d # fs_dirs fs"
  by (simp add: push_dir_def)

lemma good_cur: "holds fs n S \<Longrightarrow> good_dir fs n S (cur_dir fs)"
  using cur_dir_in by (auto simp: holds_def)

lemma holds_push: "holds fs n S \<Longrightarrow> good_dir fs n S d \<Longrightarrow> holds (push_dir d fs) n S"
  by (simp add: holds_def)

lemma holds_remove:
  assumes "holds fs n S" "tmp \<noteq> n"
  shows "holds (apply_op (OpRemove tmp) fs) n S"
  using holds_push[OF assms(1), of "(cur_dir fs)(tmp := None)"] good_cur[OF assms(1)] assms(2)
  by (auto simp: good_dir_def)

lemma staged_create:
  assumes "holds fs n S" "tmp \<noteq> n"
  shows "staged (apply_op (OpCreate tmp) fs) n tmp S (fs_next fs)"
proof -
  let ?fs = "fs\<lparr>fs_data := (fs_data fs)(fs_next fs := []), fs_synced := (fs_synced fs)(fs_next fs := False),
           fs_next := Suc (fs_next fs)\<rparr>"
  have keep: "good_dir ?fs n S d \<and> d n \<noteq> Some (fs_next fs)" if "good_dir fs n S d" for d
    using that by (auto simp: good_dir_def less_Suc_eq)
  have "good_dir ?fs n S ((cur_dir fs)(tmp \<mapsto> fs_next fs))"
    using keep[OF good_cur[OF assms(1)]] assms(2) by (auto simp: good_dir_def)
  moreover have "cur_dir fs n \<noteq> Some (fs_next fs)" using keep[OF good_cur[OF assms(1)]] by blast
  moreover have "holds ?fs n S" "\<forall>d \<in> set (fs_dirs fs). d n \<noteq> Some (fs_next fs)"
    using assms(1) keep by (auto simp: holds_def)
  ultimately show ?thesis
    using holds_push[of ?fs n S] assms(2) by (simp add: staged_def)
qed

lemma good_dir_other:
  "good_dir fs n S d \<Longrightarrow> d n \<noteq> Some i \<Longrightarrow>
   good_dir (fs\<lparr>fs_data := (fs_data fs)(i := x), fs_synced := (fs_synced fs)(i := b)\<rparr>) n S d"
  "good_dir fs n S d \<Longrightarrow> d n \<noteq> Some i \<Longrightarrow> good_dir (fs\<lparr>fs_synced := (fs_synced fs)(i := b)\<rparr>) n S d"
  by (auto simp: good_dir_def)

lemma staged_write:
  assumes "staged fs n tmp S i"
  shows "staged (apply_op (OpWrite tmp s) fs) n tmp S i"
    "fs_data (apply_op (OpWrite tmp s) fs) i = fs_data fs i @ s"
  using assms good_dir_other(1) by (auto simp: staged_def holds_def cur_dir_def)

lemma staged_sync:
  assumes "staged fs n tmp S i"
  shows "staged (apply_op (OpSync tmp) fs) n tmp S i" "fs_synced (apply_op (OpSync tmp) fs) i"
    "fs_data (apply_op (OpSync tmp) fs) i = fs_data fs i"
  using assms good_dir_other(2) by (auto simp: staged_def holds_def cur_dir_def)

lemma staged_rename:
  assumes "staged fs n tmp S i" "fs_synced fs i" "fs_data fs i = data" "tmp \<noteq> n"
  shows "holds (apply_op (OpRename tmp n) fs) n (insert (Some data) S)"
    "holds (apply_op OpSyncDir (apply_op (OpRename tmp n) fs)) n {Some data}"
proof -
  let ?d = "(cur_dir fs)(tmp := None, n \<mapsto> i)"
  have h: "holds fs n S" "cur_dir fs tmp = Some i" using assms(1) by (auto simp: staged_def)
  have g: "good_dir fs n {Some data} ?d"
    using good_cur[OF h(1)] h(2) assms(2,3) by (auto simp: good_dir_def)
  have R: "apply_op (OpRename tmp n) fs = push_dir ?d fs" using h(2) by simp
  show "holds (apply_op (OpRename tmp n) fs) n (insert (Some data) S)"
    unfolding R using holds_push[OF holds_mono[OF h(1)]] good_dir_mono[OF g] by blast
  have "good_dir (push_dir ?d fs\<lparr>fs_dirs := [?d]\<rparr>) n {Some data} ?d"
    using g by (simp add: good_dir_def push_dir_def)
  then show "holds (apply_op OpSyncDir (apply_op (OpRename tmp n) fs)) n {Some data}"
    unfolding R by (simp add: holds_def)
qed

text \<open>The states that a save goes through.\<close>

lemma save_states:
  assumes "holds fs n S" "tmp \<noteq> n" "saveUnlocked n tmp data fails written = (ops, err)"
  shows "holds (apply_ops (take k ops) fs) n (insert (Some data) S)"
    "err = None \<longrightarrow> holds (apply_ops ops fs) n {Some data}"
    "err \<noteq> None \<longrightarrow> err \<noteq> Some ''fsync dir'' \<longrightarrow> holds (apply_ops ops fs) n S"
proof -
  let ?f1 = "apply_op (OpCreate tmp) fs"
  define i where "i = fs_next fs"
  have s1: "staged ?f1 n tmp S i" unfolding i_def by (rule staged_create[OF assms(1,2)])
  have e1: "fs_data ?f1 i = []" by (simp add: i_def push_dir_def)
  have sw: "staged (apply_op (OpWrite tmp x) ?f1) n tmp S i"
    "fs_data (apply_op (OpWrite tmp x) ?f1) i = x" for x
    using staged_write[OF s1, of x] e1 by simp_all
  let ?f2 = "apply_op (OpWrite tmp data) ?f1"
  let ?f3 = "apply_op (OpSync tmp) ?f2"
  have s3: "staged ?f3 n tmp S i" "fs_synced ?f3 i" "fs_data ?f3 i = data"
    using staged_sync[OF sw(1)[of data]] sw(2) by simp_all
  have H: "holds g n S" if "staged g n tmp S j" for g j using that by (simp add: staged_def)
  have W: "holds g n (insert (Some data) S)" if "holds g n S" for g using holds_mono[OF that] by blast
  have r: "holds (apply_op (OpRemove tmp) g) n S" if "holds g n S" for g by (rule holds_remove[OF that assms(2)])
  note base = assms(1) H[OF s1] H[OF sw(1)] H[OF s3(1)] r[OF H[OF sw(1)]] r[OF H[OF s3(1)]]
  note fin = staged_rename[OF s3 assms(2)]
  have fin5: "holds (apply_op OpSyncDir (apply_op (OpRename tmp n) ?f3)) n (insert (Some data) S)"
    using holds_mono[OF fin(2)] by blast
  show "holds (apply_ops (take k ops) fs) n (insert (Some data) S)"
    using assms(3) base[THEN W] fin(1) fin5
    by (auto simp: saveUnlocked_def apply_ops_def take_Cons simp del: apply_op.simps
        split: if_splits nat.splits)
  show "err = None \<longrightarrow> holds (apply_ops ops fs) n {Some data}"
    using assms(3) fin(2)
    by (auto simp: saveUnlocked_def apply_ops_def simp del: apply_op.simps split: if_splits)
  show "err \<noteq> None \<longrightarrow> err \<noteq> Some ''fsync dir'' \<longrightarrow> holds (apply_ops ops fs) n S"
    using assms(3) base
    by (auto simp: saveUnlocked_def apply_ops_def simp del: apply_op.simps split: if_splits)
qed

section \<open>The contract of the store\<close>

text \<open>What the managers rely on: a save that was interrupted anywhere leaves what was there before or the
  new value; a completed one leaves the new value.\<close>

locale crash_safe_store =
  fixes partial :: "'v \<Rightarrow> nat \<Rightarrow> 'f \<Rightarrow> 'f"
    and complete :: "'v \<Rightarrow> 'f \<Rightarrow> 'f"
    and survives :: "'f \<Rightarrow> 'v option \<Rightarrow> bool"
    and settled :: "'f \<Rightarrow> 'v option set \<Rightarrow> bool"
  assumes settled_survives: "settled f S \<Longrightarrow> survives f c \<Longrightarrow> c \<in> S"
    and interrupted: "settled f S \<Longrightarrow> settled (partial v k f) (insert (Some v) S)"
    and completed: "settled f S \<Longrightarrow> settled (complete v f) {Some v}"
begin

lemma completed_all: "settled f S \<Longrightarrow> vs \<noteq> [] \<Longrightarrow> settled (fold complete vs f) {Some (last vs)}"
proof (induction vs arbitrary: f S)
  case (Cons v vs)
  then show ?case
    using completed[OF Cons.prems(1)] Cons.IH[OF completed[OF Cons.prems(1)]] by (cases "vs = []") auto
qed simp

lemma crash_during_save:
  "settled f S \<Longrightarrow> vs \<noteq> [] \<Longrightarrow> survives (partial v k (fold complete vs f)) c \<Longrightarrow>
   c = Some (last vs) \<or> c = Some v"
  using settled_survives[OF interrupted[OF completed_all]] by blast

text \<open>Also a save that is interrupted, and then repeated, ends with the new value.\<close>

lemma retry_after_crash:
  "settled f S \<Longrightarrow> survives (complete v (partial u k f)) c \<Longrightarrow> c = Some v"
  using settled_survives[OF completed[OF interrupted]] by blast

end

text \<open>The temporary name: hidden, in the same directory, longer than the name of the file.\<close>

definition tmp_path :: "string \<Rightarrow> string \<Rightarrow> string" where
  "tmp_path path sfx =
     rev (dropWhile (\<lambda>c. c \<noteq> CHR ''/'') (rev path)) @ ''.'' @
     rev (takeWhile (\<lambda>c. c \<noteq> CHR ''/'') (rev path)) @ ''.tmp.'' @ sfx"

lemma tmp_path_other: "tmp_path path sfx \<noteq> path"
proof
  assume "tmp_path path sfx = path"
  then have "length (tmp_path path sfx) = length path" by simp
  moreover have "length (takeWhile (\<lambda>c. c \<noteq> CHR ''/'') (rev path)) +
      length (dropWhile (\<lambda>c. c \<noteq> CHR ''/'') (rev path)) = length path"
    by (metis length_append length_rev takeWhile_dropWhile_id)
  ultimately show False by (simp add: tmp_path_def)
qed

definition save_ops :: "string \<Rightarrow> string \<Rightarrow> string \<Rightarrow> fs_op list" where
  "save_ops path sfx data = fst (saveUnlocked path (tmp_path path sfx) data (\<lambda>_. False) [])"

interpretation state_file: crash_safe_store
  "\<lambda>data k fs. apply_ops (take k (save_ops path sfx data)) fs"
  "\<lambda>data fs. apply_ops (save_ops path sfx data) fs"
  "\<lambda>fs c. crash_read fs path c" "\<lambda>fs S. holds fs path S" for path sfx
proof
  fix fs and S :: "string option set" and c data k
  have s: "saveUnlocked path (tmp_path path sfx) data (\<lambda>_. False) [] = (save_ops path sfx data, None)"
    by (simp add: save_ops_def saveUnlocked_def)
  show "holds fs path S \<Longrightarrow> crash_read fs path c \<Longrightarrow> c \<in> S" by (rule holds_crash)
  show "holds fs path S \<Longrightarrow> holds (apply_ops (take k (save_ops path sfx data)) fs) path (insert (Some data) S)"
    using save_states(1)[OF _ tmp_path_other s] by blast
  show "holds fs path S \<Longrightarrow> holds (apply_ops (save_ops path sfx data) fs) path {Some data}"
    using save_states(2)[OF _ tmp_path_other s] by blast
qed

text \<open>C18. The state file is never torn: after any number of completed saves, a crash at any point of the
  next save leaves the last completed state or the new one, and never an empty or partial file.\<close>

theorem state_file_never_torn:
  assumes "holds fs path S" "datas \<noteq> []"
    and "crash_read (apply_ops (take k (save_ops path sfx data))
           (fold (\<lambda>d. apply_ops (save_ops path sfx d)) datas fs)) path c"
  shows "c = Some (last datas) \<or> c = Some data"
  using state_file.crash_during_save[OF assms] .

definition empty_fs :: fs where
  "empty_fs = \<lparr>fs_data = \<lambda>_. [], fs_synced = \<lambda>_. False, fs_next = 0, fs_dirs = [Map.empty]\<rparr>"

lemma empty_holds: "holds empty_fs path {None}"
  by (simp add: holds_def empty_fs_def good_dir_def)

lemma sample_crash:
  "crash_read (apply_ops (take 4 (save_ops ''s'' ''1'' ''new''))
     (apply_ops (save_ops ''s'' ''0'' ''old'') empty_fs)) ''s'' (Some ''new'')"
  by (simp add: crash_read_def save_ops_def saveUnlocked_def apply_ops_def empty_fs_def tmp_path_def
      push_dir_def cur_dir_def)

theorem state_file_never_torn_witness:
  "{c. crash_read (apply_ops (take 3 (save_ops ''s'' ''0'' ''new''))
     (fold (\<lambda>d. apply_ops (save_ops ''s'' ''0'' d)) [''old''] empty_fs)) ''s'' c}
   \<subseteq> {Some ''old'', Some ''new''}"
proof
  fix c
  assume c: "c \<in> {c. crash_read (apply_ops (take 3 (save_ops ''s'' ''0'' ''new''))
     (fold (\<lambda>d. apply_ops (save_ops ''s'' ''0'' d)) [''old''] empty_fs)) ''s'' c}"
  have "[''old''] \<noteq> ([] :: string list)" by simp
  from state_file_never_torn[OF empty_holds this, of 3 "''s''" "''0''" "''new''" c] c
  show "c \<in> {Some ''old'', Some ''new''}" by auto
qed

text \<open>A save that reports an error before its last step leaves what was there; only the error of the
  final directory sync leaves open whether the old or the new state will be read after a crash.\<close>

theorem failed_save_keeps_state:
  assumes "holds fs path S" "saveUnlocked path (tmp_path path sfx) data fails written = (ops, Some err)"
    and "crash_read (apply_ops ops fs) path c"
  shows "c \<in> S \<or> err = ''fsync dir'' \<and> c = Some data"
proof (cases "err = ''fsync dir''")
  case True
  have "holds (apply_ops ops fs) path (insert (Some data) S)"
    using save_states(1)[OF assms(1) tmp_path_other assms(2), of "length ops"] by simp
  then show ?thesis using holds_crash assms(3) True by blast
next
  case False
  then have "holds (apply_ops ops fs) path S"
    using save_states(3)[OF assms(1) tmp_path_other assms(2)] by simp
  then show ?thesis using holds_crash assms(3) by blast
qed

theorem failed_save_keeps_state_witness:
  "{c. crash_read (apply_ops [OpCreate ''.s.tmp.0'', OpWrite ''.s.tmp.0'' ''ne'', OpRemove ''.s.tmp.0''] empty_fs)
      ''s'' c} \<subseteq> {None}"
proof
  fix c
  assume c: "c \<in> {c. crash_read
     (apply_ops [OpCreate ''.s.tmp.0'', OpWrite ''.s.tmp.0'' ''ne'', OpRemove ''.s.tmp.0''] empty_fs) ''s'' c}"
  have "saveUnlocked ''s'' (tmp_path ''s'' ''0'') ''new'' (\<lambda>i. i = 1) ''ne'' =
      ([OpCreate ''.s.tmp.0'', OpWrite ''.s.tmp.0'' ''ne'', OpRemove ''.s.tmp.0''], Some ''encode temp'')"
    by (simp add: saveUnlocked_def tmp_path_def)
  from failed_save_keeps_state[OF empty_holds this, of c] c show "c \<in> {None}" by auto
qed

end
