(* ===== verification/Disk_Store.thy ===== *)
theory Disk_Store
  imports Disk_State
begin

text \<open>
  The store of \<open>pkg/diskstate\<close> on top of the save protocol: \<open>Load\<close>, \<open>Save\<close> and \<open>Update\<close> with the optional
  \<open>Validate\<close> hook, and the replacement of a file on Windows. JSON is a parameter: \<open>decode\<close> is the strict
  decoder, which returns a value and the rest of the stream, \<open>encode\<close> the encoder.
\<close>

section \<open>Loading\<close>

text \<open>The white space of JSON.\<close>

definition json_space :: "char \<Rightarrow> bool" where
  "json_space c \<longleftrightarrow> c = CHR '' '' \<or> c = CHR 0x09 \<or> c = CHR 0x0A \<or> c = CHR 0x0D"

definition ensureEOF :: "world \<Rightarrow> string \<Rightarrow> unit go" where
  "ensureEOF w rest =
     (if list_all json_space rest then Inr ()
      else case json_first w rest of
             Inl e \<Rightarrow> Inl e
           | Inr _ \<Rightarrow> Inl ''unexpected extra JSON value'')"

text \<open>A store: its path and its hook, which may change the value it is given.\<close>

record 'a store =
  st_path :: string
  st_validate :: "('a \<Rightarrow> 'a \<times> string option) option"

definition store_New :: "string \<Rightarrow> 'a store" where
  "store_New path = \<lparr>st_path = path, st_validate = None\<rparr>"

definition validated :: "'a store \<Rightarrow> string \<Rightarrow> 'a \<Rightarrow> 'a go" where
  "validated st what v =
     (case st_validate st of
        None \<Rightarrow> Inr v
      | Some f \<Rightarrow> (case f v of (v', None) \<Rightarrow> Inr v' | (_, Some e) \<Rightarrow> Inl (wrap_err what e)))"

text \<open>\<open>loadUnlocked\<close>; the error of opening the file is kept apart, because callers ask whether the file exists.\<close>

datatype load_error = OpenFailed string | BadState string

definition loadUnlocked ::
  "world \<Rightarrow> (string \<Rightarrow> ('a \<times> string) go) \<Rightarrow> 'a store \<Rightarrow> load_error + 'a" where
  "loadUnlocked w decode st =
     (case read_file w (st_path st) of
        Inl e \<Rightarrow> Inl (OpenFailed e)
      | Inr b \<Rightarrow>
     (case decode b of
        Inl e \<Rightarrow> Inl (BadState (wrap_err (''decode '' @ st_path st) e))
      | Inr (v, rest) \<Rightarrow>
     (case ensureEOF w rest of
        Inl e \<Rightarrow> Inl (BadState (wrap_err (''decode '' @ st_path st) e))
      | Inr _ \<Rightarrow>
     (case validated st (''validate '' @ st_path st) v of
        Inl e \<Rightarrow> Inl (BadState e)
      | Inr v' \<Rightarrow> Inr v'))))"

definition store_Load ::
  "world \<Rightarrow> (string \<Rightarrow> ('a \<times> string) go) \<Rightarrow> 'a store \<Rightarrow> load_error + 'a" where
  "store_Load = loadUnlocked"

section \<open>Saving\<close>

text \<open>
  How the calls of one save end: \<open>sv_fails i\<close> for the i-th call, what an encoder that fails had written, and the
  random part of the temporary name.
\<close>

record save_luck =
  sv_fails :: "nat \<Rightarrow> bool"
  sv_written :: string
  sv_suffix :: string

definition store_save ::
  "('a \<Rightarrow> string) \<Rightarrow> 'a store \<Rightarrow> save_luck \<Rightarrow> 'a \<Rightarrow> fs_op list \<times> string option" where
  "store_save encode st luck v =
     saveUnlocked (st_path st) (tmp_path (st_path st) (sv_suffix luck)) (encode v) (sv_fails luck) (sv_written luck)"

text \<open>The hook of \<open>Save\<close> works on a copy; what is saved is the value that was given.\<close>

definition store_Save ::
  "('a \<Rightarrow> string) \<Rightarrow> 'a store \<Rightarrow> save_luck \<Rightarrow> 'a \<Rightarrow> fs_op list \<times> string option" where
  "store_Save encode st luck v =
     (case validated st ''validate before save'' v of
        Inl e \<Rightarrow> ([], Some e)
      | Inr _ \<Rightarrow> store_save encode st luck v)"

text \<open>\<open>not_exist\<close> recognises the error of a missing file, \<open>zero\<close> is the zero value of the type. Only a failed open
  counts as a missing file. Go's \<open>errors.Is\<close> would also look into the wrapped error of the decoder or of
  the hook; errors of the decoder are never of that kind, and a hook that returned one is left out
  (the program sets no hook).\<close>

definition store_Update ::
  "world \<Rightarrow> (string \<Rightarrow> ('a \<times> string) go) \<Rightarrow> ('a \<Rightarrow> string) \<Rightarrow> (string \<Rightarrow> bool) \<Rightarrow> 'a \<Rightarrow> 'a store \<Rightarrow>
   save_luck \<Rightarrow> ('a \<Rightarrow> 'a \<times> string option) \<Rightarrow> fs_op list \<times> string option" where
  "store_Update w decode encode not_exist zero st luck fn =
     (case (case loadUnlocked w decode st of
              Inr cur \<Rightarrow> Inr cur
            | Inl (OpenFailed e) \<Rightarrow> if not_exist e then Inr zero else Inl e
            | Inl (BadState e) \<Rightarrow> Inl e) of
        Inl e \<Rightarrow> ([], Some e)
      | Inr cur \<Rightarrow>
     (case fn cur of
        (_, Some e) \<Rightarrow> ([], Some e)
      | (cur', None) \<Rightarrow>
     (case validated st ''validate before save'' cur' of
        Inl e \<Rightarrow> ([], Some e)
      | Inr cur'' \<Rightarrow> store_save encode st luck cur'')))"

section \<open>Windows\<close>

text \<open>The branch of \<open>saveUnlocked\<close> for Windows, where a rename does not replace a file.\<close>

definition bak_path :: "string \<Rightarrow> string \<Rightarrow> string" where
  "bak_path path pid =
     rev (dropWhile (\<lambda>c. c \<noteq> CHR ''/'') (rev path)) @ ''.'' @
     rev (takeWhile (\<lambda>c. c \<noteq> CHR ''/'') (rev path)) @ ''.bak.'' @ pid"

text \<open>
  \<open>replaceFileWindows\<close>: calls 4 and 5 are the two renames, 6 the attempt to restore, 7 the removal of the
  backup, 8 the directory sync. A first rename that fails although the file exists ends it.
\<close>

definition replaceFileWindows ::
  "string \<Rightarrow> string \<Rightarrow> string \<Rightarrow> bool \<Rightarrow> (nat \<Rightarrow> bool) \<Rightarrow> fs_op list \<times> string option" where
  "replaceFileWindows src dst bak dst_exists fails =
     (if dst_exists \<and> fails 4 then ([], Some ''rename old -> bak'')
      else
        (let aside = (if dst_exists then [OpRename dst bak] else []) in
         if fails 5
         then (aside @ (if fails 6 then [] else [OpRename bak dst]), Some ''rename new -> dst'')
         else
           (let moved = aside @ [OpRename src dst] @ (if fails 7 then [] else [OpRemove bak]) in
            if fails 8 then (moved, Some ''fsync dir'') else (moved @ [OpSyncDir], None))))"

definition saveUnlockedWindows ::
  "string \<Rightarrow> string \<Rightarrow> string \<Rightarrow> string \<Rightarrow> bool \<Rightarrow> (nat \<Rightarrow> bool) \<Rightarrow> string \<Rightarrow> fs_op list \<times> string option" where
  "saveUnlockedWindows path tmp bak data dst_exists fails written =
     (if fails 0 then ([], Some ''create temp'')
      else if fails 1 then ([OpCreate tmp, OpWrite tmp written, OpRemove tmp], Some ''encode temp'')
      else if fails 2 then ([OpCreate tmp, OpWrite tmp data, OpRemove tmp], Some ''fsync temp'')
      else if fails 3 then ([OpCreate tmp, OpWrite tmp data, OpSync tmp, OpRemove tmp], Some ''close temp'')
      else
        (case replaceFileWindows tmp path bak dst_exists fails of
           (ops, Some e) \<Rightarrow> ([OpCreate tmp, OpWrite tmp data, OpSync tmp] @ ops @ [OpRemove tmp], Some e)
         | (ops, None) \<Rightarrow>
             ([OpCreate tmp, OpWrite tmp data, OpSync tmp] @ ops @ (if fails 9 then [] else [OpSyncDir]),
              if fails 9 then Some ''fsync dir'' else None)))"

section \<open>What a reader finds\<close>

text \<open>The surroundings after a crash that left the given content of the file.\<close>

definition with_file :: "world \<Rightarrow> string \<Rightarrow> string option \<Rightarrow> world" where
  "with_file w path c =
     w\<lparr>read_file := (read_file w)(path := (case c of None \<Rightarrow> Inl ''no such file'' | Some s \<Rightarrow> Inr s))\<rparr>"

lemma load_encoded:
  assumes "decode (encode v) = Inr (v, [newline])"
  shows "store_Load (with_file w path (Some (encode v))) decode (store_New path) = Inr v"
  using assms
  by (simp add: store_Load_def loadUnlocked_def with_file_def store_New_def ensureEOF_def json_space_def
      newline_def validated_def)

text \<open>After a crash the file holds one of two encoded values.\<close>

lemma crash_finds_encoded:
  assumes "holds fs path S" "vs \<noteq> []"
    and "crash_read (apply_ops (take k (save_ops path sfx (encode v)))
           (fold (\<lambda>v. apply_ops (save_ops path sfx (encode v))) vs fs)) path c"
  shows "c \<in> {Some (encode (last vs)), Some (encode v)}"
proof -
  have "fold (\<lambda>v. apply_ops (save_ops path sfx (encode v))) vs fs =
      fold (\<lambda>d. apply_ops (save_ops path sfx d)) (map encode vs) fs"
    by (simp add: fold_map comp_def)
  then have "crash_read (apply_ops (take k (save_ops path sfx (encode v)))
      (fold (\<lambda>d. apply_ops (save_ops path sfx d)) (map encode vs) fs)) path c"
    using assms(3) by simp
  from state_file.crash_during_save[OF assms(1) _ this]
  have "c = Some (last (map encode vs)) \<or> c = Some (encode v)" using assms(2) by simp
  then show ?thesis using assms(2) by (auto simp: last_map)
qed

text \<open>After a crash at any point of a save, loading the state works and gives the value that was saved
  last or the one that was being saved, if the JSON decoder reads back what the encoder writes.\<close>

theorem load_after_crash:
  assumes "\<forall>v. decode (encode v) = Inr (v, [newline])" "holds fs path S" "vs \<noteq> []"
    and "crash_read (apply_ops (take k (save_ops path sfx (encode v)))
           (fold (\<lambda>v. apply_ops (save_ops path sfx (encode v))) vs fs)) path c"
  shows "store_Load (with_file w path c) decode (store_New path) \<in> {Inr (last vs), Inr v}"
  using crash_finds_encoded[OF assms(2-4)] load_encoded[of decode encode _ w path] assms(1) by auto

text \<open>Sample encoding of texts: the text and a newline.\<close>

definition text_decode :: "string \<Rightarrow> (string \<times> string) go" where
  "text_decode b = (if b = [] then Inl ''EOF'' else Inr (butlast b, [last b]))"

definition text_encode :: "string \<Rightarrow> string" where "text_encode v = v @ [newline]"

theorem load_after_crash_witness:
  "\<exists>c. crash_read (apply_ops (take 3 (save_ops ''s'' ''0'' (text_encode ''new'')))
         (fold (\<lambda>v. apply_ops (save_ops ''s'' ''0'' (text_encode v))) [''old''] empty_fs)) ''s'' c \<and>
     store_Load (with_file bare_world ''s'' c) text_decode (store_New ''s'') \<in> {Inr ''old'', Inr ''new''}"
proof -
  have c: "crash_read (apply_ops (take 3 (save_ops ''s'' ''0'' (text_encode ''new'')))
      (fold (\<lambda>v. apply_ops (save_ops ''s'' ''0'' (text_encode v))) [''old''] empty_fs)) ''s''
      (Some (text_encode ''old''))"
    by (simp add: crash_read_def save_ops_def saveUnlocked_def apply_ops_def empty_fs_def tmp_path_def
        push_dir_def cur_dir_def text_encode_def)
  have "\<forall>v. text_decode (text_encode v) = Inr (v, [newline])" by (simp add: text_decode_def text_encode_def)
  from load_after_crash[OF this empty_holds _ c, of bare_world] c show ?thesis by auto
qed

section \<open>Updates\<close>

text \<open>C34. An update is all or nothing: if it reports an error, then either nothing was written to the file, whatever failed
  (opening, decoding, the function, the hook, or a step of the save), or only the final directory sync has failed.
  If it reports none, the file then holds the function's value for the state that was loaded (the
  zero value if there was no file), as the hook left it, and keeps it over a crash.\<close>

theorem update_all_or_nothing:
  assumes "holds fs (st_path st) S"
    and "store_Update w decode encode not_exist zero st luck fn = (ops, err)"
    and "crash_read (apply_ops ops fs) (st_path st) c"
  shows "case err of
      Some e \<Rightarrow> c \<in> S \<or> e = ''fsync dir''
    | None \<Rightarrow> \<exists>cur new.
        (loadUnlocked w decode st = Inr cur \<or>
         (\<exists>e. loadUnlocked w decode st = Inl (OpenFailed e) \<and> not_exist e) \<and> cur = zero) \<and>
        snd (fn cur) = None \<and> validated st ''validate before save'' (fst (fn cur)) = Inr new \<and>
        c = Some (encode new)"
proof -
  have kept: "c \<in> S" if "ops = []"
    using assms(1,3) that by (auto simp: apply_ops_def intro: holds_crash)
  have saved: "case err of Some e \<Rightarrow> c \<in> S \<or> e = ''fsync dir'' | None \<Rightarrow> c = Some (encode v)"
    if "store_save encode st luck v = (ops, err)" for v
  proof -
    note s = save_states[OF assms(1) tmp_path_other that[unfolded store_save_def]]
    show ?thesis
    proof (cases err)
      case None
      then have "holds (apply_ops ops fs) (st_path st) {Some (encode v)}" using s(2) by simp
      then show ?thesis using None holds_crash assms(3) by fastforce
    next
      case (Some e)
      then show ?thesis using s(3) holds_crash assms(3) by fastforce
    qed
  qed
  define loaded where "loaded = (case loadUnlocked w decode st of
              Inr cur \<Rightarrow> Inr cur
            | Inl (OpenFailed e) \<Rightarrow> if not_exist e then Inr zero else Inl e
            | Inl (BadState e) \<Rightarrow> Inl e)"
  have upd: "store_Update w decode encode not_exist zero st luck fn =
      (case loaded of Inl e \<Rightarrow> ([], Some e)
       | Inr cur \<Rightarrow> (case fn cur of (_, Some e) \<Rightarrow> ([], Some e)
         | (cur', None) \<Rightarrow> (case validated st ''validate before save'' cur' of
             Inl e \<Rightarrow> ([], Some e) | Inr cur'' \<Rightarrow> store_save encode st luck cur'')))"
    by (simp add: store_Update_def loaded_def)
  have cur: "loadUnlocked w decode st = Inr cur \<or>
      (\<exists>e. loadUnlocked w decode st = Inl (OpenFailed e) \<and> not_exist e) \<and> cur = zero" if "loaded = Inr cur" for cur
    using that by (auto simp: loaded_def split: sum.splits load_error.splits if_splits)
  show ?thesis
  proof (cases err)
    case None
    then obtain cur cur' new where r: "loaded = Inr cur" "fn cur = (cur', None)"
      "validated st ''validate before save'' cur' = Inr new" "store_save encode st luck new = (ops, err)"
      using assms(2) upd by (auto split: sum.splits prod.splits option.splits)
    then show ?thesis using saved[OF r(4)] cur[OF r(1)] None by fastforce
  next
    case (Some e)
    then consider "ops = []" | v where "store_save encode st luck v = (ops, err)"
      using assms(2) upd by (auto split: sum.splits prod.splits option.splits)
    then show ?thesis
    proof cases
      case 1
      have "c \<in> S" by (rule kept[OF 1])
      then show ?thesis using Some by simp
    next
      case 2
      then show ?thesis using saved[OF 2] Some by simp
    qed
  qed
qed

theorem update_all_or_nothing_witness:
  "{c. crash_read (apply_ops (fst (store_Update bare_world text_decode text_encode (\<lambda>e. e = ''no such file'') ''0''
        (store_New ''s'') \<lparr>sv_fails = \<lambda>_. False, sv_written = [], sv_suffix = ''7''\<rparr> (\<lambda>v. (v @ ''1'', None))))
      empty_fs) ''s'' c} \<subseteq> {Some (text_encode ''01'')}"
proof
  let ?luck = "\<lparr>sv_fails = \<lambda>_. False, sv_written = [], sv_suffix = ''7''\<rparr>"
  let ?u = "store_Update bare_world text_decode text_encode (\<lambda>e. e = ''no such file'') ''0''
      (store_New ''s'') ?luck (\<lambda>v. (v @ ''1'', None))"
  fix c assume "c \<in> {c. crash_read (apply_ops (fst ?u) empty_fs) ''s'' c}"
  then have c: "crash_read (apply_ops (fst ?u) empty_fs) (st_path (store_New ''s'' :: string store)) c"
    by (simp add: store_New_def)
  have l: "loadUnlocked bare_world text_decode (store_New ''s'') = Inl (OpenFailed ''no such file'')"
    by (simp add: loadUnlocked_def bare_world_def)
  have e: "snd ?u = None"
    unfolding store_Update_def l
    by (simp add: validated_def store_New_def store_save_def saveUnlocked_def)
  have "?u = (fst ?u, snd ?u)" by simp
  from update_all_or_nothing[OF empty_holds this c] e
  show "c \<in> {Some (text_encode ''01'')}" by (auto simp: l[unfolded store_New_def] validated_def store_New_def)
qed

section \<open>Crash safety on Windows\<close>

text \<open>What a crash leaves of two names, in the same version of the directory.\<close>

definition reads_in :: "fs \<Rightarrow> (string \<rightharpoonup> nat) \<Rightarrow> string \<Rightarrow> string option \<Rightarrow> bool" where
  "reads_in fs d n c =
     (case d n of None \<Rightarrow> c = None | Some i \<Rightarrow> \<exists>s. c = Some s \<and> (fs_synced fs i \<longrightarrow> s = fs_data fs i))"

definition crash_reads :: "fs \<Rightarrow> string \<Rightarrow> string \<Rightarrow> string option \<Rightarrow> string option \<Rightarrow> bool" where
  "crash_reads fs n m c b \<longleftrightarrow> (\<exists>d \<in> set (fs_dirs fs). reads_in fs d n c \<and> reads_in fs d m b)"

definition file_or_backup ::
  "fs \<Rightarrow> string \<Rightarrow> string \<Rightarrow> string \<Rightarrow> string \<Rightarrow> (string \<rightharpoonup> nat) \<Rightarrow> bool" where
  "file_or_backup fs n bak old new d \<longleftrightarrow>
     (\<exists>i. d n = Some i \<and> fs_synced fs i \<and> fs_data fs i \<in> {old, new}) \<or>
     d n = None \<and> (\<exists>i. d bak = Some i \<and> fs_synced fs i \<and> fs_data fs i = old)"

definition recoverable :: "fs \<Rightarrow> string \<Rightarrow> string \<Rightarrow> string \<Rightarrow> string \<Rightarrow> bool" where
  "recoverable fs n bak old new \<longleftrightarrow> (\<forall>d \<in> set (fs_dirs fs). file_or_backup fs n bak old new d)"

lemma recoverable_crash:
  "recoverable fs n bak old new \<Longrightarrow> crash_reads fs n bak c b \<Longrightarrow>
   c \<in> {Some old, Some new} \<or> c = None \<and> b = Some old"
  by (fastforce simp: recoverable_def file_or_backup_def crash_reads_def reads_in_def split: option.splits)

lemma recoverable_push:
  "recoverable fs n bak old new \<Longrightarrow> file_or_backup fs n bak old new d \<Longrightarrow> recoverable (push_dir d fs) n bak old new"
  by (simp add: recoverable_def file_or_backup_def push_dir_def)

lemma recoverable_sync:
  "recoverable fs n bak old new \<Longrightarrow> fs_dirs fs \<noteq> [] \<Longrightarrow> recoverable (apply_op OpSyncDir fs) n bak old new"
  using cur_dir_in[of fs] by (auto simp: recoverable_def file_or_backup_def)

lemma holds_recoverable: "holds fs n {Some old} \<Longrightarrow> recoverable fs n bak old new"
  by (fastforce simp: holds_def good_dir_def recoverable_def file_or_backup_def)

lemma recoverable_remove:
  assumes "recoverable fs n bak old new" "fs_dirs fs \<noteq> []" "tmp \<noteq> n" "tmp \<noteq> bak"
  shows "recoverable (apply_op (OpRemove tmp) fs) n bak old new"
  using assms cur_dir_in[of fs] unfolding apply_op.simps
  by (intro recoverable_push) (auto simp: recoverable_def file_or_backup_def)

text \<open>A property of every state that a list of operations goes through.\<close>

fun throughout :: "(fs \<Rightarrow> bool) \<Rightarrow> fs_op list \<Rightarrow> fs \<Rightarrow> bool" where
  "throughout P [] f \<longleftrightarrow> P f"
| "throughout P (o1 # os) f \<longleftrightarrow> P f \<and> throughout P os (apply_op o1 f)"

lemma throughout_take: "throughout P ops f \<Longrightarrow> P (apply_ops (take k ops) f)"
proof (induction ops arbitrary: f k)
  case (Cons o1 os)
  then show ?case by (cases k) (simp_all add: apply_ops_def)
qed (simp add: apply_ops_def)

text \<open>The operations after the temporary file is complete, one by one.\<close>

lemma windows_replace_states:
  assumes f: "holds f path {Some old}" "cur_dir f tmp = Some i" "fs_synced f i" "fs_data f i = new"
    and n: "tmp \<noteq> path" "bak \<noteq> path" "bak \<noteq> tmp"
    and ops: "replaceFileWindows tmp path bak True fails = (ops, err)"
  shows "throughout (\<lambda>g. recoverable g path bak old new \<and> fs_dirs g \<noteq> []) (ops @ [OpRemove tmp]) f"
    "throughout (\<lambda>g. recoverable g path bak old new \<and> fs_dirs g \<noteq> []) (ops @ [OpSyncDir]) f"
    "throughout (\<lambda>g. recoverable g path bak old new \<and> fs_dirs g \<noteq> []) ops f"
proof -
  let ?R = "\<lambda>g. recoverable g path bak old new \<and> fs_dirs g \<noteq> []"
  have ne: "fs_dirs f \<noteq> []" using f(1) by (simp add: holds_def)
  obtain j where j: "cur_dir f path = Some j" "fs_synced f j" "fs_data f j = old"
    using good_cur[OF f(1)] by (auto simp: good_dir_def)
  let ?d1 = "(cur_dir f)(path := None, bak \<mapsto> j)"
  let ?d2 = "?d1(bak := None, path \<mapsto> j)"
  let ?d3 = "?d1(tmp := None, path \<mapsto> i)"
  let ?d4 = "?d3(bak := None)"
  have r0: "?R f" using holds_recoverable[OF f(1)] ne by simp
  have fb: "file_or_backup f path bak old new d" if "d \<in> {?d1, ?d2, ?d3, ?d4}" for d
    using that j f(3,4) n by (auto simp: file_or_backup_def)
  have o: "apply_op (OpRename path bak) f = push_dir ?d1 f"
    "apply_op (OpRename bak path) (push_dir ?d1 f) = push_dir ?d2 (push_dir ?d1 f)"
    "apply_op (OpRename tmp path) (push_dir ?d1 f) = push_dir ?d3 (push_dir ?d1 f)"
    "apply_op (OpRemove bak) (push_dir ?d3 (push_dir ?d1 f)) = push_dir ?d4 (push_dir ?d3 (push_dir ?d1 f))"
    using j f(2) n by (auto simp: fun_upd_twist)
  have push: "?R (push_dir d g)" if "?R g" "d \<in> {?d1, ?d2, ?d3, ?d4}" "fs_data g = fs_data f" "fs_synced g = fs_synced f" for d g
    using that recoverable_push[of g path bak old new d] fb[OF that(2)] by (simp add: file_or_backup_def)
  have same: "fs_data (push_dir d g) = fs_data g" "fs_synced (push_dir d g) = fs_synced g" for d g
    by (simp_all add: push_dir_def)
  have r1: "?R (push_dir ?d1 f)" by (rule push[OF r0]) (simp_all add: same)
  have r2: "?R (push_dir ?d2 (push_dir ?d1 f))" by (rule push[OF r1]) (simp_all add: same)
  have r3: "?R (push_dir ?d3 (push_dir ?d1 f))" by (rule push[OF r1]) (simp_all add: same)
  have r4: "?R (push_dir ?d4 (push_dir ?d3 (push_dir ?d1 f)))" by (rule push[OF r3]) (simp_all add: same)
  have rm: "?R (apply_op (OpRemove tmp) g)" if "?R g" for g
    using recoverable_remove[of g path bak old new tmp] that n by (simp add: push_dir_def)
  have sy: "?R (apply_op OpSyncDir g)" if "?R g" for g using recoverable_sync that by simp
  note base = r0 r1 r2 r3 r4
  note all = base base[THEN rm] base[THEN sy] base[THEN sy, THEN rm] base[THEN sy, THEN sy]
  consider "ops = []" | "ops = [OpRename path bak]" | "ops = [OpRename path bak, OpRename bak path]"
    | "ops = [OpRename path bak, OpRename tmp path]"
    | "ops = [OpRename path bak, OpRename tmp path, OpSyncDir]"
    | "ops = [OpRename path bak, OpRename tmp path, OpRemove bak]"
    | "ops = [OpRename path bak, OpRename tmp path, OpRemove bak, OpSyncDir]"
    using ops by (auto simp: replaceFileWindows_def Let_def split: if_splits)
  then show "throughout ?R (ops @ [OpRemove tmp]) f" "throughout ?R (ops @ [OpSyncDir]) f" "throughout ?R ops f"
    by (cases; simp only: throughout.simps append.simps o all simp_thms)+
qed

lemma holds_throughout: "holds f n {Some old} \<Longrightarrow> recoverable f n bak old new \<and> fs_dirs f \<noteq> []"
  using holds_recoverable by (simp add: holds_def)

lemma throughout_append:
  "throughout P (xs @ ys) f \<longleftrightarrow> throughout P xs f \<and> throughout P ys (apply_ops xs f)"
proof (induction xs arbitrary: f)
  case Nil
  then show ?case by (cases ys) (auto simp: apply_ops_def)
qed (simp add: apply_ops_def)

lemma windows_save_states:
  assumes "holds fs path {Some old}" "tmp \<noteq> path" "bak \<noteq> path" "bak \<noteq> tmp"
    and "saveUnlockedWindows path tmp bak new True fails written = (ops, err)"
  shows "throughout (\<lambda>g. recoverable g path bak old new \<and> fs_dirs g \<noteq> []) ops fs"
proof -
  let ?P = "\<lambda>g. recoverable g path bak old new \<and> fs_dirs g \<noteq> []"
  let ?f1 = "apply_op (OpCreate tmp) fs"
  define i where "i = fs_next fs"
  have s1: "staged ?f1 path tmp {Some old} i" unfolding i_def by (rule staged_create[OF assms(1,2)])
  have e1: "fs_data ?f1 i = []" by (simp add: i_def push_dir_def)
  have sw: "staged (apply_op (OpWrite tmp x) ?f1) path tmp {Some old} i"
    "fs_data (apply_op (OpWrite tmp x) ?f1) i = x" for x
    using staged_write[OF s1, of x] e1 by simp_all
  let ?f3 = "apply_op (OpSync tmp) (apply_op (OpWrite tmp new) ?f1)"
  have s3: "staged ?f3 path tmp {Some old} i" "fs_synced ?f3 i" "fs_data ?f3 i = new"
    using staged_sync[OF sw(1)[of new]] sw(2) by simp_all
  have H: "?P g" if "staged g path tmp {Some old} j" for g j
    using that holds_throughout[of g path old bak new] by (simp add: staged_def)
  have R: "?P (apply_op (OpRemove tmp) g)" if "staged g path tmp {Some old} j" for g j
    using that holds_throughout[OF holds_remove[OF _ assms(2)]] by (simp add: staged_def)
  note base = holds_throughout[OF assms(1)] H[OF s1] H[OF sw(1)] H[OF s3(1)] R[OF sw(1)] R[OF s3(1)]
  have f3: "holds ?f3 path {Some old}" "cur_dir ?f3 tmp = Some i" using s3(1) by (simp_all add: staged_def)
  obtain rops rerr where r: "replaceFileWindows tmp path bak True fails = (rops, rerr)" by fastforce
  note w = windows_replace_states[OF f3 s3(2,3) assms(2-4) r]
  consider "ops = []" | x where "ops = [OpCreate tmp, OpWrite tmp x, OpRemove tmp]"
    | "ops = [OpCreate tmp, OpWrite tmp new, OpSync tmp, OpRemove tmp]"
    | tl where "ops = [OpCreate tmp, OpWrite tmp new, OpSync tmp] @ rops @ tl"
        "tl \<in> {[], [OpRemove tmp], [OpSyncDir]}"
    using assms(5) r
    by (auto simp: saveUnlockedWindows_def split: if_splits option.splits)
  then show ?thesis
  proof cases
    case 4
    then have "throughout ?P (rops @ tl) ?f3" using w by auto
    then show ?thesis unfolding 4(1) using base by (simp only: append.simps throughout.simps simp_thms)
  qed (simp_all only: throughout.simps base simp_thms)
qed

text \<open>On Windows, where a rename does not replace a file, a crash at any point of a save, failed or not,
  leaves the state file complete with the old or the new state, or, at worst, no state file and a
  complete backup with the old state.\<close>

theorem windows_save_keeps_backup:
  assumes "holds fs path {Some old}" "tmp \<noteq> path" "bak \<noteq> path" "bak \<noteq> tmp"
    and "saveUnlockedWindows path tmp bak new True fails written = (ops, err)"
    and "crash_reads (apply_ops (take k ops) fs) path bak c b"
  shows "c \<in> {Some old, Some new} \<or> c = None \<and> b = Some old"
  using recoverable_crash[OF conjunct1[OF throughout_take[OF windows_save_states[OF assms(1-5)]]] assms(6)] .

theorem windows_save_keeps_backup_witness:
  "\<exists>c b. crash_reads (apply_ops (take 4 (fst (saveUnlockedWindows ''s'' ''t'' ''b'' ''new'' True (\<lambda>_. False) [])))
       (apply_ops (save_ops ''s'' ''0'' ''old'') empty_fs)) ''s'' ''b'' c b \<and>
     (c \<in> {Some ''old'', Some ''new''} \<or> c = None \<and> b = Some ''old'')"
proof -
  let ?ops = "[OpCreate ''t'', OpWrite ''t'' ''new'', OpSync ''t'', OpRename ''s'' ''b'', OpRename ''t'' ''s'',
      OpRemove ''b'', OpSyncDir, OpSyncDir]"
  have s: "saveUnlockedWindows ''s'' ''t'' ''b'' ''new'' True (\<lambda>_. False) [] = (?ops, None)"
    by (simp add: saveUnlockedWindows_def replaceFileWindows_def Let_def)
  have h: "holds (apply_ops (save_ops ''s'' ''0'' ''old'') empty_fs) ''s'' {Some ''old''}"
    by (rule state_file.completed[OF empty_holds])
  have c: "crash_reads (apply_ops (take 4 ?ops) (apply_ops (save_ops ''s'' ''0'' ''old'') empty_fs)) ''s'' ''b''
      None (Some ''old'')"
    by (simp add: crash_reads_def reads_in_def save_ops_def saveUnlocked_def apply_ops_def empty_fs_def
        tmp_path_def push_dir_def cur_dir_def)
  have "''t'' \<noteq> ''s''" "''b'' \<noteq> ''s''" "''b'' \<noteq> ''t''" by simp_all
  from windows_save_keeps_backup[OF h this s c] c s show ?thesis by auto
qed

end
