(* ===== verification/Exec_Log.thy ===== *)
theory Exec_Log
  imports Go_World
begin

text \<open>
  Running commands and logging: \<open>internal/execcli\<close>, \<open>internal/loglite\<close> and the log level of
  \<open>cmd/api-server\<close>. A process is what it writes, in the chunks that are read from its two pipes, and how it ends; the
  time stamp and the caller's position of a log line are arguments. The lemmas show that the log of
  a process does not depend on the chunks, and that a log can be taken apart into its records again.
\<close>

section \<open>Log levels\<close>

datatype log_level = Debug | Info | Warn | Error | Off

fun level_num :: "log_level \<Rightarrow> nat" where
  "level_num Debug = 0"
| "level_num Info = 1"
| "level_num Warn = 2"
| "level_num Error = 3"
| "level_num Off = 4"

lemma level_num_inj: "level_num a = level_num b \<Longrightarrow> a = b"
  by (cases a; cases b) simp_all

instantiation log_level :: linorder
begin

definition less_eq_log_level :: "log_level \<Rightarrow> log_level \<Rightarrow> bool" where
  "a \<le> b \<longleftrightarrow> level_num a \<le> level_num b"

definition less_log_level :: "log_level \<Rightarrow> log_level \<Rightarrow> bool" where
  "a < b \<longleftrightarrow> level_num a < level_num b"

instance
  by standard (auto simp: less_eq_log_level_def less_log_level_def intro: level_num_inj)

end

fun level_text :: "log_level \<Rightarrow> string" where
  "level_text Debug = ''DEBUG''"
| "level_text Info = ''INFO''"
| "level_text Warn = ''WARN''"
| "level_text Error = ''ERROR''"
| "level_text Off = ''OFF''"

text \<open>A logger is its name and its minimal level.\<close>

record logger =
  lg_name :: string
  lg_min :: log_level

text \<open>\<open>New\<close> and \<open>SetLevel\<close>; the writer and the clock are outside.\<close>

definition logger_New :: "string \<Rightarrow> log_level \<Rightarrow> logger" where
  "logger_New name level = \<lparr>lg_name = name, lg_min = level\<rparr>"

definition SetLevel :: "log_level \<Rightarrow> logger \<Rightarrow> logger" where
  "SetLevel level lg = lg\<lparr>lg_min := level\<rparr>"

definition Enabled :: "logger \<Rightarrow> log_level \<Rightarrow> bool" where
  "Enabled lg level \<longleftrightarrow> lg_min lg \<le> level \<and> lg_min lg \<noteq> Off"

text \<open>\<open>parseLogLevel\<close>; letters are lowered as in ASCII.\<close>

definition parseLogLevel :: "string \<Rightarrow> log_level \<times> string option" where
  "parseLogLevel s =
     (let t = to_lower (trim_space s) in
      if t = ''debug'' then (Debug, None)
      else if t = ''info'' then (Info, None)
      else if t = ''warn'' then (Warn, None)
      else if t = ''error'' then (Error, None)
      else if t = ''off'' then (Off, None)
      else (Info, Some ''expected one of debug|info|warn|error|off''))"

section \<open>Log lines\<close>

text \<open>\<open>strings.TrimRight(msg, newline)\<close>, and \<open>%-ns\<close> of an ASCII text.\<close>

definition trim_newlines :: "string \<Rightarrow> string" where
  "trim_newlines s = rev (dropWhile (\<lambda>c. c = newline) (rev s))"

definition pad_right :: "nat \<Rightarrow> string \<Rightarrow> string" where
  "pad_right n s = s @ replicate (n - length s) CHR '' ''"

definition indentMultiline :: "string \<Rightarrow> string \<Rightarrow> string" where
  "indentMultiline s indent =
     (case split_on newline s of
        [] \<Rightarrow> []
      | l # ls \<Rightarrow> join_with [newline] (l # map (\<lambda>x. indent @ x) ls))"

definition log_header :: "logger \<Rightarrow> string \<Rightarrow> string \<Rightarrow> log_level \<Rightarrow> string" where
  "log_header lg ts pos level =
     ts @ '' '' @ pad_right 5 (level_text level) @ '' '' @ pad_right 12 (lg_name lg) @ '' '' @ pos @ '' ''"

definition indent4 :: string where "indent4 = ''    ''"

text \<open>\<open>output\<close>: what is written for one message; \<open>log.Print\<close> ends it with a newline.\<close>

definition log_output :: "logger \<Rightarrow> string \<Rightarrow> string \<Rightarrow> log_level \<Rightarrow> string \<Rightarrow> string" where
  "log_output lg ts pos level msg =
     (let m = trim_newlines msg;
          m' = (if newline \<in> set m then indentMultiline m indent4 else m)
      in log_header lg ts pos level @ m' @ [newline])"

definition log_print :: "logger \<Rightarrow> string \<Rightarrow> string \<Rightarrow> log_level \<Rightarrow> string \<Rightarrow> string" where
  "log_print lg ts pos level msg = (if Enabled lg level then log_output lg ts pos level msg else [])"

text \<open>After a change of the level the messages of this level and above are written as by a new logger, none at \<open>Off\<close>.\<close>

lemma set_level_is_new: "log_print (SetLevel level lg) ts pos l msg = log_print (logger_New (lg_name lg) level) ts pos l msg"
  by (simp add: log_print_def Enabled_def log_output_def log_header_def SetLevel_def logger_New_def)

lemma level_off_is_silent: "log_print (SetLevel Off lg) ts pos l msg = []"
  by (simp add: log_print_def Enabled_def SetLevel_def)

section \<open>The log of a running command\<close>

definition scanLinesWithTrailingFragment :: "string \<Rightarrow> bool \<Rightarrow> nat \<times> string option" where
  "scanLinesWithTrailingFragment data atEOF =
     (if atEOF \<and> data = [] then (0, None)
      else if newline \<in> set data then
        (let i = length (takeWhile (\<lambda>c. c \<noteq> newline) data) in (i + 1, Some (take (i + 1) data)))
      else if atEOF then (length data, Some data)
      else (0, None))"

text \<open>
  The tokens that \<open>bufio.Scanner\<close> delivers for a chunk; a chunk of \<open>io.Copy\<close> has at most 32 KiB and so
  no token is longer than the scanner allows.
\<close>

function scan_tokens :: "string \<Rightarrow> string list" where
  "scan_tokens data =
     (case scanLinesWithTrailingFragment data True of
        (advance, Some token) \<Rightarrow> if advance = 0 then [] else token # scan_tokens (drop advance data)
      | (_, None) \<Rightarrow> [])"
  by auto
termination
  by (relation "measure length")
    (auto simp: scanLinesWithTrailingFragment_def Let_def split: if_splits)

text \<open>\<open>flushLocked\<close> and \<open>Write\<close>: the buffer, and the messages given to the logger.\<close>

definition flushLocked :: "string \<Rightarrow> string \<times> string list" where
  "flushLocked buf = (if buf = [] then ([], []) else ([], [buf]))"

fun write_part :: "string \<times> string list \<Rightarrow> string \<Rightarrow> string \<times> string list" where
  "write_part (buf, msgs) part =
     (if has_suffix part [newline]
      then (let (buf', ms) = flushLocked (buf @ trim_suffix part [newline]) in (buf', msgs @ ms))
      else (buf @ part, msgs))"

definition log_Write :: "string \<Rightarrow> string \<Rightarrow> string \<times> string list" where
  "log_Write chunk buf = foldl write_part (buf, []) (scan_tokens chunk)"

text \<open>The goroutine of one pipe: all chunks in order, then \<open>flushLogWriter\<close>.\<close>

fun copy_chunks :: "string list \<Rightarrow> string \<Rightarrow> string list" where
  "copy_chunks [] buf = snd (flushLocked buf)"
| "copy_chunks (c # cs) buf = (let (buf', ms) = log_Write c buf in ms @ copy_chunks cs buf')"

definition stream_log :: "string \<Rightarrow> string \<Rightarrow> string list \<Rightarrow> string list" where
  "stream_log cmd stream chunks = map (\<lambda>m. cmd @ '' '' @ stream @ '': '' @ m) (copy_chunks chunks [])"

section \<open>Running a command\<close>

record process =
  pr_stdout_pipe_err :: "string option"
  pr_stderr_pipe_err :: "string option"
  pr_start_err :: "string option"
  pr_stdout :: "string list"
  pr_stderr :: "string list"
  pr_timed_out :: bool
  pr_wait_err :: "string option"
  pr_state :: "int option"

definition failed_start :: "string \<Rightarrow> string \<Rightarrow> cmd_result" where
  "failed_start what e = \<lparr>cr_stdout = [], cr_stderr = [], cr_exit = -1, cr_err = Some (wrap_err what e)\<rparr>"

text \<open>The result, and the messages logged from the two streams, which are read concurrently.\<close>

definition RunCommandWithLogger ::
  "string \<Rightarrow> string \<Rightarrow> bool \<Rightarrow> process \<Rightarrow> cmd_result \<times> string list \<times> string list" where
  "RunCommandWithLogger cmd timeout logged pr =
     (case pr_stdout_pipe_err pr of
        Some e \<Rightarrow> (failed_start ''stdout pipe'' e, [], [])
      | None \<Rightarrow>
     (case pr_stderr_pipe_err pr of
        Some e \<Rightarrow> (failed_start ''stderr pipe'' e, [], [])
      | None \<Rightarrow>
     (case pr_start_err pr of
        Some e \<Rightarrow> (failed_start ''start command'' e, [], [])
      | None \<Rightarrow>
          (\<lparr>cr_stdout = concat (pr_stdout pr), cr_stderr = concat (pr_stderr pr),
            cr_exit = (case pr_state pr of Some c \<Rightarrow> c | None \<Rightarrow> -1),
            cr_err =
              (if pr_timed_out pr
               then Some (''timeout after '' @ timeout @ '': '' @
                     (case pr_wait_err pr of Some e \<Rightarrow> e | None \<Rightarrow> ''%!w(<nil>)''))
               else map_option (wrap_err ''command failed'') (pr_wait_err pr))\<rparr>,
           (if logged then stream_log cmd ''stdout'' (pr_stdout pr) else []),
           (if logged then stream_log cmd ''stderr'' (pr_stderr pr) else [])))))"

definition RunCommand :: "string \<Rightarrow> string \<Rightarrow> process \<Rightarrow> cmd_result" where
  "RunCommand cmd timeout pr = fst (RunCommandWithLogger cmd timeout False pr)"

section \<open>The log does not depend on the chunks\<close>

lemma scan_tokens_Nil [simp]: "scan_tokens [] = []"
  by (simp add: scanLinesWithTrailingFragment_def)

lemma scan_tokens_line: "newline \<notin> set a \<Longrightarrow> scan_tokens (a @ newline # b) = (a @ [newline]) # scan_tokens b"
proof -
  assume a: "newline \<notin> set a"
  have "takeWhile (\<lambda>c. c \<noteq> newline) (a @ newline # b) = a"
    using a by (subst takeWhile_append2) auto
  then show ?thesis
    by (subst scan_tokens.simps) (simp add: scanLinesWithTrailingFragment_def Let_def del: scan_tokens.simps)
qed

lemma scan_tokens_rest: "newline \<notin> set a \<Longrightarrow> a \<noteq> [] \<Longrightarrow> scan_tokens a = [a]"
  by (subst scan_tokens.simps) (simp add: scanLinesWithTrailingFragment_def del: scan_tokens.simps)

declare scan_tokens.simps [simp del]

lemma has_suffix_newline [simp]: "has_suffix (a @ [newline]) [newline]" "newline \<notin> set a \<Longrightarrow> \<not> has_suffix a [newline]"
  by (auto simp: has_suffix_iff)

text \<open>The messages in a text, begun with a buffer: its lines without the empty ones.\<close>

definition text_messages :: "string \<Rightarrow> string list" where
  "text_messages s = filter (\<lambda>l. l \<noteq> []) (split_on newline s)"

lemma split_first_line:
  "(newline \<notin> set s) \<or> (\<exists>a b. s = a @ newline # b \<and> newline \<notin> set a)"
  by (metis split_list_first)

lemma messages_line: "newline \<notin> set a \<Longrightarrow> text_messages (a @ newline # b) = (if a = [] then [] else [a]) @ text_messages b"
  by (simp add: text_messages_def split_on_append_sep)

lemma messages_rest: "newline \<notin> set a \<Longrightarrow> text_messages a = (if a = [] then [] else [a])"
  by (simp add: text_messages_def split_on_no_sep)

lemma foldl_write_msgs: "foldl write_part (buf, msgs) ps =
    (fst (foldl write_part (buf, []) ps), msgs @ snd (foldl write_part (buf, []) ps))"
proof (induction ps arbitrary: buf msgs)
  case (Cons p ps)
  obtain b m where w: "write_part (buf, []) p = (b, m)" by fastforce
  then have "write_part (buf, msgs) p = (b, msgs @ m)" by (auto simp: flushLocked_def Let_def split: if_splits)
  then show ?case using w Cons[of b "msgs @ m"] Cons[of b m] by simp
qed simp

text \<open>One chunk: the buffer stays free of newlines, and the text of buffer and rest has the same messages.\<close>

lemma log_Write_line:
  assumes "newline \<notin> set a"
  shows "log_Write (a @ newline # b) buf =
    (fst (log_Write b []), (if buf @ a = [] then [] else [buf @ a]) @ snd (log_Write b []))"
proof -
  have "write_part (buf, []) (a @ [newline]) = ([], if buf @ a = [] then [] else [buf @ a])"
    by (simp add: flushLocked_def)
  then have "log_Write (a @ newline # b) buf =
      foldl write_part ([], if buf @ a = [] then [] else [buf @ a]) (scan_tokens b)"
    by (simp only: log_Write_def scan_tokens_line[OF assms] foldl_Cons)
  then show ?thesis
    using foldl_write_msgs[of "[]" "if buf @ a = [] then [] else [buf @ a]" "scan_tokens b"]
    by (simp only: log_Write_def)
qed

lemma log_Write_messages:
  assumes "newline \<notin> set buf" "log_Write c buf = (buf', ms)"
  shows "newline \<notin> set buf' \<and> text_messages (buf @ c @ rest) = ms @ text_messages (buf' @ rest)"
  using assms
proof (induction "length c" arbitrary: c buf buf' ms rule: less_induct)
  case less
  consider "newline \<notin> set c" | a b where "c = a @ newline # b" "newline \<notin> set a"
    using split_first_line by metis
  then show ?case
  proof cases
    case 1
    then have "log_Write c buf = (buf @ c, [])"
      by (cases "c = []") (simp_all add: log_Write_def scan_tokens_rest)
    then show ?thesis using less.prems 1 by simp
  next
    case 2
    obtain bf m where w: "log_Write b [] = (bf, m)" by fastforce
    have len: "length b < length c" using 2 by simp
    have "newline \<notin> set ([] :: string)" by simp
    from less.hyps[OF len this w]
    have ih: "newline \<notin> set bf" "text_messages (b @ rest) = m @ text_messages (bf @ rest)"
      by auto
    have r: "buf' = bf" "ms = (if buf @ a = [] then [] else [buf @ a]) @ m"
      using less.prems(2) log_Write_line[OF 2(2), of b buf] w 2(1) by auto
    have "newline \<notin> set (buf @ a)" using less.prems(1) 2(2) by simp
    from messages_line[OF this, of "b @ rest"] show ?thesis using ih r 2(1) by simp
  qed
qed

lemma copy_chunks_messages: "newline \<notin> set buf \<Longrightarrow> copy_chunks cs buf = text_messages (buf @ concat cs)"
proof (induction cs arbitrary: buf)
  case Nil
  then show ?case by (simp add: flushLocked_def messages_rest)
next
  case (Cons c cs)
  obtain buf' ms where w: "log_Write c buf = (buf', ms)" by fastforce
  from log_Write_messages[OF Cons.prems w, of "concat cs"] Cons.IH[of buf'] w show ?case by simp
qed

text \<open>C33. However the output of a command is cut into chunks, its log is the same: one message for every line
  that is not empty, in order, the last one also without a newline; nothing is lost or joined.\<close>

theorem log_independent_of_chunks:
  "stream_log cmd stream chunks =
     map (\<lambda>l. cmd @ '' '' @ stream @ '': '' @ l) (filter (\<lambda>l. l \<noteq> []) (split_on newline (concat chunks)))"
  using copy_chunks_messages[of "[]" chunks] by (simp add: stream_log_def text_messages_def)

section \<open>Taking a log apart\<close>

text \<open>A line that begins with the indentation continues the record before it.\<close>

fun group_lines :: "string list \<Rightarrow> string list list" where
  "group_lines [] = []"
| "group_lines (l # ls) =
     (case group_lines ls of
        [] \<Rightarrow> [[l]]
      | g # gs \<Rightarrow> if has_prefix (hd g) indent4 then (l # g) # gs else [l] # g # gs)"

text \<open>The records of a log: each with its lines, the indentation taken off again.\<close>

definition log_records :: "string \<Rightarrow> string list" where
  "log_records t =
     map (\<lambda>g. join_with [newline] (hd g # map (\<lambda>l. trim_prefix l indent4) (tl g)))
       (group_lines (butlast (split_on newline t)))"

lemma group_nonempty: "g \<in> set (group_lines ls) \<Longrightarrow> g \<noteq> []"
  by (induction ls arbitrary: g rule: group_lines.induct) (auto split: list.splits if_splits)

lemma group_Cons_nonempty: "group_lines (l # ls) \<noteq> []"
  by (simp split: list.splits)

lemma hd_group: "group_lines (l # ls) = g # gs \<Longrightarrow> hd g = l"
  by (auto split: list.splits if_splits)

lemma group_head:
  "group_lines ls = [] \<or> \<not> has_prefix (hd (hd (group_lines ls))) indent4 \<Longrightarrow>
   group_lines (l # ls) = [l] # group_lines ls"
  by (auto split: list.splits)

lemma group_record:
  assumes "\<not> has_prefix (hd (ls @ [[]])) indent4"
  shows "group_lines (h # map (\<lambda>x. indent4 @ x) xs @ ls) = (h # map (\<lambda>x. indent4 @ x) xs) # group_lines ls"
proof (induction xs arbitrary: h)
  case Nil
  have "group_lines ls = [] \<or> \<not> has_prefix (hd (hd (group_lines ls))) indent4"
  proof (cases ls)
    case (Cons l ls')
    obtain g gs where g: "group_lines (l # ls') = g # gs" using group_Cons_nonempty list.exhaust by metis
    then show ?thesis using assms Cons hd_group[OF g] by simp
  qed simp
  then show ?case using group_head by simp
next
  case (Cons x xs)
  have "group_lines ((indent4 @ x) # map (\<lambda>x. indent4 @ x) xs @ ls) =
      ((indent4 @ x) # map (\<lambda>x. indent4 @ x) xs) # group_lines ls"
    by (rule Cons)
  then show ?case by simp
qed

definition head_ok :: "string \<Rightarrow> bool" where
  "head_ok h \<longleftrightarrow> h \<noteq> [] \<and> hd h \<noteq> CHR '' '' \<and> newline \<notin> set h"

lemma head_no_indent: "head_ok h \<Longrightarrow> \<not> has_prefix (h @ s) indent4"
  by (cases h) (auto simp: head_ok_def indent4_def)

text \<open>One record as lines.\<close>

lemma output_lines:
  assumes "newline \<notin> set h" "split_on newline m = l # ls"
  shows "split_on newline (h @ (if newline \<in> set m then indentMultiline m indent4 else m) @ [newline] @ rest) =
    (h @ l) # map (\<lambda>x. indent4 @ x) ls @ split_on newline rest"
proof -
  have nl: "newline \<notin> set x" if "x \<in> set (l # ls)" for x
    using split_on_pieces[of x newline m] assms(2) that by simp
  have ind: "newline \<notin> set indent4" by (simp add: indent4_def newline_def)
  have j: "split_on newline (join_with [newline] (y # ys) @ newline # rest) = (y # ys) @ split_on newline rest"
    if "\<forall>x \<in> set (y # ys). newline \<notin> set x" for y ys
    using that
  proof (induction ys arbitrary: y)
    case (Cons z zs)
    then show ?case using split_on_append_sep[of newline y] by simp
  qed (simp add: split_on_append_sep)
  show ?thesis
  proof (cases "newline \<in> set m")
    case True
    have "h @ join_with [newline] (l # map (\<lambda>x. indent4 @ x) ls) = join_with [newline] ((h @ l) # map (\<lambda>x. indent4 @ x) ls)"
      by (cases ls) simp_all
    then show ?thesis
      using True assms nl ind j[of "h @ l" "map (\<lambda>x. indent4 @ x) ls"]
      by (simp add: indentMultiline_def) (metis append.assoc append_Cons)
  next
    case False
    then have "l = m" "ls = []" using assms(2) split_on_no_sep[of newline m] by simp_all
    then show ?thesis using False assms(1) split_on_append_sep[of newline "h @ m" rest] by simp
  qed
qed

text \<open>A written record: its header and its message.\<close>

definition record_text :: "string \<times> string \<Rightarrow> string" where
  "record_text hm =
     (let m = trim_newlines (snd hm)
      in fst hm @ (if newline \<in> set m then indentMultiline m indent4 else m) @ [newline])"

lemma join_split_hd: "split_on newline m = l # ls \<Longrightarrow> join_with [newline] ((h @ l) # ls) = h @ m"
  using join_split_on[of newline m] by (cases ls) auto

lemma log_lines:
  assumes "\<forall>hm \<in> set recs. head_ok (fst hm)"
  shows "\<exists>ls. split_on newline (concat (map record_text recs)) = ls @ [[]] \<and>
    \<not> has_prefix (hd (ls @ [[]])) indent4 \<and>
    map (\<lambda>g. join_with [newline] (hd g # map (\<lambda>l. trim_prefix l indent4) (tl g))) (group_lines ls) =
      map (\<lambda>hm. fst hm @ trim_newlines (snd hm)) recs"
  using assms
proof (induction recs)
  case Nil
  then show ?case by (intro exI[of _ "[]"]) (simp add: indent4_def)
next
  case (Cons hm recs)
  obtain h msg where hm: "hm = (h, msg)" by fastforce
  have h: "head_ok h" "newline \<notin> set h" using Cons.prems hm by (auto simp: head_ok_def)
  obtain ls where ls: "split_on newline (concat (map record_text recs)) = ls @ [[]]"
    "\<not> has_prefix (hd (ls @ [[]])) indent4"
    "map (\<lambda>g. join_with [newline] (hd g # map (\<lambda>l. trim_prefix l indent4) (tl g))) (group_lines ls) =
      map (\<lambda>hm. fst hm @ trim_newlines (snd hm)) recs"
    using Cons by auto
  obtain l rest where m: "split_on newline (trim_newlines msg) = l # rest"
    using list.exhaust split_on_nonempty by metis
  let ?new = "(h @ l) # map (\<lambda>x. indent4 @ x) rest @ ls"
  have "split_on newline (concat (map record_text (hm # recs))) = ?new @ [[]]"
    using output_lines[OF h(2) m, of "concat (map record_text recs)"] ls(1)
    by (simp add: record_text_def hm Let_def)
  moreover have "\<not> has_prefix (hd (?new @ [[]])) indent4" using head_no_indent[OF h(1)] by simp
  moreover have "group_lines ?new = ((h @ l) # map (\<lambda>x. indent4 @ x) rest) # group_lines ls"
    by (rule group_record[OF ls(2)])
  moreover have "join_with [newline] ((h @ l) # map (\<lambda>x. trim_prefix (indent4 @ x) indent4) rest) =
      h @ trim_newlines msg"
    using join_split_hd[OF m] by simp
  ultimately show ?case using ls(3) hm by (intro exI[of _ ?new]) (simp add: comp_def)
qed

text \<open>A call of the logger: time stamp, position, level and message.\<close>

type_synonym log_call = "string \<times> string \<times> log_level \<times> string"

fun written :: "logger \<Rightarrow> log_call \<Rightarrow> string" where
  "written lg (ts, pos, level, msg) = log_output lg ts pos level msg"

fun one_record :: "logger \<Rightarrow> log_call \<Rightarrow> string" where
  "one_record lg (ts, pos, level, msg) = log_header lg ts pos level @ trim_newlines msg"

fun call_ok :: "log_call \<Rightarrow> bool" where
  "call_ok (ts, pos, level, msg) \<longleftrightarrow> ts \<noteq> [] \<and> hd ts \<noteq> CHR '' '' \<and> newline \<notin> set ts \<and> newline \<notin> set pos"

lemma header_ok:
  assumes "newline \<notin> set (lg_name lg)" "call_ok (ts, pos, level, msg)"
  shows "head_ok (log_header lg ts pos level)"
proof -
  have "newline \<notin> set (level_text level)" by (cases level) (simp_all add: newline_def)
  then show ?thesis using assms
    by (auto simp: head_ok_def log_header_def pad_right_def newline_def hd_append)
qed

text \<open>A log can be taken apart again: written record by record, each with its header and an arbitrary
  message, it gives back every header with its message (without newlines at the end of the
  message), also when messages have many lines.\<close>

theorem log_records_roundtrip:
  assumes "newline \<notin> set (lg_name lg)" "list_all call_ok calls"
  shows "log_records (concat (map (written lg) calls)) = map (one_record lg) calls"
proof -
  let ?rec = "\<lambda>(ts, pos, level, msg). (log_header lg ts pos level, msg)"
  have w: "written lg = record_text \<circ> ?rec"
    by (rule ext) (auto simp: log_output_def record_text_def Let_def)
  have o: "one_record lg = (\<lambda>hm. fst hm @ trim_newlines (snd hm)) \<circ> ?rec"
    by (rule ext) auto
  have "\<forall>hm \<in> set (map ?rec calls). head_ok (fst hm)"
    using header_ok[OF assms(1)] assms(2) by (auto simp: list_all_iff)
  from log_lines[OF this] have "log_records (concat (map record_text (map ?rec calls))) =
      map (\<lambda>hm. fst hm @ trim_newlines (snd hm)) (map ?rec calls)"
    by (auto simp: log_records_def)
  then show ?thesis by (simp only: w o map_map)
qed

theorem log_records_roundtrip_witness:
  "log_records (concat (map (written \<lparr>lg_name = ''exec'', lg_min = Info\<rparr>)
      [(''12:00'', ''a.go:1'', Info, ''one'' @ [newline] @ ''two''), (''12:01'', ''b.go:2'', Warn, ''three'')])) =
   map (one_record \<lparr>lg_name = ''exec'', lg_min = Info\<rparr>)
      [(''12:00'', ''a.go:1'', Info, ''one'' @ [newline] @ ''two''), (''12:01'', ''b.go:2'', Warn, ''three'')]"
  by (rule log_records_roundtrip) (simp_all add: newline_def)

section \<open>The log level of the command line\<close>

text \<open>The level of a flag is read back from the name that the log prints, in any case and with spaces around it;
  every other text is an error.\<close>

lemma level_lower:
  "to_lower (level_text Debug) = ''debug''" "to_lower (level_text Info) = ''info''"
  "to_lower (level_text Warn) = ''warn''" "to_lower (level_text Error) = ''error''"
  "to_lower (level_text Off) = ''off''"
  by code_simp+

lemma parse_level_text:
  "to_lower (trim_space s) = to_lower (level_text l) \<Longrightarrow> parseLogLevel s = (l, None)"
  by (cases l) (simp_all add: parseLogLevel_def level_lower del: level_text.simps)

lemma parse_level_error:
  "snd (parseLogLevel s) = None \<longleftrightarrow> (\<exists>l. to_lower (trim_space s) = to_lower (level_text l))"
proof
  assume "snd (parseLogLevel s) = None"
  then have "to_lower (trim_space s) \<in> {''debug'', ''info'', ''warn'', ''error'', ''off''}"
    by (auto simp: parseLogLevel_def Let_def split: if_splits)
  then show "\<exists>l. to_lower (trim_space s) = to_lower (level_text l)"
    unfolding level_lower[symmetric] by blast
next
  assume "\<exists>l. to_lower (trim_space s) = to_lower (level_text l)"
  then show "snd (parseLogLevel s) = None" using parse_level_text by fastforce
qed

end
