(* ===== verification/State_Json.thy ===== *)
theory State_Json
  imports Cpu_Manager Disk_Store "HOL-Library.List_Lexorder" "HOL-Library.Char_ord"
begin

text \<open>
  The persistent state as JSON: how \<open>encoding/json\<close> writes \<open>persistentState\<close> of \<open>actor.go\<close> with its
  enumerations (\<open>enum_json.go\<close>), and how the strict decoder of \<open>diskstate\<close> reads it back. JSON trees are modelled
  here; their text is the argument \<open>print\<close> or \<open>parse\<close>. A decoder gives \<open>None\<close> for any of Go's errors.
\<close>

section \<open>The interface of a value that is stored\<close>

text \<open>A decoder gets the value that is there already: Go decodes into a variable.\<close>

locale json_codec =
  fixes enc :: "'a \<Rightarrow> json" and dec :: "json \<Rightarrow> 'a \<Rightarrow> 'a option"
  assumes dec_enc: "dec (enc x) old = Some x"
begin

lemma enc_inj: "enc x = enc y \<longleftrightarrow> x = y"
  by (metis dec_enc option.inject)

end

section \<open>Values\<close>

fun decode_string :: "json \<Rightarrow> string \<Rightarrow> string option" where
  "decode_string (JString s) old = Some s"
| "decode_string JNull old = Some old"
| "decode_string _ old = None"

text \<open>An unsigned integer: \<open>strconv.ParseUint\<close> with 64 bits.\<close>

definition parse_uint64 :: "string \<Rightarrow> 64 word option" where
  "parse_uint64 s =
     (if s = [] \<or> \<not> list_all (\<lambda>c. CHR ''0'' \<le> c \<and> c \<le> CHR ''9'') s then None
      else let n = foldl (\<lambda>v c. 10 * v + (of_char c - 48)) (0 :: nat) s
           in if n < 2 ^ 64 then Some (of_nat n) else None)"

definition encode_uint :: "64 word \<Rightarrow> json" where
  "encode_uint u = JNumber (nat_digits (unat u))"

fun decode_uint :: "json \<Rightarrow> 64 word \<Rightarrow> 64 word option" where
  "decode_uint (JNumber s) old = parse_uint64 s"
| "decode_uint JNull old = Some old"
| "decode_uint _ old = None"

text \<open>
  \<open>MarshalJSON\<close> and \<open>UnmarshalJSON\<close> of the enumerations; \<open>null\<close> is given to \<open>UnmarshalJSON\<close> too, which finds the
  empty text and refuses it.
\<close>

definition enum_MarshalJSON :: "('a \<Rightarrow> string) \<Rightarrow> 'a \<Rightarrow> json" where
  "enum_MarshalJSON to_text x = JString (to_text x)"

definition enum_UnmarshalJSON :: "(string \<Rightarrow> 'a option) \<Rightarrow> json \<Rightarrow> 'a \<Rightarrow> 'a option" where
  "enum_UnmarshalJSON of_text j old =
     (case j of JString s \<Rightarrow> of_text s | JNull \<Rightarrow> of_text [] | _ \<Rightarrow> None)"

section \<open>Structs\<close>

text \<open>
  A field decodes one member of an object into a struct. The field of a name is the one with exactly this name, or
  else the first that differs in case only; a member without a field is an error, because unknown fields are
  disallowed. Members are decoded in the order of the text; a later one wins, or is merged into the struct.
\<close>

type_synonym 'r fields = "(string \<times> (json \<Rightarrow> 'r \<Rightarrow> 'r option)) list"

definition field :: "(json \<Rightarrow> 'a \<Rightarrow> 'a option) \<Rightarrow> ('r \<Rightarrow> 'a) \<Rightarrow> ('a \<Rightarrow> 'r \<Rightarrow> 'r) \<Rightarrow> json \<Rightarrow> 'r \<Rightarrow> 'r option" where
  "field dec get put j r = map_option (\<lambda>x. put x r) (dec j (get r))"

definition find_field :: "'r fields \<Rightarrow> string \<Rightarrow> (json \<Rightarrow> 'r \<Rightarrow> 'r option) option" where
  "find_field fs k =
     (case map_of fs k of
        Some f \<Rightarrow> Some f
      | None \<Rightarrow> map_option snd (find (\<lambda>nf. to_lower (fst nf) = to_lower k) fs))"

fun decode_members :: "'r fields \<Rightarrow> (string \<times> json) list \<Rightarrow> 'r \<Rightarrow> 'r option" where
  "decode_members fs [] r = Some r"
| "decode_members fs ((k, j) # ms) r =
     (case find_field fs k of
        None \<Rightarrow> None
      | Some f \<Rightarrow> (case f j r of None \<Rightarrow> None | Some r' \<Rightarrow> decode_members fs ms r'))"

fun decode_struct :: "'r fields \<Rightarrow> json \<Rightarrow> 'r \<Rightarrow> 'r option" where
  "decode_struct fs JNull r = Some r"
| "decode_struct fs (JObject ms) r = decode_members fs ms r"
| "decode_struct fs _ r = None"

definition encode_status :: "deploy_status \<Rightarrow> json" where
  "encode_status s =
     JObject [(''code'', enum_MarshalJSON deploy_code_text (Code s)), (''message'', JString (Message s))]"

definition status_fields :: "deploy_status fields" where
  "status_fields =
     [(''code'', field (enum_UnmarshalJSON parseDeployStatusCodeText) Code (\<lambda>x r. r\<lparr>Code := x\<rparr>)),
      (''message'', field decode_string Message (\<lambda>x r. r\<lparr>Message := x\<rparr>))]"

definition encode_version :: "name_version \<Rightarrow> json" where
  "encode_version v = JObject [(''name'', JString (nv_name v)), (''version'', JString (nv_version v))]"

definition version_fields :: "name_version fields" where
  "version_fields =
     [(''name'', field decode_string nv_name (\<lambda>x r. r\<lparr>nv_name := x\<rparr>)),
      (''version'', field decode_string nv_version (\<lambda>x r. r\<lparr>nv_version := x\<rparr>))]"

definition encode_entity :: "entity \<Rightarrow> json" where
  "encode_entity e =
     JObject [(''Name'', JString (Name e)), (''EntityType'', enum_MarshalJSON entity_type_text (EntityType e)),
       (''DeployStatus'', encode_status (DeployStatus e)), (''MenderArtifact'', JString (MenderArtifact e)),
       (''DeployingNV'', encode_version (DeployingNV e))]"

definition entity_fields :: "entity fields" where
  "entity_fields =
     [(''Name'', field decode_string Name (\<lambda>x r. r\<lparr>Name := x\<rparr>)),
      (''EntityType'', field (enum_UnmarshalJSON parse_entity_type) EntityType (\<lambda>x r. r\<lparr>EntityType := x\<rparr>)),
      (''DeployStatus'', field (decode_struct status_fields) DeployStatus (\<lambda>x r. r\<lparr>DeployStatus := x\<rparr>)),
      (''MenderArtifact'', field decode_string MenderArtifact (\<lambda>x r. r\<lparr>MenderArtifact := x\<rparr>)),
      (''DeployingNV'', field (decode_struct version_fields) DeployingNV (\<lambda>x r. r\<lparr>DeployingNV := x\<rparr>))]"

definition encode_mender :: "mender_pstate \<Rightarrow> json" where
  "encode_mender m =
     JObject [(''State'', enum_MarshalJSON mender_state_text (State m)), (''CurrentArtifact'', JString (CurrentArtifact m)),
       (''CurrentEntityType'', enum_MarshalJSON entity_type_text (CurrentEntityType m)),
       (''CurrentEntityName'', JString (CurrentEntityName m)),
       (''RecoveryOperations'', encode_uint (RecoveryOperations m)), (''RecoveryAttempts'', encode_uint (RecoveryAttempts m))]"

definition mender_fields :: "mender_pstate fields" where
  "mender_fields =
     [(''State'', field (enum_UnmarshalJSON parse_mender_state) State (\<lambda>x r. r\<lparr>State := x\<rparr>)),
      (''CurrentArtifact'', field decode_string CurrentArtifact (\<lambda>x r. r\<lparr>CurrentArtifact := x\<rparr>)),
      (''CurrentEntityType'',
       field (enum_UnmarshalJSON parse_entity_type) CurrentEntityType (\<lambda>x r. r\<lparr>CurrentEntityType := x\<rparr>)),
      (''CurrentEntityName'', field decode_string CurrentEntityName (\<lambda>x r. r\<lparr>CurrentEntityName := x\<rparr>)),
      (''RecoveryOperations'', field decode_uint RecoveryOperations (\<lambda>x r. r\<lparr>RecoveryOperations := x\<rparr>)),
      (''RecoveryAttempts'', field decode_uint RecoveryAttempts (\<lambda>x r. r\<lparr>RecoveryAttempts := x\<rparr>))]"

section \<open>The entities and the state\<close>

text \<open>
  The encoder sorts the keys of a map; \<open>order\<close> lists them in any order. The decoder puts each entry into the map that is
  there, decoded from the zero value. A \<open>null\<close> entry is a nil pointer, on which the clean-up of \<open>New\<close> panics, except
  that of the customization, which \<open>New\<close> replaces; the former is an error here.
\<close>

definition zero_entity :: entity where
  "zero_entity = \<lparr>Name = [], EntityType = EntityCoreOs, DeployStatus = \<lparr>Code = NeverDeployed, Message = []\<rparr>,
     MenderArtifact = [], DeployingNV = no_version\<rparr>"

definition encode_entities :: "string list \<Rightarrow> (string \<rightharpoonup> entity) \<Rightarrow> json" where
  "encode_entities order m =
     JObject (map (\<lambda>k. (k, case m k of Some e \<Rightarrow> encode_entity e | None \<Rightarrow> JNull)) (sort order))"

fun put_entities :: "(string \<times> json) list \<Rightarrow> (string \<rightharpoonup> entity) \<Rightarrow> (string \<rightharpoonup> entity) option" where
  "put_entities [] m = Some m"
| "put_entities ((k, j) # ms) m =
     (if j = JNull then
        (if k = coreOSCustomizationEntity then put_entities ms (m(k := None)) else None)
      else
        (case decode_struct entity_fields j zero_entity of
           None \<Rightarrow> None
         | Some e \<Rightarrow> put_entities ms (m(k \<mapsto> e))))"

fun decode_entities :: "json \<Rightarrow> (string \<rightharpoonup> entity) \<Rightarrow> (string \<rightharpoonup> entity) option" where
  "decode_entities JNull old = Some Map.empty"
| "decode_entities (JObject ms) old = put_entities ms old"
| "decode_entities _ old = None"

definition encode_state :: "string list \<Rightarrow> persistent \<Rightarrow> json" where
  "encode_state order p =
     JObject [(''MenderState'', encode_mender (MenderState p)), (''Entities'', encode_entities order (Entities p)),
       (''BootID'', JString (BootID p))]"

definition state_fields :: "persistent fields" where
  "state_fields =
     [(''MenderState'', field (decode_struct mender_fields) MenderState (\<lambda>x r. r\<lparr>MenderState := x\<rparr>)),
      (''Entities'', field decode_entities Entities (\<lambda>x r. r\<lparr>Entities := x\<rparr>)),
      (''BootID'', field decode_string BootID (\<lambda>x r. r\<lparr>BootID := x\<rparr>))]"

text \<open>The zero value of the state, into which \<open>New\<close> loads; its map is nil.\<close>

definition zero_state :: persistent where
  "zero_state =
     \<lparr>MenderState = \<lparr>State = Idle, CurrentArtifact = [], CurrentEntityType = EntityCoreOs, CurrentEntityName = [],
        RecoveryOperations = 0, RecoveryAttempts = 0\<rparr>, Entities = Map.empty, BootID = []\<rparr>"

definition decode_state :: "json \<Rightarrow> persistent option" where
  "decode_state j = decode_struct state_fields j zero_state"

text \<open>The bytes of the file: the encoder ends the text of the value with a newline, the decoder leaves the rest.\<close>

definition state_text :: "(json \<Rightarrow> string) \<Rightarrow> (persistent \<Rightarrow> string list) \<Rightarrow> persistent \<Rightarrow> string" where
  "state_text print order p = print (encode_state (order p) p) @ [newline]"

definition read_state :: "(string \<Rightarrow> (json \<times> string) go) \<Rightarrow> string \<Rightarrow> (persistent \<times> string) go" where
  "read_state parse b =
     bind_go (parse b) (\<lambda>(j, rest).
       case decode_state j of
         Some p \<Rightarrow> Inr (p, rest)
       | None \<Rightarrow> Inl ''json: the document is not a state'')"

section \<open>What is written is read back\<close>

lemma digit_value: "n < 10 \<Longrightarrow> of_char (char_of (48 + n) :: char) = (48 + n :: nat)"
  by simp

lemma digits_ok: "list_all (\<lambda>c. CHR ''0'' \<le> c \<and> c \<le> CHR ''9'') (nat_digits n)"
proof (induction n rule: nat_digits.induct)
  case (1 n)
  have d: "CHR ''0'' \<le> (char_of (48 + m) :: char) \<and> char_of (48 + m) \<le> CHR ''9''" if "m < 10" for m :: nat
    using that by (simp add: less_eq_char_def)
  show ?case using 1 d[of n] d[of "n mod 10"] by (subst nat_digits.simps) auto
qed

lemma digits_value: "foldl (\<lambda>v c. 10 * v + (of_char c - 48)) (0 :: nat) (nat_digits n) = n"
proof (induction n rule: nat_digits.induct)
  case (1 n)
  show ?case using 1 by (subst nat_digits.simps) auto
qed

lemma digits_nonempty [simp]: "nat_digits n \<noteq> []"
  by (subst nat_digits.simps) simp

lemma parse_digits: "parse_uint64 (nat_digits (unat u)) = Some u"
  using digits_ok[of "unat u"] digits_value[of "unat u"] unsigned_less[of u, where ?'a = nat]
  by (simp add: parse_uint64_def Let_def)

interpretation string_json: json_codec JString decode_string
  by unfold_locales simp

interpretation uint_json: json_codec encode_uint decode_uint
  by unfold_locales (simp add: encode_uint_def parse_digits)

text \<open>Every codec of texts gives one of JSON values.\<close>

sublocale text_codec \<subseteq> enum_json: json_codec "enum_MarshalJSON to_text" "enum_UnmarshalJSON of_text"
  by unfold_locales (simp add: enum_MarshalJSON_def enum_UnmarshalJSON_def of_to_text)

lemmas stored_values = string_json.dec_enc uint_json.dec_enc entity_type_codec.enum_json.dec_enc
  deploy_code_codec.enum_json.dec_enc mender_state_codec.enum_json.dec_enc

lemmas struct_simps = find_field_def field_def

interpretation version_json: json_codec encode_version "decode_struct version_fields"
  by unfold_locales (simp add: encode_version_def version_fields_def struct_simps)

interpretation status_json: json_codec encode_status "decode_struct status_fields"
  by unfold_locales (simp add: encode_status_def status_fields_def struct_simps stored_values)

interpretation entity_json: json_codec encode_entity "decode_struct entity_fields"
  by unfold_locales
    (simp add: encode_entity_def entity_fields_def struct_simps stored_values status_json.dec_enc version_json.dec_enc)

interpretation mender_json: json_codec encode_mender "decode_struct mender_fields"
  by unfold_locales (simp add: encode_mender_def mender_fields_def struct_simps stored_values)

lemma put_encoded:
  assumes "set ks \<subseteq> dom m" "distinct ks"
  shows "put_entities (map (\<lambda>k. (k, case m k of Some e \<Rightarrow> encode_entity e | None \<Rightarrow> JNull)) ks) old =
    Some (\<lambda>k. if k \<in> set ks then m k else old k)"
  using assms
proof (induction ks arbitrary: old)
  case (Cons k ks)
  then obtain e where e: "m k = Some e" by auto
  have "encode_entity e \<noteq> JNull" by (simp add: encode_entity_def)
  then have "put_entities (map (\<lambda>k. (k, case m k of Some e \<Rightarrow> encode_entity e | None \<Rightarrow> JNull)) (k # ks)) old =
      put_entities (map (\<lambda>k. (k, case m k of Some e \<Rightarrow> encode_entity e | None \<Rightarrow> JNull)) ks) (old(k \<mapsto> e))"
    using e by (simp add: entity_json.dec_enc)
  also have "\<dots> = Some (\<lambda>x. if x \<in> set ks then m x else (old(k \<mapsto> e)) x)" using Cons by simp
  also have "\<dots> = Some (\<lambda>x. if x \<in> set (k # ks) then m x else old x)" using e Cons.prems(2) by (auto simp: fun_eq_iff)
  finally show ?case .
qed simp

lemma entities_read_back:
  assumes "distinct order" "set order = dom m"
  shows "decode_entities (encode_entities order m) Map.empty = Some m"
proof -
  have "put_entities (map (\<lambda>k. (k, case m k of Some e \<Rightarrow> encode_entity e | None \<Rightarrow> JNull)) (sort order)) Map.empty =
      Some (\<lambda>k. if k \<in> set (sort order) then m k else None)"
    using assms by (intro put_encoded) auto
  also have "(\<lambda>k. if k \<in> set (sort order) then m k else None) = m" using assms(2) by (auto simp: fun_eq_iff dom_def)
  finally show ?thesis by (simp add: encode_entities_def)
qed

lemma state_read_back:
  assumes "distinct order" "set order = dom (Entities p)"
  shows "decode_state (encode_state order p) = Some p"
  using entities_read_back[OF assms]
  by (simp add: decode_state_def encode_state_def state_fields_def struct_simps mender_json.dec_enc zero_state_def)

text \<open>A member that is no field makes the decoder fail, wherever it stands.\<close>

lemma unknown_member: "find_field fs k = None \<Longrightarrow> decode_members fs (ms @ (k, j) # ms') r = None"
  by (induction ms arbitrary: r) (auto split: option.splits)

text \<open>C26. The persistent state is read back from its JSON as it was written: the machine with its counters, every entity
  and the boot id. What is written does not depend on the order in which Go visits the map of entities.\<close>

theorem state_json_roundtrip:
  assumes "distinct order" "set order = dom (Entities p)" "distinct order'" "set order' = dom (Entities p)"
  shows "decode_state (encode_state order p) = Some p \<and> encode_state order' p = encode_state order p"
proof -
  have "sort order' = sort order"
    using assms by (intro sorted_distinct_set_unique) simp_all
  then have "encode_state order' p = encode_state order p" by (simp add: encode_state_def encode_entities_def)
  then show ?thesis using state_read_back[OF assms(1,2)] by simp
qed

theorem state_json_roundtrip_witness:
  "decode_state (encode_state [coreOSCustomizationEntity, coreOSEntity] (setInitialPersistentState bare_world)) =
     Some (setInitialPersistentState bare_world)"
proof -
  let ?p = "setInitialPersistentState bare_world"
  have "coreOSEntity \<noteq> coreOSCustomizationEntity" by (simp add: coreOSEntity_def coreOSCustomizationEntity_def)
  then have "distinct [coreOSCustomizationEntity, coreOSEntity]" "distinct [coreOSEntity, coreOSCustomizationEntity]"
    "set [coreOSCustomizationEntity, coreOSEntity] = dom (Entities ?p)"
    "set [coreOSEntity, coreOSCustomizationEntity] = dom (Entities ?p)"
    by (auto simp: setInitialPersistentState_def)
  from state_json_roundtrip[OF this(1,3,2,4)] show ?thesis by simp
qed

end
