(* ===== verification/Startup.thy ===== *)
theory Startup
  imports Server_Firmware Exec_Log Disk_Store
begin

text \<open>
  \<open>cmd/api-server\<close>: the command line, the start of the managers and of the server, and how the
  process ends. The flags are read as Go's \<open>flag\<close> package reads them; the texts of its messages, the log lines
  and the time-outs of the HTTP server are left out. The lemmas tie the program to the running system of the CPU
  manager.
\<close>

section \<open>The command line\<close>

record flags =
  fl_address :: string
  fl_level :: string
  fl_version :: bool

definition default_flags :: flags where
  "default_flags = \<lparr>fl_address = '':8090'', fl_level = ''info'', fl_version = False\<rparr>"

text \<open>\<open>FlagHelp\<close> is the request for the usage, \<open>FlagError\<close> any error of the command line.\<close>

datatype flag_stop = FlagHelp | FlagError

text \<open>One argument: not a flag, the end of the flags, or a name with the value behind its first \<open>=\<close>.\<close>

datatype flag_arg = Operand | EndOfFlags | BadFlag | Flag string "string option"

definition flag_name_arg :: "string \<Rightarrow> flag_arg" where
  "flag_name_arg name =
     (if name = [] \<or> hd name = CHR ''-'' \<or> hd name = CHR ''='' then BadFlag
      else (case cut_on (CHR ''='') name of
              None \<Rightarrow> Flag name None
            | Some (n, v) \<Rightarrow> Flag n (Some v)))"

definition flag_arg :: "string \<Rightarrow> flag_arg" where
  "flag_arg s =
     (if length s < 2 \<or> hd s \<noteq> CHR ''-'' then Operand
      else if s = ''--'' then EndOfFlags
      else flag_name_arg (if s ! 1 = CHR ''-'' then drop 2 s else drop 1 s))"

text \<open>\<open>strconv.ParseBool\<close>.\<close>

definition parse_bool :: "string \<Rightarrow> bool option" where
  "parse_bool s =
     (if s \<in> {''1'', ''t'', ''T'', ''TRUE'', ''true'', ''True''} then Some True
      else if s \<in> {''0'', ''f'', ''F'', ''FALSE'', ''false'', ''False''} then Some False
      else None)"

fun flag_parse :: "string list \<Rightarrow> flags \<Rightarrow> flag_stop + flags" where
  "flag_parse [] f = Inr f"
| "flag_parse (s # args) f =
     (case flag_arg s of
        Operand \<Rightarrow> Inr f
      | EndOfFlags \<Rightarrow> Inr f
      | BadFlag \<Rightarrow> Inl FlagError
      | Flag n v \<Rightarrow>
          (if n = ''version'' then
             (case v of
                None \<Rightarrow> flag_parse args (f\<lparr>fl_version := True\<rparr>)
              | Some t \<Rightarrow>
                  (case parse_bool t of
                     None \<Rightarrow> Inl FlagError
                   | Some b \<Rightarrow> flag_parse args (f\<lparr>fl_version := b\<rparr>)))
           else if n = ''server.address'' then
             (case v of
                Some t \<Rightarrow> flag_parse args (f\<lparr>fl_address := t\<rparr>)
              | None \<Rightarrow> (case args of [] \<Rightarrow> Inl FlagError | t # rest \<Rightarrow> flag_parse rest (f\<lparr>fl_address := t\<rparr>)))
           else if n = ''log.level'' then
             (case v of
                Some t \<Rightarrow> flag_parse args (f\<lparr>fl_level := t\<rparr>)
              | None \<Rightarrow> (case args of [] \<Rightarrow> Inl FlagError | t # rest \<Rightarrow> flag_parse rest (f\<lparr>fl_level := t\<rparr>)))
           else if n = ''help'' \<or> n = ''h'' then Inl FlagHelp
           else Inl FlagError))"

section \<open>The program\<close>

definition exitCodeUsageError :: nat where "exitCodeUsageError = 2"

definition cpuManagerPersistentStatePath :: string where
  "cpuManagerPersistentStatePath = ''/data/core-api-server/cpumanager-state.json''"

text \<open>\<open>filepath.Dir\<close>.\<close>

definition filepath_dir :: "string \<Rightarrow> string" where
  "filepath_dir p = filepath_clean (rev (dropWhile (\<lambda>c. c \<noteq> CHR ''/'') (rev p)))"

text \<open>
  What the start reads: the surroundings, the version put in by the build, whether a directory can be
  created, the decoder of the state and the error of a missing file, the iteration order of the entity map, and the error of
  the listening socket if there is one. With no error the server listens until the process is told to
  stop.
\<close>

record boot =
  bt_world :: world
  bt_version :: string
  bt_mkdir :: "string \<Rightarrow> string option"
  bt_decode :: "string \<Rightarrow> (persistent \<times> string) go"
  bt_not_exist :: "string \<Rightarrow> bool"
  bt_order :: "string list"
  bt_listen :: "string \<Rightarrow> string option"

datatype boot_effect =
    PrintOut string
  | PrintErr string
  | MakeDir string
  | CpuStart "cpu_effect list"
  | Io4edgeClean string "string list"
  | Listen string

datatype boot_end = Exit nat | Panic string | Running persistent devices

definition load_state :: "boot \<Rightarrow> string \<Rightarrow> load_result" where
  "load_state b path =
     (case store_Load (bt_world b) (bt_decode b) (store_New path) of
        Inr p \<Rightarrow> Loaded p
      | Inl (OpenFailed e) \<Rightarrow> if bt_not_exist b e then NotExist else LoadFailed e
      | Inl (BadState e) \<Rightarrow> LoadFailed e)"

text \<open>\<open>server.Start\<close>, with \<open>updatestore.EnsurePath\<close>.\<close>

definition EnsurePath :: "boot \<Rightarrow> boot_effect list \<times> string option" where
  "EnsurePath b = ([MakeDir (GetPath (bt_world b))], bt_mkdir b (GetPath (bt_world b)))"

definition server_Start :: "boot \<Rightarrow> string \<Rightarrow> persistent \<Rightarrow> devices \<Rightarrow> boot_effect list \<times> boot_end" where
  "server_Start b address p devs =
     (case EnsurePath b of
        (es, Some e) \<Rightarrow> (es, Panic e)
      | (es, None) \<Rightarrow>
          (es @ [Listen address],
           case bt_listen b address of Some e \<Rightarrow> Panic e | None \<Rightarrow> Running p devs))"

definition start_managers :: "boot \<Rightarrow> string \<Rightarrow> string \<Rightarrow> boot_effect list \<times> boot_end" where
  "start_managers b address statePath =
     (case New (bt_world b) (bt_order b) (load_state b statePath) of
        Inl e \<Rightarrow> ([PrintErr (wrap_err ''failed to initialize cpu manager'' e)], Exit 1)
      | Inr (p, ces) \<Rightarrow>
          (case io_New of (devs, pattern, excluded) \<Rightarrow>
          (case server_Start b address p devs of (es, fate) \<Rightarrow>
             ([CpuStart ces, Io4edgeClean pattern excluded] @ es, fate))))"

definition main :: "boot \<Rightarrow> string list \<Rightarrow> boot_effect list \<times> boot_end" where
  "main b args =
     (case flag_parse args default_flags of
        Inl FlagHelp \<Rightarrow> ([], Exit 0)
      | Inl FlagError \<Rightarrow> ([], Exit exitCodeUsageError)
      | Inr f \<Rightarrow>
     (if fl_version f then ([PrintOut (bt_version b)], Exit 0)
      else case parseLogLevel (fl_level f) of
        (_, Some e) \<Rightarrow> ([PrintErr (wrap_err ''invalid --log.level'' e)], Exit exitCodeUsageError)
      | (_, None) \<Rightarrow>
     (let statePath = prefix_path (bt_world b) cpuManagerPersistentStatePath; dir = filepath_dir statePath in
      case bt_mkdir b dir of
        Some e \<Rightarrow> ([MakeDir dir, PrintErr (wrap_err ''failed to create state directory'' e)], Exit 1)
      | None \<Rightarrow>
          (case start_managers b (fl_address f) statePath of (es, fate) \<Rightarrow> (MakeDir dir # es, fate)))))"

section \<open>What the program does\<close>

fun cpu_starts :: "boot_effect list \<Rightarrow> cpu_effect list" where
  "cpu_starts [] = []"
| "cpu_starts (CpuStart ces # es) = ces @ cpu_starts es"
| "cpu_starts (_ # es) = cpu_starts es"

definition booted :: "persistent \<Rightarrow> persistent \<Rightarrow> boot_effect list \<Rightarrow> system" where
  "booted file p es = \<lparr>memory = p, disk = file, inbox = [], todo = cpu_starts es, work = []\<rparr>"

text \<open>The four ways to write a flag with a value mean the same, whatever comes before or after.\<close>

lemma flag_arg_forms:
  assumes "n = ''server.address'' \<or> n = ''log.level''"
  shows "flag_arg (CHR ''-'' # n) = Flag n None" "flag_arg (''--'' @ n) = Flag n None"
    "flag_arg (CHR ''-'' # n @ ''='' @ v) = Flag n (Some v)" "flag_arg (''--'' @ n @ ''='' @ v) = Flag n (Some v)"
  using assms by (auto simp: flag_arg_def flag_name_arg_def)

lemma flag_forms:
  assumes "n = ''server.address'' \<or> n = ''log.level''"
  shows "flag_parse ((CHR ''-'' # n) # v # args) f = flag_parse ((CHR ''-'' # n @ ''='' @ v) # args) f"
    "flag_parse ((''--'' @ n) # v # args) f = flag_parse ((CHR ''-'' # n @ ''='' @ v) # args) f"
    "flag_parse ((''--'' @ n @ ''='' @ v) # args) f = flag_parse ((CHR ''-'' # n @ ''='' @ v) # args) f"
  unfolding flag_parse.simps flag_arg_forms[OF assms] using assms by auto

lemma last_flag_wins:
  "flag_parse [''-log.level='' @ a, ''-log.level='' @ b] f = Inr (f\<lparr>fl_level := b\<rparr>)"
  using flag_arg_forms(3)[of "''log.level''"] by simp

lemma start_managers_running:
  assumes "start_managers b a path = (es, Running p devs)"
  obtains ces where "New (bt_world b) (bt_order b) (load_state b path) = Inr (p, ces)" "devs = fst io_New"
    "es = [CpuStart ces, Io4edgeClean ''io4edge-*'' [], MakeDir (GetPath (bt_world b)), Listen a]"
proof (cases "New (bt_world b) (bt_order b) (load_state b path)")
  case (Inl err)
  then show ?thesis using assms by (simp add: start_managers_def)
next
  case (Inr step)
  then show ?thesis
    using assms that[of "snd step"]
    by (cases step)
      (auto simp: start_managers_def server_Start_def EnsurePath_def io_New_def split: option.splits)
qed

lemma start_managers_exit: "snd (start_managers b a path) \<noteq> Exit 0" "snd (start_managers b a path) \<noteq> Exit 2"
  by (cases "New (bt_world b) (bt_order b) (load_state b path)";
      auto simp: start_managers_def server_Start_def EnsurePath_def io_New_def split: option.splits)+

lemma main_flags:
  "flag_parse args default_flags = Inl FlagHelp \<Longrightarrow> main b args = ([], Exit 0)"
  "flag_parse args default_flags = Inl FlagError \<Longrightarrow> main b args = ([], Exit exitCodeUsageError)"
  "flag_parse args default_flags = Inr f \<Longrightarrow> fl_version f \<Longrightarrow> main b args = ([PrintOut (bt_version b)], Exit 0)"
  "flag_parse args default_flags = Inr f \<Longrightarrow> \<not> fl_version f \<Longrightarrow> parseLogLevel (fl_level f) = (l, Some e) \<Longrightarrow>
     main b args = ([PrintErr (wrap_err ''invalid --log.level'' e)], Exit exitCodeUsageError)"
  by (simp_all add: main_def)

lemma main_goes_on:
  assumes "flag_parse args default_flags = Inr f" "\<not> fl_version f" "parseLogLevel (fl_level f) = (l, None)"
    and "path = prefix_path (bt_world b) cpuManagerPersistentStatePath"
  shows "main b args =
    (case bt_mkdir b (filepath_dir path) of
       Some e \<Rightarrow> ([MakeDir (filepath_dir path), PrintErr (wrap_err ''failed to create state directory'' e)], Exit 1)
     | None \<Rightarrow> (MakeDir (filepath_dir path) # fst (start_managers b (fl_address f) path),
                snd (start_managers b (fl_address f) path)))"
  using assms by (simp add: main_def Let_def split_beta split: option.splits)

text \<open>The ways through the command line.\<close>

lemma main_cases:
  obtains (stopped) es n where "main b args = (es, Exit n)" "n \<in> {0, exitCodeUsageError}"
      "set es \<subseteq> range PrintOut \<union> range PrintErr"
  | (goes_on) f l where "flag_parse args default_flags = Inr f" "\<not> fl_version f" "parseLogLevel (fl_level f) = (l, None)"
proof (cases "flag_parse args default_flags")
  case (Inl x)
  then show ?thesis by (cases x) (auto intro: stopped dest: main_flags(1,2)[of _ b])
next
  case (Inr f)
  obtain l e where le: "parseLogLevel (fl_level f) = (l, e)" by fastforce
  consider "fl_version f" | x where "\<not> fl_version f" "e = Some x" | "\<not> fl_version f" "e = None"
    by (cases e) auto
  then show ?thesis
  proof cases
    case 1
    show ?thesis by (rule stopped[OF main_flags(3)[OF Inr 1]]) auto
  next
    case 2
    show ?thesis by (rule stopped[OF main_flags(4)[OF Inr 2(1) le[unfolded 2(2)]]]) auto
  next
    case 3
    then show ?thesis using goes_on Inr le by simp
  qed
qed

lemma main_running:
  assumes "main b args = (es, Running p devs)" and "path = prefix_path (bt_world b) cpuManagerPersistentStatePath"
  obtains a ces where "New (bt_world b) (bt_order b) (load_state b path) = Inr (p, ces)" "devs = fst io_New"
    "es = [MakeDir (filepath_dir path), CpuStart ces,
           Io4edgeClean ''io4edge-*'' [], MakeDir (GetPath (bt_world b)), Listen a]"
proof (rule main_cases[of b args])
  fix f l assume *: "flag_parse args default_flags = Inr f" "\<not> fl_version f" "parseLogLevel (fl_level f) = (l, None)"
  obtain es' where "start_managers b (fl_address f) path = (es', Running p devs)" "es = MakeDir (filepath_dir path) # es'"
    using main_goes_on[OF * assms(2)] assms(1)
    by (cases "start_managers b (fl_address f) path") (auto split: option.splits)
  then show thesis by (elim start_managers_running) (rule that, simp_all)
qed (use assms in auto)

text \<open>A run that ends with the usage, the version or a usage error has touched nothing.\<close>

lemma no_start_without_serving:
  assumes "snd (main b args) \<in> {Exit 0, Exit exitCodeUsageError}"
  shows "set (fst (main b args)) \<subseteq> range PrintOut \<union> range PrintErr"
proof (rule main_cases[of b args])
  fix f l assume *: "flag_parse args default_flags = Inr f" "\<not> fl_version f" "parseLogLevel (fl_level f) = (l, None)"
  show ?thesis
    using assms main_goes_on[OF * refl, of b]
      start_managers_exit[of b "fl_address f" "prefix_path (bt_world b) cpuManagerPersistentStatePath"]
    by (auto simp: exitCodeUsageError_def split: option.splits)
qed auto

text \<open>C19. When the program serves requests, its CPU manager is the running system of the model: with no state file
  it is in a start state, and with one it is what a restart makes of the system that left the file. No io4edge
  device is known then, and requests are taken only after the clean-up of old files and the creation of the
  update directory.\<close>

theorem main_boots_system:
  assumes "main b args = (es, Running p devs)"
    and "load_state b (prefix_path (bt_world b) cpuManagerPersistentStatePath) = loaded"
    and "loaded \<in> {NotExist, Loaded (disk s)}"
  shows "(if loaded = NotExist then sys_start (booted p p es) else sys_restart s (booted (disk s) p es)) \<and>
    devs = Map.empty \<and>
    (\<exists>dir ces a. es = [MakeDir dir, CpuStart ces, Io4edgeClean ''io4edge-*'' [], MakeDir (GetPath (bt_world b)), Listen a])"
proof (rule main_running[OF assms(1) refl])
  fix a ces
  assume n: "New (bt_world b) (bt_order b)
       (load_state b (prefix_path (bt_world b) cpuManagerPersistentStatePath)) = Inr (p, ces)"
    and d: "devs = fst io_New"
    and e: "es = [MakeDir (filepath_dir (prefix_path (bt_world b) cpuManagerPersistentStatePath)), CpuStart ces,
           Io4edgeClean ''io4edge-*'' [], MakeDir (GetPath (bt_world b)), Listen a]"
  have t: "cpu_starts es = ces" using e by simp
  have n': "New (bt_world b) (bt_order b) loaded = Inr (p, ces)" using n unfolding assms(2) .
  have "if loaded = NotExist then sys_start (booted p p es) else sys_restart s (booted (disk s) p es)"
  proof (cases "loaded = NotExist")
    case True
    then show ?thesis using n' t unfolding sys_start_def booted_def by auto
  next
    case False
    then have "New (bt_world b) (bt_order b) (Loaded (disk s)) = Inr (p, ces)" using n' assms(3) by simp
    from restart[OF this] False t show ?thesis by (simp add: booted_def)
  qed
  then show ?thesis using d e by (auto simp: io_New_def)
qed

definition demo_boot :: boot where
  "demo_boot = \<lparr>bt_world = bare_world, bt_version = ''dev'', bt_mkdir = \<lambda>_. None, bt_decode = \<lambda>_. Inl ''EOF'',
     bt_not_exist = \<lambda>e. e = ''no such file'', bt_order = [], bt_listen = \<lambda>_. None\<rparr>"

lemma demo_boot_facts:
  "load_state demo_boot (prefix_path (bt_world demo_boot) cpuManagerPersistentStatePath) = NotExist"
  by (simp add: load_state_def demo_boot_def store_Load_def loadUnlocked_def bare_world_def store_New_def)

lemma demo_boot_runs: "\<exists>es p devs. main demo_boot [''--log.level'', ''warn''] = (es, Running p devs)"
proof -
  have "case snd (main demo_boot [''--log.level'', ''warn'']) of Running p d \<Rightarrow> True | _ \<Rightarrow> False" by code_simp
  then show ?thesis by (cases "main demo_boot [''--log.level'', ''warn'']") (auto split: boot_end.splits)
qed

theorem main_boots_system_witness:
  "\<exists>es p. main demo_boot [''--log.level'', ''warn''] = (es, Running p Map.empty) \<and> sys_start (booted p p es)"
proof -
  obtain es p devs where m: "main demo_boot [''--log.level'', ''warn''] = (es, Running p devs)"
    using demo_boot_runs by blast
  from main_boots_system[OF m demo_boot_facts] m show ?thesis by auto
qed

end
