(* ===== verification/State_Recovery.thy ===== *)
theory State_Recovery
  imports State_Json Startup
begin

text \<open>
  The state file, the JSON text in it and the start of the program together: a crash while the CPU manager
  writes its state is a restart of the running system, from the old or from the new state.
\<close>

section \<open>Starting from a file\<close>

text \<open>A state whose text the parser reads back; \<open>order\<close> lists its entities.\<close>

definition readable ::
  "(json \<Rightarrow> string) \<Rightarrow> (string \<Rightarrow> (json \<times> string) go) \<Rightarrow> (persistent \<Rightarrow> string list) \<Rightarrow> persistent \<Rightarrow> bool" where
  "readable print parse order p \<longleftrightarrow> map_order (order p) p \<and>
     parse (print (encode_state (order p) p) @ [newline]) = Inr (encode_state (order p) p, [newline])"

lemma readable_decoded:
  "readable print parse order p \<Longrightarrow> read_state parse (state_text print order p) = Inr (p, [newline])"
  using state_read_back[of "order p" p]
  by (simp add: readable_def read_state_def state_text_def map_order_def)

lemma load_readable:
  assumes "readable print parse order p" "bt_decode b = read_state parse"
    and "bt_world b = with_file w path (Some (state_text print order p))"
  shows "load_state b path = Loaded p"
  using load_encoded[of "read_state parse" "state_text print order" p w path] readable_decoded[OF assms(1)]
  by (simp add: load_state_def assms(2,3))

lemma main_restarts:
  assumes "main b args = (es, Running q devs)"
    and "load_state b (prefix_path (bt_world b) cpuManagerPersistentStatePath) = Loaded (disk s)"
  shows "sys_restart s (booted (disk s) q es)"
proof (rule main_running[OF assms(1) refl])
  fix a ces
  assume n: "New (bt_world b) (bt_order b)
      (load_state b (prefix_path (bt_world b) cpuManagerPersistentStatePath)) = Inr (q, ces)"
    and e: "es = [MakeDir (filepath_dir (prefix_path (bt_world b) cpuManagerPersistentStatePath)), CpuStart ces,
      Io4edgeClean ''io4edge-*'' [], MakeDir (GetPath (bt_world b)), Listen a]"
  from restart[OF n[unfolded assms(2)]] e show ?thesis by (simp add: booted_def)
qed

text \<open>With the directories and the socket available, a state that can be loaded is enough.\<close>

lemma main_starts:
  assumes "load_state b (prefix_path (bt_world b) cpuManagerPersistentStatePath) = Loaded p"
    and "bt_mkdir b = (\<lambda>_. None)" "bt_listen b = (\<lambda>_. None)"
  shows "\<exists>es q devs. main b [] = (es, Running q devs)"
proof -
  have f: "flag_parse [] default_flags = Inr default_flags" "\<not> fl_version default_flags"
    by (simp_all add: default_flags_def)
  have l: "parseLogLevel (fl_level default_flags) = (Info, None)" by code_simp
  show ?thesis
    unfolding main_goes_on[OF f l refl] using assms
    by (simp add: start_managers_def New_def server_Start_def EnsurePath_def io_New_def split: prod.splits)
qed

section \<open>Crashes\<close>

text \<open>C25. A crash at any point of the write of the CPU manager's state does what a restart does in the model of the
  running system: when the program is up again, its manager has restarted from the state file as it was before the write
  (\<open>s\<close>) or as it is after it (\<open>s'\<close>). This joins the save protocol, the JSON text of the state, the strict decoder
  and the start of the program; of the JSON library it asks that it reads the texts it wrote for these states.\<close>

theorem crash_is_restart:
  assumes "readable print parse order p" "\<forall>q \<in> set qs. readable print parse order q" "qs \<noteq> []"
    and "disk s = last qs" "perform (WriteState p) s = Some s'"
    and "holds fs path S"
    and "crash_read (apply_ops (take k (save_ops path sfx (state_text print order p)))
           (fold (\<lambda>q. apply_ops (save_ops path sfx (state_text print order q))) qs fs)) path c"
    and "bt_world b = with_file w path c" "bt_decode b = read_state parse"
    and "path = prefix_path (bt_world b) cpuManagerPersistentStatePath"
    and "main b args = (es, Running q devs)"
  shows "sys_restart s (booted (disk s) q es) \<or> sys_restart s' (booted (disk s') q es)"
proof -
  have c: "c \<in> {Some (state_text print order (last qs)), Some (state_text print order p)}"
    using crash_finds_encoded[OF assms(6,3,7)] .
  have last: "readable print parse order (last qs)" using assms(2,3) by simp
  have d: "disk s' = p" using assms(5) by auto
  have "load_state b path = Loaded (disk s) \<or> load_state b path = Loaded (disk s')"
    using c load_readable[OF last assms(9), of w path] load_readable[OF assms(1,9), of w path] assms(4,8) d
    by auto
  then show ?thesis
    using main_restarts[OF assms(11)] unfolding assms(10) by blast
qed

text \<open>The sample: the first state of a device, and the same after a change of the boot id.\<close>

definition state_a :: persistent where "state_a = setInitialPersistentState bare_world"
definition state_b :: persistent where "state_b = state_a\<lparr>BootID := ''b''\<rparr>"

definition ab_order :: "persistent \<Rightarrow> string list" where
  "ab_order p = [coreOSEntity, coreOSCustomizationEntity]"

definition ab_print :: "json \<Rightarrow> string" where
  "ab_print j = (if j = encode_state (ab_order state_b) state_b then ''b'' else ''a'')"

definition ab_parse :: "string \<Rightarrow> (json \<times> string) go" where
  "ab_parse t = Inr (let p = (if hd t = CHR ''b'' then state_b else state_a) in encode_state (ab_order p) p, tl t)"

lemma ab_readable: "readable ab_print ab_parse ab_order state_a" "readable ab_print ab_parse ab_order state_b"
proof -
  have e: "dom (Entities state_a) = {coreOSEntity, coreOSCustomizationEntity}" "Entities state_b = Entities state_a"
    by (auto simp: state_a_def state_b_def setInitialPersistentState_def)
  have o: "map_order (ab_order q) q" if "Entities q = Entities state_a" for q
    using that e by (simp add: map_order_def ab_order_def coreOSEntity_def coreOSCustomizationEntity_def)
  have "BootID state_a = []" by (simp add: state_a_def setInitialPersistentState_def boot_id_def bare_world_def)
  then have "encode_state (ab_order state_a) state_a \<noteq> encode_state (ab_order state_b) state_b"
    by (simp add: encode_state_def state_b_def)
  then show "readable ab_print ab_parse ab_order state_a"
    using o[of state_a] by (simp add: readable_def ab_print_def ab_parse_def)
  show "readable ab_print ab_parse ab_order state_b"
    using o[of state_b] e by (simp add: readable_def ab_print_def ab_parse_def)
qed

definition state_path :: string where
  "state_path = prefix_path bare_world cpuManagerPersistentStatePath"

text \<open>The machine lost its power after three steps of the write of state \<open>b\<close>: the file holds state \<open>a\<close>.\<close>

definition ab_boot :: boot where
  "ab_boot = demo_boot\<lparr>
     bt_world := with_file bare_world state_path (Some (state_text ab_print ab_order state_a)),
     bt_decode := read_state ab_parse\<rparr>"

lemma ab_crash:
  "crash_read (apply_ops (take 3 (save_ops state_path ''0'' (state_text ab_print ab_order state_b)))
     (fold (\<lambda>q. apply_ops (save_ops state_path ''0'' (state_text ab_print ab_order q))) [state_a] empty_fs))
     state_path (Some (state_text ab_print ab_order state_a))"
  by (simp add: crash_read_def save_ops_def saveUnlocked_def apply_ops_def empty_fs_def tmp_path_def
      push_dir_def cur_dir_def)

lemma ab_boot_facts:
  "bt_world ab_boot = with_file bare_world state_path (Some (state_text ab_print ab_order state_a))"
  "bt_decode ab_boot = read_state ab_parse" "bt_mkdir ab_boot = (\<lambda>_. None)" "bt_listen ab_boot = (\<lambda>_. None)"
  "state_path = prefix_path (bt_world ab_boot) cpuManagerPersistentStatePath"
  by (simp_all add: ab_boot_def demo_boot_def state_path_def prefix_path_def with_file_def)

theorem crash_is_restart_witness:
  "\<exists>es q devs. main ab_boot [] = (es, Running q devs) \<and>
     (\<exists>s s'. disk s = state_a \<and> disk s' = state_b \<and>
        (sys_restart s (booted (disk s) q es) \<or> sys_restart s' (booted (disk s') q es)))"
proof -
  let ?s = "\<lparr>memory = state_a, disk = state_a, inbox = [], todo = [], work = []\<rparr>"
  have "load_state ab_boot (prefix_path (bt_world ab_boot) cpuManagerPersistentStatePath) = Loaded state_a"
    using load_readable[OF ab_readable(1) ab_boot_facts(2,1)] unfolding ab_boot_facts(5)[symmetric] .
  from main_starts[OF this ab_boot_facts(3,4)] obtain es q devs where
    m: "main ab_boot [] = (es, Running q devs)" by blast
  have all: "\<forall>q \<in> set [state_a]. readable ab_print ab_parse ab_order q" using ab_readable(1) by simp
  have "disk ?s = last [state_a]" "[state_a] \<noteq> []" by simp_all
  from crash_is_restart[OF ab_readable(2) all this(2,1) _ empty_holds ab_crash ab_boot_facts(1,2,5) m]
  have "sys_restart ?s (booted (disk ?s) q es) \<or>
      sys_restart (?s\<lparr>disk := state_b\<rparr>) (booted (disk (?s\<lparr>disk := state_b\<rparr>)) q es)"
    by simp
  then have "\<exists>s s'. disk s = state_a \<and> disk s' = state_b \<and>
      (sys_restart s (booted (disk s) q es) \<or> sys_restart s' (booted (disk s') q es))"
    by (intro exI[of _ ?s] exI[of _ "?s\<lparr>disk := state_b\<rparr>"]) simp
  then show ?thesis using m by blast
qed

end
