(* ===== verification/Mender_Double.thy ===== *)
theory Mender_Double
  imports Update_Store "HOL-Library.Char_ord"
begin

text \<open>
  The stand-in for Mender in the tests, \<open>mocks/mender-update\<close>, \<open>mocks/mockmender\<close>, \<open>mocks/reboot\<close> and
  \<open>mocks/os-customization-set\<close>: the transaction that an installation, a commit or a rollback works on, its durable
  checkpoints, and the lines that the commands print. What the programs read (artifacts, compose files, the file
  system's errors) is an argument; what depends on the files that a command itself has changed is given the changes
  so far. Every change of a file is an effect, in order, so that an interrupted command leaves the last saved state.
\<close>

section \<open>The state\<close>

record health_settings =
  hs_Enabled :: bool
  hs_Timeout :: int
  hs_Interval :: int

record container =
  ct_Status :: string
  ct_Health :: string
  ct_ExitCode :: int
  ct_Paused :: bool
  ct_Restarting :: bool
  ct_Name :: string
  ct_Labels :: string

record double =
  d_AppHealth :: health_settings
  d_PreviousContainers :: "container list"
  d_InstallPhase :: string
  d_ResumeArtifact :: string
  d_ActiveRootfs :: string
  d_OldRootfs :: string
  d_NewRootfs :: string
  d_ActiveIssuePath :: string
  d_OldIssuePath :: string
  d_PendingImage :: string
  d_PendingExt4Image :: string
  d_PendingIssuePath :: string
  d_PendingUpdateType :: string
  d_PendingCustomizationVersion :: string
  d_ActiveCustomizationSlot :: string
  d_LastGoodCustomizationSlot :: string
  d_CandidateCustomizationSlot :: string
  d_CandidateCustomizationVersion :: string
  d_CustomizationCandidateState :: string
  d_CustomizationCandidateAttempts :: int
  d_CustomizationHealthExpectedPass :: bool
  d_CustomizationHealthEvaluated :: bool
  d_CustomizationHealthPassed :: bool
  d_ActiveCustomizationVersion :: string
  d_PendingAppProject :: string
  d_PreviousAppProject :: string
  d_Stage :: string
  d_CommittedRootfs :: string
  d_CommittedIssuePath :: string
  d_RunningContainers :: "container list"
  d_ErrorInjectPoint :: string

definition stageIdle :: string where "stageIdle = ''idle''"
definition stageInstalled :: string where "stageInstalled = ''installed''"
definition stageBootedTrial :: string where "stageBootedTrial = ''booted-trial''"

definition PhaseInstalling :: string where "PhaseInstalling = ''ArtifactInstall''"
definition PhaseAppStopped :: string where "PhaseAppStopped = ''app-stopped''"
definition PhaseAppRenamed :: string where "PhaseAppRenamed = ''app-renamed''"
definition PhaseAppExtracted :: string where "PhaseAppExtracted = ''app-extracted''"
definition PhaseAwaitingCommit :: string where "PhaseAwaitingCommit = ''Before_ArtifactCommit_Enter''"
definition PhaseCommitting :: string where "PhaseCommitting = ''ArtifactCommit_Enter''"

definition UpdateTypeRootfs :: string where "UpdateTypeRootfs = ''rootfs-image''"
definition UpdateTypeApp :: string where "UpdateTypeApp = ''app''"
definition UpdateTypeCustomization :: string where "UpdateTypeCustomization = ''os-customization''"

section \<open>Operations with effects\<close>

datatype double_effect =
    Saved double
  | MirrorIssue string
  | RemoveAll string
  | RenamePath string string
  | MakeDirs string
  | ExtractApp string string
  | RotateBootID
  | KillServer

datatype double_error = NoUpdateErr | DoubleErr string

text \<open>A run: the state in memory, what was done to the files, and the lines on the two outputs.\<close>

record run =
  r_state :: double
  r_effects :: "double_effect list"
  r_out :: "string list"
  r_err :: "string list"

type_synonym op = "run \<Rightarrow> run \<times> double_error option"

definition skip :: op where "skip r = (r, None)"

definition stop :: "double_error \<Rightarrow> op" where "stop e r = (r, Some e)"

definition seq :: "op \<Rightarrow> op \<Rightarrow> op" where
  "seq a b r = (case a r of (r', None) \<Rightarrow> b r' | (r', Some e) \<Rightarrow> (r', Some e))"

definition attempt :: "op \<Rightarrow> op \<Rightarrow> (double_error \<Rightarrow> op) \<Rightarrow> op" where
  "attempt a ok bad r = (case a r of (r', None) \<Rightarrow> ok r' | (r', Some e) \<Rightarrow> bad e r')"

definition ignore_error :: "op \<Rightarrow> op" where
  "ignore_error a r = (fst (a r), None)"

definition look :: "(double \<Rightarrow> op) \<Rightarrow> op" where "look f r = f (r_state r) r"

text \<open>What was done to the files so far.\<close>

definition look_files :: "(double_effect list \<Rightarrow> op) \<Rightarrow> op" where "look_files f r = f (r_effects r) r"

definition did :: "double_effect \<Rightarrow> op" where "did x r = (r\<lparr>r_effects := r_effects r @ [x]\<rparr>, None)"

definition modify :: "(double \<Rightarrow> double) \<Rightarrow> op" where
  "modify f r = (r\<lparr>r_state := f (r_state r)\<rparr>, None)"

definition println :: "string \<Rightarrow> op" where "println l r = (r\<lparr>r_out := r_out r @ [l]\<rparr>, None)"
definition eprintln :: "string \<Rightarrow> op" where "eprintln l r = (r\<lparr>r_err := r_err r @ [l]\<rparr>, None)"

definition of_err :: "string option \<Rightarrow> op" where
  "of_err e = (case e of None \<Rightarrow> skip | Some x \<Rightarrow> stop (DoubleErr x))"

text \<open>
  What a run finds around it: the artifact at a path (its header with payload types and device types, and what the
  installation of each kind gets out of it), compose files, and the errors of the file system. Compose files and the
  existence of directories depend on what the run has done to the files before.
\<close>

record header =
  hd_payloads :: "string list"
  hd_devices :: "string list"

record app_meta =
  am_application :: string
  am_project :: string
  am_orchestrator :: string

datatype compose = ComposeMissing string | ComposeBad string | Composed "container list"

record surroundings =
  su_stat :: "string \<Rightarrow> string option"
  su_abs :: "string \<Rightarrow> string go"
  su_header :: "string \<Rightarrow> (header \<times> app_meta) go"
  su_rootfs :: "string \<Rightarrow> (header \<times> string) go"
  su_inspect :: "string \<Rightarrow> (string \<times> string) go"
  su_custom :: "string \<Rightarrow> (header \<times> string \<times> bool) go"
  su_extract :: "string \<Rightarrow> string \<Rightarrow> string option"
  su_compose :: "double_effect list \<Rightarrow> string \<Rightarrow> string \<Rightarrow> compose"
  su_settings :: "string go option"
  su_exists :: "double_effect list \<Rightarrow> string \<Rightarrow> bool"
  su_fails :: "double_effect \<Rightarrow> string option"
  su_load :: "string option"
  su_no_state :: bool
  su_apps :: string
  su_issue :: string
  su_kill :: bool

text \<open>A change of the file system.\<close>

definition act :: "surroundings \<Rightarrow> double_effect \<Rightarrow> op" where
  "act su x = (case su_fails su x of Some e \<Rightarrow> stop (DoubleErr e) | None \<Rightarrow> did x)"

definition SaveState :: "surroundings \<Rightarrow> op" where
  "SaveState su = look (\<lambda>s. act su (Saved s))"

definition UpdateIssueMirror :: "surroundings \<Rightarrow> string \<Rightarrow> op" where
  "UpdateIssueMirror su path = (if path = [] then skip else act su (MirrorIssue path))"

text \<open>
  \<open>LoadState\<close>. The errors of its file operations are one argument, whether the state file is missing another; the
  stored state is that of the run.
\<close>

definition no_health :: health_settings where
  "no_health = \<lparr>hs_Enabled = False, hs_Timeout = 0, hs_Interval = 0\<rparr>"

definition load_defaults :: "surroundings \<Rightarrow> double \<Rightarrow> double" where
  "load_defaults su s =
     (let s = (if d_ActiveRootfs s = [] then s\<lparr>d_ActiveRootfs := ''rootfs-A''\<rparr> else s);
          s = (if d_CommittedRootfs s = [] then s\<lparr>d_CommittedRootfs := d_ActiveRootfs s\<rparr> else s);
          s = (if d_Stage s = [] then s\<lparr>d_Stage := stageIdle\<rparr> else s);
          s = (if d_CommittedIssuePath s = [] then s\<lparr>d_CommittedIssuePath := su_issue su\<rparr> else s)
      in (if d_ActiveIssuePath s = [] then s\<lparr>d_ActiveIssuePath := d_CommittedIssuePath s\<rparr> else s))"

definition first_state :: "string \<Rightarrow> double" where
  "first_state issue =
     \<lparr>d_AppHealth = no_health, d_PreviousContainers = [], d_InstallPhase = [], d_ResumeArtifact = [],
      d_ActiveRootfs = ''rootfs-A'', d_OldRootfs = [], d_NewRootfs = [], d_ActiveIssuePath = issue, d_OldIssuePath = [],
      d_PendingImage = [], d_PendingExt4Image = [], d_PendingIssuePath = [], d_PendingUpdateType = [],
      d_PendingCustomizationVersion = [], d_ActiveCustomizationSlot = [], d_LastGoodCustomizationSlot = [],
      d_CandidateCustomizationSlot = [], d_CandidateCustomizationVersion = [], d_CustomizationCandidateState = [],
      d_CustomizationCandidateAttempts = 0, d_CustomizationHealthExpectedPass = False,
      d_CustomizationHealthEvaluated = False, d_CustomizationHealthPassed = False, d_ActiveCustomizationVersion = [],
      d_PendingAppProject = [], d_PreviousAppProject = [], d_Stage = stageIdle, d_CommittedRootfs = ''rootfs-A'',
      d_CommittedIssuePath = issue, d_RunningContainers = [], d_ErrorInjectPoint = []\<rparr>"

definition LoadState :: "surroundings \<Rightarrow> op" where
  "LoadState su = seq (of_err (su_load su))
     (if su_no_state su then seq (modify (\<lambda>_. first_state (su_issue su))) (SaveState su)
      else modify (load_defaults su))"

section \<open>Transitions of the state\<close>

definition SetInstalledRootfs :: "string \<Rightarrow> string \<Rightarrow> string \<Rightarrow> string \<Rightarrow> double \<Rightarrow> double" where
  "SetInstalledRootfs img extracted ext4 issue s =
     s\<lparr>d_OldRootfs := d_ActiveRootfs s, d_OldIssuePath := d_ActiveIssuePath s, d_NewRootfs := extracted,
       d_PendingImage := img, d_PendingExt4Image := ext4, d_PendingIssuePath := issue,
       d_PendingUpdateType := UpdateTypeRootfs, d_Stage := stageInstalled\<rparr>"

definition SetInstalledApp :: "string \<Rightarrow> string \<Rightarrow> string \<Rightarrow> container list \<Rightarrow> double \<Rightarrow> double" where
  "SetInstalledApp img project previous running s =
     s\<lparr>d_PendingImage := img, d_PendingUpdateType := UpdateTypeApp, d_PendingAppProject := project,
       d_PreviousAppProject := previous, d_RunningContainers := running, d_Stage := stageInstalled\<rparr>"

definition SetInstalledCustomization :: "string \<Rightarrow> string \<Rightarrow> bool \<Rightarrow> double \<Rightarrow> double" where
  "SetInstalledCustomization img version passes s =
     s\<lparr>d_PendingImage := img, d_PendingUpdateType := UpdateTypeCustomization,
       d_PendingCustomizationVersion := version,
       d_CandidateCustomizationSlot := (if d_ActiveCustomizationSlot s = ''A'' then ''B'' else ''A''),
       d_CandidateCustomizationVersion := version, d_CustomizationCandidateState := ''pending'',
       d_CustomizationCandidateAttempts := 0, d_CustomizationHealthExpectedPass := passes,
       d_CustomizationHealthEvaluated := False, d_CustomizationHealthPassed := False, d_Stage := stageInstalled\<rparr>"

definition EvaluateCustomizationHealth :: "bool \<Rightarrow> double \<Rightarrow> double" where
  "EvaluateCustomizationHealth passed s =
     (let s = s\<lparr>d_CustomizationHealthEvaluated := True, d_CustomizationHealthPassed := passed,
                d_CustomizationCandidateAttempts := d_CustomizationCandidateAttempts s + 1\<rparr>
      in (if passed then
            s\<lparr>d_ActiveCustomizationVersion := d_PendingCustomizationVersion s,
              d_ActiveCustomizationSlot := d_CandidateCustomizationSlot s,
              d_LastGoodCustomizationSlot := d_CandidateCustomizationSlot s,
              d_CandidateCustomizationSlot := [], d_CandidateCustomizationVersion := [],
              d_CustomizationCandidateState := []\<rparr>
          else
            s\<lparr>d_CandidateCustomizationSlot := [], d_CandidateCustomizationVersion := [],
              d_CustomizationCandidateState := ''rolled-back''\<rparr>))"

definition clearPendingUpdate :: "double \<Rightarrow> double" where
  "clearPendingUpdate s =
     s\<lparr>d_PreviousContainers := [], d_AppHealth := no_health, d_InstallPhase := [], d_ResumeArtifact := [],
       d_NewRootfs := [], d_OldRootfs := [], d_OldIssuePath := [], d_PendingImage := [], d_PendingExt4Image := [],
       d_PendingIssuePath := [], d_PendingUpdateType := [], d_PendingCustomizationVersion := [],
       d_CustomizationHealthExpectedPass := False, d_CustomizationHealthEvaluated := False,
       d_CustomizationHealthPassed := False, d_PendingAppProject := [], d_PreviousAppProject := [],
       d_Stage := stageIdle\<rparr>"

definition RollbackCustomization :: "double \<Rightarrow> double" where
  "RollbackCustomization s =
     clearPendingUpdate
       (if d_CustomizationCandidateState s = ''pending''
        then s\<lparr>d_CandidateCustomizationSlot := [], d_CandidateCustomizationVersion := [],
               d_CustomizationCandidateState := ''rolled-back''\<rparr>
        else s)"

definition TrialBoot :: "surroundings \<Rightarrow> op" where
  "TrialBoot su =
     seq (modify (\<lambda>s. s\<lparr>d_ActiveRootfs := d_NewRootfs s, d_Stage := stageBootedTrial\<rparr>))
       (look (\<lambda>s. if d_PendingIssuePath s \<noteq> []
          then seq (modify (\<lambda>s. s\<lparr>d_ActiveIssuePath := d_PendingIssuePath s\<rparr>))
                 (ignore_error (UpdateIssueMirror su (d_PendingIssuePath s)))
          else skip))"

definition RollbackAfterFailedTrial :: "surroundings \<Rightarrow> op" where
  "RollbackAfterFailedTrial su =
     look (\<lambda>s0.
       if d_PendingUpdateType s0 = UpdateTypeRootfs then
         seq (modify (\<lambda>s. s\<lparr>d_ActiveRootfs := d_OldRootfs s,
                d_ActiveIssuePath := (if d_OldIssuePath s = [] then d_CommittedIssuePath s else d_OldIssuePath s)\<rparr>))
           (seq (look (\<lambda>s. if d_ActiveIssuePath s \<noteq> []
                   then ignore_error (UpdateIssueMirror su (d_ActiveIssuePath s)) else skip))
             (modify clearPendingUpdate))
       else if d_PendingUpdateType s0 = UpdateTypeCustomization then modify RollbackCustomization
       else modify clearPendingUpdate)"

definition RollbackImmediate :: "surroundings \<Rightarrow> op" where
  "RollbackImmediate su =
     look (\<lambda>s0.
       if d_PendingUpdateType s0 = UpdateTypeRootfs then
         seq (if d_OldIssuePath s0 \<noteq> []
              then seq (modify (\<lambda>s. s\<lparr>d_ActiveIssuePath := d_OldIssuePath s\<rparr>))
                     (ignore_error (UpdateIssueMirror su (d_OldIssuePath s0)))
              else skip)
           (modify clearPendingUpdate)
       else if d_PendingUpdateType s0 = UpdateTypeCustomization then modify RollbackCustomization
       else modify clearPendingUpdate)"

definition CommitTrial :: "surroundings \<Rightarrow> op" where
  "CommitTrial su =
     seq (modify (\<lambda>s. s\<lparr>d_ActiveRootfs := d_NewRootfs s, d_CommittedRootfs := d_NewRootfs s,
            d_CommittedIssuePath := d_PendingIssuePath s, d_ActiveIssuePath := d_PendingIssuePath s\<rparr>))
       (seq (look (\<lambda>s. if d_PendingIssuePath s \<noteq> []
               then ignore_error (UpdateIssueMirror su (d_PendingIssuePath s)) else skip))
         (modify clearPendingUpdate))"

definition CommitCustomization :: "double \<Rightarrow> double" where
  "CommitCustomization = clearPendingUpdate"

section \<open>Applications\<close>

definition AppPath :: "surroundings \<Rightarrow> string \<Rightarrow> string" where
  "AppPath su project = su_apps su @ ''/'' @ project"

definition AppManifestPath :: "surroundings \<Rightarrow> string \<Rightarrow> string" where
  "AppManifestPath su project = AppPath su project @ ''/manifests''"

definition CommitApp :: "surroundings \<Rightarrow> op" where
  "CommitApp su =
     seq (look (\<lambda>s. if d_PreviousAppProject s \<noteq> []
            then ignore_error (act su (RemoveAll (AppPath su (d_PreviousAppProject s)))) else skip))
       (modify clearPendingUpdate)"

text \<open>The pattern \<open>^[a-z0-9][a-z0-9_-]*$\<close>.\<close>

definition name_char :: "char \<Rightarrow> bool" where
  "name_char c \<longleftrightarrow> (CHR ''a'' \<le> c \<and> c \<le> CHR ''z'') \<or> (CHR ''0'' \<le> c \<and> c \<le> CHR ''9'')"

definition ValidAppName :: "string \<Rightarrow> bool" where
  "ValidAppName n \<longleftrightarrow>
     n \<noteq> [] \<and> name_char (hd n) \<and> list_all (\<lambda>c. name_char c \<or> c = CHR ''_'' \<or> c = CHR ''-'') (tl n)"

text \<open>\<open>strconv.Atoi\<close> of a positive number, and the configuration of the health check: a file of assignments.\<close>

definition atoi_pos :: "string \<Rightarrow> int option" where
  "atoi_pos v =
     (let ds = (if has_prefix v ''+'' then tl v else v) in
      if ds = [] \<or> \<not> list_all (\<lambda>c. CHR ''0'' \<le> c \<and> c \<le> CHR ''9'') ds then None
      else let n = foldl (\<lambda>a c. 10 * a + (of_char c - 48)) (0 :: int) ds
           in if 0 < n \<and> n < 2 ^ 63 then Some n else None)"

definition trim_quotes :: "string \<Rightarrow> string" where
  "trim_quotes v =
     (let q = (\<lambda>c. c = CHR 0x22 \<or> c = CHR 0x27) in rev (dropWhile q (rev (dropWhile q v))))"

fun health_setting :: "string list \<Rightarrow> health_settings \<Rightarrow> health_settings go" where
  "health_setting [] hs = Inr hs"
| "health_setting (line # ls) hs =
     (case cut_on (CHR ''='') (trim_space line) of
        None \<Rightarrow> health_setting ls hs
      | Some (key, v) \<Rightarrow>
          (let k = trim_space key; v' = trim_quotes (trim_space v) in
           if k = ''APP_HEALTHCHECK_ENABLED'' then
             (if v' \<noteq> ''yes'' \<and> v' \<noteq> ''no'' then Inl ''invalid APP_HEALTHCHECK_ENABLED''
              else health_setting ls (hs\<lparr>hs_Enabled := (v' = ''yes'')\<rparr>))
           else if k = ''APP_HEALTHCHECK_TIMEOUT'' \<or> k = ''APP_HEALTHCHECK_INTERVAL'' then
             (case atoi_pos v' of
                None \<Rightarrow> Inl (''invalid '' @ key)
              | Some n \<Rightarrow>
                  health_setting ls
                    (if key = ''APP_HEALTHCHECK_TIMEOUT'' then hs\<lparr>hs_Timeout := n\<rparr> else hs\<lparr>hs_Interval := n\<rparr>))
           else health_setting ls hs))"

text \<open>The argument is the content of the file, none if there is no file.\<close>

definition ReadAppHealthSettings :: "surroundings \<Rightarrow> health_settings go" where
  "ReadAppHealthSettings su =
     (let hs = \<lparr>hs_Enabled = True, hs_Timeout = 60, hs_Interval = 2\<rparr> in
      case su_settings su of
        None \<Rightarrow> Inr hs
      | Some (Inl e) \<Rightarrow> Inl e
      | Some (Inr b) \<Rightarrow> health_setting (split_on newline b) hs)"

definition project_label :: "string \<Rightarrow> string" where
  "project_label project = ''com.docker.compose.project='' @ project"

definition HasProject :: "container \<Rightarrow> string \<Rightarrow> bool" where
  "HasProject c project \<longleftrightarrow> project_label project \<in> set (split_on (CHR '','') (ct_Labels c))"

definition RemoveRunningContainersForProject :: "container list \<Rightarrow> string \<Rightarrow> container list" where
  "RemoveRunningContainersForProject cs project =
     filter (\<lambda>c. \<not> (ct_Labels c = project_label project \<or>
                  has_prefix (ct_Labels c) (project_label project @ '',''))) cs"

text \<open>The injected states of a container; the second component tells whether it counts as found.\<close>

definition injected_state :: "string \<Rightarrow> container \<Rightarrow> container \<times> bool" where
  "injected_state p c =
     (if p = ''app-health-unhealthy'' then (c\<lparr>ct_Health := ''unhealthy''\<rparr>, True)
      else if p = ''app-health-starting'' then (c\<lparr>ct_Health := ''starting''\<rparr>, True)
      else if p = ''app-health-exited'' then (c\<lparr>ct_Status := ''exited'', ct_ExitCode := 1\<rparr>, True)
      else if p = ''app-health-paused'' then (c\<lparr>ct_Paused := True\<rparr>, True)
      else if p = ''app-health-restarting'' then (c\<lparr>ct_Restarting := True\<rparr>, True)
      else if p = ''app-health-missing'' then (c, False)
      else if p = ''app-health-oneshot-failed'' then
        (c\<lparr>ct_Status := ''exited'', ct_ExitCode := 1,
           ct_Labels := ct_Labels c @ '',io.ci4rail.mender.oneshot=true''\<rparr>, True)
      else (c, True))"

definition ready_container :: "container \<Rightarrow> bool" where
  "ready_container c \<longleftrightarrow>
     (if contains_str ('','' @ ct_Labels c @ '','') '',io.ci4rail.mender.oneshot=true,''
      then ct_Status c = ''exited'' \<and> ct_ExitCode c = 0
      else (ct_Status c = [] \<or> ct_Status c = ''running'') \<and> \<not> ct_Paused c \<and> \<not> ct_Restarting c \<and>
           (ct_Health c = [] \<or> ct_Health c = ''healthy''))"

text \<open>One expected container among the running ones: its first that is not ready, or that it is missing.\<close>

fun check_container :: "double \<Rightarrow> container \<Rightarrow> container list \<Rightarrow> bool \<Rightarrow> string option" where
  "check_container s want [] found =
     (if found then None else Some (''application readiness failed: missing container '' @ ct_Name want))"
| "check_container s want (c # cs) found =
     (if ct_Name c \<noteq> ct_Name want then check_container s want cs found
      else (case injected_state (d_ErrorInjectPoint s) c of (c', f) \<Rightarrow>
        if \<not> ready_container c' \<or> \<not> f
        then Some (''application readiness timed out after '' @ itoa (hs_Timeout (d_AppHealth s)) @ ''s: '' @ ct_Name c')
        else check_container s want cs True))"

fun check_containers :: "double \<Rightarrow> container list \<Rightarrow> string option" where
  "check_containers s [] = None"
| "check_containers s (want # ws) =
     (case check_container s want (d_RunningContainers s) False of
        Some e \<Rightarrow> Some e
      | None \<Rightarrow> check_containers s ws)"

definition CheckAppHealth :: "surroundings \<Rightarrow> double_effect list \<Rightarrow> double \<Rightarrow> string option" where
  "CheckAppHealth su files s =
     (if \<not> hs_Enabled (d_AppHealth s) then None
      else case su_compose su files (AppPath su (d_PendingAppProject s)) (d_PendingAppProject s) of
        ComposeMissing e \<Rightarrow> Some e
      | ComposeBad e \<Rightarrow> Some e
      | Composed ws \<Rightarrow>
          (if ws = [] then Some ''application readiness failed: no containers'' else check_containers s ws))"

definition CheckAppSnapshotSource :: "surroundings \<Rightarrow> double_effect list \<Rightarrow> double \<Rightarrow> string \<Rightarrow> string option" where
  "CheckAppSnapshotSource su files s project =
     (case su_compose su files (AppPath su project) project of
        ComposeMissing _ \<Rightarrow>
          (if list_ex (\<lambda>c. HasProject c project) (d_RunningContainers s)
           then Some (''unmanaged Compose project already exists: '' @ project) else None)
      | ComposeBad e \<Rightarrow> Some e
      | Composed ws \<Rightarrow>
          (case find (\<lambda>w. \<not> list_ex (\<lambda>c. ct_Name c = ct_Name w \<and> HasProject c project) (d_RunningContainers s)) ws of
             Some w \<Rightarrow> Some (''cannot snapshot missing container: '' @ ct_Name w)
           | None \<Rightarrow> None))"

definition transactions :: string where "transactions = ''.transactions''"

text \<open>\<open>filepath.Dir\<close> of a clean path with a slash.\<close>

definition parent_path :: "string \<Rightarrow> string" where
  "parent_path p = rev (tl (dropWhile (\<lambda>c. c \<noteq> CHR ''/'') (rev p)))"

definition CleanupAppSnapshot :: "surroundings \<Rightarrow> op" where
  "CleanupAppSnapshot su =
     look (\<lambda>s.
       if d_PreviousAppProject s = [] then skip
       else seq (act su (RemoveAll (AppPath su (d_PreviousAppProject s))))
         (if has_prefix (d_PreviousAppProject s) (transactions @ ''/'')
          then act su (RemoveAll (parent_path (AppPath su (d_PreviousAppProject s)))) else skip))"

definition RollbackApp :: "surroundings \<Rightarrow> op" where
  "RollbackApp su =
     look (\<lambda>s. look_files (\<lambda>files.
       let project = d_PendingAppProject s in
       seq (if d_PreviousAppProject s \<noteq> [] then
              (if \<not> su_exists su files (AppPath su (d_PreviousAppProject s))
               then stop (DoubleErr (''stat '' @ AppPath su (d_PreviousAppProject s) @ '': no such file or directory''))
               else seq (act su (RemoveAll (AppPath su project)))
                 (seq (act su (RenamePath (AppPath su (d_PreviousAppProject s)) (AppPath su project)))
                   (CleanupAppSnapshot su)))
            else if d_InstallPhase s \<noteq> PhaseInstalling \<and> d_InstallPhase s \<noteq> PhaseAppStopped
            then act su (RemoveAll (AppPath su project))
            else skip)
         (seq (modify (\<lambda>s. s\<lparr>d_RunningContainers :=
                 RemoveRunningContainersForProject (d_RunningContainers s) project @ d_PreviousContainers s\<rparr>))
           (modify clearPendingUpdate))))"

section \<open>The command \<open>mender-update\<close>\<close>

definition expectedDeviceType :: string where "expectedDeviceType = ''moducop-cpu01''"

definition ErrInjectPostCommitFailed :: string where "ErrInjectPostCommitFailed = ''post-commit-failed''"
definition ErrInjectCleanupFailed :: string where "ErrInjectCleanupFailed = ''cleanup-failed''"
definition ErrInjectAfterStopOldContainers :: string where
  "ErrInjectAfterStopOldContainers = ''after-stop-old-containers''"
definition ErrInjectAfterRenameOldAppDir :: string where
  "ErrInjectAfterRenameOldAppDir = ''after-renaming-old-application-directory''"
definition ErrInjectAfterExtractBeforeStart :: string where
  "ErrInjectAfterExtractBeforeStart = ''after-extracting-new-application-before-starting-new-containers''"
definition ErrInjectDockerComposeUpFailed :: string where "ErrInjectDockerComposeUpFailed = ''docker-compose-up-failed''"

definition printFailure :: "string \<Rightarrow> string \<Rightarrow> op" where
  "printFailure operation disposition = seq (println (operation @ '' failed.'')) (println disposition)"

definition printRequestError :: "string \<Rightarrow> op" where
  "printRequestError msg = eprintln (''Could not fulfill request: '' @ msg)"

definition request_error :: "string \<Rightarrow> op" where
  "request_error e = seq (printRequestError e) (stop (DoubleErr e))"

text \<open>A diagnostic line of the log; times and record numbers are constants of the program.\<close>

definition quoted :: "string \<Rightarrow> string" where "quoted t = [CHR 0x22] @ t @ [CHR 0x22]"

definition printDiagnostic :: "nat \<Rightarrow> string \<Rightarrow> string \<Rightarrow> string \<Rightarrow> op" where
  "printDiagnostic n severity time msg =
     eprintln (''record_id='' @ nat_digits n @ '' severity='' @ severity @ '' time='' @
       quoted (''2026-Mar-03 '' @ time) @ '' name='' @ quoted ''Global'' @ '' msg='' @ quoted msg)"

definition noUpdate :: op where
  "noUpdate = seq (println ''No update in progress.'') (stop NoUpdateErr)"

text \<open>An input that is refused before anything changes, in the phase \<open>operation\<close>.\<close>

definition not_modified :: "string \<Rightarrow> string \<Rightarrow> op" where
  "not_modified operation msg =
     seq (printDiagnostic 1 ''error'' ''07:05:21.952463'' msg)
       (seq (printFailure operation ''System not modified.'')
         (seq (printRequestError msg) (stop (DoubleErr msg))))"

definition unsupported :: "string \<Rightarrow> string \<Rightarrow> string \<Rightarrow> op" where
  "unsupported operation msg err =
     seq (printDiagnostic 1 ''error'' ''07:43:32.990506'' msg)
       (seq (printFailure operation ''System not modified.'') (stop (DoubleErr err)))"

definition checkpoint :: "surroundings \<Rightarrow> string \<Rightarrow> string \<Rightarrow> op" where
  "checkpoint su path phase =
     (case su_abs su path of
        Inl e \<Rightarrow> stop (DoubleErr e)
      | Inr p \<Rightarrow>
          seq (modify (\<lambda>s. s\<lparr>d_ResumeArtifact := p, d_InstallPhase := phase, d_Stage := stageInstalled\<rparr>))
            (SaveState su))"

definition clearFailedInstallCheckpoint :: "surroundings \<Rightarrow> op \<Rightarrow> op" where
  "clearFailedInstallCheckpoint su body =
     attempt body skip
       (\<lambda>e. look (\<lambda>s.
          if d_InstallPhase s \<noteq> PhaseInstalling then stop e
          else seq (RollbackImmediate su) (attempt (SaveState su) (stop e) (\<lambda>_. stop e))))"

definition installed_lines :: op where
  "installed_lines =
     seq (println ''Installed, but not committed.'')
       (println ''Use 'commit' to update, or 'rollback' to roll back the update.'')"

definition installCustomization :: "surroundings \<Rightarrow> string \<Rightarrow> op" where
  "installCustomization su path =
     clearFailedInstallCheckpoint su
       (case su_custom su path of
          Inl e \<Rightarrow> not_modified ''Installation'' e
        | Inr (info, version, passes) \<Rightarrow>
            (if hd_payloads info = [] \<or> hd (hd_payloads info) \<noteq> UpdateTypeCustomization
             then stop (DoubleErr ''unsupported payload type'')
             else seq (modify (SetInstalledCustomization (filepath_base path) version passes))
               (seq (checkpoint su path PhaseAwaitingCommit)
               (seq (SaveState su) installed_lines))))"

definition progress :: "nat list \<Rightarrow> op" where
  "progress ns = foldr (\<lambda>n. seq (println (''Progress: '' @ nat_digits n @ ''%''))) ns skip"

definition rootfs_lines :: "string \<Rightarrow> string \<Rightarrow> op" where
  "rootfs_lines ext4 issue =
     seq (println (''New rootfs ext4 image: '' @ ext4))
       (if issue \<noteq> []
        then seq (println (''Extracted /etc/issue: '' @ issue)) (println ''Use `mender-update show-issue` to print it.'')
        else println ''Could not extract /etc/issue automatically (debugfs not available).'')"

definition installRootfs :: "surroundings \<Rightarrow> string \<Rightarrow> op" where
  "installRootfs su path =
     clearFailedInstallCheckpoint su
       (case su_rootfs su path of
          Inl e \<Rightarrow> not_modified ''Installation'' e
        | Inr (info, extracted) \<Rightarrow>
            (if hd_payloads info = [] \<or> hd (hd_payloads info) \<noteq> UpdateTypeRootfs
             then unsupported ''Installation'' ''Unsupported payload type'' ''unsupported payload''
             else seq (progress [10, 20, 30, 40, 50, 60, 70, 80, 90, 100])
               (case su_inspect su extracted of
                  Inl e \<Rightarrow> not_modified ''Installation'' e
                | Inr (ext4, issue) \<Rightarrow>
                    seq (modify (SetInstalledRootfs (filepath_base path) extracted ext4 issue))
                      (seq (checkpoint su path PhaseAwaitingCommit)
                      (seq (SaveState su)
                      (seq installed_lines (rootfs_lines ext4 issue)))))))"

definition failApp :: "surroundings \<Rightarrow> string \<Rightarrow> string \<Rightarrow> op" where
  "failApp su operation cause =
     seq (printRequestError cause)
       (attempt (RollbackApp su)
         (seq (SaveState su) (seq (printFailure operation ''Rolled back.'') (stop (DoubleErr cause))))
         (\<lambda>e. seq (printFailure operation ''Rollback failed.'') (stop e)))"

definition maybeInjectedFailure :: "surroundings \<Rightarrow> string \<Rightarrow> op" where
  "maybeInjectedFailure su point =
     look (\<lambda>s.
       if d_ErrorInjectPoint s \<noteq> point then skip
       else seq (if point = ErrInjectAfterExtractBeforeStart then act su RotateBootID else skip)
         (seq (SaveState su)
         (seq (if su_kill su then ignore_error (act su KillServer) else skip)
           (stop (DoubleErr (''injected error at '' @ point))))))"

definition postCommitFailure :: op where
  "postCommitFailure =
     look (\<lambda>s.
       if d_ErrorInjectPoint s = ErrInjectPostCommitFailed
       then seq (println ''One or more post-commit steps failed.'') (stop (DoubleErr ''injected post-commit failure''))
       else if d_ErrorInjectPoint s = ErrInjectCleanupFailed
       then seq (println ''Cleanup failed.'') (stop (DoubleErr ''injected cleanup failure''))
       else skip)"

definition awaitingCommit :: "string \<Rightarrow> bool" where
  "awaitingCommit phase \<longleftrightarrow> phase = PhaseAwaitingCommit \<or> phase = PhaseCommitting"

definition committed :: "surroundings \<Rightarrow> op" where
  "committed su = seq (SaveState su) (seq (println ''Committed.'') postCommitFailure)"

text \<open>The commit of a root file system that was not booted.\<close>

definition commit_unbooted :: "surroundings \<Rightarrow> op" where
  "commit_unbooted su =
     seq (SaveState su)
            (seq (printDiagnostic 1 ''info'' ''07:38:33.551925''
                    (''Update Module output (stderr): '' @
                     ''Mounted root does not match boot loader environment (/dev/mmcblk0p3)!''))
            (seq (printDiagnostic 2 ''error'' ''07:38:33.552810''
                    (''Commit failed: Process returned non-zero exit status: '' @
                     ''ArtifactCommit: Process exited with status 1''))
            (seq (printFailure ''Committing'' ''Rolled back.'')
              (stop (DoubleErr ''commit failed before reboot'')))))"

definition cannot_commit :: string where
  "cannot_commit =
     ''Cannot commit from this state. Make sure that the `install` command has run successfully '' @
     ''and the device is expecting a commit.''"

definition runCommit :: "surroundings \<Rightarrow> op" where
  "runCommit su = seq (LoadState su) (look (\<lambda>s.
     if d_Stage s \<noteq> stageIdle \<and>
        ((d_InstallPhase s \<noteq> [] \<and> \<not> awaitingCommit (d_InstallPhase s)) \<or>
         (d_InstallPhase s = [] \<and> d_PendingUpdateType s = UpdateTypeApp))
     then request_error cannot_commit
     else if d_Stage s = stageBootedTrial then
       (if d_PendingUpdateType s \<noteq> UpdateTypeRootfs then noUpdate
        else seq (CommitTrial su) (committed su))
     else if d_Stage s = stageInstalled then
       (if d_PendingUpdateType s = UpdateTypeApp then
          look_files (\<lambda>files. case CheckAppHealth su files s of
             Some e \<Rightarrow> failApp su ''Committing'' e
           | None \<Rightarrow> seq (CleanupAppSnapshot su) (seq (CommitApp su) (committed su)))
        else if d_PendingUpdateType s = UpdateTypeCustomization then
          (if \<not> d_CustomizationHealthEvaluated s \<or> \<not> d_CustomizationHealthPassed s
           then seq (printFailure ''Committing'' ''Rolled back.'')
                  (stop (DoubleErr ''customization health checks did not pass''))
           else seq (modify CommitCustomization) (committed su))
        else
          seq (RollbackImmediate su) (commit_unbooted su))
     else noUpdate))"

definition in_phase_do :: "string \<Rightarrow> op \<Rightarrow> op" where
  "in_phase_do phase body = look (\<lambda>s. if d_InstallPhase s = phase then body else skip)"

text \<open>The steps of \<open>installApp\<close>, each behind its checkpoint.\<close>

definition app_begin :: "surroundings \<Rightarrow> string \<Rightarrow> string \<Rightarrow> op" where
  "app_begin su path project =
     (case ReadAppHealthSettings su of
        Inl e \<Rightarrow> stop (DoubleErr e)
      | Inr settings \<Rightarrow> look (\<lambda>s. look_files (\<lambda>files.
          case CheckAppSnapshotSource su files s project of
            Some e \<Rightarrow>
              seq (printFailure ''Installation'' ''System not modified.'')
                (seq (printRequestError e) (stop (DoubleErr e)))
          | None \<Rightarrow>
              seq (modify (\<lambda>s. SetInstalledApp (filepath_base path) project [] (d_RunningContainers s)
                     (s\<lparr>d_AppHealth := settings,
                        d_PreviousContainers := filter (\<lambda>c. HasProject c project) (d_RunningContainers s)\<rparr>)))
                (checkpoint su path PhaseInstalling))))"

definition app_stop :: "surroundings \<Rightarrow> string \<Rightarrow> string \<Rightarrow> op" where
  "app_stop su path project =
     seq (modify (\<lambda>s. s\<lparr>d_RunningContainers := RemoveRunningContainersForProject (d_RunningContainers s) project\<rparr>))
       (seq (checkpoint su path PhaseAppStopped) (maybeInjectedFailure su ErrInjectAfterStopOldContainers))"

definition app_rename :: "surroundings \<Rightarrow> string \<Rightarrow> string \<Rightarrow> op" where
  "app_rename su path project =
     (let snapshot = transactions @ ''/'' @ project @ ''/previous'' in
      seq (look_files (\<lambda>files. if su_exists su files (AppPath su project)
           then seq (act su (MakeDirs (parent_path (AppPath su snapshot))))
                  (seq (act su (RenamePath (AppPath su project) (AppPath su snapshot)))
                    (modify (\<lambda>s. s\<lparr>d_PreviousAppProject := snapshot\<rparr>)))
           else skip))
        (seq (checkpoint su path PhaseAppRenamed) (maybeInjectedFailure su ErrInjectAfterRenameOldAppDir)))"

definition app_extract :: "surroundings \<Rightarrow> string \<Rightarrow> string \<Rightarrow> op" where
  "app_extract su path project =
     (case su_extract su path (AppManifestPath su project) of
        Some e \<Rightarrow> failApp su ''Installation'' e
      | None \<Rightarrow>
          seq (did (ExtractApp path (AppManifestPath su project)))
            (seq (checkpoint su path PhaseAppExtracted) (maybeInjectedFailure su ErrInjectAfterExtractBeforeStart)))"

definition app_up :: "surroundings \<Rightarrow> string \<Rightarrow> string \<Rightarrow> op" where
  "app_up su path project = look (\<lambda>s.
     if d_ErrorInjectPoint s = ErrInjectDockerComposeUpFailed
     then failApp su ''Installation''
            ''docker compose up failed: bind source path does not exist: /data/missing-bind-source''
     else look_files (\<lambda>files. case su_compose su files (AppPath su project) project of
       ComposeMissing e \<Rightarrow> failApp su ''Installation'' e
     | ComposeBad e \<Rightarrow> failApp su ''Installation'' e
     | Composed running \<Rightarrow>
         seq (modify (\<lambda>s. s\<lparr>d_RunningContainers :=
                RemoveRunningContainersForProject (d_RunningContainers s) project @ running\<rparr>))
           (seq (progress [20, 40, 60, 80, 100])
             (look (\<lambda>s. look_files (\<lambda>files. case CheckAppHealth su files s of
                Some e \<Rightarrow> failApp su ''Installation'' e
              | None \<Rightarrow> checkpoint su path PhaseAwaitingCommit))))))"

definition installApp :: "surroundings \<Rightarrow> string \<Rightarrow> app_meta \<Rightarrow> bool \<Rightarrow> op" where
  "installApp su path meta stopBeforeCommit =
     (let project = (if am_application meta = [] then am_project meta else am_application meta) in
      if \<not> ValidAppName project then stop (DoubleErr (''invalid application_name: '' @ quoted project))
      else if am_orchestrator meta \<noteq> [] \<and> am_orchestrator meta \<noteq> ''docker-compose''
      then stop (DoubleErr (''unsupported orchestrator: '' @ am_orchestrator meta))
      else
        seq (in_phase_do [] (app_begin su path project))
        (seq (in_phase_do PhaseInstalling (app_stop su path project))
        (seq (in_phase_do PhaseAppStopped (app_rename su path project))
        (seq (in_phase_do PhaseAppRenamed (app_extract su path project))
        (seq (app_up su path project)
          (if stopBeforeCommit then installed_lines else runCommit su))))))"

text \<open>Another update is open.\<close>

definition busy_error :: "bool \<Rightarrow> op" where
  "busy_error diagnosed =
     (let msg = ''Operation now in progress: Update already in progress. Please commit or roll back first'' in
      seq (if diagnosed then printDiagnostic 1 ''error'' ''07:09:26.999642'' msg else skip) (request_error msg))"

definition runInstall :: "surroundings \<Rightarrow> string \<Rightarrow> op" where
  "runInstall su path = seq (LoadState su)
     (case su_stat su path of
        Some e \<Rightarrow>
          (let msg = ''No such file or directory: Failed to open '' @ [CHR 0x27] @ filepath_base path @ [CHR 0x27] @
                     '' for reading''
           in seq (printDiagnostic 1 ''error'' ''07:05:21.952463'' msg)
                (seq (printFailure ''Streaming'' ''System not modified.'')
                  (seq (printRequestError msg) (stop (DoubleErr e)))))
      | None \<Rightarrow>
     (case su_header su path of
        Inl e \<Rightarrow> not_modified ''Streaming'' e
      | Inr (info, metadata) \<Rightarrow>
     (if hd_devices info = [] \<or> hd (hd_devices info) \<noteq> expectedDeviceType
      then unsupported ''Streaming'' (''Artifact device type doesn'' @ [CHR 0x27] @ ''t match'') ''device type mismatch''
      else if hd_payloads info = [] then unsupported ''Streaming'' ''Unsupported payload type'' ''unsupported payload''
      else look (\<lambda>s.
        let busy = (d_Stage s = stageInstalled \<or> d_Stage s = stageBootedTrial); t = hd (hd_payloads info) in
        if t = UpdateTypeRootfs then
          (if busy then busy_error True
           else seq (modify (\<lambda>s. s\<lparr>d_PendingUpdateType := UpdateTypeRootfs\<rparr>))
             (seq (checkpoint su path PhaseInstalling) (installRootfs su path)))
        else if t = UpdateTypeApp \<or> t = ''docker-compose'' then
          (if busy then busy_error False else installApp su path metadata True)
        else if t = UpdateTypeCustomization then
          (if busy then busy_error False
           else seq (modify (\<lambda>s. s\<lparr>d_PendingUpdateType := UpdateTypeCustomization\<rparr>))
             (seq (checkpoint su path PhaseInstalling) (installCustomization su path)))
        else unsupported ''Streaming'' ''Unsupported payload type'' ''unsupported payload''))))"

definition runResume :: "surroundings \<Rightarrow> bool \<Rightarrow> op" where
  "runResume su stopBeforeCommit = seq (LoadState su) (look (\<lambda>s.
     if d_Stage s = stageIdle then noUpdate
     else if d_InstallPhase s = [] \<or> awaitingCommit (d_InstallPhase s) then
       (if stopBeforeCommit \<and> d_InstallPhase s \<noteq> PhaseCommitting then skip else runCommit su)
     else if d_InstallPhase s \<notin> {PhaseInstalling, PhaseAppStopped, PhaseAppRenamed, PhaseAppExtracted}
     then request_error (''cannot resume unknown installation phase: '' @ d_InstallPhase s)
     else if d_ResumeArtifact s = [] then request_error ''interrupted update has no saved artifact path''
     else if d_PendingUpdateType s = UpdateTypeApp then
       (case su_header su (d_ResumeArtifact s) of
          Inl e \<Rightarrow> request_error e
        | Inr (_, metadata) \<Rightarrow> installApp su (d_ResumeArtifact s) metadata stopBeforeCommit)
     else if d_PendingUpdateType s = UpdateTypeRootfs then installRootfs su (d_ResumeArtifact s)
     else if d_PendingUpdateType s = UpdateTypeCustomization then installCustomization su (d_ResumeArtifact s)
     else request_error ''cannot resume unknown update type''))"

definition runRollback :: "surroundings \<Rightarrow> op" where
  "runRollback su = seq (LoadState su) (look (\<lambda>s.
     let done = seq (SaveState su) (println ''Rolled back.'') in
     if d_Stage s = stageInstalled then
       seq (if d_PendingUpdateType s = UpdateTypeApp then RollbackApp su else RollbackImmediate su) done
     else if d_Stage s = stageBootedTrial then seq (RollbackAfterFailedTrial su) done
     else noUpdate))"

definition health_points :: "string list" where
  "health_points =
     [''app-health-unhealthy'', ''app-health-starting'', ''app-health-exited'', ''app-health-paused'',
      ''app-health-restarting'', ''app-health-missing'', ''app-health-oneshot-failed'']"

definition ErrInjectNone :: string where "ErrInjectNone = []"

definition IsValidErrInjectPoint :: "string \<Rightarrow> bool" where
  "IsValidErrInjectPoint v \<longleftrightarrow> v \<in> set health_points \<or>
     v \<in> {ErrInjectPostCommitFailed, ErrInjectCleanupFailed, ErrInjectNone, ErrInjectAfterStopOldContainers,
          ErrInjectAfterRenameOldAppDir, ErrInjectAfterExtractBeforeStart, ErrInjectDockerComposeUpFailed}"

definition runErrInject :: "surroundings \<Rightarrow> string \<Rightarrow> op" where
  "runErrInject su point =
     (if \<not> IsValidErrInjectPoint point then stop (DoubleErr (''invalid err-inject point: '' @ point))
      else seq (LoadState su) (seq (modify (\<lambda>s. s\<lparr>d_ErrorInjectPoint := point\<rparr>)) (seq (SaveState su)
        (println (if point = ErrInjectNone then ''Error injection cleared.''
                  else ''Error injection set to: '' @ point)))))"

section \<open>A command as the server sees it\<close>

definition commandExitCode :: "double_error option \<Rightarrow> int" where
  "commandExitCode e = (case e of None \<Rightarrow> 0 | Some NoUpdateErr \<Rightarrow> 2 | Some (DoubleErr _) \<Rightarrow> 1)"

text \<open>The commands of \<open>main\<close> that the server uses; other arguments print the usage text.\<close>

definition mender_update :: "surroundings \<Rightarrow> mender_command \<Rightarrow> string list \<Rightarrow> op option" where
  "mender_update su c args =
     (case c of
        CmdInstall \<Rightarrow> (case args of [path] \<Rightarrow> Some (runInstall su path) | _ \<Rightarrow> None)
      | CmdResume \<Rightarrow>
          (let stopBeforeCommit = (args = [''--stop-before'', ''ArtifactCommit_Enter'']) in
           if args \<noteq> [] \<and> \<not> stopBeforeCommit then None else Some (runResume su stopBeforeCommit))
      | CmdCommit \<Rightarrow> if args \<noteq> [] then None else Some (runCommit su)
      | CmdRollback \<Rightarrow> if args \<noteq> [] then None else Some (runRollback su)
      | CmdNone \<Rightarrow> None)"

definition lines_text :: "string list \<Rightarrow> string" where
  "lines_text ls = concat (map (\<lambda>l. l @ [newline]) ls)"

definition saved_states :: "double_effect list \<Rightarrow> double list" where
  "saved_states es = List.map_filter (\<lambda>e. case e of Saved s \<Rightarrow> Some s | _ \<Rightarrow> None) es"

definition exit_result :: "string list \<Rightarrow> string list \<Rightarrow> int \<Rightarrow> cmd_result" where
  "exit_result out err n =
     \<lparr>cr_stdout = lines_text out, cr_stderr = lines_text err, cr_exit = n,
      cr_err = (if n = 0 then None else Some (''command failed: exit status '' @ itoa n))\<rparr>"

definition start_run :: "double \<Rightarrow> run" where
  "start_run d = \<lparr>r_state = d, r_effects = [], r_out = [], r_err = []\<rparr>"

text \<open>A finished call: the states that it saved, in order, and what the caller gets.\<close>

definition usage_lines :: "string list" where
  "usage_lines =
     [''Usage:'', ''  mender-update install <image-file>'', ''  mender-update commit'',
      ''  mender-update resume [--stop-before ArtifactCommit_Enter]'', ''  mender-update rollback'',
      ''  mender-update show-issue'',
      ''  mender-update err-inject <none|after-stop-old-containers|after-renaming-old-application-directory|'' @
      ''after-extracting-new-application-before-starting-new-containers|docker-compose-up-failed|'' @
      ''app-health-unhealthy|app-health-starting|app-health-exited|app-health-paused|app-health-restarting|'' @
      ''app-health-missing|app-health-oneshot-failed|post-commit-failed|cleanup-failed>'']"

definition call_double :: "surroundings \<Rightarrow> mender_command \<Rightarrow> string list \<Rightarrow> double \<Rightarrow> double list \<times> cmd_result" where
  "call_double su c args d =
     (case mender_update su c args of
        None \<Rightarrow> ([], exit_result [] usage_lines 2)
      | Some f \<Rightarrow> (case f (start_run d) of
          (r, e) \<Rightarrow> (saved_states (r_effects r), exit_result (r_out r) (r_err r) (commandExitCode e))))"

section \<open>The commands \<open>reboot\<close> and \<open>os-customization-set\<close>\<close>

definition run_reboot :: "surroundings \<Rightarrow> op" where
  "run_reboot su =
     seq (println ''Rebooting...'')
     (seq (if su_kill su then ignore_error (act su KillServer) else skip)
     (seq (LoadState su)
     (seq (look (\<lambda>s.
        if d_Stage s = stageInstalled then
          (if d_PendingUpdateType s = UpdateTypeRootfs then TrialBoot su
           else if d_PendingUpdateType s = UpdateTypeCustomization then
             seq (modify (EvaluateCustomizationHealth (d_CustomizationHealthExpectedPass s)))
               (println (if d_CustomizationHealthExpectedPass s then ''Core OS Customization health checks passed.''
                         else ''Core OS Customization health checks failed.''))
           else skip)
        else if d_Stage s = stageBootedTrial then RollbackAfterFailedTrial su
        else skip))
     (seq (act su RotateBootID) (SaveState su)))))"

definition reboot_double :: "surroundings \<Rightarrow> double \<Rightarrow> double" where
  "reboot_double su d = last (d # saved_states (r_effects (fst (run_reboot su (start_run d)))))"

definition stringOrNil :: "string \<Rightarrow> string option" where
  "stringOrNil v = (if v = [] then None else Some v)"

text \<open>The JSON value of the status; the factory version is always null.\<close>

definition ptr_json :: "string option \<Rightarrow> json" where
  "ptr_json v = (case v of None \<Rightarrow> JNull | Some t \<Rightarrow> JString t)"

definition status_json :: "double \<Rightarrow> json" where
  "status_json s = JObject
     [(''active_slot'', ptr_json (stringOrNil (d_ActiveCustomizationSlot s))),
      (''active_version'', ptr_json (stringOrNil (d_ActiveCustomizationVersion s))),
      (''last_good_slot'', ptr_json (stringOrNil (d_LastGoodCustomizationSlot s))),
      (''last_good_version'', ptr_json (stringOrNil (d_ActiveCustomizationVersion s))),
      (''candidate_slot'', ptr_json (stringOrNil (d_CandidateCustomizationSlot s))),
      (''candidate_version'', ptr_json (stringOrNil (d_CandidateCustomizationVersion s))),
      (''candidate_state'', ptr_json (stringOrNil (d_CustomizationCandidateState s))),
      (''candidate_attempts'', JNumber (itoa (d_CustomizationCandidateAttempts s))),
      (''factory_version'', JNull)]"

end
