(* ===== verification/Mender_Loop.thy ===== *)
theory Mender_Loop
  imports Mender_Jobs
begin

text \<open>
  The server and the tool \<open>mender-update\<close> in one loop. The server's side is the job state machine; the tool's
  side is an interface: a call with the states that it makes durable and its result, a reboot, a health status.
  The contract of the tool is a table over the state of its transaction. In the loop, jobs start, commands
  end or are cut off at any durable state, the server and the machine restart at any time. For every tool that
  keeps the contract, a server that has ended its job leaves no transaction open.
\<close>

section \<open>The transaction of the tool\<close>

text \<open>
  No update, an installation under way, an update that awaits its commit, a new root file system that was booted
  (the flag: its installation was complete), and a customization whose health was checked after the reboot.
\<close>

datatype tx =
    NoTx
  | Started entity_type
  | Staged entity_type
  | Trial bool
  | Verdict bool

fun awaits :: "tx \<Rightarrow> bool" where
  "awaits (Staged k) = True"
| "awaits (Trial c) = c"
| "awaits (Verdict b) = True"
| "awaits _ = False"

fun tx_kind :: "tx \<Rightarrow> entity_type option" where
  "tx_kind NoTx = None"
| "tx_kind (Started k) = Some k"
| "tx_kind (Staged k) = Some k"
| "tx_kind (Trial c) = Some EntityCoreOs"
| "tx_kind (Verdict b) = Some EntityCoreOSCustomization"

section \<open>The contract\<close>

definition refusals :: "update_result set" where
  "refusals = {SystemNotModified, FailedRolledBack, GenericFailure}"

text \<open>An installation: the update is staged, or refused with nothing left; that of an application may also stop half-way.\<close>

definition install_ends :: "entity_type \<Rightarrow> (update_result \<times> tx) set" where
  "install_ends k =
     {(InstalledButNotCommited, Staged k)} \<union> refusals \<times> {NoTx} \<union>
     (if k = EntityApplication then {(GenericFailure, Started k)} else {})"

definition committed_ends :: "(update_result \<times> tx) set" where
  "committed_ends = {Commited, CommittedWithErrors} \<times> {NoTx}"

fun commit_ends :: "tx \<Rightarrow> (update_result \<times> tx) set" where
  "commit_ends NoTx = {(NoUpdateInProgress, NoTx)}"
| "commit_ends (Started k) = {(WrongState, Started k)}"
| "commit_ends (Staged k) =
     (case k of
        EntityApplication \<Rightarrow> committed_ends \<union> {(FailedRolledBack, NoTx)}
      | EntityCoreOs \<Rightarrow> {(FailedRolledBack, NoTx)}
      | EntityCoreOSCustomization \<Rightarrow> {(FailedRolledBack, Staged k)})"
| "commit_ends (Trial c) = (if c then committed_ends else {(WrongState, Trial c)})"
| "commit_ends (Verdict b) = (if b then committed_ends else {(FailedRolledBack, Verdict b)})"

fun resume_ends :: "bool \<Rightarrow> tx \<Rightarrow> (update_result \<times> tx) set" where
  "resume_ends stop NoTx = {(NoUpdateInProgress, NoTx)}"
| "resume_ends stop (Started k) =
     (if k = EntityApplication \<and> \<not> stop
      then committed_ends \<union> {(FailedRolledBack, NoTx), (GenericFailure, Started k)}
      else install_ends k)"
| "resume_ends stop (Trial False) = install_ends EntityCoreOs"
| "resume_ends stop t = (if stop then {(InstalledButNotCommited, t)} else commit_ends t)"

definition rollback_ends :: "tx \<Rightarrow> (update_result \<times> tx) set" where
  "rollback_ends t = (if t = NoTx then {(NoUpdateInProgress, NoTx)} else {(RolledBack, NoTx)})"

text \<open>What a finished call may return and leave, what it may leave when it is cut off, and what a reboot makes of it.\<close>

definition tool_ends :: "mender_command \<Rightarrow> string list \<Rightarrow> entity_type \<Rightarrow> tx \<Rightarrow> (update_result \<times> tx) set" where
  "tool_ends c args k t =
     (case c of
        CmdInstall \<Rightarrow> if t = NoTx then install_ends k else (insert UpdateAlreadyInProgress refusals) \<times> {t}
      | CmdResume \<Rightarrow> resume_ends (args = stop_args) t
      | CmdCommit \<Rightarrow> commit_ends t
      | CmdRollback \<Rightarrow> rollback_ends t
      | CmdNone \<Rightarrow> {})"

definition tool_cuts :: "mender_command \<Rightarrow> entity_type \<Rightarrow> tx \<Rightarrow> tx set" where
  "tool_cuts c k t =
     {NoTx, t} \<union>
     (if c = CmdInstall \<and> t = NoTx then {Started k, Staged k}
      else if c = CmdResume \<and> \<not> awaits t \<and> t \<noteq> NoTx then {Started (the (tx_kind t)), Staged (the (tx_kind t))}
      else {})"

fun reboot_ends :: "tx \<Rightarrow> tx set" where
  "reboot_ends (Trial c) = {NoTx}"
| "reboot_ends (Staged k) =
     (case k of
        EntityCoreOs \<Rightarrow> {Trial True}
      | EntityApplication \<Rightarrow> {Staged k}
      | EntityCoreOSCustomization \<Rightarrow> {Verdict True, Verdict False})"
| "reboot_ends (Started k) = (if k = EntityCoreOs then {Trial False} else {Started k})"
| "reboot_ends t = {t}"

text \<open>The arguments that the server passes.\<close>

definition proper_args :: "mender_command \<Rightarrow> string list \<Rightarrow> bool" where
  "proper_args c args \<longleftrightarrow>
     (case c of
        CmdInstall \<Rightarrow> length args = 1
      | CmdResume \<Rightarrow> args = [] \<or> args = stop_args
      | CmdCommit \<Rightarrow> args = []
      | CmdRollback \<Rightarrow> args = []
      | CmdNone \<Rightarrow> False)"

definition class_of_call :: "mender_command \<Rightarrow> string list \<Rightarrow> cmd_result \<Rightarrow> update_result" where
  "class_of_call c args r = menderUpdateResultFromOutput c (cr_stdout r) (cr_stderr r) (cr_exit r) (cr_err r) args"

section \<open>The loop\<close>

type_synonym ('e, 'd) tool_call = "'e \<Rightarrow> mender_command \<Rightarrow> string list \<Rightarrow> 'd \<Rightarrow> 'd list \<times> cmd_result"

record 'd loop =
  lp_job :: mender_pstate
  lp_work :: "background option"
  lp_tool :: 'd

definition settle :: "mender_step \<Rightarrow> 'd \<Rightarrow> 'd loop" where
  "settle st d =
     \<lparr>lp_job = fst st, lp_work = (case spawned (snd st) of [] \<Rightarrow> None | b # bs \<Rightarrow> Some b), lp_tool = d\<rparr>"

text \<open>
  The durable states in which a restart may find the tool: what it was, or any that the command
  under way had saved.
\<close>

definition left_by ::
  "('e, 'd) tool_call \<Rightarrow> ('e \<Rightarrow> entity_type \<Rightarrow> mender_command \<Rightarrow> string list \<Rightarrow> bool) \<Rightarrow> 'd loop \<Rightarrow> 'd \<Rightarrow> bool" where
  "left_by call fits l d \<longleftrightarrow>
     d = lp_tool l \<or>
     (\<exists>e c t code args ds r. lp_work l = Some (RunMender c t code args) \<and>
        fits e (CurrentEntityType (lp_job l)) c args \<and> call e c args (lp_tool l) = (ds, r) \<and> d \<in> set ds)"

text \<open>
  A poll of the health status either fails or prints the status of the tool; it is read back as the JSON value
  that was written.
\<close>

definition poll_of :: "world \<Rightarrow> json \<Rightarrow> cmd_result \<Rightarrow> bool" where
  "poll_of w j r \<longleftrightarrow> cr_err r \<noteq> None \<or> json_syntax w (cr_stdout r) = Inr j"

inductive loop_step ::
  "('e, 'd) tool_call \<Rightarrow> ('e \<Rightarrow> 'd \<Rightarrow> 'd) \<Rightarrow> ('d \<Rightarrow> json) \<Rightarrow>
   ('e \<Rightarrow> entity_type \<Rightarrow> mender_command \<Rightarrow> string list \<Rightarrow> bool) \<Rightarrow> ('e \<Rightarrow> bool) \<Rightarrow> 'd loop \<Rightarrow> 'd loop \<Rightarrow> bool"
  for call reboot status fits sound where
  job_starts:
    "StartUpdateJob t artifact name timeout (lp_job l) = Inr st \<Longrightarrow>
     loop_step call reboot status fits sound l (settle st (lp_tool l))"
| command_ends:
    "lp_work l = Some (RunMender c t code args) \<Longrightarrow> fits e (CurrentEntityType (lp_job l)) c args \<Longrightarrow>
     call e c args (lp_tool l) = (ds, r) \<Longrightarrow>
     HandleEvent w (runMenderCommand c code args r) (lp_job l) = Some st \<Longrightarrow>
     loop_step call reboot status fits sound l (settle st (last (lp_tool l # ds)))"
| check_ends:
    "lp_work l = Some RunVerification \<Longrightarrow> (\<And>i. poll_of w (status (lp_tool l)) (fst (polls i))) \<Longrightarrow>
     verification_loop w polls 0 = Some ev \<Longrightarrow> HandleEvent w' ev (lp_job l) = Some st \<Longrightarrow>
     loop_step call reboot status fits sound l (settle st (lp_tool l))"
| server_restarts:
    "left_by call fits l d \<Longrightarrow> HandleEvent w (newMenderManager False (lp_job l)) (lp_job l) = Some st \<Longrightarrow>
     loop_step call reboot status fits sound l (settle st d)"
| machine_restarts:
    "left_by call fits l d \<Longrightarrow> sound e \<Longrightarrow>
     HandleEvent w (newMenderManager True (lp_job l)) (lp_job l) = Some st \<Longrightarrow>
     loop_step call reboot status fits sound l (settle st (reboot e d))"

definition loop_start :: "'d \<Rightarrow> 'd loop" where
  "loop_start d = \<lparr>lp_job = idle_pstate, lp_work = None, lp_tool = d\<rparr>"

section \<open>The joint invariant\<close>

definition under_way :: "entity_type \<Rightarrow> tx set" where
  "under_way k =
     {NoTx, Started k, Staged k} \<union>
     (case k of
        EntityCoreOs \<Rightarrow> {Trial True, Trial False}
      | EntityApplication \<Rightarrow> {}
      | EntityCoreOSCustomization \<Rightarrow> {Verdict True, Verdict False})"

fun rebootable :: "entity_type \<Rightarrow> tx set" where
  "rebootable EntityCoreOs = {Staged EntityCoreOs, Trial True}"
| "rebootable EntityCoreOSCustomization = {Staged EntityCoreOSCustomization, Verdict True, Verdict False}"
| "rebootable EntityApplication = {}"

fun committable :: "entity_type \<Rightarrow> tx set" where
  "committable EntityCoreOs = {NoTx, Trial True}"
| "committable EntityApplication = {NoTx, Staged EntityApplication}"
| "committable EntityCoreOSCustomization = {NoTx, Verdict True}"

text \<open>The work and the transaction that belong to each state of a job.\<close>

definition agrees :: "mender_pstate \<Rightarrow> background option \<Rightarrow> tx \<Rightarrow> bool" where
  "agrees s b t \<longleftrightarrow>
     (let k = CurrentEntityType s in
      case State s of
        Idle \<Rightarrow> b = None \<and> t = NoTx
      | Installing \<Rightarrow>
          (\<exists>d a. b = Some (RunMender CmdInstall d EvInstallFinished [a]) \<and> t = NoTx) \<or>
          (\<exists>d. b = Some (RunMender CmdResume d EvInstallFinished (resumeInstallArgs s)) \<and> t \<in> under_way k)
      | Rebooting \<Rightarrow> (\<exists>d. b = Some (RunReboot d)) \<and> t \<in> rebootable k
      | Committing \<Rightarrow>
          (\<exists>c d. b = Some (RunMender c d EvCommitFinished []) \<and> (c = CmdCommit \<or> c = CmdResume)) \<and>
          t \<in> committable k
      | RecoverInstallCommitting \<Rightarrow> False
      | VerifyingCustomization \<Rightarrow>
          b = Some RunVerification \<and> k = EntityCoreOSCustomization \<and> t \<in> {Verdict True, Verdict False}
      | RollingBackCustomization \<Rightarrow>
          (\<exists>d. b = Some (RunMender CmdRollback d EvRollbackFinished [])) \<and> k = EntityCoreOSCustomization \<and>
          t \<in> {NoTx, Verdict True, Verdict False}
      | RollingBackApplication \<Rightarrow>
          (\<exists>d. b = Some (RunMender CmdRollback d EvRollbackFinished [])) \<and> k = EntityApplication \<and>
          t \<in> {NoTx, Started EntityApplication, Staged EntityApplication})"

definition next_work :: "effect list \<Rightarrow> background option" where
  "next_work es = (case spawned es of [] \<Rightarrow> None | b # bs \<Rightarrow> Some b)"

abbreviation settled :: "mender_step \<Rightarrow> tx \<Rightarrow> bool" where
  "settled st t \<equiv> agrees (fst st) (next_work (snd st)) t"

lemma settle_simps [simp]:
  "lp_job (settle st d) = fst st" "lp_work (settle st d) = next_work (snd st)" "lp_tool (settle st d) = d"
  by (simp_all add: settle_def next_work_def)

lemma agrees_idle [simp]: "agrees idle_pstate b t \<longleftrightarrow> b = None \<and> t = NoTx"
  by (simp add: agrees_def idle_pstate_def)

lemma next_work_simps [simp]:
  "next_work (snd (emitJobFinished ok m s)) = None" "next_work (snd (save_and_spawn b s)) = Some b" "next_work [] = None"
  by (simp_all add: next_work_def)

section \<open>The handlers keep it\<close>

lemmas spawn_defs = runMenderInstallInBackGround_def runInterruptedInstallInBackground_def
  runMenderCommitInBackGround_def runMenderRollbackInBackGround_def runRebootInBackGround_def
  runCustomizationStatusVerificationInBackground_def startApplicationRollback_def startPostInstallStep_def
  maybeRecoverApplication_def Let_def

lemma recovery_install_settled: "settled (runMenderRecoveryInstallInBackGround s) NoTx" if "State s = Installing"
proof (cases "reserveRecoveryAttempt s")
  case None
  then show ?thesis by (simp add: runMenderRecoveryInstallInBackGround_def)
next
  case (Some s')
  then have "State s' = Installing"
    using that by (auto simp: reserveRecoveryAttempt_def split: if_splits)
  then show ?thesis using Some by (simp add: runMenderRecoveryInstallInBackGround_def spawn_defs agrees_def)
qed

lemma settled_application_rollback:
  "CurrentEntityType s = EntityApplication \<Longrightarrow> t \<in> {NoTx, Started EntityApplication, Staged EntityApplication} \<Longrightarrow>
   settled (startApplicationRollback w s) t"
  by (auto simp: spawn_defs agrees_def)

lemma settled_post_install:
  "CurrentEntityType s = EntityApplication \<and> t = Staged EntityApplication \<or>
   CurrentEntityType s \<noteq> EntityApplication \<and> t \<in> rebootable (CurrentEntityType s) \<Longrightarrow>
   settled (startPostInstallStep w s) t"
  by (cases "CurrentEntityType s") (auto simp: spawn_defs agrees_def)

lemma deployed_check:
  assumes "(case currentArtifactIsDeployed w s of
      None \<Rightarrow> None | Some True \<Rightarrow> Some (emitJobFinished True [] s) | Some False \<Rightarrow> Some x) = Some st"
    and "settled x NoTx"
  shows "settled st NoTx"
  using assms by (auto split: option.splits bool.splits)

lemma install_finished:
  assumes ev: "ev_code e = EvInstallFinished" and st: "State s = Installing"
    and r: "(ev_result e, t) \<in> install_ends (CurrentEntityType s) \<union> {NoUpdateInProgress} \<times> {NoTx} \<union>
      committed_ends \<union> {InstalledButNotCommited} \<times> rebootable (CurrentEntityType s)"
    and H: "handleInstallingEvent w e s = Some st'"
  shows "settled st' t"
proof -
  consider (resumed) "resumedApplicationInstallRolledBack e s" | (no_update) "ev_result e = NoUpdateInProgress"
    | (other) "\<not> resumedApplicationInstallRolledBack e s" "ev_result e \<noteq> NoUpdateInProgress" by blast
  then show ?thesis
  proof cases
    case resumed
    then have "t = NoTx"
      using r by (auto simp: resumedApplicationInstallRolledBack_def install_ends_def committed_ends_def split: if_splits)
    then show ?thesis
      using H ev resumed recovery_install_settled[OF st] by (simp add: handleInstallingEvent_def)
  next
    case no_update
    then have "t = NoTx" "\<not> resumedApplicationInstallRolledBack e s"
      using r by (auto simp: resumedApplicationInstallRolledBack_def install_ends_def committed_ends_def refusals_def
          split: if_splits)
    then show ?thesis
      using H ev no_update deployed_check[OF _ recovery_install_settled[OF st]]
      by (simp add: handleInstallingEvent_def)
  next
    case other
    show ?thesis
    proof (cases "ev_result e = CommittedWithErrors")
      case True
      then show ?thesis using H ev r other
        by (auto simp: handleInstallingEvent_def install_ends_def committed_ends_def refusals_def split: if_splits)
    next
      case False
      then have "st' = handleInstallFinished w e s" using H ev other by (simp add: handleInstallingEvent_def)
      then show ?thesis
        using r False other
        by (cases "CurrentEntityType s")
          (auto simp: handleInstallFinished_def install_ends_def committed_ends_def refusals_def
            intro!: settled_application_rollback settled_post_install split: if_splits)
    qed
  qed
qed

lemma commit_finished:
  assumes ev: "ev_code e = EvCommitFinished" and st: "State s = Committing" and t: "t \<in> committable (CurrentEntityType s)"
    and r: "(ev_result e, t') \<in> commit_ends t" and H: "handleCommittingEvent w e s = Some st'"
  shows "settled st' t'"
proof (cases "ev_result e = NoUpdateInProgress")
  case True
  then have "t' = NoTx" using r t by (cases t; cases "CurrentEntityType s") (auto simp: committed_ends_def)
  moreover have "settled (handle_commit_result e s) NoTx" using True by (simp add: handle_commit_result_def)
  ultimately show ?thesis
    using H ev True deployed_check[where x = "handle_commit_result e s"] by (simp add: handleCommittingEvent_def)
next
  case False
  have R: "t' = NoTx" "ev_result e \<in> {Commited, CommittedWithErrors, FailedRolledBack}"
    using r t False by (cases "CurrentEntityType s"; auto simp: committed_ends_def)+
  then show ?thesis using H ev False
    by (auto simp: handleCommittingEvent_def handle_commit_result_def)
qed

lemma rollback_finished:
  assumes "ev_code e = EvRollbackFinished"
  shows "settled (handleRollingBackCustomizationEvent e s) NoTx" "settled (handleRollingBackApplicationEvent w e s) NoTx"
  using assms by (auto simp: handleRollingBackCustomizationEvent_def handleRollingBackApplicationEvent_def)

lemma restart_settled:
  assumes H: "HandleEvent w (blank_event EvRestarted) s = Some st'" and A: "agrees s b t"
    and t': "t' = t \<or> (\<exists>c d code args. b = Some (RunMender c d code args) \<and> t' \<in> tool_cuts c (CurrentEntityType s) t)"
  shows "settled st' t'"
proof (cases "State s")
  case Idle
  then show ?thesis using H A t' by (auto simp: HandleEvent_def agrees_def next_work_def)
next
  case Installing
  then have "st' = runInterruptedInstallInBackground s"
    using H by (simp add: HandleEvent_def handleInstallingEvent_def blank_event_def)
  moreover have "t' \<in> under_way (CurrentEntityType s)"
    using A t' Installing
    by (cases "CurrentEntityType s") (auto simp: agrees_def tool_cuts_def under_way_def split: if_splits)
  ultimately show ?thesis using Installing by (simp add: spawn_defs agrees_def)
next
  case Rebooting
  then show ?thesis using H A t'
    by (auto simp: HandleEvent_def handleRebootingEvent_def blank_event_def spawn_defs agrees_def)
next
  case Committing
  then have "t' \<in> committable (CurrentEntityType s)"
    using A t' by (cases "CurrentEntityType s") (auto simp: agrees_def tool_cuts_def split: if_splits)
  then show ?thesis using H Committing
    by (auto simp: HandleEvent_def handleCommittingEvent_def blank_event_def agrees_def)
next
  case RecoverInstallCommitting
  then show ?thesis using A by (simp add: agrees_def)
next
  case VerifyingCustomization
  then show ?thesis using H A t'
    by (auto simp: HandleEvent_def handleVerifyingCustomizationEvent_def blank_event_def spawn_defs agrees_def)
next
  case RollingBackCustomization
  then show ?thesis using H A t'
    by (auto simp: HandleEvent_def handleRollingBackCustomizationEvent_def blank_event_def spawn_defs agrees_def
        tool_cuts_def split: if_splits)
next
  case RollingBackApplication
  then show ?thesis using H A t'
    by (auto simp: HandleEvent_def handleRollingBackApplicationEvent_def blank_event_def spawn_defs agrees_def
        tool_cuts_def split: if_splits)
qed

lemma machine_restart_settled:
  assumes H: "HandleEvent w (newMenderManager True s) s = Some st'" and A: "agrees s b t"
    and t': "t' = t \<or> (\<exists>c d code args. b = Some (RunMender c d code args) \<and> t' \<in> tool_cuts c (CurrentEntityType s) t)"
    and t'': "t'' \<in> reboot_ends t'"
  shows "settled st' t''"
proof (cases "State s = Rebooting")
  case True
  then have "t' = t" "t \<in> rebootable (CurrentEntityType s)" using A t' by (auto simp: agrees_def)
  then show ?thesis using H True t''
    by (cases "CurrentEntityType s")
      (auto simp: HandleEvent_def handleRebootingEvent_def newMenderManager_def emitRebootFinished_def blank_event_def
        spawn_defs agrees_def)
next
  case False
  then have H': "HandleEvent w (blank_event EvRestarted) s = Some st'" using H by (simp add: newMenderManager_def)
  show ?thesis
  proof (cases "State s")
    case Idle
    then show ?thesis using H' A t' t'' by (auto simp: HandleEvent_def agrees_def next_work_def)
  next
    case Installing
    then have "st' = runInterruptedInstallInBackground s"
      using H' by (simp add: HandleEvent_def handleInstallingEvent_def blank_event_def)
    moreover have "t' \<in> under_way (CurrentEntityType s)"
      using A t' Installing
      by (cases "CurrentEntityType s") (auto simp: agrees_def tool_cuts_def under_way_def split: if_splits)
    then have "t'' \<in> under_way (CurrentEntityType s)"
      using t'' by (cases "CurrentEntityType s") (auto simp: under_way_def)
    ultimately show ?thesis using Installing by (simp add: spawn_defs agrees_def)
  next
    case Committing
    then have "t' \<in> committable (CurrentEntityType s)"
      using A t' by (cases "CurrentEntityType s") (auto simp: agrees_def tool_cuts_def split: if_splits)
    then have "t'' \<in> committable (CurrentEntityType s)"
      using t'' by (cases "CurrentEntityType s") auto
    then show ?thesis using H' Committing
      by (auto simp: HandleEvent_def handleCommittingEvent_def blank_event_def agrees_def)
  next
    case RecoverInstallCommitting
    then show ?thesis using A by (simp add: agrees_def)
  next
    case VerifyingCustomization
    then show ?thesis using H' A t' t''
      by (auto simp: HandleEvent_def handleVerifyingCustomizationEvent_def blank_event_def spawn_defs agrees_def)
  next
    case RollingBackCustomization
    then show ?thesis using H' A t' t''
      by (auto simp: HandleEvent_def handleRollingBackCustomizationEvent_def blank_event_def spawn_defs agrees_def
          tool_cuts_def split: if_splits)
  next
    case RollingBackApplication
    then show ?thesis using H' A t' t''
      by (auto simp: HandleEvent_def handleRollingBackApplicationEvent_def blank_event_def spawn_defs agrees_def
          tool_cuts_def split: if_splits)
  qed (use False in simp)
qed

lemma resume_ends_installing:
  assumes "t \<in> under_way (CurrentEntityType s)" "x \<in> resume_ends (resumeInstallArgs s = stop_args) t"
  shows "x \<in> install_ends (CurrentEntityType s) \<union> {NoUpdateInProgress} \<times> {NoTx} \<union>
      committed_ends \<union> {InstalledButNotCommited} \<times> rebootable (CurrentEntityType s)"
  using assms
  by (cases "CurrentEntityType s")
    (auto simp: under_way_def resumeInstallArgs_def stop_args_def install_ends_def refusals_def)

lemma command_settled:
  assumes A: "agrees s (Some (RunMender c d code args)) t" and r: "(class_of_call c args r, t') \<in> tool_ends c args (CurrentEntityType s) t"
    and H: "HandleEvent w (runMenderCommand c code args r) s = Some st'"
  shows "settled st' t'"
proof -
  let ?e = "runMenderCommand c code args r"
  have e: "ev_code ?e = code" "ev_result ?e = class_of_call c args r"
    by (simp_all add: runMenderCommand_def class_of_call_def Let_def)
  show ?thesis
  proof (cases "State s")
    case Installing
    then consider "c = CmdInstall" "t = NoTx" | "c = CmdResume" "args = resumeInstallArgs s" "t \<in> under_way (CurrentEntityType s)"
      using A by (auto simp: agrees_def)
    then have "(class_of_call c args r, t') \<in> install_ends (CurrentEntityType s) \<union> {NoUpdateInProgress} \<times> {NoTx} \<union>
      committed_ends \<union> {InstalledButNotCommited} \<times> rebootable (CurrentEntityType s)"
    proof cases
      case 1
      then show ?thesis using r by (simp add: tool_ends_def)
    next
      case 2
      then have "(class_of_call c args r, t') \<in> resume_ends (resumeInstallArgs s = stop_args) t"
        using r by (simp add: tool_ends_def)
      then show ?thesis by (rule resume_ends_installing[OF 2(3)])
    qed
    moreover have "code = EvInstallFinished" using A Installing by (auto simp: agrees_def)
    ultimately show ?thesis
      using H Installing e by (intro install_finished[of ?e s]) (simp_all add: HandleEvent_def)
  next
    case Committing
    then have "t \<in> committable (CurrentEntityType s)" "code = EvCommitFinished" "args = []" "c = CmdCommit \<or> c = CmdResume"
      using A by (auto simp: agrees_def)
    moreover from this have "(ev_result ?e, t') \<in> commit_ends t"
      using r e by (cases "CurrentEntityType s") (auto simp: tool_ends_def stop_args_def)
    ultimately show ?thesis using H Committing e by (intro commit_finished[of ?e s t]) (simp_all add: HandleEvent_def)
  next
    case RollingBackCustomization
    then have "t' = NoTx" "ev_code ?e = EvRollbackFinished"
      using A r e by (auto simp: agrees_def tool_ends_def rollback_ends_def)
    then show ?thesis using H RollingBackCustomization rollback_finished(1) by (auto simp: HandleEvent_def)
  next
    case RollingBackApplication
    then have "t' = NoTx" "ev_code ?e = EvRollbackFinished"
      using A r e by (auto simp: agrees_def tool_ends_def rollback_ends_def split: if_splits)
    then show ?thesis using H RollingBackApplication rollback_finished(2) by (auto simp: HandleEvent_def)
  qed (use A in \<open>auto simp: agrees_def\<close>)
qed

lemma check_settled:
  assumes A: "agrees s (Some RunVerification) t" and b: "ev_code ev = EvCustomizationVerified" "ev_success ev \<Longrightarrow> t = Verdict True"
    and H: "HandleEvent w ev s = Some st'"
  shows "settled st' t"
  using assms
  by (auto simp: agrees_def HandleEvent_def handleVerifyingCustomizationEvent_def spawn_defs
      split: mender_state.splits if_splits)

section \<open>The interface and the loop's invariant\<close>

locale mender_tool =
  fixes call :: "('e, 'd) tool_call"
    and reboot :: "'e \<Rightarrow> 'd \<Rightarrow> 'd"
    and status :: "'d \<Rightarrow> json"
    and fits :: "'e \<Rightarrow> entity_type \<Rightarrow> mender_command \<Rightarrow> string list \<Rightarrow> bool"
    and sound :: "'e \<Rightarrow> bool"
    and wf :: "'d \<Rightarrow> bool"
    and tx :: "'d \<Rightarrow> tx"
  assumes call_saves: "wf d \<Longrightarrow> proper_args c args \<Longrightarrow> fits e k c args \<Longrightarrow> call e c args d = (ds, r) \<Longrightarrow> x \<in> set ds \<Longrightarrow>
      wf x \<and> tx x \<in> tool_cuts c k (tx d)"
    and call_ends: "wf d \<Longrightarrow> proper_args c args \<Longrightarrow> fits e k c args \<Longrightarrow> call e c args d = (ds, r) \<Longrightarrow>
      (class_of_call c args r, tx (last (d # ds))) \<in> tool_ends c args k (tx d)"
    and reboot_law: "wf d \<Longrightarrow> sound e \<Longrightarrow> wf (reboot e d) \<and> tx (reboot e d) \<in> reboot_ends (tx d)"
    and check: "wf d \<Longrightarrow> tx d = Verdict b \<Longrightarrow> poll_of w (status d) r \<Longrightarrow> poll_status w r = Some ev \<Longrightarrow>
      ev_success ev \<Longrightarrow> b"
begin

definition joint :: "'d loop \<Rightarrow> bool" where
  "joint l \<longleftrightarrow> wf (lp_tool l) \<and> agrees (lp_job l) (lp_work l) (tx (lp_tool l))"

lemma joint_start: "wf d \<Longrightarrow> tx d = NoTx \<Longrightarrow> joint (loop_start d)"
  by (simp add: joint_def loop_start_def)

lemma work_proper: "agrees s (Some (RunMender c t code args)) x \<Longrightarrow> proper_args c args"
  by (cases "State s") (auto simp: agrees_def proper_args_def resumeInstallArgs_def stop_args_def)

lemma left_by_cut:
  assumes "joint l" "left_by call fits l d"
  shows "wf d \<and> (tx d = tx (lp_tool l) \<or>
    (\<exists>c t code args. lp_work l = Some (RunMender c t code args) \<and>
       tx d \<in> tool_cuts c (CurrentEntityType (lp_job l)) (tx (lp_tool l))))"
  using assms call_saves work_proper unfolding left_by_def joint_def by metis

lemma poll_decision_code: "poll_decision w p = Some ev \<Longrightarrow> ev_code ev = EvCustomizationVerified"
  by (auto simp: poll_decision_def poll_status_def verified_event_def blank_event_def
      split: option.splits sum.splits if_splits)

lemma verified_means_passed:
  assumes "wf d" "tx d = Verdict b" "\<And>i. poll_of w (status d) (fst (polls i))" "verification_loop w polls 0 = Some ev"
    "ev_success ev"
  shows b
proof -
  obtain n where n: "poll_decision w (polls n) = Some ev" using verification_loop_decided[OF assms(4)] by blast
  then have "poll_status w (fst (polls n)) = Some ev"
    using assms(5) by (auto simp: poll_decision_def verified_event_def split: option.splits if_splits)
  then show b using check assms by blast
qed

lemma joint_step:
  assumes "loop_step call reboot status fits sound l l'" "joint l"
  shows "joint l'"
  using assms
proof (induction rule: loop_step.induct)
  case (job_starts t artifact name timeout l st)
  then have "State (lp_job l) = Idle" by (simp add: StartUpdateJob_def split: if_splits)
  then show ?case using job_starts
    by (auto simp: joint_def StartUpdateJob_def spawn_defs agrees_def)
next
  case (command_ends l c t code args e ds r w st)
  have A: "wf (lp_tool l)" "agrees (lp_job l) (Some (RunMender c t code args)) (tx (lp_tool l))"
    using command_ends by (simp_all add: joint_def)
  have P: "proper_args c args" using work_proper A(2) by blast
  have "wf (last (lp_tool l # ds))"
    using A(1) call_saves[OF A(1) P command_ends(2,3)] by (auto split: if_splits)
  moreover have "settled st (tx (last (lp_tool l # ds)))"
    using command_settled[OF A(2) call_ends[OF A(1) P command_ends(2,3)] command_ends(4)] .
  ultimately show ?case by (simp add: joint_def)
next
  case (check_ends l w polls ev w' st)
  have A: "wf (lp_tool l)" "agrees (lp_job l) (Some RunVerification) (tx (lp_tool l))"
    using check_ends by (simp_all add: joint_def)
  obtain b where b: "tx (lp_tool l) = Verdict b" using A(2) by (cases "State (lp_job l)") (auto simp: agrees_def)
  have "settled st (tx (lp_tool l))"
  proof (rule check_settled[OF A(2) _ _ check_ends(4)])
    show "ev_code ev = EvCustomizationVerified"
      using verification_loop_decided[OF check_ends(3)] poll_decision_code by blast
  qed (use verified_means_passed[OF A(1) b check_ends(2,3)] b in simp)
  then show ?case using A(1) by (simp add: joint_def)
next
  case (server_restarts l d w st)
  have "settled st (tx d)"
    using restart_settled[of w "lp_job l" st "lp_work l" "tx (lp_tool l)" "tx d"] server_restarts
      left_by_cut[OF server_restarts(3,1)] by (simp add: joint_def newMenderManager_def)
  then show ?case using left_by_cut[OF server_restarts(3,1)] by (simp add: joint_def)
next
  case (machine_restarts l d e w st)
  have W: "wf d" using left_by_cut[OF machine_restarts(4,1)] by blast
  have "settled st (tx (reboot e d))"
    using machine_restart_settled[of w "lp_job l" st "lp_work l" "tx (lp_tool l)" "tx d"] machine_restarts
      left_by_cut[OF machine_restarts(4,1)] reboot_law[OF W machine_restarts(2)] by (simp add: joint_def)
  then show ?case using reboot_law[OF W machine_restarts(2)] by (simp add: joint_def)
qed

lemma joint_reachable:
  assumes "(loop_step call reboot status fits sound)\<^sup>*\<^sup>* (loop_start d) l" "wf d" "tx d = NoTx"
  shows "joint l"
  using assms(1) by (induction rule: rtranclp_induct) (simp_all add: joint_start assms joint_step)

end

end
