(* ===== verification/Double_Rules.thy ===== *)
theory Double_Rules
  imports Mender_Double Mender_Loop
begin

text \<open>
  Reasoning about the commands of the Mender double: a precondition calculus for the operations with effects,
  and the reading of their lines. The server looks for certain phrases in the output; the marks of a run are
  the phrases that its lines contain, and the class of a call is a function of the marks.
\<close>

section \<open>Preconditions\<close>

definition wp :: "op \<Rightarrow> (run \<Rightarrow> double_error option \<Rightarrow> bool) \<Rightarrow> run \<Rightarrow> bool" where
  "wp f Q r \<longleftrightarrow> (case f r of (r', e) \<Rightarrow> Q r' e)"

named_theorems wp_simps \<open>preconditions of the operations of the double\<close>

lemma wp_skip [wp_simps]: "wp skip Q r \<longleftrightarrow> Q r None"
  by (simp add: wp_def skip_def)

lemma wp_stop [wp_simps]: "wp (stop e) Q r \<longleftrightarrow> Q r (Some e)"
  by (simp add: wp_def stop_def)

lemma wp_seq [wp_simps]:
  "wp (seq a b) Q r \<longleftrightarrow> wp a (\<lambda>r' e. case e of None \<Rightarrow> wp b Q r' | Some x \<Rightarrow> Q r' (Some x)) r"
  by (simp add: wp_def seq_def split: prod.split option.split)

lemma wp_attempt [wp_simps]:
  "wp (attempt a ok bad) Q r \<longleftrightarrow> wp a (\<lambda>r' e. case e of None \<Rightarrow> wp ok Q r' | Some x \<Rightarrow> wp (bad x) Q r') r"
  by (simp add: wp_def attempt_def split: prod.split option.split)

lemma wp_ignore_error [wp_simps]: "wp (ignore_error a) Q r \<longleftrightarrow> wp a (\<lambda>r' _. Q r' None) r"
  by (simp add: wp_def ignore_error_def split: prod.split)

lemma wp_look [wp_simps]: "wp (look f) Q r \<longleftrightarrow> wp (f (r_state r)) Q r"
  by (simp add: wp_def look_def)

lemma wp_look_files [wp_simps]: "wp (look_files f) Q r \<longleftrightarrow> wp (f (r_effects r)) Q r"
  by (simp add: wp_def look_files_def)

lemma wp_did [wp_simps]: "wp (did x) Q r \<longleftrightarrow> Q (r\<lparr>r_effects := r_effects r @ [x]\<rparr>) None"
  by (simp add: wp_def did_def)

lemma wp_modify [wp_simps]: "wp (modify f) Q r \<longleftrightarrow> Q (r\<lparr>r_state := f (r_state r)\<rparr>) None"
  by (simp add: wp_def modify_def)

lemma wp_println [wp_simps]: "wp (println l) Q r \<longleftrightarrow> Q (r\<lparr>r_out := r_out r @ [l]\<rparr>) None"
  by (simp add: wp_def println_def)

lemma wp_eprintln [wp_simps]: "wp (eprintln l) Q r \<longleftrightarrow> Q (r\<lparr>r_err := r_err r @ [l]\<rparr>) None"
  by (simp add: wp_def eprintln_def)

lemma wp_act: "su_fails su x = None \<Longrightarrow> wp (act su x) Q r \<longleftrightarrow> Q (r\<lparr>r_effects := r_effects r @ [x]\<rparr>) None"
  by (simp add: act_def wp_did)

lemma wp_mono: "wp f P r \<Longrightarrow> (\<And>r' e. P r' e \<Longrightarrow> Q r' e) \<Longrightarrow> wp f Q r"
  by (auto simp: wp_def split: prod.splits)

lemma wp_if [wp_simps]: "wp (if b then x else y) Q r \<longleftrightarrow> (if b then wp x Q r else wp y Q r)"
  by simp

lemma wp_sum [wp_simps]:
  "wp (case x of Inl a \<Rightarrow> f a | Inr b \<Rightarrow> g b) Q r \<longleftrightarrow> (case x of Inl a \<Rightarrow> wp (f a) Q r | Inr b \<Rightarrow> wp (g b) Q r)"
  by (cases x) auto

lemma wp_option [wp_simps]:
  "wp (case x of None \<Rightarrow> f | Some b \<Rightarrow> g b) Q r \<longleftrightarrow> (case x of None \<Rightarrow> wp f Q r | Some b \<Rightarrow> wp (g b) Q r)"
  by (cases x) auto

lemma wp_prod [wp_simps]: "wp (case x of (a, b) \<Rightarrow> f a b) Q r \<longleftrightarrow> (case x of (a, b) \<Rightarrow> wp (f a b) Q r)"
  by (cases x) auto

section \<open>What the lines say\<close>

definition phrases :: "string list" where
  "phrases = map fst diagnostics @ map fst dispositions @
     [''post-commit steps failed.'', ''Cleanup failed.'', ''Installed, but not committed.'',
      ''Installed and committed.'', ''Committed.'', ''Installed, but one or more post-commit steps failed.'',
      ''Cleaned up.'', ''No update in progress.'']"

definition marks_of :: "string \<Rightarrow> string set" where
  "marks_of l = {p \<in> set phrases. contains_str l p}"

definition said :: "string list \<Rightarrow> string set" where
  "said ls = (\<Union>l \<in> set ls. marks_of l)"

definition marks :: "run \<Rightarrow> string set" where
  "marks r = said (r_out r) \<union> said (r_err r)"

text \<open>The lines that the server compares as a whole are printed alone.\<close>

definition summaries :: "string list" where
  "summaries =
     [''Installed, but not committed.'', ''Installed and committed.'', ''Committed.'',
      ''Installed, but one or more post-commit steps failed.'', ''Cleaned up.'', ''No update in progress.'',
      ''Rolled back.'']"

definition tidy :: "run \<Rightarrow> bool" where
  "tidy r \<longleftrightarrow> (\<forall>t \<in> set summaries. t \<in> marks r \<longrightarrow> t \<in> set (r_out r))"

lemma marks_of_filter: "marks_of l = set (filter (contains_str l) phrases)"
  by (auto simp: marks_of_def)

lemma said_simps [simp]: "said [] = {}" "said (l # ls) = marks_of l \<union> said ls" "said (xs @ ys) = said xs \<union> said ys"
  by (auto simp: said_def)

lemma said_in: "p \<in> said ls \<longleftrightarrow> (\<exists>l \<in> set ls. p \<in> marks_of l)"
  by (auto simp: said_def)

lemma phrase_simps: "p \<in> set phrases \<Longrightarrow> p \<noteq> [] \<and> CHR 0x0A \<notin> set p \<and> CHR '':'' \<notin> set p \<and> CHR 0x22 \<notin> set p \<and> CHR 0x27 \<notin> set p \<and> hd p \<noteq> CHR '' ''"
proof -
  have "list_all (\<lambda>p. p \<noteq> [] \<and> CHR 0x0A \<notin> set p \<and> CHR '':'' \<notin> set p \<and> CHR 0x22 \<notin> set p \<and> CHR 0x27 \<notin> set p \<and> hd p \<noteq> CHR '' '') phrases"
    by code_simp
  then show "p \<in> set phrases \<Longrightarrow> ?thesis" by (simp add: list_all_iff)
qed

lemma contains_sep: "c \<notin> set p \<Longrightarrow> p \<noteq> [] \<Longrightarrow> contains_str (a @ c # b) p \<longleftrightarrow> contains_str a p \<or> contains_str b p"
proof
  assume c: "c \<notin> set p" "p \<noteq> []" and "contains_str (a @ c # b) p"
  then obtain x y where "x @ p @ y = a @ c # b" by (auto simp: contains_str_iff)
  then consider (right) us where "us @ p @ y = c # b" | (left) us where "x @ us = a" "p @ y = us @ c # b"
    unfolding append_eq_append_conv2[of x] by blast
  then show "contains_str a p \<or> contains_str b p"
  proof cases
    case right
    then have "\<exists>us'. b = us' @ p @ y" using c by (cases us; cases p) auto
    then show ?thesis by (auto simp: contains_str_iff)
  next
    case left
    from left(2) consider (inside) vs where "p = us @ vs" "vs @ y = c # b" | (before) vs where "us = p @ vs"
      unfolding append_eq_append_conv2[of p] by auto
    then show ?thesis
    proof cases
      case inside
      then have "vs = []" using c by (cases vs) auto
      then have "a = x @ p @ []" using inside left by simp
      then show ?thesis by blast
    next
      case before
      then have "a = x @ p @ vs" using left by simp
      then show ?thesis by blast
    qed
  qed
next
  assume "contains_str a p \<or> contains_str b p"
  then show "contains_str (a @ c # b) p"
    using contains_str_append1 contains_str_append2 by (metis append_Cons append_Nil append_assoc)
qed


lemma marks_of_sep:
  assumes "c \<in> {CHR 0x22, CHR 0x27, CHR 0x0A, CHR '':''}"
  shows "marks_of (a @ c # b) = marks_of a \<union> marks_of b"
proof -
  have "contains_str (a @ c # b) p \<longleftrightarrow> contains_str a p \<or> contains_str b p" if "p \<in> set phrases" for p
    using phrase_simps[OF that] assms by (intro contains_sep) auto
  then show ?thesis by (auto simp: marks_of_def)
qed

lemma marks_of_Nil [simp]: "marks_of [] = {}"
  using phrase_simps by (auto simp: marks_of_def)

lemma marks_of_space [simp]: "marks_of (CHR '' '' # t) = marks_of t"
proof -
  have "has_prefix (CHR '' '' # t) p \<longrightarrow> p \<notin> set phrases" for p
    using phrase_simps[of p] by (cases p) auto
  then show ?thesis by (auto simp: marks_of_def)
qed

lemma marks_of_quoted: "marks_of (a @ quoted t) = marks_of a \<union> marks_of t"
  unfolding quoted_def by (simp add: marks_of_sep)

definition harmless :: "string \<Rightarrow> bool" where "harmless t \<longleftrightarrow> marks_of t = {}"

lemma contains_lines:
  assumes "CHR 0x0A \<notin> set p" "p \<noteq> []"
  shows "contains_str (lines_text ls) p \<longleftrightarrow> (\<exists>l \<in> set ls. contains_str l p)"
proof (induction ls)
  case Nil
  then show ?case using assms by (simp add: lines_text_def)
next
  case (Cons l ls)
  then show ?case using contains_sep[OF assms, of l "lines_text ls"] by (simp add: lines_text_def newline_def)
qed

lemma contains_output:
  assumes "p \<in> set phrases"
  shows "contains_str (lines_text (r_out r) @ [newline] @ lines_text (r_err r)) p \<longleftrightarrow> p \<in> marks r"
proof -
  have p: "CHR 0x0A \<notin> set p" "p \<noteq> []" using phrase_simps[OF assms] by simp_all
  show ?thesis
    using contains_sep[OF p, of "lines_text (r_out r)" "lines_text (r_err r)"] contains_lines[OF p] assms
    by (auto simp: newline_def marks_def said_in marks_of_def)
qed

lemma in_split_lines: "l \<in> set ls \<Longrightarrow> newline \<notin> set l \<Longrightarrow> l \<in> set (split_on newline (lines_text ls))"
proof (induction ls)
  case (Cons x ls)
  have E: "lines_text (x # ls) = x @ newline # lines_text ls" by (simp add: lines_text_def)
  show ?case
  proof (cases "l = x")
    case True
    then show ?thesis using Cons by (simp add: E split_on_append_sep)
  next
    case False
    then have "l \<in> set (split_on newline (lines_text ls))" using Cons by simp
    then show ?thesis unfolding E split_on_append by simp
  qed
qed simp

lemma summaries_plain: "t \<in> set summaries \<Longrightarrow> t \<in> set phrases \<and> newline \<notin> set t \<and> trim_space t = t"
proof -
  have "list_all (\<lambda>t. t \<in> set phrases \<and> newline \<notin> set t \<and> trim_space t = t) summaries" by code_simp
  then show "t \<in> set summaries \<Longrightarrow> ?thesis" by (simp add: list_all_iff)
qed

lemma summary_marked:
  assumes "tidy r" "t \<in> set summaries"
  shows "menderSummaryLine (lines_text (r_out r)) t \<longleftrightarrow> t \<in> marks r"
proof
  assume "menderSummaryLine (lines_text (r_out r)) t"
  then show "t \<in> marks r"
    using contains_output summary_line_contained summaries_plain[OF assms(2)] by blast
next
  assume "t \<in> marks r"
  then have "t \<in> set (split_on newline (lines_text (r_out r)))"
    using assms summaries_plain[OF assms(2)] in_split_lines by (simp add: tidy_def)
  then show "menderSummaryLine (lines_text (r_out r)) t"
    using summaries_plain[OF assms(2)] unfolding menderSummaryLine_def list_ex_iff by metis
qed

section \<open>The class of a call, from the marks\<close>

fun first_marked :: "string set \<Rightarrow> (string \<times> update_result) list \<Rightarrow> update_result option" where
  "first_marked M [] = None"
| "first_marked M ((text, r) # rows) = (if text \<in> M then Some r else first_marked M rows)"

definition marked_success :: "mender_command \<Rightarrow> string set \<Rightarrow> update_result" where
  "marked_success c M =
     (if c = CmdInstall \<or> c = CmdResume then
        (if ''Installed, but not committed.'' \<in> M then InstalledButNotCommited
         else if ''Installed and committed.'' \<in> M then InstalledAndCommited
         else if c = CmdResume \<and> ''Committed.'' \<in> M then Commited
         else if c = CmdResume \<and> ''Cleaned up.'' \<in> M then NoUpdateInProgress
         else GenericFailure)
      else if c = CmdCommit then
        (if ''Committed.'' \<in> M then Commited
         else if ''Installed and committed.'' \<in> M then InstalledAndCommited
         else GenericFailure)
      else GenericFailure)"

definition marked_commit :: "string set \<Rightarrow> bool" where
  "marked_commit M \<longleftrightarrow> ''Committed.'' \<in> M \<or> ''Installed and committed.'' \<in> M \<or>
     ''Installed, but one or more post-commit steps failed.'' \<in> M"

definition marked_class :: "mender_command \<Rightarrow> string set \<Rightarrow> int \<Rightarrow> bool \<Rightarrow> update_result" where
  "marked_class c M n silent =
     (case first_marked M diagnostics of
        Some x \<Rightarrow> x
      | None \<Rightarrow>
     if (c = CmdCommit \<or> c = CmdResume \<or> c = CmdRollback) \<and> n = 2 \<and> ''No update in progress.'' \<in> M
     then NoUpdateInProgress
     else if marked_commit M \<and>
             ((''post-commit steps failed.'' \<in> M \<or> ''Cleanup failed.'' \<in> M) \<or> n \<noteq> 0 \<or>
              ''System may be in an inconsistent state.'' \<in> M)
     then CommittedWithErrors
     else if c = CmdRollback \<and> n = 0 \<and> ''Rolled back.'' \<in> M then RolledBack
     else (case first_marked M dispositions of
        Some x \<Rightarrow> x
      | None \<Rightarrow>
     if n \<noteq> 0 then GenericFailure
     else if marked_success c M \<noteq> GenericFailure then marked_success c M
     else if c = CmdResume \<and> n = 0 \<and> silent then InstalledButNotCommited
     else GenericFailure))"

lemma first_marked_contained:
  assumes "fst ` set rows \<subseteq> set phrases"
  shows "first_contained (lines_text (r_out r) @ [newline] @ lines_text (r_err r)) rows = first_marked (marks r) rows"
  using assms contains_output by (induction rows) auto

lemma phrase_tables: "fst ` set diagnostics \<subseteq> set phrases" "fst ` set dispositions \<subseteq> set phrases"
  "''post-commit steps failed.'' \<in> set phrases" "''Cleanup failed.'' \<in> set phrases"
  "''System may be in an inconsistent state.'' \<in> set phrases"
  by (auto simp: phrases_def dispositions_def)

lemma summary_members:
  "''Installed, but not committed.'' \<in> set summaries" "''Installed and committed.'' \<in> set summaries"
  "''Committed.'' \<in> set summaries" "''Installed, but one or more post-commit steps failed.'' \<in> set summaries"
  "''Cleaned up.'' \<in> set summaries" "''No update in progress.'' \<in> set summaries" "''Rolled back.'' \<in> set summaries"
  by (simp_all add: summaries_def)

definition silent :: "string list \<Rightarrow> run \<Rightarrow> bool" where
  "silent args r \<longleftrightarrow> trim_space (lines_text (r_out r)) = [] \<and> args = stop_args"

text \<open>The classification of the server reads a tidy run by its marks.\<close>

lemma class_from_marks:
  assumes t: "tidy r" and n: "n \<noteq> 4"
  shows "class_of_call c args (exit_result (r_out r) (r_err r) n) = marked_class c (marks r) n (silent args r)"
proof -
  let ?o = "lines_text (r_out r)" and ?e = "lines_text (r_err r)"
  note D = first_marked_contained[OF phrase_tables(1)] first_marked_contained[OF phrase_tables(2)]
    contains_output[OF phrase_tables(3)] contains_output[OF phrase_tables(4)] contains_output[OF phrase_tables(5)]
  note S = summary_members[THEN summary_marked[OF t]]
  have reboot: "reboot_requested c out n = False" for out using n by (simp add: reboot_requested_def)
  have none: "menderNoUpdate c ?o n \<longleftrightarrow>
      (c = CmdCommit \<or> c = CmdResume \<or> c = CmdRollback) \<and> n = 2 \<and> ''No update in progress.'' \<in> marks r"
    by (simp add: menderNoUpdate_def S)
  have commit: "menderCommittedSummary ?o = marked_commit (marks r)"
    by (simp add: menderCommittedSummary_def marked_commit_def S)
  have success: "menderSuccessSummary c ?o = marked_success c (marks r)"
    by (simp add: menderSuccessSummary_def marked_success_def S)
  have err: "(n \<noteq> 0 \<or> (if n = 0 then None else Some x) \<noteq> None) \<and> \<not> False \<longleftrightarrow> n \<noteq> 0" for x :: string by simp
  have ok: "n = 0 \<and> (if n = 0 then None else Some x) = None \<and> b \<longleftrightarrow> n = 0 \<and> b" for x :: string and b by simp
  show ?thesis
    unfolding class_of_call_def exit_result_def cmd_result.simps menderUpdateResultFromOutput_def Let_def D reboot
      none commit success err menderPausedBeforeCommit_def S(7) ok marked_class_def silent_def stop_args_def ..
qed

end
