(* ===== verification/Double_Contract.thy ===== *)
theory Double_Contract
  imports Double_Rules State_Json
begin

text \<open>
  The double keeps the contract of the loop: what each command does to the transaction and how the server classifies
  its output. With it, the invariant of the loop holds for the server with this tool.
\<close>

section \<open>The transaction of the double\<close>

definition kind_of :: "string \<Rightarrow> entity_type" where
  "kind_of t =
     (if t = UpdateTypeRootfs then EntityCoreOs
      else if t = UpdateTypeApp then EntityApplication else EntityCoreOSCustomization)"

definition tx_of :: "double \<Rightarrow> tx" where
  "tx_of s =
     (if d_Stage s = stageInstalled then
        (if \<not> awaitingCommit (d_InstallPhase s) then Started (kind_of (d_PendingUpdateType s))
         else if kind_of (d_PendingUpdateType s) = EntityCoreOSCustomization \<and> d_CustomizationHealthEvaluated s
         then Verdict (d_CustomizationHealthPassed s)
         else Staged (kind_of (d_PendingUpdateType s)))
      else if d_Stage s = stageBootedTrial then Trial (awaitingCommit (d_InstallPhase s))
      else NoTx)"

definition snapshot_of :: "string \<Rightarrow> string" where
  "snapshot_of project = transactions @ ''/'' @ project @ ''/previous''"

text \<open>The phases of an installation under way; the later ones are those of applications.\<close>

definition phases :: "string list" where
  "phases = [PhaseInstalling, PhaseAppStopped, PhaseAppRenamed, PhaseAppExtracted]"

definition open_tx :: "double \<Rightarrow> bool" where
  "open_tx s \<longleftrightarrow>
     d_ResumeArtifact s \<noteq> [] \<and> (d_InstallPhase s \<in> set phases \<or> d_InstallPhase s = PhaseAwaitingCommit) \<and>
     d_PendingUpdateType s \<in> {UpdateTypeRootfs, UpdateTypeApp, UpdateTypeCustomization} \<and>
     (d_InstallPhase s \<in> set (tl phases) \<longrightarrow> d_PendingUpdateType s = UpdateTypeApp) \<and>
     (d_PreviousAppProject s = [] \<or> (\<exists>p. d_PreviousAppProject s = snapshot_of p))"

definition checked :: "double \<Rightarrow> bool" where
  "checked s \<longleftrightarrow>
     (if d_CustomizationHealthEvaluated s
      then d_CustomizationHealthPassed s = d_CustomizationHealthExpectedPass s \<and>
           (d_CustomizationCandidateState s = (if d_CustomizationHealthPassed s then [] else ''rolled-back''))
      else d_CustomizationCandidateState s = ''pending'' \<and> d_CandidateCustomizationSlot s \<noteq> [])"

definition well_formed :: "double \<Rightarrow> bool" where
  "well_formed s \<longleftrightarrow>
     (if d_Stage s = stageInstalled
      then open_tx s \<and>
           (d_PendingUpdateType s = UpdateTypeCustomization \<and> awaitingCommit (d_InstallPhase s) \<longrightarrow> checked s)
      else if d_Stage s = stageBootedTrial then open_tx s \<and> d_PendingUpdateType s = UpdateTypeRootfs
      else d_Stage s \<in> {[], stageIdle} \<and> d_InstallPhase s = [] \<and> d_PreviousAppProject s = [])"

lemmas stage_defs = stageIdle_def stageInstalled_def stageBootedTrial_def
lemmas phase_defs = PhaseInstalling_def PhaseAppStopped_def PhaseAppRenamed_def PhaseAppExtracted_def
  PhaseAwaitingCommit_def PhaseCommitting_def
lemmas type_defs = UpdateTypeRootfs_def UpdateTypeApp_def UpdateTypeCustomization_def

lemma stage_simps [simp]:
  "stageIdle \<noteq> stageInstalled" "stageIdle \<noteq> stageBootedTrial" "stageInstalled \<noteq> stageBootedTrial"
  "stageInstalled \<noteq> stageIdle" "stageBootedTrial \<noteq> stageIdle" "stageBootedTrial \<noteq> stageInstalled"
  "stageIdle \<noteq> []" "stageInstalled \<noteq> []" "stageBootedTrial \<noteq> []"
  "[] \<noteq> stageIdle" "[] \<noteq> stageInstalled" "[] \<noteq> stageBootedTrial"
  by (simp_all add: stage_defs)

lemma type_simps [simp]:
  "UpdateTypeRootfs \<noteq> UpdateTypeApp" "UpdateTypeRootfs \<noteq> UpdateTypeCustomization"
  "UpdateTypeApp \<noteq> UpdateTypeCustomization" "UpdateTypeApp \<noteq> UpdateTypeRootfs"
  "UpdateTypeCustomization \<noteq> UpdateTypeRootfs" "UpdateTypeCustomization \<noteq> UpdateTypeApp"
  by (simp_all add: type_defs)

lemma kind_of_simps [simp]:
  "kind_of UpdateTypeRootfs = EntityCoreOs" "kind_of UpdateTypeApp = EntityApplication"
  "kind_of UpdateTypeCustomization = EntityCoreOSCustomization"
  by (simp_all add: kind_of_def)

lemma phase_simps [simp]:
  "awaitingCommit PhaseAwaitingCommit" "\<not> awaitingCommit []" "\<not> awaitingCommit PhaseInstalling"
  "\<not> awaitingCommit PhaseAppStopped" "\<not> awaitingCommit PhaseAppRenamed" "\<not> awaitingCommit PhaseAppExtracted"
  "PhaseInstalling \<noteq> []" "PhaseAppStopped \<noteq> []" "PhaseAppRenamed \<noteq> []" "PhaseAppExtracted \<noteq> []"
  "PhaseAwaitingCommit \<noteq> PhaseInstalling" "PhaseAwaitingCommit \<noteq> []" "PhaseAwaitingCommit \<noteq> PhaseCommitting"
  "PhaseAwaitingCommit \<notin> set phases" "PhaseAwaitingCommit \<notin> set (tl phases)"
  "PhaseInstalling \<in> set phases" "PhaseInstalling \<notin> set (tl phases)"
  "PhaseAppStopped \<in> set phases" "PhaseAppRenamed \<in> set phases" "PhaseAppExtracted \<in> set phases"
  "PhaseInstalling \<noteq> PhaseAppStopped" "PhaseInstalling \<noteq> PhaseAppRenamed" "PhaseInstalling \<noteq> PhaseAppExtracted"
  "PhaseAppStopped \<noteq> PhaseInstalling" "PhaseAppStopped \<noteq> PhaseAppRenamed" "PhaseAppStopped \<noteq> PhaseAppExtracted"
  "PhaseAppRenamed \<noteq> PhaseInstalling" "PhaseAppRenamed \<noteq> PhaseAppStopped" "PhaseAppRenamed \<noteq> PhaseAppExtracted"
  "PhaseAppExtracted \<noteq> PhaseInstalling" "PhaseAppExtracted \<noteq> PhaseAppStopped" "PhaseAppExtracted \<noteq> PhaseAppRenamed"
  by (simp_all add: awaitingCommit_def phases_def phase_defs)

section \<open>The surroundings\<close>

text \<open>
  The file system does not fail, the state file is there, the snapshot of an application is where it was put, and nothing that the tool prints
  from outside contains one of the phrases that the server looks for.
\<close>

definition works :: "surroundings \<Rightarrow> bool" where
  "works su \<longleftrightarrow>
     (\<forall>x. su_fails su x = None) \<and> su_load su = None \<and> \<not> su_no_state su \<and>
     (\<forall>p q. su_abs su p = Inr q \<longrightarrow> q \<noteq> []) \<and>
     (\<forall>files p. su_exists su files (AppPath su (snapshot_of p)))"

definition plain :: "surroundings \<Rightarrow> bool" where
  "plain su \<longleftrightarrow>
     (\<forall>p e. su_header su p = Inl e \<longrightarrow> harmless e) \<and>
     (\<forall>p e. su_rootfs su p = Inl e \<longrightarrow> harmless e) \<and>
     (\<forall>p e. su_inspect su p = Inl e \<longrightarrow> harmless e) \<and>
     (\<forall>p x i. su_inspect su p = Inr (x, i) \<longrightarrow> harmless x \<and> harmless i) \<and>
     (\<forall>p e. su_custom su p = Inl e \<longrightarrow> harmless e) \<and>
     (\<forall>p q e. su_extract su p q = Some e \<longrightarrow> harmless e) \<and>
     (\<forall>fs p q e. su_compose su fs p q = ComposeMissing e \<or> su_compose su fs p q = ComposeBad e \<longrightarrow> harmless e) \<and>
     (\<forall>fs p q cs c. su_compose su fs p q = Composed cs \<longrightarrow> c \<in> set cs \<longrightarrow> harmless (ct_Name c))"

text \<open>The artifact that an installation is given is of the job's entity.\<close>

definition artifact_kind :: "surroundings \<Rightarrow> string \<Rightarrow> entity_type \<Rightarrow> bool" where
  "artifact_kind su path k \<longleftrightarrow>
     (case su_header su path of
        Inl e \<Rightarrow> True
      | Inr (info, m) \<Rightarrow> (case hd_payloads info of
          [] \<Rightarrow> True
        | t # ts \<Rightarrow> (t = UpdateTypeRootfs \<longrightarrow> k = EntityCoreOs) \<and>
            (t = UpdateTypeApp \<or> t = ''docker-compose'' \<longrightarrow> k = EntityApplication) \<and>
            (t = UpdateTypeCustomization \<longrightarrow> k = EntityCoreOSCustomization)))"

definition fits :: "surroundings \<Rightarrow> entity_type \<Rightarrow> mender_command \<Rightarrow> string list \<Rightarrow> bool" where
  "fits su k c args \<longleftrightarrow> works su \<and> plain su \<and> (c = CmdInstall \<longrightarrow> artifact_kind su (hd args) k \<and> harmless (filepath_base (hd args)))"

section \<open>Lines\<close>

lemma marks_of_eval:
  "marks_of ''Committed.'' = {''Committed.''}"
  "marks_of ''Installed, but not committed.'' = {''Installed, but not committed.''}"
  "marks_of ''Rolled back.'' = {''Rolled back.''}"
  "marks_of ''System not modified.'' = {''System not modified.''}"
  "marks_of ''No update in progress.'' = {''No update in progress.''}"
  "marks_of ''One or more post-commit steps failed.'' = {''post-commit steps failed.''}"
  "marks_of ''Cleanup failed.'' = {''Cleanup failed.''}"
  "marks_of ''Operation now in progress: Update already in progress. Please commit or roll back first'' =
     {''Update already in progress.'', ''Please commit or roll back first''}"
proof -
  have "filter (contains_str ''Committed.'') phrases = [''Committed.'']"
    "filter (contains_str ''Installed, but not committed.'') phrases = [''Installed, but not committed.'']"
    "filter (contains_str ''Rolled back.'') phrases = [''Rolled back.'']"
    "filter (contains_str ''System not modified.'') phrases = [''System not modified.'']"
    "filter (contains_str ''No update in progress.'') phrases = [''No update in progress.'']"
    "filter (contains_str ''One or more post-commit steps failed.'') phrases = [''post-commit steps failed.'']"
    "filter (contains_str ''Cleanup failed.'') phrases = [''Cleanup failed.'']"
    "filter (contains_str ''Operation now in progress: Update already in progress. Please commit or roll back first'') phrases =
      [''Update already in progress.'', ''Please commit or roll back first'']"
    by code_simp+
  then show "marks_of ''Committed.'' = {''Committed.''}"
    "marks_of ''Installed, but not committed.'' = {''Installed, but not committed.''}"
    "marks_of ''Rolled back.'' = {''Rolled back.''}"
    "marks_of ''System not modified.'' = {''System not modified.''}"
    "marks_of ''No update in progress.'' = {''No update in progress.''}"
    "marks_of ''One or more post-commit steps failed.'' = {''post-commit steps failed.''}"
    "marks_of ''Cleanup failed.'' = {''Cleanup failed.''}"
    "marks_of ''Operation now in progress: Update already in progress. Please commit or roll back first'' =
      {''Update already in progress.'', ''Please commit or roll back first''}"
    by (simp_all add: marks_of_filter)
qed

text \<open>A text without a full stop and a capital \<open>P\<close> has none of the phrases.\<close>

lemma phrase_letters: "p \<in> set phrases \<Longrightarrow> CHR ''.'' \<in> set p \<or> CHR ''P'' \<in> set p"
proof -
  have "list_all (\<lambda>p. CHR ''.'' \<in> set p \<or> CHR ''P'' \<in> set p) phrases" by code_simp
  then show "p \<in> set phrases \<Longrightarrow> ?thesis" by (simp add: list_all_iff)
qed

lemma harmless_letters: "CHR ''.'' \<notin> set t \<Longrightarrow> CHR ''P'' \<notin> set t \<Longrightarrow> marks_of t = {}"
  using phrase_letters by (fastforce simp: marks_of_def contains_str_iff)

lemma digits_letters: "CHR ''.'' \<notin> set (nat_digits n)" "CHR ''P'' \<notin> set (nat_digits n)"
  using digits_ok[of n] by (auto simp: list_all_iff)

lemma itoa_letters [simp]: "CHR ''.'' \<notin> set (itoa n)" "CHR ''P'' \<notin> set (itoa n)"
  using digits_letters by (auto simp: itoa_def)

lemma name_letters: "ValidAppName n \<Longrightarrow> CHR ''.'' \<notin> set n \<and> CHR ''P'' \<notin> set n"
proof -
  assume n: "ValidAppName n"
  have "\<not> (name_char c \<or> c = CHR ''_'' \<or> c = CHR ''-'')" if "c = CHR ''.'' \<or> c = CHR ''P''" for c
    using that by (auto simp: name_char_def)
  moreover have "list_all (\<lambda>c. name_char c \<or> c = CHR ''_'' \<or> c = CHR ''-'') n"
    using n by (cases n) (auto simp: ValidAppName_def)
  ultimately show ?thesis by (auto simp: list_all_iff)
qed

lemma marks_of_colon: "marks_of (a @ CHR '':'' # b) = marks_of a \<union> marks_of b"
  by (simp add: marks_of_sep)

lemma phrase_heads: "p \<in> set phrases \<Longrightarrow> hd p \<in> set ''UCPSRINp''"
proof -
  have "list_all (\<lambda>p. hd p \<in> set ''UCPSRINp'') phrases" by code_simp
  then show "p \<in> set phrases \<Longrightarrow> ?thesis" by (simp only: list_all_iff)
qed

lemma marks_of_drop: "c \<notin> set ''UCPSRINp'' \<Longrightarrow> marks_of (c # t) = marks_of t"
proof -
  assume c: "c \<notin> set ''UCPSRINp''"
  have "\<not> has_prefix (c # t) p" if "p \<in> set phrases" for p
    using phrase_heads[OF that] phrase_simps[OF that] c by (cases p) auto
  then show ?thesis by (auto simp: marks_of_def)
qed

lemma marks_request: "marks_of (''Could not fulfill request: '' @ e) = marks_of e"
  using marks_of_colon[of "''Could not fulfill request''" "CHR '' '' # e"] by (simp add: harmless_letters)

lemma readiness_lines:
  "marks_of (''application readiness failed: missing container '' @ n) = marks_of n"
  "marks_of (''application readiness timed out after '' @ itoa k @ ''s: '' @ n) = marks_of n"
  "marks_of (''cannot snapshot missing container: '' @ n) = marks_of n"
  using marks_of_colon[of "''application readiness failed''" "'' missing container '' @ n"]
    marks_of_colon[of "''application readiness timed out after '' @ itoa k @ ''s''" "CHR '' '' # n"]
    marks_of_colon[of "''cannot snapshot missing container''" "CHR '' '' # n"]
  by (simp_all add: harmless_letters marks_of_drop)

lemma check_container_harmless:
  "check_container s want cs found = Some e \<Longrightarrow> harmless (ct_Name want) \<Longrightarrow> harmless e"
proof (induction cs arbitrary: found)
  case Nil
  then have "e = ''application readiness failed: missing container '' @ ct_Name want" by (simp split: if_splits)
  then show ?case using Nil by (simp only: harmless_def readiness_lines)
next
  case (Cons c cs)
  show ?case
  proof (cases "ct_Name c \<noteq> ct_Name want")
    case True
    then show ?thesis using Cons by simp
  next
    case False
    obtain c' f where c': "injected_state (d_ErrorInjectPoint s) c = (c', f)" by fastforce
    then have "ct_Name c' = ct_Name want" using False by (auto simp: injected_state_def split: if_splits)
    then show ?thesis
      using Cons False c' readiness_lines(2)[of "hs_Timeout (d_AppHealth s)" "ct_Name c'"]
      by (auto simp: harmless_def split: if_splits)
  qed
qed

lemma check_containers_harmless:
  "check_containers s ws = Some e \<Longrightarrow> (\<And>c. c \<in> set ws \<Longrightarrow> harmless (ct_Name c)) \<Longrightarrow> harmless e"
  by (induction ws) (auto split: option.splits dest: check_container_harmless)

lemma health_harmless: "plain su \<Longrightarrow> CheckAppHealth su fs s = Some e \<Longrightarrow> marks_of e = {}"
  unfolding CheckAppHealth_def
  using check_containers_harmless[of s _ e]
  by (fastforce simp: plain_def harmless_def harmless_letters split: if_splits compose.splits)

lemma snapshot_harmless:
  "plain su \<Longrightarrow> ValidAppName p \<Longrightarrow> CheckAppSnapshotSource su fs s p = Some e \<Longrightarrow> marks_of e = {}"
proof (cases "su_compose su fs (AppPath su p) p")
  case (ComposeMissing x)
  assume "ValidAppName p" "CheckAppSnapshotSource su fs s p = Some e"
  then have e: "e = ''unmanaged Compose project already exists: '' @ p"
    using ComposeMissing by (simp add: CheckAppSnapshotSource_def split: if_splits)
  have "marks_of (''unmanaged Compose project already exists: '' @ p) = marks_of p"
    using marks_of_colon[of "''unmanaged Compose project already exists''" "CHR '' '' # p"]
    by (simp add: harmless_letters marks_of_drop)
  then show ?thesis using e name_letters[OF \<open>ValidAppName p\<close>] harmless_letters by simp
next
  case (ComposeBad x)
  assume "plain su" "CheckAppSnapshotSource su fs s p = Some e"
  then show ?thesis using ComposeBad by (auto simp: CheckAppSnapshotSource_def plain_def harmless_def)
next
  case (Composed ws)
  assume P: "plain su" "CheckAppSnapshotSource su fs s p = Some e"
  let ?absent = "\<lambda>w. \<not> list_ex (\<lambda>c. ct_Name c = ct_Name w \<and> HasProject c p) (d_RunningContainers s)"
  obtain w where f: "find ?absent ws = Some w" and e: "e = ''cannot snapshot missing container: '' @ ct_Name w"
    using P Composed unfolding CheckAppSnapshotSource_def by (auto split: option.splits)
  have "w \<in> set ws" using f by (auto simp: find_Some_iff)
  then show ?thesis using P Composed e by (simp only: plain_def harmless_def readiness_lines)
qed

section \<open>The operations on the transaction\<close>

definition saved :: "run \<Rightarrow> double list" where
  "saved r = saved_states (r_effects r)"

lemma saved_states_simps [simp]:
  "saved_states [] = []" "saved_states (Saved s # xs) = s # saved_states xs"
  "saved_states (MirrorIssue p # xs) = saved_states xs" "saved_states (RemoveAll p # xs) = saved_states xs"
  "saved_states (RenamePath p q # xs) = saved_states xs" "saved_states (ExtractApp p q # xs) = saved_states xs" "saved_states (MakeDirs p # xs) = saved_states xs"
  "saved_states (RotateBootID # xs) = saved_states xs" "saved_states (KillServer # xs) = saved_states xs"
  "saved_states (xs @ ys) = saved_states xs @ saved_states ys"
  by (simp_all add: saved_states_def map_filter_def)

lemma saved_simps [simp]:
  "saved (r\<lparr>r_state := s\<rparr>) = saved r" "saved (r\<lparr>r_out := x\<rparr>) = saved r" "saved (r\<lparr>r_err := x\<rparr>) = saved r"
  "saved (r\<lparr>r_effects := xs\<rparr>) = saved_states xs" "saved_states (r_effects r) = saved r"
  "saved (start_run d) = []"
  by (simp_all add: saved_def start_run_def)

text \<open>The effects of a run outside of the saved states do not matter to the server: two runs that look the same.\<close>

definition alike :: "run \<Rightarrow> run \<Rightarrow> bool" where
  "alike r r' \<longleftrightarrow> saved r' = saved r \<and> r_out r' = r_out r \<and> r_err r' = r_err r"

lemma alike_refl [simp]: "alike r r"
  by (simp add: alike_def)

lemma alike_marks: "alike r r' \<Longrightarrow> marks r' = marks r"
  by (simp add: alike_def marks_def)

lemma wp_works:
  assumes "works su"
  shows "wp (act su x) Q r \<longleftrightarrow> Q (r\<lparr>r_effects := r_effects r @ [x]\<rparr>) None"
    "wp (SaveState su) Q r \<longleftrightarrow> Q (r\<lparr>r_effects := r_effects r @ [Saved (r_state r)]\<rparr>) None"
    "wp (LoadState su) Q r \<longleftrightarrow> Q (r\<lparr>r_state := load_defaults su (r_state r)\<rparr>) None"
    "wp (UpdateIssueMirror su p) Q r \<longleftrightarrow>
       (if p = [] then Q r None else Q (r\<lparr>r_effects := r_effects r @ [MirrorIssue p]\<rparr>) None)"
  using assms
  by (simp_all add: works_def wp_act SaveState_def LoadState_def UpdateIssueMirror_def of_err_def wp_simps)

lemma load_defaults_simps [simp]:
  "d_Stage (load_defaults su s) = (if d_Stage s = [] then stageIdle else d_Stage s)"
  "d_InstallPhase (load_defaults su s) = d_InstallPhase s"
  "d_ResumeArtifact (load_defaults su s) = d_ResumeArtifact s"
  "d_PendingUpdateType (load_defaults su s) = d_PendingUpdateType s"
  "d_PreviousAppProject (load_defaults su s) = d_PreviousAppProject s"
  "d_CustomizationHealthEvaluated (load_defaults su s) = d_CustomizationHealthEvaluated s"
  "d_CustomizationHealthPassed (load_defaults su s) = d_CustomizationHealthPassed s"
  "d_CustomizationHealthExpectedPass (load_defaults su s) = d_CustomizationHealthExpectedPass s"
  "d_CustomizationCandidateState (load_defaults su s) = d_CustomizationCandidateState s"
  "d_CandidateCustomizationSlot (load_defaults su s) = d_CandidateCustomizationSlot s"
  by (simp_all add: load_defaults_def Let_def)

lemma load_tx [simp]: "tx_of (load_defaults su s) = tx_of s"
  by (simp add: tx_of_def)

lemma load_well_formed [simp]: "well_formed (load_defaults su s) = well_formed s"
  by (auto simp: well_formed_def open_tx_def checked_def)

definition closed :: "double \<Rightarrow> bool" where
  "closed s \<longleftrightarrow> d_Stage s = stageIdle \<and> d_InstallPhase s = [] \<and> d_PreviousAppProject s = []"

lemma closed_NoTx: "closed s \<Longrightarrow> tx_of s = NoTx \<and> well_formed s"
  by (simp add: closed_def tx_of_def well_formed_def)

lemma closed_clear [simp]: "closed (clearPendingUpdate s)" "closed (RollbackCustomization s)" "closed (CommitCustomization s)"
  by (simp_all add: closed_def clearPendingUpdate_def RollbackCustomization_def CommitCustomization_def)

lemma NoTx_iff: "well_formed s \<Longrightarrow> tx_of s = NoTx \<longleftrightarrow> d_Stage s \<in> {[], stageIdle}"
  by (auto simp: tx_of_def well_formed_def)

text \<open>An operation that closes the transaction.\<close>

definition closes :: "op \<Rightarrow> bool" where
  "closes f \<longleftrightarrow> (\<forall>r Q. (\<forall>r'. alike r r' \<and> closed (r_state r') \<longrightarrow> Q r' None) \<longrightarrow> wp f Q r)"

lemma closesD: "closes f \<Longrightarrow> (\<And>r'. alike r r' \<Longrightarrow> closed (r_state r') \<Longrightarrow> Q r' None) \<Longrightarrow> wp f Q r"
  by (auto simp: closes_def)

lemma closes_rollbacks:
  assumes "works su"
  shows "closes (RollbackImmediate su)" "closes (RollbackAfterFailedTrial su)" "closes (CommitTrial su)" "closes (CommitApp su)"
  unfolding closes_def RollbackImmediate_def RollbackAfterFailedTrial_def CommitTrial_def CommitApp_def
  by (auto simp: wp_simps wp_works[OF assms] alike_def split: option.splits)

lemma closes_seq:
  "closes f \<Longrightarrow> (\<And>r'. alike r r' \<Longrightarrow> closed (r_state r') \<Longrightarrow> wp g Q r') \<Longrightarrow> wp (seq f g) Q r"
  by (simp add: closesD wp_seq)

lemma wp_load: "works su \<Longrightarrow> wp (seq (LoadState su) f) Q r \<longleftrightarrow> wp f Q (r\<lparr>r_state := load_defaults su (r_state r)\<rparr>)"
  by (simp add: wp_seq wp_works)

lemma wp_cleanup:
  assumes "works su" "\<And>r'. alike r r' \<Longrightarrow> r_state r' = r_state r \<Longrightarrow> Q r' None"
  shows "wp (CleanupAppSnapshot su) Q r"
  unfolding CleanupAppSnapshot_def using assms by (auto simp: wp_simps wp_works alike_def)

lemma wp_rollback_app:
  assumes w: "works su" and s: "d_PreviousAppProject (r_state r) = [] \<or> (\<exists>p. d_PreviousAppProject (r_state r) = snapshot_of p)"
    and Q: "\<And>r'. alike r r' \<Longrightarrow> closed (r_state r') \<Longrightarrow> Q r' None"
  shows "wp (RollbackApp su) Q r"
proof -
  have "su_exists su (r_effects r) (AppPath su (d_PreviousAppProject (r_state r)))" if "d_PreviousAppProject (r_state r) \<noteq> []"
    using w s that by (auto simp: works_def)
  then show ?thesis
    unfolding RollbackApp_def Let_def using Q
    by (auto simp: wp_simps wp_works[OF w] alike_def intro!: wp_cleanup[OF w])
qed

lemma wp_checkpoint:
  assumes "works su" "\<And>e. su_abs su path = Inl e \<Longrightarrow> Q r (Some (DoubleErr e))"
    and "\<And>p s. su_abs su path = Inr p \<Longrightarrow> p \<noteq> [] \<Longrightarrow>
      s = (r_state r)\<lparr>d_ResumeArtifact := p, d_InstallPhase := phase, d_Stage := stageInstalled\<rparr> \<Longrightarrow>
      Q (r\<lparr>r_state := s, r_effects := r_effects r @ [Saved s]\<rparr>) None"
  shows "wp (checkpoint su path phase) Q r"
proof (cases "su_abs su path")
  case (Inr p)
  then have "p \<noteq> []" using assms(1) by (auto simp: works_def)
  then show ?thesis using assms(3)[OF Inr] Inr by (simp add: checkpoint_def wp_simps wp_works[OF assms(1)])
qed (use assms in \<open>simp add: checkpoint_def wp_simps\<close>)

section \<open>The commands\<close>

definition ends :: "mender_command \<Rightarrow> string list \<Rightarrow> entity_type \<Rightarrow> double \<Rightarrow> run \<Rightarrow> double_error option \<Rightarrow> bool" where
  "ends c args k d r e \<longleftrightarrow>
     tidy r \<and> (\<forall>x \<in> set (saved r). well_formed x \<and> tx_of x \<in> tool_cuts c k (tx_of d)) \<and>
     (marked_class c (marks r) (commandExitCode e) (silent args r), tx_of (last (d # saved r)))
       \<in> tool_ends c args k (tx_of d)"

lemma exit_codes [simp]:
  "commandExitCode None = 0" "commandExitCode (Some NoUpdateErr) = 2" "commandExitCode (Some (DoubleErr t)) = 1"
  by (simp_all add: commandExitCode_def)

text \<open>The last lines of a command, after a run that said nothing the server looks for.\<close>

lemma marked_classes:
  "marked_class c {} 1 b = GenericFailure"
  "marked_class c {''System not modified.''} 1 b = SystemNotModified"
  "marked_class c {''Rolled back.''} 1 b = FailedRolledBack"
  "marked_class CmdRollback {''Rolled back.''} 0 b = RolledBack"
  "c \<in> {CmdInstall, CmdResume} \<Longrightarrow> marked_class c {''Installed, but not committed.''} 0 b = InstalledButNotCommited"
  "c \<in> {CmdCommit, CmdResume} \<Longrightarrow> marked_class c {''Committed.''} 0 b = Commited"
  "marked_class c {''Committed.'', ''post-commit steps failed.''} 1 b = CommittedWithErrors"
  "marked_class c {''Committed.'', ''Cleanup failed.''} 1 b = CommittedWithErrors"
  "marked_class c {''post-commit steps failed.'', ''Committed.''} 1 b = CommittedWithErrors"
  "marked_class c {''Cleanup failed.'', ''Committed.''} 1 b = CommittedWithErrors"
  "c \<in> {CmdCommit, CmdResume, CmdRollback} \<Longrightarrow> marked_class c {''No update in progress.''} 2 b = NoUpdateInProgress"
  "marked_class c {''Cannot commit from this state.''} 1 b = WrongState"
  "marked_class c {''Update already in progress.'', ''Please commit or roll back first''} 1 b = UpdateAlreadyInProgress"
  "marked_class CmdResume {} 0 True = InstalledButNotCommited"
  by (auto simp: marked_class_def marked_success_def marked_commit_def diagnostics_def dispositions_def)

lemma wp_no_update [wp_simps]:
  "wp noUpdate Q r \<longleftrightarrow> Q (r\<lparr>r_out := r_out r @ [''No update in progress.'']\<rparr>) (Some NoUpdateErr)"
  by (simp add: noUpdate_def wp_simps)

lemma start_simps [simp]: "r_state (start_run d) = d" "r_out (start_run d) = []" "r_err (start_run d) = []"
  by (simp_all add: start_run_def)

lemma rollback_contract:
  assumes w: "works su" and d: "well_formed d"
  shows "wp (runRollback su) (ends CmdRollback [] k d) (start_run d)"
proof -
  let ?s = "load_defaults su d" let ?r = "(start_run d)\<lparr>r_state := ?s\<rparr>"
  let ?done = "seq (SaveState su) (println ''Rolled back.'')"
  have fin: "wp ?done (ends CmdRollback [] k d) r'" if "alike ?r r'" "closed (r_state r')" "tx_of d \<noteq> NoTx" for r'
  proof -
    have "saved r' = []" "r_out r' = []" "r_err r' = []" using that(1) by (simp_all add: alike_def)
    then show ?thesis
      using closed_NoTx[OF that(2)] that(3)
      by (simp add: wp_simps wp_works[OF w] ends_def marks_of_eval marked_classes marks_def tidy_def summaries_def
          tool_cuts_def tool_ends_def rollback_ends_def)
  qed
  have none: "ends CmdRollback [] k d (?r\<lparr>r_out := [''No update in progress.'']\<rparr>) (Some NoUpdateErr)" if "tx_of d = NoTx"
    using that by (simp add: ends_def marks_of_eval marked_classes marks_def tidy_def summaries_def tool_ends_def rollback_ends_def)
  show ?thesis
  proof (cases "tx_of d = NoTx")
    case True
    then show ?thesis using none NoTx_iff[OF d] by (auto simp: runRollback_def Let_def wp_simps wp_works[OF w])
  next
    case False
    have P: "d_PreviousAppProject d = [] \<or> (\<exists>p. d_PreviousAppProject d = snapshot_of p)"
      "d_Stage d = stageInstalled \<or> d_Stage d = stageBootedTrial"
      using d False by (auto simp: well_formed_def open_tx_def NoTx_iff[OF d] split: if_splits)
    have app: "wp (seq (RollbackApp su) ?done) (ends CmdRollback [] k d) ?r"
      unfolding wp_seq by (rule wp_rollback_app[OF w]) (use P fin False in \<open>simp_all add: wp_seq\<close>)
    have other: "wp (seq f ?done) (ends CmdRollback [] k d) ?r" if "closes f" for f
      by (rule closes_seq[OF that]) (use fin False in simp)
    show ?thesis
      using P(2) app other[OF closes_rollbacks(1)[OF w]] other[OF closes_rollbacks(2)[OF w]]
      by (auto simp: runRollback_def Let_def wp_load[OF w] wp_look wp_if)
  qed
qed

section \<open>Reboot and health check\<close>

lemma evaluate_tx:
  assumes "well_formed s" "d_Stage s = stageInstalled" "d_PendingUpdateType s = UpdateTypeCustomization"
  shows "well_formed (EvaluateCustomizationHealth (d_CustomizationHealthExpectedPass s) s) \<and>
    tx_of (EvaluateCustomizationHealth (d_CustomizationHealthExpectedPass s) s) \<in> reboot_ends (tx_of s)"
  using assms
  by (auto simp: well_formed_def open_tx_def checked_def tx_of_def EvaluateCustomizationHealth_def Let_def split: if_splits)

lemma trial_tx:
  assumes "well_formed s" "d_Stage s = stageInstalled" "d_PendingUpdateType s = UpdateTypeRootfs"
    "d_Stage s' = stageBootedTrial" "d_PendingUpdateType s' = d_PendingUpdateType s"
    "d_InstallPhase s' = d_InstallPhase s" "d_ResumeArtifact s' = d_ResumeArtifact s"
    "d_PreviousAppProject s' = d_PreviousAppProject s"
  shows "well_formed s' \<and> tx_of s' \<in> reboot_ends (tx_of s)"
  using assms by (auto simp: well_formed_def open_tx_def tx_of_def split: if_splits)

definition rebooted :: "double \<Rightarrow> run \<Rightarrow> double_error option \<Rightarrow> bool" where
  "rebooted d r e \<longleftrightarrow> well_formed (last (d # saved r)) \<and> tx_of (last (d # saved r)) \<in> reboot_ends (tx_of d)"

lemma reboot_contract:
  assumes w: "works su" and d: "well_formed d"
  shows "wp (run_reboot su) (rebooted d) (start_run d)"
proof -
  let ?s = "load_defaults su d"
  let ?fin = "seq (act su RotateBootID) (SaveState su)"
  have fin: "wp ?fin (rebooted d) r"
    if "saved r = []" "well_formed (r_state r)" "tx_of (r_state r) \<in> reboot_ends (tx_of d)" for r
    using that by (simp add: wp_simps wp_works[OF w] rebooted_def)
  have s: "well_formed ?s" "tx_of ?s = tx_of d" using d by simp_all
  have main: "wp (seq (look (\<lambda>s.
        if d_Stage s = stageInstalled then
          (if d_PendingUpdateType s = UpdateTypeRootfs then TrialBoot su
           else if d_PendingUpdateType s = UpdateTypeCustomization then
             seq (modify (EvaluateCustomizationHealth (d_CustomizationHealthExpectedPass s)))
               (println (if d_CustomizationHealthExpectedPass s then ''Core OS Customization health checks passed.''
                         else ''Core OS Customization health checks failed.''))
           else skip)
        else if d_Stage s = stageBootedTrial then RollbackAfterFailedTrial su
        else skip)) ?fin) (rebooted d) r"
    if r: "saved r = []" "r_state r = ?s" for r
  proof -
    consider (trial) "d_Stage ?s = stageInstalled" "d_PendingUpdateType ?s = UpdateTypeRootfs"
      | (check) "d_Stage ?s = stageInstalled" "d_PendingUpdateType ?s = UpdateTypeCustomization"
      | (app) "d_Stage ?s = stageInstalled" "d_PendingUpdateType ?s = UpdateTypeApp"
      | (undo) "d_Stage ?s = stageBootedTrial" | (idle) "d_Stage ?s = stageIdle"
      using s(1) by (auto simp: well_formed_def open_tx_def split: if_splits)
    then show ?thesis
    proof cases
      case trial
      have T: "well_formed s' \<and> tx_of s' \<in> reboot_ends (tx_of d)"
        if "d_Stage s' = stageBootedTrial" "d_PendingUpdateType s' = d_PendingUpdateType ?s"
          "d_InstallPhase s' = d_InstallPhase ?s" "d_ResumeArtifact s' = d_ResumeArtifact ?s"
          "d_PreviousAppProject s' = d_PreviousAppProject ?s" for s'
        using trial_tx[OF s(1) trial that] s(2) by simp
      have "wp (TrialBoot su) (\<lambda>r' e. e = None \<and> wp ?fin (rebooted d) r') r"
        using r by (simp add: TrialBoot_def wp_simps wp_works[OF w] rebooted_def) (intro conjI impI T; simp)
      then show ?thesis using r trial unfolding wp_seq[of "look _"]
        by (simp add: wp_look del: load_defaults_simps) (erule wp_mono, simp)
    next
      case check
      then show ?thesis using r evaluate_tx[OF s(1) check]
        by (simp add: wp_seq wp_look wp_modify wp_println wp_works[OF w] rebooted_def del: load_defaults_simps)
    next
      case app
      then show ?thesis using r s
        by (simp add: wp_seq wp_look wp_skip wp_works[OF w] rebooted_def del: load_defaults_simps)
          (auto simp: tx_of_def split: if_splits)
    next
      case undo
      have "reboot_ends (tx_of d) = {NoTx}" using undo s(2) by (auto simp: tx_of_def)
      then have "wp (RollbackAfterFailedTrial su) (\<lambda>r' e. e = None \<and> wp ?fin (rebooted d) r') r"
        using r by (intro closesD[OF closes_rollbacks(2)[OF w]]) (auto simp: alike_def dest!: closed_NoTx intro!: fin)
      then show ?thesis using r undo unfolding wp_seq[of "look _"]
        by (simp add: wp_look del: load_defaults_simps) (erule wp_mono, simp)
    next
      case idle
      then have "tx_of ?s = NoTx" by (simp add: tx_of_def)
      then show ?thesis using r s idle
        by (simp add: wp_seq wp_look wp_skip wp_works[OF w] rebooted_def del: load_defaults_simps)
    qed
  qed
  show ?thesis
    by (simp add: run_reboot_def wp_seq[of "println _"] wp_println wp_seq[of "if _ then _ else _"] wp_load[OF w]
        wp_if wp_works[OF w] wp_ignore_error wp_skip) (intro conjI impI main; simp)
qed

lemma reboot_law_double:
  assumes "works su" "well_formed d"
  shows "well_formed (reboot_double su d) \<and> tx_of (reboot_double su d) \<in> reboot_ends (tx_of d)"
  using reboot_contract[OF assms] by (auto simp: wp_def rebooted_def reboot_double_def split: prod.splits)

end
