(* ===== verification/Double_Commit.thy ===== *)
theory Double_Commit
  imports Double_Contract
begin

text \<open>
  The commit of the double: what it does from each state of the transaction, alone and at the end of
  a resumed installation of an application.
\<close>

section \<open>Commit\<close>

definition diag_prefix :: "nat \<Rightarrow> string \<Rightarrow> string \<Rightarrow> string" where
  "diag_prefix n severity time =
     ''record_id='' @ nat_digits n @ '' severity='' @ severity @ '' time='' @ quoted (''2026-Mar-03 '' @ time) @
     '' name='' @ quoted ''Global'' @ '' msg=''"

lemma wp_diagnostic:
  "wp (printDiagnostic n severity time msg) Q r \<longleftrightarrow>
     Q (r\<lparr>r_err := r_err r @ [diag_prefix n severity time @ quoted msg]\<rparr>) None"
  by (simp add: printDiagnostic_def wp_eprintln diag_prefix_def)

lemma marks_step:
  "marks_of (c # t) =
     (if c \<notin> set ''UCPSRINp'' then {} else set (filter (has_prefix (c # t)) phrases)) \<union> marks_of t"
  using marks_of_drop[of c t] by (auto simp: marks_of_def)

lemmas marks_eval = marks_step phrases_def diagnostics_def dispositions_def

lemma plain_lines:
  "marks_of ''Installation failed.'' = {}" "marks_of ''Committing failed.'' = {}" "marks_of ''Streaming failed.'' = {}"
  "marks_of ''Commit failed: Process returned non-zero exit status: ArtifactCommit: Process exited with status 1'' = {}"
  "marks_of ''Use 'commit' to update, or 'rollback' to roll back the update.'' = {}"
  "marks_of ''Use `mender-update show-issue` to print it.'' = {}"
  "marks_of ''Could not extract /etc/issue automatically (debugfs not available).'' = {}"
  "marks_of ''docker compose up failed: bind source path does not exist: /data/missing-bind-source'' = {}"
  by (simp_all add: marks_eval)

lemma digits_of_1_2 [simp]: "nat_digits (Suc 0) = ''1''" "nat_digits 2 = ''2''"
  by code_simp+

lemma diag_plain:
  "marks_of (diag_prefix 1 ''error'' ''07:05:21.952463'') = {}"
  "marks_of (diag_prefix 1 ''error'' ''07:43:32.990506'') = {}"
  "marks_of (diag_prefix 1 ''error'' ''07:09:26.999642'') = {}"
  "marks_of (diag_prefix 1 ''info'' ''07:38:33.551925'') = {}"
  "marks_of (diag_prefix 2 ''error'' ''07:38:33.552810'') = {}"
  by (simp_all add: diag_prefix_def quoted_def marks_eval)

text \<open>A run in the middle of a command: it has saved states that a restart may find, and said nothing.\<close>

definition quiet :: "mender_command \<Rightarrow> entity_type \<Rightarrow> double \<Rightarrow> run \<Rightarrow> bool" where
  "quiet c k d r \<longleftrightarrow>
     said (r_out r) = {} \<and> said (r_err r) = {} \<and>
     (\<forall>x \<in> set (saved r). well_formed x \<and> tx_of x \<in> tool_cuts c k (tx_of d))"

lemma quiet_alike: "alike r r' \<Longrightarrow> quiet c k d r \<Longrightarrow> quiet c k d r'"
  by (simp add: quiet_def alike_def)

lemma NoTx_cut [simp]: "NoTx \<in> tool_cuts c k t" "t \<in> tool_cuts c k t"
  by (simp_all add: tool_cuts_def)

lemma committed_ends_committed:
  assumes "works su" "quiet c k d r" "closed (r_state r)" "c = CmdCommit \<or> c = CmdResume"
    and "committed_ends \<subseteq> tool_ends c args k (tx_of d)"
  shows "wp (committed su) (ends c args k d) r"
proof -
  have "(Commited, NoTx) \<in> tool_ends c args k (tx_of d)" "(CommittedWithErrors, NoTx) \<in> tool_ends c args k (tx_of d)"
    using assms(5) by (auto simp: committed_ends_def)
  then show ?thesis
    using assms(2-4) closed_NoTx[OF assms(3)]
    by (auto simp: committed_def postCommitFailure_def wp_simps wp_works[OF assms(1)] ends_def quiet_def marks_def
        tidy_def summaries_def marks_of_eval marked_classes)
qed

lemma failed_application:
  assumes "works su" "quiet c k d r" "marks_of cause = {}" "operation = ''Committing'' \<or> operation = ''Installation''"
    and "d_PreviousAppProject (r_state r) = [] \<or> (\<exists>p. d_PreviousAppProject (r_state r) = snapshot_of p)"
    and "(FailedRolledBack, NoTx) \<in> tool_ends c args k (tx_of d)"
  shows "wp (failApp su operation cause) (ends c args k d) r"
proof -
  let ?r = "r\<lparr>r_err := r_err r @ [''Could not fulfill request: '' @ cause]\<rparr>"
  have q: "quiet c k d ?r" using assms(2,3) by (simp add: quiet_def marks_request[simplified])
  have fin: "wp (seq (SaveState su) (seq (printFailure operation ''Rolled back.'') (stop (DoubleErr cause))))
        (ends c args k d) r'" if "quiet c k d r'" "closed (r_state r')" for r'
    using that(1) assms(4,6) closed_NoTx[OF that(2)]
    by (auto simp: printFailure_def wp_simps wp_works[OF assms(1)] ends_def quiet_def marks_def
        tidy_def summaries_def marks_of_eval plain_lines marked_classes)
  have "wp (RollbackApp su) (\<lambda>r' e. e = None \<and> quiet c k d r' \<and> closed (r_state r')) ?r"
    by (rule wp_rollback_app[OF assms(1)]) (use assms(5) q quiet_alike in auto)
  then show ?thesis
    unfolding failApp_def printRequestError_def wp_seq[of "eprintln _"] wp_attempt wp_eprintln option.case
    by (rule wp_mono) (auto intro!: fin)
qed

definition request_line :: "string \<Rightarrow> string" where
  "request_line e = ''Could not fulfill request: '' @ e"

lemma marks_request_line [simp]: "marks_of (request_line e) = marks_of e"
  unfolding request_line_def by (rule marks_request)

lemma wp_request [wp_simps]:
  "wp (printRequestError e) Q r \<longleftrightarrow> Q (r\<lparr>r_err := r_err r @ [request_line e]\<rparr>) None"
  "wp (request_error e) Q r \<longleftrightarrow> Q (r\<lparr>r_err := r_err r @ [request_line e]\<rparr>) (Some (DoubleErr e))"
  unfolding request_error_def printRequestError_def request_line_def by (simp_all only: wp_seq wp_eprintln wp_stop option.case)

lemma marks_cannot_commit: "marks_of cannot_commit = {''Cannot commit from this state.''}"
  by (simp add: cannot_commit_def marks_eval)

lemma tx_cases:
  assumes "well_formed s"
  obtains (idle) "tx_of s = NoTx" "d_Stage s \<in> {[], stageIdle}"
  | (started) "tx_of s = Started (kind_of (d_PendingUpdateType s))" "d_Stage s = stageInstalled"
      "\<not> awaitingCommit (d_InstallPhase s)" "d_InstallPhase s \<in> set phases"
  | (app) "tx_of s = Staged EntityApplication" "d_Stage s = stageInstalled" "awaitingCommit (d_InstallPhase s)"
      "d_PendingUpdateType s = UpdateTypeApp"
  | (rootfs) "tx_of s = Staged EntityCoreOs" "d_Stage s = stageInstalled" "awaitingCommit (d_InstallPhase s)"
      "d_PendingUpdateType s = UpdateTypeRootfs"
  | (unverified) "tx_of s = Staged EntityCoreOSCustomization" "d_Stage s = stageInstalled" "awaitingCommit (d_InstallPhase s)"
      "d_PendingUpdateType s = UpdateTypeCustomization" "\<not> d_CustomizationHealthEvaluated s"
  | (verified) "tx_of s = Verdict (d_CustomizationHealthPassed s)" "d_Stage s = stageInstalled"
      "awaitingCommit (d_InstallPhase s)" "d_PendingUpdateType s = UpdateTypeCustomization" "d_CustomizationHealthEvaluated s"
  | (trial) "tx_of s = Trial (awaitingCommit (d_InstallPhase s))" "d_Stage s = stageBootedTrial"
      "d_PendingUpdateType s = UpdateTypeRootfs" "d_InstallPhase s \<in> set phases \<or> awaitingCommit (d_InstallPhase s)"
  using assms that by (auto simp: well_formed_def open_tx_def tx_of_def split: if_splits) blast+

lemma not_awaiting_phase: "p \<in> set phases \<Longrightarrow> p \<noteq> [] \<and> \<not> awaitingCommit p"
  by (auto simp: phases_def)

lemma previous_snapshot:
  "well_formed s \<Longrightarrow> d_Stage s = stageInstalled \<Longrightarrow>
   d_PreviousAppProject s = [] \<or> (\<exists>p. d_PreviousAppProject s = snapshot_of p)"
  by (auto simp: well_formed_def open_tx_def split: if_splits)

lemma awaiting_not_Nil: "awaitingCommit p \<Longrightarrow> p \<noteq> []"
  by (auto simp: awaitingCommit_def phase_defs)

lemma run_commit_cases:
  assumes w: "works su" and s: "s = load_defaults su (r_state r)"
  shows
    "d_Stage s = stageIdle \<Longrightarrow> wp (runCommit su) Q r \<longleftrightarrow> wp noUpdate Q (r\<lparr>r_state := s\<rparr>)"
    "d_Stage s \<noteq> stageIdle \<Longrightarrow> d_InstallPhase s \<noteq> [] \<Longrightarrow> \<not> awaitingCommit (d_InstallPhase s) \<Longrightarrow>
       wp (runCommit su) Q r \<longleftrightarrow> wp (request_error cannot_commit) Q (r\<lparr>r_state := s\<rparr>)"
    "d_Stage s = stageBootedTrial \<Longrightarrow> awaitingCommit (d_InstallPhase s) \<Longrightarrow> d_PendingUpdateType s = UpdateTypeRootfs \<Longrightarrow>
       wp (runCommit su) Q r \<longleftrightarrow> wp (seq (CommitTrial su) (committed su)) Q (r\<lparr>r_state := s\<rparr>)"
    "d_Stage s = stageInstalled \<Longrightarrow> awaitingCommit (d_InstallPhase s) \<Longrightarrow> d_PendingUpdateType s = UpdateTypeApp \<Longrightarrow>
       wp (runCommit su) Q r \<longleftrightarrow>
       (case CheckAppHealth su (r_effects r) s of
          Some e \<Rightarrow> wp (failApp su ''Committing'' e) Q (r\<lparr>r_state := s\<rparr>)
        | None \<Rightarrow> wp (seq (CleanupAppSnapshot su) (seq (CommitApp su) (committed su))) Q (r\<lparr>r_state := s\<rparr>))"
    "d_Stage s = stageInstalled \<Longrightarrow> awaitingCommit (d_InstallPhase s) \<Longrightarrow>
       d_PendingUpdateType s = UpdateTypeCustomization \<Longrightarrow>
       wp (runCommit su) Q r \<longleftrightarrow>
       wp (if \<not> d_CustomizationHealthEvaluated s \<or> \<not> d_CustomizationHealthPassed s
           then seq (printFailure ''Committing'' ''Rolled back.'')
                  (stop (DoubleErr ''customization health checks did not pass''))
           else seq (modify CommitCustomization) (committed su)) Q (r\<lparr>r_state := s\<rparr>)"
    "d_Stage s = stageInstalled \<Longrightarrow> awaitingCommit (d_InstallPhase s) \<Longrightarrow> d_PendingUpdateType s = UpdateTypeRootfs \<Longrightarrow>
       wp (runCommit su) Q r \<longleftrightarrow> wp (seq (RollbackImmediate su) (commit_unbooted su)) Q (r\<lparr>r_state := s\<rparr>)"
  unfolding s runCommit_def wp_load[OF w]
  by (auto simp: wp_look wp_look_files wp_if awaiting_not_Nil commit_unbooted_def split: option.split)

lemma commit_from:
  assumes w: "works su" "plain su" and q: "quiet c k d r" and s: "well_formed (r_state r)"
    and c: "c = CmdCommit \<or> c = CmdResume" and l: "tx_of (last (d # saved r)) = tx_of (r_state r)"
    and t: "commit_ends (tx_of (r_state r)) \<subseteq> tool_ends c args k (tx_of d)"
  shows "wp (runCommit su) (ends c args k d) r"
proof -
  let ?s = "load_defaults su (r_state r)" let ?r = "r\<lparr>r_state := ?s\<rparr>"
  have q': "quiet c k d ?r" using q by (simp add: quiet_def)
  note base = wp_simps ends_def quiet_def marks_def tidy_def summaries_def marks_of_eval marked_classes
  note com = committed_ends_committed[OF w(1)] and cs = run_commit_cases[OF w(1) refl]
  have com': "wp (committed su) (ends c args k d) r'" if "committed_ends \<subseteq> tool_ends c args k (tx_of d)"
    "alike ?r r'" "closed (r_state r')" for r'
    by (rule com[OF quiet_alike[OF that(2) q'] that(3) c that(1)])
  have s': "well_formed ?s" "tx_of ?s = tx_of (r_state r)" using s by simp_all
  show ?thesis
    using s'(1)
  proof (cases rule: tx_cases)
    case idle
    then have "d_Stage ?s = stageIdle" by (auto split: if_splits)
    then show ?thesis using q t c l s'(2) idle(1) unfolding cs(1)[OF \<open>d_Stage ?s = stageIdle\<close>]
      by (auto simp: base)
  next
    case started
    then have "tx_of (r_state r) = Started (kind_of (d_PendingUpdateType ?s))" by simp
    moreover have "wp (runCommit su) (ends c args k d) r = wp (request_error cannot_commit) (ends c args k d) ?r"
      using started not_awaiting_phase[OF started(4)] by (intro cs(2)) auto
    ultimately show ?thesis using q t c l
      by (simp add: base marks_cannot_commit del: load_defaults_simps)
  next
    case app
    have F: "wp (failApp su ''Committing'' e) (ends c args k d) ?r" if "CheckAppHealth su (r_effects r) ?s = Some e" for e
      using t previous_snapshot[OF s'(1) app(2)] app(1) s'(2)
      by (intro failed_application[OF w(1) q' health_harmless[OF w(2) that]]) auto
    have "wp (seq (CleanupAppSnapshot su) (seq (CommitApp su) (committed su))) (ends c args k d) ?r"
      unfolding wp_seq[of "CleanupAppSnapshot su"]
    proof (rule wp_cleanup[OF w(1)])
      fix r' assume a: "alike ?r r'"
      show "case None of None \<Rightarrow> wp (seq (CommitApp su) (committed su)) (ends c args k d) r'
          | Some x \<Rightarrow> ends c args k d r' (Some x)"
        using t app(1) s'(2) c quiet_alike[OF a q']
        by (auto intro!: closes_seq[OF closes_rollbacks(4)[OF w(1)]] com intro: quiet_alike)
    qed
    then show ?thesis using F cs(4)[OF app(2-4)] by (simp split: option.split del: load_defaults_simps)
  next
    case rootfs
    then have "wp (runCommit su) (ends c args k d) r = wp (seq (RollbackImmediate su) (commit_unbooted su)) (ends c args k d) ?r"
      by (intro cs(6)) auto
    moreover have "wp (commit_unbooted su) (ends c args k d) r'" if "quiet c k d r'" "closed (r_state r')" for r'
      using that(1) closed_NoTx[OF that(2)] t rootfs(1) s'(2)
      by (simp add: commit_unbooted_def base printFailure_def wp_works[OF w(1)] wp_diagnostic plain_lines diag_plain[simplified]
          marks_of_quoted harmless_letters)
    ultimately show ?thesis by (auto intro!: closes_seq[OF closes_rollbacks(1)[OF w(1)]] intro: quiet_alike[OF _ q'])
  next
    case unverified
    then show ?thesis using q t c l s'(2) unfolding cs(5)[OF unverified(2-4)]
      by (auto simp: base printFailure_def plain_lines)
  next
    case verified
    show ?thesis
    proof (cases "d_CustomizationHealthPassed ?s")
      case True
      then show ?thesis using t c s'(2) verified q' unfolding cs(5)[OF verified(2-4)]
        by (auto simp: wp_simps quiet_def intro!: com)
    next
      case False
      then show ?thesis using q t c l s'(2) verified unfolding cs(5)[OF verified(2-4)]
        by (auto simp: base printFailure_def plain_lines)
    qed
  next
    case trial
    show ?thesis
    proof (cases "awaitingCommit (d_InstallPhase ?s)")
      case True
      then have "committed_ends \<subseteq> tool_ends c args k (tx_of d)" using t s'(2) trial by simp
      then show ?thesis unfolding cs(3)[OF trial(2) True trial(3)]
        by (intro closes_seq[OF closes_rollbacks(3)[OF w(1)]] com')
    next
      case False
      then have "tx_of (r_state r) = Trial False" using trial s'(2) by simp
      moreover have "wp (runCommit su) (ends c args k d) r = wp (request_error cannot_commit) (ends c args k d) ?r"
        using trial False not_awaiting_phase by (intro cs(2)) auto
      ultimately show ?thesis using q t c l
        by (simp add: base marks_cannot_commit del: load_defaults_simps)
    qed
  qed
qed


end
