(* ===== verification/Double_Install.thy ===== *)
theory Double_Install
  imports Double_Commit
begin

text \<open>
  The installations of the double, started and resumed: of a root file system, of a customization and of an
  application with its phases, up to the update that awaits its commit or the refusal that leaves nothing.
\<close>

section \<open>Refusals\<close>

lemma wp_progress: "wp (progress ns) Q r \<longleftrightarrow>
    Q (r\<lparr>r_out := r_out r @ map (\<lambda>n. ''Progress: '' @ nat_digits n @ ''%'') ns\<rparr>) None"
proof (induction ns arbitrary: r)
  case Nil
  then show ?case by (simp add: progress_def wp_simps)
next
  case (Cons n ns)
  then show ?case by (simp add: progress_def wp_simps)
qed

lemma said_progress: "said (map (\<lambda>n. ''Progress: '' @ nat_digits n @ ''%'') ns) = {}"
proof -
  have "marks_of (''Progress: '' @ nat_digits n @ ''%'') = {}" for n
  proof -
    have "marks_of ''Progress'' = {}" by (simp add: marks_eval)
    then show ?thesis
      using marks_of_colon[of "''Progress''" "CHR '' '' # nat_digits n @ ''%''"] by (simp add: harmless_letters digits_letters)
  qed
  then show ?thesis by (simp add: said_def)
qed

text \<open>A run that refused: it said so or nothing, and the transaction can be cleared.\<close>

definition refused :: "mender_command \<Rightarrow> entity_type \<Rightarrow> double \<Rightarrow> run \<Rightarrow> bool" where
  "refused c k d r \<longleftrightarrow>
     (marks r = {} \<or> marks r = {''System not modified.''}) \<and>
     (\<forall>x \<in> set (saved r). well_formed x \<and> tx_of x \<in> tool_cuts c k (tx_of d))"

lemma refused_quiet: "quiet c k d r \<Longrightarrow> refused c k d r"
  by (simp add: quiet_def refused_def marks_def)

lemma refused_tidy: "refused c k d r \<Longrightarrow> tidy r"
proof -
  have "''System not modified.'' \<notin> set summaries" by (simp add: summaries_def)
  then show "refused c k d r \<Longrightarrow> tidy r" unfolding refused_def tidy_def by fastforce
qed

lemma refused_alike: "alike r r' \<Longrightarrow> refused c k d r \<Longrightarrow> refused c k d r'"
  by (simp add: refused_def alike_def marks_def)

lemma refused_ends:
  assumes "refused c k d r" "tx_of (last (d # saved r)) = t" "refusals \<times> {t} \<subseteq> tool_ends c args k (tx_of d)"
  shows "ends c args k d r (Some (DoubleErr x))"
proof -
  have "marked_class c (marks r) 1 (silent args r) \<in> refusals"
    using assms(1) marked_classes(1,2) by (auto simp: refused_def refusals_def)
  then show ?thesis
    using assms refused_tidy[OF assms(1)] by (auto simp: ends_def refused_def)
qed

lemma wp_not_modified:
  assumes "quiet c k d r" "marks_of e = {}" "operation = ''Installation'' \<or> operation = ''Streaming''"
    and "\<And>r'. refused c k d r' \<Longrightarrow> r_state r' = r_state r \<Longrightarrow> saved r' = saved r \<Longrightarrow> Q r' (Some (DoubleErr e))"
  shows "wp (not_modified operation e) Q r"
  using assms(1-3)
  by (auto simp: not_modified_def printFailure_def wp_simps wp_diagnostic refused_def quiet_def marks_def marks_of_eval
      plain_lines diag_plain[simplified] marks_of_quoted intro!: assms(4))

lemma wp_unsupported:
  assumes "quiet c k d r" "marks_of e = {}" "operation = ''Installation'' \<or> operation = ''Streaming''"
    and "\<And>r'. refused c k d r' \<Longrightarrow> r_state r' = r_state r \<Longrightarrow> saved r' = saved r \<Longrightarrow> Q r' (Some (DoubleErr x))"
  shows "wp (unsupported operation e x) Q r"
  using assms(1-3)
  by (auto simp: unsupported_def printFailure_def wp_simps wp_diagnostic refused_def quiet_def marks_def marks_of_eval
      plain_lines diag_plain[simplified] marks_of_quoted intro!: assms(4))

text \<open>A failure before the update is staged clears the checkpoint.\<close>

lemma cleared_ends:
  assumes w: "works su" and s: "d_InstallPhase (r_state r) = PhaseInstalling" and r: "refused c k d r"
    and t: "refusals \<times> {NoTx} \<subseteq> tool_ends c args k (tx_of d)"
  shows "wp (look (\<lambda>s. if d_InstallPhase s \<noteq> PhaseInstalling then stop (DoubleErr x)
      else seq (RollbackImmediate su) (attempt (SaveState su) (stop (DoubleErr x)) (\<lambda>_. stop (DoubleErr x)))))
    (ends c args k d) r"
proof -
  have "wp (attempt (SaveState su) (stop (DoubleErr x)) (\<lambda>_. stop (DoubleErr x))) (ends c args k d) r'"
    if "alike r r'" "closed (r_state r')" for r'
  proof -
    let ?r = "r'\<lparr>r_effects := r_effects r' @ [Saved (r_state r')]\<rparr>"
    have "refused c k d ?r"
      using refused_alike[OF that(1) r] closed_NoTx[OF that(2)] by (auto simp: refused_def marks_def)
    then show ?thesis
      using closed_NoTx[OF that(2)] by (simp add: wp_simps wp_works[OF w] refused_ends t)
  qed
  then show ?thesis using s by (simp add: wp_look closes_seq[OF closes_rollbacks(1)[OF w]])
qed

lemma wp_clear_failed:
  assumes w: "works su" and t: "refusals \<times> {NoTx} \<subseteq> tool_ends c args k (tx_of d)"
    and b: "wp body (\<lambda>r' e. case e of None \<Rightarrow> ends c args k d r' None
        | Some x \<Rightarrow> (\<exists>m. x = DoubleErr m) \<and> d_InstallPhase (r_state r') = PhaseInstalling \<and> refused c k d r') r"
  shows "wp (clearFailedInstallCheckpoint su body) (ends c args k d) r"
  unfolding clearFailedInstallCheckpoint_def wp_attempt
  by (rule wp_mono[OF b]) (auto simp: wp_skip intro!: cleared_ends[OF w _ _ t] split: option.splits)

section \<open>Staging\<close>

definition in_installation :: "mender_command \<Rightarrow> entity_type \<Rightarrow> double \<Rightarrow> run \<Rightarrow> bool" where
  "in_installation c k d r \<longleftrightarrow>
     quiet c k d r \<and> d_InstallPhase (r_state r) = PhaseInstalling \<and>
     (d_PreviousAppProject (r_state r) = [] \<or> (\<exists>p. d_PreviousAppProject (r_state r) = snapshot_of p))"

lemma wp_installed_lines [wp_simps]:
  "wp installed_lines Q r \<longleftrightarrow> Q (r\<lparr>r_out := r_out r @ [''Installed, but not committed.'',
     ''Use 'commit' to update, or 'rollback' to roll back the update.'']\<rparr>) None"
  by (simp add: installed_lines_def wp_simps)

lemma staged_ends:
  assumes "quiet c k d r" "well_formed (r_state r)" "tx_of (r_state r) = Staged e" "tx_of (last (d # saved r)) = Staged e"
    and "c = CmdInstall \<or> c = CmdResume" "(InstalledButNotCommited, Staged e) \<in> tool_ends c args k (tx_of d)" "said ls = {}"
  shows "ends c args k d (r\<lparr>r_out := r_out r @ ''Installed, but not committed.'' #
     ''Use 'commit' to update, or 'rollback' to roll back the update.'' # ls\<rparr>) None"
  using assms
  by (auto simp: ends_def quiet_def marks_def tidy_def summaries_def marks_of_eval plain_lines marked_classes)

lemma wp_staging:
  assumes "works su" "\<And>e. Q (r\<lparr>r_state := f (r_state r)\<rparr>) (Some (DoubleErr e))"
    and "\<And>p s. p \<noteq> [] \<Longrightarrow> s = (f (r_state r))\<lparr>d_ResumeArtifact := p, d_InstallPhase := phase, d_Stage := stageInstalled\<rparr> \<Longrightarrow>
      wp g Q (r\<lparr>r_state := s, r_effects := r_effects r @ [Saved s]\<rparr>)"
  shows "wp (seq (modify f) (seq (checkpoint su path phase) g)) Q r"
  unfolding wp_seq wp_modify option.case by (rule wp_checkpoint[OF assms(1)]) (use assms in simp_all)

text \<open>What a staging operation must do to the state; the body of an installation then ends as it should.\<close>

abbreviation body_ends :: "mender_command \<Rightarrow> string list \<Rightarrow> entity_type \<Rightarrow> double \<Rightarrow> run \<Rightarrow> double_error option \<Rightarrow> bool" where
  "body_ends c args k d r e \<equiv> (case e of None \<Rightarrow> ends c args k d r None
     | Some x \<Rightarrow> (\<exists>m. x = DoubleErr m) \<and> d_InstallPhase (r_state r) = PhaseInstalling \<and> refused c k d r)"

lemma staging_ends:
  assumes w: "works su" and r: "in_installation c k d r" and c: "c = CmdInstall \<or> c = CmdResume"
    and t: "(InstalledButNotCommited, Staged e) \<in> tool_ends c args k (tx_of d)" and cut: "Staged e \<in> tool_cuts c k (tx_of d)"
    and f: "d_InstallPhase (f (r_state r)) = PhaseInstalling"
      "\<And>p s. p \<noteq> [] \<Longrightarrow> s = (f (r_state r))\<lparr>d_ResumeArtifact := p, d_InstallPhase := PhaseAwaitingCommit, d_Stage := stageInstalled\<rparr> \<Longrightarrow>
        well_formed s \<and> tx_of s = Staged e"
    and g: "\<And>r Q. wp g Q r \<longleftrightarrow> Q (r\<lparr>r_out := r_out r @ ls\<rparr>) None" "said ls = {}"
  shows "wp (seq (modify f) (seq (checkpoint su path PhaseAwaitingCommit) (seq (SaveState su) (seq installed_lines g))))
    (body_ends c args k d) r"
proof (rule wp_staging[OF w])
  have q: "quiet c k d r" using r by (simp add: in_installation_def)
  then show "body_ends c args k d (r\<lparr>r_state := f (r_state r)\<rparr>) (Some (DoubleErr m))" for m
    using f(1) refused_quiet by (auto simp: refused_def marks_def)
  fix p s
  assume s: "p \<noteq> []" "s = (f (r_state r))\<lparr>d_ResumeArtifact := p, d_InstallPhase := PhaseAwaitingCommit, d_Stage := stageInstalled\<rparr>"
  let ?r = "r\<lparr>r_state := s, r_effects := r_effects r @ [Saved s, Saved s]\<rparr>"
  have "quiet c k d ?r" using q f(2)[OF s] cut by (auto simp: quiet_def)
  then show "wp (seq (SaveState su) (seq installed_lines g)) (body_ends c args k d)
      (r\<lparr>r_state := s, r_effects := r_effects r @ [Saved s]\<rparr>)"
    using staged_ends[of c k d ?r e args ls] f(2)[OF s] c t g by (simp add: wp_simps wp_works[OF w])
qed

lemma seq_skip: "seq a skip = a"
  by (rule ext) (simp add: seq_def skip_def split: prod.split option.split)

lemma install_customization:
  assumes w: "works su" "plain su" and r: "in_installation c k d r" and c: "c = CmdInstall \<or> c = CmdResume"
    and t: "install_ends EntityCoreOSCustomization \<subseteq> tool_ends c args k (tx_of d)"
    and cut: "Staged EntityCoreOSCustomization \<in> tool_cuts c k (tx_of d)"
  shows "wp (installCustomization su path) (ends c args k d) r"
proof -
  have T: "refusals \<times> {NoTx} \<subseteq> tool_ends c args k (tx_of d)"
    "(InstalledButNotCommited, Staged EntityCoreOSCustomization) \<in> tool_ends c args k (tx_of d)"
    using t by (auto simp: install_ends_def)
  have q: "quiet c k d r" and ph: "d_InstallPhase (r_state r) = PhaseInstalling" using r by (simp_all add: in_installation_def)
  have bad: "wp (not_modified ''Installation'' e) (body_ends c args k d) r" if "su_custom su path = Inl e" for e
    using w(2) that ph by (intro wp_not_modified[OF q]) (auto simp: plain_def harmless_def)
  have good: "wp (seq (modify (SetInstalledCustomization img version passes))
      (seq (checkpoint su path PhaseAwaitingCommit) (seq (SaveState su) installed_lines))) (body_ends c args k d) r"
    for img version passes
    using staging_ends[OF w(1) r c T(2) cut, of "SetInstalledCustomization img version passes" skip "[]" path] r
    by (auto simp: seq_skip wp_skip in_installation_def SetInstalledCustomization_def well_formed_def open_tx_def checked_def
        tx_of_def)
  show ?thesis
    unfolding installCustomization_def
    by (rule wp_clear_failed[OF w(1) T(1)])
      (use bad good ph refused_quiet[OF q] in \<open>auto simp: wp_stop split: sum.split\<close>)
qed

lemma rootfs_lines_plain:
  assumes "marks_of ext4 = {}" "marks_of issue = {}"
  shows "\<exists>ls. said ls = {} \<and> (\<forall>r Q. wp (rootfs_lines ext4 issue) Q r \<longleftrightarrow> Q (r\<lparr>r_out := r_out r @ ls\<rparr>) None)"
proof -
  have ext: "marks_of (''New rootfs ext4 image: '' @ ext4) = {}" "marks_of (''Extracted /etc/issue: '' @ issue) = {}"
    using assms marks_of_colon[of "''New rootfs ext4 image''" "CHR '' '' # ext4"]
      marks_of_colon[of "''Extracted /etc/issue''" "CHR '' '' # issue"] by (simp_all add: harmless_letters)
  show ?thesis
  proof (cases "issue = []")
    case True
    then show ?thesis using ext
      by (intro exI[of _ "[''New rootfs ext4 image: '' @ ext4,
          ''Could not extract /etc/issue automatically (debugfs not available).'']"])
        (simp add: rootfs_lines_def wp_simps plain_lines)
  next
    case False
    then show ?thesis using ext
      by (intro exI[of _ "[''New rootfs ext4 image: '' @ ext4, ''Extracted /etc/issue: '' @ issue,
          ''Use `mender-update show-issue` to print it.'']"])
        (simp add: rootfs_lines_def wp_simps plain_lines)
  qed
qed

lemma install_rootfs:
  assumes w: "works su" "plain su" and r: "in_installation c k d r" and c: "c = CmdInstall \<or> c = CmdResume"
    and t: "install_ends EntityCoreOs \<subseteq> tool_ends c args k (tx_of d)"
    and cut: "Staged EntityCoreOs \<in> tool_cuts c k (tx_of d)"
  shows "wp (installRootfs su path) (ends c args k d) r"
proof -
  have T: "refusals \<times> {NoTx} \<subseteq> tool_ends c args k (tx_of d)"
    "(InstalledButNotCommited, Staged EntityCoreOs) \<in> tool_ends c args k (tx_of d)"
    using t by (auto simp: install_ends_def)
  have ph: "d_InstallPhase (r_state r) = PhaseInstalling" using r by (simp add: in_installation_def)
  have not_mod: "wp (not_modified ''Installation'' e) (body_ends c args k d) r'"
    if "in_installation c k d r'" "marks_of e = {}" for e r'
    using that by (intro wp_not_modified[of c k d]) (auto simp: in_installation_def)
  have type: "wp (unsupported ''Installation'' ''Unsupported payload type'' x) (body_ends c args k d) r" for x
    using r by (intro wp_unsupported[of c k d]) (auto simp: in_installation_def harmless_letters)
  have good: "wp (seq (modify (SetInstalledRootfs img x ext4 issue))
      (seq (checkpoint su path PhaseAwaitingCommit) (seq (SaveState su) (seq installed_lines (rootfs_lines ext4 issue)))))
      (body_ends c args k d) r'"
    if r': "in_installation c k d r'" and m: "marks_of ext4 = {}" "marks_of issue = {}" for img x ext4 issue r'
  proof -
    obtain ls where ls: "said ls = {}" "\<And>r Q. wp (rootfs_lines ext4 issue) Q r \<longleftrightarrow> Q (r\<lparr>r_out := r_out r @ ls\<rparr>) None"
      using rootfs_lines_plain[OF m] by blast
    show ?thesis
      using r' by (intro staging_ends[OF w(1) r' c T(2) cut _ _ ls(2,1)])
        (auto simp: in_installation_def SetInstalledRootfs_def well_formed_def open_tx_def tx_of_def)
  qed
  have main: "wp (seq (progress ns) (case su_inspect su x of
                  Inl e \<Rightarrow> not_modified ''Installation'' e
                | Inr (ext4, issue) \<Rightarrow>
                    seq (modify (SetInstalledRootfs (filepath_base path) x ext4 issue))
                      (seq (checkpoint su path PhaseAwaitingCommit)
                      (seq (SaveState su) (seq installed_lines (rootfs_lines ext4 issue)))))) (body_ends c args k d) r" for ns x
  proof -
    have "in_installation c k d (r\<lparr>r_out := r_out r @ map (\<lambda>n. ''Progress: '' @ nat_digits n @ ''%'') ns\<rparr>)"
      using r by (simp add: in_installation_def quiet_def said_progress[simplified])
    then show ?thesis
      unfolding wp_seq[of "progress _"] wp_progress option.case using w(2)
      by (auto simp: plain_def harmless_def intro!: not_mod good split: sum.split)
  qed
  show ?thesis
    unfolding installRootfs_def
    by (rule wp_clear_failed[OF w(1) T(1)])
      (use w(2) not_mod[OF r] type main in \<open>auto simp: plain_def harmless_def split: sum.split\<close>)
qed

section \<open>Applications\<close>

text \<open>An installation of an application under way: nothing said, and its checkpoint saved.\<close>

definition app_running :: "mender_command \<Rightarrow> entity_type \<Rightarrow> double \<Rightarrow> run \<Rightarrow> bool" where
  "app_running c k d r \<longleftrightarrow>
     quiet c k d r \<and> well_formed (r_state r) \<and> tx_of (r_state r) = Started EntityApplication \<and>
     tx_of (last (d # saved r)) = Started EntityApplication"

lemma app_running_state:
  assumes "app_running c k d r"
  shows "quiet c k d r" "d_Stage (r_state r) = stageInstalled" "d_PendingUpdateType (r_state r) = UpdateTypeApp"
    "d_ResumeArtifact (r_state r) \<noteq> []" "\<not> awaitingCommit (d_InstallPhase (r_state r))"
    "d_PreviousAppProject (r_state r) = [] \<or> (\<exists>p. d_PreviousAppProject (r_state r) = snapshot_of p)"
    "tx_of (last (d # saved r)) = Started EntityApplication"
  using assms
  by (auto simp: app_running_def well_formed_def open_tx_def tx_of_def kind_of_def split: if_splits)

lemma app_running_ends:
  assumes "app_running c k d r" "(GenericFailure, Started EntityApplication) \<in> tool_ends c args k (tx_of d)"
  shows "ends c args k d r (Some (DoubleErr m))"
  using assms by (auto simp: app_running_def quiet_def ends_def marks_def tidy_def marked_classes)

lemma app_running_update:
  assumes "app_running c k d r" "Started EntityApplication \<in> tool_cuts c k (tx_of d)"
    and "well_formed s" "tx_of s = Started EntityApplication"
  shows "app_running c k d (r\<lparr>r_state := s, r_effects := r_effects r @ [Saved s]\<rparr>)"
  using assms by (auto simp: app_running_def quiet_def)

text \<open>A phase of the installation: it goes on, or stops with what a restart can resume or roll back.\<close>

abbreviation step_ends :: "mender_command \<Rightarrow> string list \<Rightarrow> entity_type \<Rightarrow> double \<Rightarrow> run \<Rightarrow> double_error option \<Rightarrow> bool" where
  "step_ends c args k d r e \<equiv>
     (case e of None \<Rightarrow> app_running c k d r | Some x \<Rightarrow> ends c args k d r (Some x))"

definition app_allowed :: "mender_command \<Rightarrow> string list \<Rightarrow> entity_type \<Rightarrow> double \<Rightarrow> bool" where
  "app_allowed c args k d \<longleftrightarrow>
     (GenericFailure, Started EntityApplication) \<in> tool_ends c args k (tx_of d) \<and>
     (FailedRolledBack, NoTx) \<in> tool_ends c args k (tx_of d) \<and>
     Started EntityApplication \<in> tool_cuts c k (tx_of d) \<and> Staged EntityApplication \<in> tool_cuts c k (tx_of d)"

lemma wp_app_checkpoint:
  assumes w: "works su" and r: "app_running c k d r" and t: "app_allowed c args k d"
    and p: "phase \<in> set phases"
    and Q: "\<And>r'. app_running c k d r' \<Longrightarrow> d_InstallPhase (r_state r') = phase \<Longrightarrow> Q r' None"
    and Qe: "\<And>r' m. ends c args k d r' (Some (DoubleErr m)) \<Longrightarrow> Q r' (Some (DoubleErr m))"
  shows "wp (checkpoint su path phase) Q r"
proof (rule wp_checkpoint[OF w])
  show "Q r (Some (DoubleErr e))" for e
    using Qe app_running_ends[OF r] t by (simp add: app_allowed_def)
  fix q s
  assume s: "q \<noteq> []" "s = (r_state r)\<lparr>d_ResumeArtifact := q, d_InstallPhase := phase, d_Stage := stageInstalled\<rparr>"
  have "well_formed s \<and> tx_of s = Started EntityApplication"
    using s p app_running_state[OF r] not_awaiting_phase[OF p]
    by (auto simp: well_formed_def open_tx_def tx_of_def)
  then show "Q (r\<lparr>r_state := s, r_effects := r_effects r @ [Saved s]\<rparr>) None"
    using app_running_update[OF r] t s by (intro Q) (auto simp: app_allowed_def)
qed

lemma app_running_effects:
  "app_running c k d r \<Longrightarrow> saved_states x = [] \<Longrightarrow> app_running c k d (r\<lparr>r_effects := r_effects r @ x\<rparr>)"
  by (simp add: app_running_def quiet_def)

lemma wp_injected:
  assumes w: "works su" and r: "app_running c k d r" and t: "app_allowed c args k d"
  shows "wp (maybeInjectedFailure su point) (step_ends c args k d) r"
proof -
  have s: "well_formed (r_state r)" "tx_of (r_state r) = Started EntityApplication" using r by (simp_all add: app_running_def)
  have "ends c args k d (r\<lparr>r_effects := r_effects r @ x @ Saved (r_state r) # y\<rparr>) (Some (DoubleErr m))"
    if "saved_states x = []" "saved_states y = []" for x y m
  proof (rule app_running_ends)
    show "app_running c k d (r\<lparr>r_effects := r_effects r @ x @ Saved (r_state r) # y\<rparr>)"
      using r s that t by (auto simp: app_running_def quiet_def app_allowed_def)
  qed (use t in \<open>simp add: app_allowed_def\<close>)
  from this[of "[]" "[]"] this[of "[RotateBootID]" "[]"] this[of "[]" "[KillServer]"] this[of "[RotateBootID]" "[KillServer]"]
  show ?thesis using r
    by (simp add: maybeInjectedFailure_def wp_simps wp_works[OF w])
qed

lemma app_running_state_change:
  assumes "app_running c k d r" "d_Stage s = d_Stage (r_state r)" "d_PendingUpdateType s = d_PendingUpdateType (r_state r)"
    "d_InstallPhase s = d_InstallPhase (r_state r)" "d_ResumeArtifact s = d_ResumeArtifact (r_state r)"
    "d_PreviousAppProject s = d_PreviousAppProject (r_state r) \<or> (\<exists>p. d_PreviousAppProject s = snapshot_of p)"
  shows "app_running c k d (r\<lparr>r_state := s\<rparr>)"
proof -
  note f = app_running_state[OF assms(1)]
  have "d_InstallPhase (r_state r) \<in> set phases \<or> d_InstallPhase (r_state r) = PhaseAwaitingCommit"
    using assms(1) f(2) by (simp add: app_running_def well_formed_def open_tx_def)
  moreover have "d_PreviousAppProject s = [] \<or> (\<exists>p. d_PreviousAppProject s = snapshot_of p)" using assms(6) f(6) by auto
  ultimately have "well_formed s" "tx_of s = Started EntityApplication"
    using f assms(2-5) by (simp_all add: well_formed_def open_tx_def tx_of_def)
  then show ?thesis using assms(1) by (simp add: app_running_def quiet_def)
qed

lemma step_ends_bind:
  "wp (seq a b) (step_ends c args k d) r \<longleftrightarrow>
   wp a (\<lambda>r' e. case e of None \<Rightarrow> wp b (step_ends c args k d) r' | Some x \<Rightarrow> ends c args k d r' (Some x)) r"
  by (simp add: wp_seq cong: option.case_cong)

lemma app_stop_ends:
  assumes w: "works su" and r: "app_running c k d r" and t: "app_allowed c args k d"
  shows "wp (app_stop su path project) (step_ends c args k d) r"
proof -
  have "app_running c k d (r\<lparr>r_state := (r_state r)\<lparr>d_RunningContainers := x\<rparr>\<rparr>)" for x
    by (rule app_running_state_change[OF r]) simp_all
  then show ?thesis
    unfolding app_stop_def step_ends_bind wp_modify option.case
    by (intro wp_app_checkpoint[OF w _ t]) (auto intro: wp_injected[OF w _ t])
qed

lemma app_rename_ends:
  assumes w: "works su" and r: "app_running c k d r" and t: "app_allowed c args k d"
  shows "wp (app_rename su path project) (step_ends c args k d) r"
proof -
  let ?rest = "seq (checkpoint su path PhaseAppRenamed) (maybeInjectedFailure su ErrInjectAfterRenameOldAppDir)"
  have rest: "wp ?rest (step_ends c args k d) r'" if "app_running c k d r'" for r'
    unfolding step_ends_bind using that
    by (intro wp_app_checkpoint[OF w _ t]) (auto intro: wp_injected[OF w _ t])
  have "app_running c k d (r\<lparr>r_effects := r_effects r @ x,
      r_state := (r_state r)\<lparr>d_PreviousAppProject := transactions @ ''/'' @ project @ ''/previous''\<rparr>\<rparr>)"
    if "saved_states x = []" for x
    using app_running_state_change[OF app_running_effects[OF r that],
        of "(r_state r)\<lparr>d_PreviousAppProject := transactions @ ''/'' @ project @ ''/previous''\<rparr>"]
    by (auto simp: snapshot_of_def)
  then show ?thesis
    unfolding app_rename_def Let_def using rest r
    by (simp add: step_ends_bind[of "look_files _"] wp_look_files wp_if wp_seq[of "act _ _"] wp_modify wp_skip wp_works[OF w])
qed

lemma app_fails:
  assumes w: "works su" and r: "app_running c k d r" and t: "app_allowed c args k d" and m: "marks_of e = {}"
  shows "wp (failApp su ''Installation'' e) (ends c args k d) r"
  using app_running_state[OF r] t m by (intro failed_application[OF w]) (auto simp: app_allowed_def)

text \<open>An operation that always stops with an error ends a phase as it ends the command.\<close>

lemma failApp_stops: "wp (failApp su operation e) Q r \<longleftrightarrow> wp (failApp su operation e) (\<lambda>r' x. \<exists>m. x = Some m \<and> Q r' x) r"
  by (simp add: failApp_def wp_simps cong: option.case_cong)

lemma app_fails_step:
  assumes "works su" "app_running c k d r" "app_allowed c args k d" "marks_of e = {}"
  shows "wp (failApp su ''Installation'' e) (step_ends c args k d) r"
proof -
  have "wp (failApp su ''Installation'' e) (\<lambda>r' x. \<exists>m. x = Some m \<and> ends c args k d r' x) r"
    using app_fails[OF assms] failApp_stops by blast
  then show ?thesis by (rule wp_mono) auto
qed

lemma app_extract_ends:
  assumes w: "works su" "plain su" and r: "app_running c k d r" and t: "app_allowed c args k d"
  shows "wp (app_extract su path project) (step_ends c args k d) r"
proof -
  have "wp (seq (checkpoint su path PhaseAppExtracted) (maybeInjectedFailure su ErrInjectAfterExtractBeforeStart))
      (step_ends c args k d) r"
    if "app_running c k d r" for r
    unfolding step_ends_bind using that
    by (intro wp_app_checkpoint[OF w(1) _ t]) (auto intro: wp_injected[OF w(1) _ t])
  then have "wp (seq (did (ExtractApp p q))
      (seq (checkpoint su path PhaseAppExtracted) (maybeInjectedFailure su ErrInjectAfterExtractBeforeStart)))
      (step_ends c args k d) r" for p q
    using app_running_effects[OF r, of "[ExtractApp p q]"] by (simp add: wp_seq[of "did _"] wp_did)
  then show ?thesis
    using w(2) app_fails_step[OF w(1) r t]
    by (auto simp: app_extract_def plain_def harmless_def split: option.split)
qed

definition app_staged :: "mender_command \<Rightarrow> entity_type \<Rightarrow> double \<Rightarrow> run \<Rightarrow> bool" where
  "app_staged c k d r \<longleftrightarrow>
     quiet c k d r \<and> well_formed (r_state r) \<and> tx_of (r_state r) = Staged EntityApplication \<and>
     tx_of (last (d # saved r)) = Staged EntityApplication"

lemma app_up_ends:
  assumes w: "works su" "plain su" and r: "app_running c k d r" and t: "app_allowed c args k d"
  shows "wp (app_up su path project) (\<lambda>r' e. case e of None \<Rightarrow> app_staged c k d r' | Some x \<Rightarrow> ends c args k d r' (Some x)) r"
    (is "wp _ ?Q r")
proof -
  have stop: "wp (failApp su ''Installation'' e) ?Q r'" if "app_running c k d r'" "marks_of e = {}" for e r'
  proof -
    have "wp (failApp su ''Installation'' e) (\<lambda>r' x. \<exists>m. x = Some m \<and> ends c args k d r' x) r'"
      using app_fails[OF w(1) that(1) t that(2)] failApp_stops by blast
    then show ?thesis by (rule wp_mono) auto
  qed
  have up: "wp (look (\<lambda>s. look_files (\<lambda>files. case CheckAppHealth su files s of
                Some e \<Rightarrow> failApp su ''Installation'' e
              | None \<Rightarrow> checkpoint su path PhaseAwaitingCommit))) ?Q r'" if r': "app_running c k d r'" for r'
  proof (cases "CheckAppHealth su (r_effects r') (r_state r')")
    case (Some e)
    then show ?thesis using stop[OF r'] health_harmless[OF w(2) Some] by (simp add: wp_look wp_look_files)
  next
    case None
    have "wp (checkpoint su path PhaseAwaitingCommit) ?Q r'"
    proof (rule wp_checkpoint[OF w(1)])
      show "?Q r' (Some (DoubleErr m))" for m using app_running_ends[OF r'] t by (simp add: app_allowed_def)
      fix q s
      assume s: "q \<noteq> []" "s = (r_state r')\<lparr>d_ResumeArtifact := q, d_InstallPhase := PhaseAwaitingCommit, d_Stage := stageInstalled\<rparr>"
      have "well_formed s \<and> tx_of s = Staged EntityApplication"
        using s app_running_state[OF r'] by (simp add: well_formed_def open_tx_def tx_of_def)
      then show "?Q (r'\<lparr>r_state := s, r_effects := r_effects r' @ [Saved s]\<rparr>) None"
        using app_running_state(1)[OF r'] t by (auto simp: app_staged_def quiet_def app_allowed_def)
    qed
    then show ?thesis using None by (simp add: wp_look wp_look_files)
  qed
  have "app_running c k d (r\<lparr>r_state := (r_state r)\<lparr>d_RunningContainers := x\<rparr>,
      r_out := r_out r @ map (\<lambda>n. ''Progress: '' @ nat_digits n @ ''%'') ns\<rparr>)" for x ns
    using app_running_state_change[OF r, of "(r_state r)\<lparr>d_RunningContainers := x\<rparr>"] said_progress[of ns]
    by (simp add: app_running_def quiet_def)
  then have go: "wp (seq (modify (\<lambda>s. s\<lparr>d_RunningContainers := x s\<rparr>)) (seq (progress ns) (look (\<lambda>s. look_files (\<lambda>files. case CheckAppHealth su files s of
                Some e \<Rightarrow> failApp su ''Installation'' e
              | None \<Rightarrow> checkpoint su path PhaseAwaitingCommit))))) ?Q r" for x ns
    using up by (simp add: wp_seq wp_modify wp_progress)
  have compose: "wp (case su_compose su fs p q of
       ComposeMissing e \<Rightarrow> failApp su ''Installation'' e
     | ComposeBad e \<Rightarrow> failApp su ''Installation'' e
     | Composed running \<Rightarrow> g running) ?Q r" if "\<And>running. wp (g running) ?Q r" for fs p q g
    using that stop[OF r] w(2) by (auto simp: plain_def harmless_def split: compose.split)
  show ?thesis
    unfolding app_up_def wp_look wp_look_files wp_if
    using stop[OF r plain_lines(8)] go by (auto intro!: compose)
qed

lemma app_begin_ends:
  assumes w: "works su" "plain su" and q: "quiet c k d r" and d: "saved r = []" "tx_of d = NoTx" and v: "ValidAppName project"
    and t: "app_allowed c args k d" "refusals \<times> {NoTx} \<subseteq> tool_ends c args k (tx_of d)"
  shows "wp (app_begin su path project) (step_ends c args k d) r"
proof -
  have ref: "ends c args k d r' (Some (DoubleErr m))" if "refused c k d r'" "saved r' = []" for r' m
    using refused_ends[OF that(1) _ t(2)] that(2) d(2) by simp
  have go: "wp (seq (modify (\<lambda>s. SetInstalledApp img project [] (x s) (s\<lparr>d_AppHealth := h, d_PreviousContainers := y s\<rparr>)))
      (checkpoint su path PhaseInstalling)) (step_ends c args k d) r" for img x h y
    unfolding wp_seq wp_modify option.case
  proof (rule wp_checkpoint[OF w(1)])
    fix m
    show "step_ends c args k d (r\<lparr>r_state := SetInstalledApp img project [] (x (r_state r)) ((r_state r)\<lparr>d_AppHealth := h,
        d_PreviousContainers := y (r_state r)\<rparr>)\<rparr>) (Some (DoubleErr m))"
      using q d by (simp add: ref refused_def marks_def quiet_def)
  next
    fix p s
    assume s: "p \<noteq> []" "s = (r_state (r\<lparr>r_state := SetInstalledApp img project [] (x (r_state r)) ((r_state r)\<lparr>d_AppHealth := h,
        d_PreviousContainers := y (r_state r)\<rparr>)\<rparr>))\<lparr>d_ResumeArtifact := p, d_InstallPhase := PhaseInstalling, d_Stage := stageInstalled\<rparr>"
    then have "well_formed s \<and> tx_of s = Started EntityApplication"
      by (simp add: SetInstalledApp_def well_formed_def open_tx_def tx_of_def)
    then show "step_ends c args k d (r\<lparr>r_state := SetInstalledApp img project [] (x (r_state r)) ((r_state r)\<lparr>d_AppHealth := h,
        d_PreviousContainers := y (r_state r)\<rparr>), r_state := s,
        r_effects := r_effects (r\<lparr>r_state := SetInstalledApp img project [] (x (r_state r)) ((r_state r)\<lparr>d_AppHealth := h,
        d_PreviousContainers := y (r_state r)\<rparr>)\<rparr>) @ [Saved s]\<rparr>) None"
      using q d t by (auto simp: app_running_def quiet_def app_allowed_def)
  qed
  have bad: "wp (seq (printFailure ''Installation'' ''System not modified.'') (seq (printRequestError e) (stop (DoubleErr e))))
      (step_ends c args k d) r" if "marks_of e = {}" for e
    using q d that by (simp add: printFailure_def wp_simps ref refused_def quiet_def marks_def marks_of_eval plain_lines)
  show ?thesis
    unfolding app_begin_def
    using go bad snapshot_harmless[OF w(2) v] ref[OF refused_quiet[OF q] d(1)]
    by (auto simp: wp_look wp_look_files wp_stop wp_option split: sum.split option.split)
qed

lemma step_then:
  assumes "wp a (step_ends c args k d) r" "\<And>r'. app_running c k d r' \<Longrightarrow> wp b (ends c args k d) r'"
  shows "wp (seq a b) (ends c args k d) r"
  unfolding wp_seq by (rule wp_mono[OF assms(1)]) (use assms(2) in \<open>auto split: option.splits\<close>)

lemma in_phase_ends:
  assumes "app_running c k d r" "wp body (step_ends c args k d) r"
  shows "wp (in_phase_do phase body) (step_ends c args k d) r"
  using assms by (simp add: in_phase_do_def wp_look wp_skip)

text \<open>The end of an installation: the update waits for its commit, or is committed at once.\<close>

definition app_may_end :: "mender_command \<Rightarrow> string list \<Rightarrow> entity_type \<Rightarrow> double \<Rightarrow> bool \<Rightarrow> bool" where
  "app_may_end c args k d pause \<longleftrightarrow>
     (c = CmdInstall \<or> c = CmdResume) \<and>
     (if pause then (InstalledButNotCommited, Staged EntityApplication) \<in> tool_ends c args k (tx_of d)
      else c = CmdResume \<and> commit_ends (Staged EntityApplication) \<subseteq> tool_ends c args k (tx_of d))"

lemma app_finish:
  assumes w: "works su" "plain su" and r: "app_staged c k d r" and e: "app_may_end c args k d pause"
  shows "wp (if pause then installed_lines else runCommit su) (ends c args k d) r"
proof (cases pause)
  case True
  then show ?thesis
    using e r staged_ends[of c k d r EntityApplication args "[]"]
    by (auto simp: app_staged_def app_may_end_def wp_installed_lines)
next
  case False
  then have "wp (runCommit su) (ends c args k d) r"
    using e r by (intro commit_from[OF w]) (auto simp: app_staged_def app_may_end_def)
  then show ?thesis using False by simp
qed

lemma app_phases_end:
  assumes w: "works su" "plain su" and t: "app_allowed c args k d" and e: "app_may_end c args k d pause"
    and r: "app_running c k d r"
  shows "wp (seq (in_phase_do PhaseInstalling (app_stop su path project))
        (seq (in_phase_do PhaseAppStopped (app_rename su path project))
        (seq (in_phase_do PhaseAppRenamed (app_extract su path project))
        (seq (app_up su path project)
          (if pause then installed_lines else runCommit su))))) (ends c args k d) r"
proof -
  have up: "wp (seq (app_up su path project) (if pause then installed_lines else runCommit su)) (ends c args k d) r'"
    if "app_running c k d r'" for r'
    unfolding wp_seq by (rule wp_mono[OF app_up_ends[OF w that t]]) (use app_finish[OF w _ e] in \<open>auto split: option.splits\<close>)
  show ?thesis
    by (intro step_then up in_phase_ends app_stop_ends[OF w(1) _ t] app_rename_ends[OF w(1) _ t] app_extract_ends[OF w _ t] r)
qed

lemma installApp_starts:
  assumes w: "works su" "plain su" and q: "quiet c k d r" and d: "saved r = []" "tx_of d = NoTx"
    and s: "d_InstallPhase (r_state r) = []" and t: "app_allowed c args k d" "refusals \<times> {NoTx} \<subseteq> tool_ends c args k (tx_of d)"
    and e: "app_may_end c args k d pause"
  shows "wp (installApp su path meta pause) (ends c args k d) r"
proof -
  have bad: "wp (stop (DoubleErr m)) (ends c args k d) r" for m
    by (simp add: wp_stop refused_ends[OF refused_quiet[OF q]] d t(2)[unfolded d])
  have go: "wp (seq (in_phase_do [] (app_begin su path project))
        (seq (in_phase_do PhaseInstalling (app_stop su path project))
        (seq (in_phase_do PhaseAppStopped (app_rename su path project))
        (seq (in_phase_do PhaseAppRenamed (app_extract su path project))
        (seq (app_up su path project)
          (if pause then installed_lines else runCommit su)))))) (ends c args k d) r"
    if "ValidAppName project" for project
    using s app_begin_ends[OF w q d that t]
    by (intro step_then app_phases_end[OF w t(1) e]) (simp_all add: in_phase_do_def wp_look)
  show ?thesis
    unfolding installApp_def Let_def using go bad by simp
qed

lemma installApp_resumes:
  assumes w: "works su" "plain su" and r: "app_running c k d r" and t: "app_allowed c args k d"
    and e: "app_may_end c args k d pause"
  shows "wp (installApp su path meta pause) (ends c args k d) r"
proof -
  have bad: "wp (stop (DoubleErr m)) (ends c args k d) r" for m
    using app_running_ends[OF r] t by (simp add: wp_stop app_allowed_def)
  have "d_InstallPhase (r_state r) \<noteq> []"
    using r app_running_state[OF r] by (auto simp: app_running_def well_formed_def open_tx_def dest: not_awaiting_phase)
  then have go: "wp (seq (in_phase_do [] (app_begin su path project))
        (seq (in_phase_do PhaseInstalling (app_stop su path project))
        (seq (in_phase_do PhaseAppStopped (app_rename su path project))
        (seq (in_phase_do PhaseAppRenamed (app_extract su path project))
        (seq (app_up su path project)
          (if pause then installed_lines else runCommit su)))))) (ends c args k d) r"
    for project
    using r by (intro step_then app_phases_end[OF w t e]) (simp_all add: in_phase_do_def wp_look wp_skip)
  show ?thesis
    unfolding installApp_def Let_def using go bad by simp
qed

end
