(* ===== verification/Double_Tool.thy ===== *)
theory Double_Tool
  imports Double_Install
begin

text \<open>
  The whole commands of the double, and the loop of the server with it: the double interprets the interface of the
  loop, so the loop's invariant holds of the two programs together.
\<close>

section \<open>Install\<close>

lemma busy_ends:
  assumes q: "quiet CmdInstall k d r" and s: "saved r = []" "tx_of d \<noteq> NoTx"
  shows "wp (busy_error b) (ends CmdInstall args k d) r"
proof -
  have n: "''Update already in progress.'' \<notin> set summaries" "''Please commit or roll back first'' \<notin> set summaries"
    by (simp_all add: summaries_def)
  have "tidy r'" if "marks r' = {''Update already in progress.'', ''Please commit or roll back first''}" for r'
    using that n unfolding tidy_def by fastforce
  then show ?thesis
    using q s
    by (cases b) (simp_all add: busy_error_def Let_def wp_simps wp_diagnostic ends_def quiet_def marks_def
        diag_plain[simplified] marks_of_quoted marks_of_eval(8)[simplified] tool_ends_def marked_classes)
qed

lemma missing_file_line:
  assumes "marks_of b = {}"
  shows "marks_of (''No such file or directory: Failed to open '' @ [CHR 0x27] @ b @ [CHR 0x27] @ '' for reading'') = {}"
proof -
  have "''No such file or directory: Failed to open '' @ [CHR 0x27] @ b @ [CHR 0x27] @ '' for reading'' =
      ''No such file or directory: Failed to open '' @ CHR 0x27 # (b @ CHR 0x27 # '' for reading'')"
    by simp
  then show ?thesis using assms marks_of_sep[of "CHR 0x27"]
    by (simp only: insert_iff refl simp_thms Un_empty_left) (simp add: harmless_letters)
qed

lemma artifact_kinds:
  assumes "artifact_kind su path k" "su_header su path = Inr (info, m)" "hd_payloads info \<noteq> []"
  shows "hd (hd_payloads info) = UpdateTypeRootfs \<Longrightarrow> k = EntityCoreOs"
    "hd (hd_payloads info) = UpdateTypeApp \<or> hd (hd_payloads info) = ''docker-compose'' \<Longrightarrow> k = EntityApplication"
    "hd (hd_payloads info) = UpdateTypeCustomization \<Longrightarrow> k = EntityCoreOSCustomization"
  using assms by (cases "hd_payloads info"; auto simp: artifact_kind_def)+

text \<open>The first checkpoint of a root file system or a customization.\<close>

lemma first_checkpoint:
  assumes w: "works su" and q: "quiet CmdInstall k d r" and d: "saved r = []" "tx_of d = NoTx"
    and s: "well_formed (r_state r)" "tx_of (r_state r) = NoTx"
    and t: "t = UpdateTypeRootfs \<or> t = UpdateTypeCustomization" "kind_of t = k"
    and f: "\<And>r. in_installation CmdInstall k d r \<Longrightarrow> wp f (ends CmdInstall args k d) r"
  shows "wp (seq (modify (\<lambda>s. s\<lparr>d_PendingUpdateType := t\<rparr>)) (seq (checkpoint su path PhaseInstalling) f))
    (ends CmdInstall args k d) r"
proof (rule wp_staging[OF w])
  fix m
  have "refused CmdInstall k d (r\<lparr>r_state := (r_state r)\<lparr>d_PendingUpdateType := t\<rparr>\<rparr>)"
    using refused_quiet[OF q] by (simp add: refused_def marks_def)
  then show "ends CmdInstall args k d (r\<lparr>r_state := (r_state r)\<lparr>d_PendingUpdateType := t\<rparr>\<rparr>) (Some (DoubleErr m))"
    by (rule refused_ends) (use d in \<open>auto simp: tool_ends_def install_ends_def\<close>)
next
  fix p s'
  assume s': "p \<noteq> []" "s' = (r_state r)\<lparr>d_PendingUpdateType := t\<rparr>
    \<lparr>d_ResumeArtifact := p, d_InstallPhase := PhaseInstalling, d_Stage := stageInstalled\<rparr>"
  have prev: "d_PreviousAppProject (r_state r) = []"
    using s by (auto simp: well_formed_def tx_of_def split: if_splits)
  have "well_formed s'" "tx_of s' = Started k"
    using s' t prev by (auto simp: well_formed_def open_tx_def tx_of_def)
  then show "wp f (ends CmdInstall args k d) (r\<lparr>r_state := s', r_effects := r_effects r @ [Saved s']\<rparr>)"
    using q d prev s' by (intro f) (auto simp: in_installation_def quiet_def tool_cuts_def)
qed

lemma start_quiet [simp]: "quiet c k d ((start_run d)\<lparr>r_state := s\<rparr>)"
  by (simp add: quiet_def)

lemma install_contract:
  assumes w: "works su" "plain su" and d: "well_formed d" and p: "artifact_kind su path k" "harmless (filepath_base path)"
  shows "wp (runInstall su path) (ends CmdInstall [path] k d) (start_run d)"
proof -
  let ?s = "load_defaults su d" let ?r = "(start_run d)\<lparr>r_state := ?s\<rparr>"
  let ?E = "ends CmdInstall [path] k d"
  have R: "refusals \<times> {tx_of d} \<subseteq> tool_ends CmdInstall [path] k (tx_of d)"
    by (auto simp: tool_ends_def install_ends_def)
  have ref: "?E r (Some (DoubleErr m))" if "refused CmdInstall k d r" "saved r = saved ?r" for r m
    using that by (intro refused_ends[OF _ _ R]) auto
  have uns: "wp (unsupported ''Streaming'' e x) ?E ?r" if "marks_of e = {}" for e x
    by (rule wp_unsupported[OF start_quiet[of CmdInstall k] that]) (simp_all add: ref)
  have type: "marks_of ''Unsupported payload type'' = {}" "marks_of (''Artifact device type doesn'' @ [CHR 0x27] @ ''t match'') = {}"
    by (simp_all add: harmless_letters)
  let ?msg = "''No such file or directory: Failed to open '' @ [CHR 0x27] @ filepath_base path @ [CHR 0x27] @ '' for reading''"
  have missing: "wp (seq (printDiagnostic 1 ''error'' ''07:05:21.952463'' msg)
                (seq (printFailure ''Streaming'' ''System not modified.'')
                  (seq (printRequestError msg) (stop (DoubleErr e))))) ?E ?r" if "marks_of msg = {}" for msg e
    using that by (simp add: wp_simps wp_diagnostic printFailure_def)
      (intro ref; simp add: refused_def marks_def marks_of_eval plain_lines diag_plain[simplified] marks_of_quoted)
  have msg: "marks_of ?msg = {}" using missing_file_line p(2) by (simp only: harmless_def)
  show ?thesis
  proof (cases "su_stat su path")
    case (Some e)
    then show ?thesis
      using missing[OF msg, of e] by (simp only: runInstall_def wp_load[OF w(1)] option.case Let_def start_simps)
  next
    case None
    show ?thesis
    proof (cases "su_header su path")
      case (Inl e)
      then have "marks_of e = {}" using w(2) by (auto simp: plain_def harmless_def)
      then show ?thesis using None Inl
        by (simp add: runInstall_def wp_load[OF w(1)]) (auto intro!: wp_not_modified[OF start_quiet[of CmdInstall k]] ref)
    next
      case (Inr a)
      obtain info m where a: "su_header su path = Inr (info, m)" using Inr by (cases a) auto
      consider (device) "hd_devices info = [] \<or> hd (hd_devices info) \<noteq> expectedDeviceType"
        | (none) "hd_devices info \<noteq> []" "hd (hd_devices info) = expectedDeviceType" "hd_payloads info = []"
        | (payload) "hd_devices info \<noteq> []" "hd (hd_devices info) = expectedDeviceType" "hd_payloads info \<noteq> []" by blast
      then show ?thesis
      proof cases
        case device
        then show ?thesis using None a uns[OF type(2)]
          by (simp only: runInstall_def wp_load[OF w(1)] option.case sum.case prod.case if_True start_simps)
      next
        case none
        then show ?thesis using None a uns[OF type(1)]
          by (simp add: runInstall_def wp_load[OF w(1)])
      next
        case payload
        note k = artifact_kinds[OF p(1) a payload(3)]
        let ?t = "hd (hd_payloads info)"
        have unk: "wp (unsupported ''Streaming'' ''Unsupported payload type'' ''unsupported payload'') ?E ?r"
          by (rule uns[OF type(1)])
        show ?thesis
        proof (cases "tx_of d = NoTx")
          case True
          then have idle: "d_Stage ?s = stageIdle" using NoTx_iff[OF d] by auto
          have phase: "d_InstallPhase d = []" using d True NoTx_iff[OF d] by (auto simp: well_formed_def)
          have T: "install_ends k \<subseteq> tool_ends CmdInstall [path] k (tx_of d)" "Staged k \<in> tool_cuts CmdInstall k (tx_of d)"
            using True by (simp_all add: tool_ends_def tool_cuts_def)
          have A: "wp (installApp su path m True) ?E ?r" if "k = EntityApplication"
            using True phase that
            by (intro installApp_starts[OF w start_quiet])
              (auto simp: app_allowed_def app_may_end_def tool_ends_def tool_cuts_def install_ends_def refusals_def)
          have F: "wp (seq (modify (\<lambda>s. s\<lparr>d_PendingUpdateType := t\<rparr>)) (seq (checkpoint su path PhaseInstalling) f)) ?E ?r"
            if "t = UpdateTypeRootfs \<or> t = UpdateTypeCustomization" "kind_of t = k"
              "\<And>r. in_installation CmdInstall k d r \<Longrightarrow> wp f ?E r" for t f
            using d True that by (intro first_checkpoint[OF w(1)]) auto
          have "?t = UpdateTypeRootfs \<Longrightarrow> wp (seq (modify (\<lambda>s. s\<lparr>d_PendingUpdateType := UpdateTypeRootfs\<rparr>))
              (seq (checkpoint su path PhaseInstalling) (installRootfs su path))) ?E ?r"
            using k(1) T by (intro F) (auto intro!: install_rootfs[OF w])
          moreover have "?t = UpdateTypeCustomization \<Longrightarrow> wp (seq (modify (\<lambda>s. s\<lparr>d_PendingUpdateType := UpdateTypeCustomization\<rparr>))
              (seq (checkpoint su path PhaseInstalling) (installCustomization su path))) ?E ?r"
            using k(3) T by (intro F) (auto intro!: install_customization[OF w])
          ultimately show ?thesis
            using None a payload idle A k(2) unk
            by (simp add: runInstall_def wp_load[OF w(1)] wp_look wp_if Let_def del: load_defaults_simps)
        next
          case False
          then have "d_Stage ?s = stageInstalled \<or> d_Stage ?s = stageBootedTrial"
            using NoTx_iff[OF d] d by (auto simp: well_formed_def split: if_splits)
          moreover have "wp (busy_error b) ?E ?r" for b by (rule busy_ends[OF start_quiet]) (use False in simp_all)
          ultimately show ?thesis
            using None a payload unk
            by (simp add: runInstall_def wp_load[OF w(1)] wp_look wp_if Let_def del: load_defaults_simps)
        qed
      qed
    qed
  qed
qed

section \<open>Resume\<close>

lemma first_phase:
  "well_formed s \<Longrightarrow> d_Stage s = stageInstalled \<or> d_Stage s = stageBootedTrial \<Longrightarrow> \<not> awaitingCommit (d_InstallPhase s) \<Longrightarrow>
   d_PendingUpdateType s \<noteq> UpdateTypeApp \<Longrightarrow> d_InstallPhase s = PhaseInstalling"
  by (auto simp: well_formed_def open_tx_def phases_def split: if_splits)

lemma open_previous:
  "well_formed s \<Longrightarrow> d_Stage s = stageInstalled \<or> d_Stage s = stageBootedTrial \<Longrightarrow>
   (d_PreviousAppProject s = [] \<or> (\<exists>p. d_PreviousAppProject s = snapshot_of p)) \<and> d_ResumeArtifact s \<noteq> []"
  by (auto simp: well_formed_def open_tx_def split: if_splits)

lemma unfinished_phase:
  "p \<in> set phases \<longleftrightarrow> p \<in> {PhaseInstalling, PhaseAppStopped, PhaseAppRenamed, PhaseAppExtracted}"
  by (simp add: phases_def)

lemma run_resume_paused:
  assumes w: "works su" and s: "s = load_defaults su (r_state r)" "d_Stage s \<noteq> stageIdle" "d_InstallPhase s = PhaseAwaitingCommit"
  shows "wp (runResume su pause) Q r = wp (if pause then skip else runCommit su) Q (r\<lparr>r_state := s\<rparr>)"
  using s(2,3) unfolding s(1) runResume_def wp_load[OF w] wp_look wp_if by (simp del: load_defaults_simps)

lemma run_resume_cases:
  assumes w: "works su" and s: "s = load_defaults su (r_state r)" "d_Stage s \<noteq> stageIdle" "d_InstallPhase s \<in> set phases"
      "d_ResumeArtifact s \<noteq> []"
  shows "d_PendingUpdateType s = UpdateTypeApp \<Longrightarrow>
      wp (runResume su pause) Q r =
      (case su_header su (d_ResumeArtifact s) of
         Inl e \<Rightarrow> wp (request_error e) Q (r\<lparr>r_state := s\<rparr>)
       | Inr (h, m) \<Rightarrow> wp (installApp su (d_ResumeArtifact s) m pause) Q (r\<lparr>r_state := s\<rparr>))"
    "d_PendingUpdateType s = UpdateTypeRootfs \<Longrightarrow>
      wp (runResume su pause) Q r = wp (installRootfs su (d_ResumeArtifact s)) Q (r\<lparr>r_state := s\<rparr>)"
    "d_PendingUpdateType s = UpdateTypeCustomization \<Longrightarrow>
      wp (runResume su pause) Q r = wp (installCustomization su (d_ResumeArtifact s)) Q (r\<lparr>r_state := s\<rparr>)"
  using s(2-4) not_awaiting_phase[OF s(3)] s(3)[unfolded unfinished_phase]
  unfolding s(1) runResume_def wp_load[OF w] wp_look wp_if wp_sum wp_prod
  by (simp_all del: load_defaults_simps insert_iff split: sum.split prod.split)

text \<open>The resumption of an installation that was cut off.\<close>

lemma resume_unfinished:
  assumes w: "works su" "plain su" and d: "well_formed d"
    and t: "tx_of d = Started e \<or> tx_of d = Trial False \<and> e = EntityCoreOs" and pa: "(args = stop_args) = pause"
  shows "wp (runResume su pause) (ends CmdResume args k d) (start_run d)"
proof -
  let ?s = "load_defaults su d" let ?r = "(start_run d)\<lparr>r_state := ?s\<rparr>"
  let ?E = "ends CmdResume args k d"
  have s: "well_formed ?s" "tx_of ?s = tx_of d" using d by simp_all
  have stage: "d_Stage ?s = stageInstalled \<and> e = kind_of (d_PendingUpdateType ?s) \<or>
      d_Stage ?s = stageBootedTrial \<and> d_PendingUpdateType ?s = UpdateTypeRootfs \<and> e = EntityCoreOs"
      "\<not> awaitingCommit (d_InstallPhase ?s)" "d_InstallPhase ?s \<in> set phases"
    using s(1) t s(2) by (cases rule: tx_cases; auto)+
  then have ne: "d_Stage ?s \<noteq> stageIdle" by auto
  have ra: "d_ResumeArtifact ?s \<noteq> []" using open_previous[OF s(1)] stage(1) by blast
  note cs = run_resume_cases[OF w(1) _ ne stage(3) ra, of "start_run d", unfolded start_simps, OF refl]
  have pause: "tool_ends CmdResume args k (tx_of d) = resume_ends pause (tx_of d)"
    by (simp add: tool_ends_def pa)
  have cuts: "Started e \<in> tool_cuts CmdResume k (tx_of d)" "Staged e \<in> tool_cuts CmdResume k (tx_of d)"
    using t by (auto simp: tool_cuts_def)
  show ?thesis
  proof (cases "d_PendingUpdateType ?s = UpdateTypeApp")
    case True
    then have e: "e = EntityApplication" "d_Stage ?s = stageInstalled" "tx_of d = Started EntityApplication"
      using stage(1) t by auto
    have run: "app_running CmdResume k d ?r"
      using s e by (simp add: app_running_def)
    have al: "app_allowed CmdResume args k d" "app_may_end CmdResume args k d pause"
      using cuts e pause
      by (auto simp: app_allowed_def app_may_end_def install_ends_def refusals_def)
    have go: "wp (installApp su path m pause) ?E ?r" for path m
      by (rule installApp_resumes[OF w run al])
    have bad: "wp (request_error x) ?E ?r" if "marks_of x = {}" for x
    proof -
      have "app_running CmdResume k d (?r\<lparr>r_err := [request_line x]\<rparr>)"
        using run that by (simp add: app_running_def quiet_def)
      then show ?thesis using app_running_ends al(1) by (simp add: wp_simps app_allowed_def)
    qed
    show ?thesis
      unfolding cs(1)[OF True] using go bad w(2)
      by (auto simp: plain_def harmless_def split: sum.split)
  next
    case False
    have ph: "d_InstallPhase ?s = PhaseInstalling" using first_phase[OF s(1) _ stage(2) False] stage(1) by auto
    have inst: "in_installation CmdResume k d ?r"
      using ph open_previous[OF s(1)] stage(1) by (auto simp: in_installation_def)
    have e: "e = EntityCoreOs \<and> d_PendingUpdateType ?s = UpdateTypeRootfs \<or>
        e = EntityCoreOSCustomization \<and> d_PendingUpdateType ?s = UpdateTypeCustomization"
    proof -
      have "d_PendingUpdateType ?s = UpdateTypeRootfs \<or> d_PendingUpdateType ?s = UpdateTypeCustomization"
        using False s(1) stage(1) unfolding well_formed_def open_tx_def by (simp del: load_defaults_simps split: if_splits)
      then show ?thesis using stage(1) by (elim disjE conjE) (simp_all del: load_defaults_simps)
    qed
    have ends: "install_ends e \<subseteq> tool_ends CmdResume args k (tx_of d)"
      using t e pause by (elim disjE conjE) simp_all
    note e
    moreover have "wp (installRootfs su path) ?E ?r" if "e = EntityCoreOs" for path
      using ends cuts that by (intro install_rootfs[OF w inst]) auto
    moreover have "wp (installCustomization su path) ?E ?r" if "e = EntityCoreOSCustomization" for path
      using ends cuts that by (intro install_customization[OF w inst]) auto
    ultimately show ?thesis
      using cs(2,3) by (elim disjE conjE) simp_all
  qed
qed

lemma resume_contract:
  assumes w: "works su" "plain su" and d: "well_formed d" and pa: "(args = stop_args) = pause"
  shows "wp (runResume su pause) (ends CmdResume args k d) (start_run d)"
proof (cases "awaits (tx_of d) \<or> tx_of d = NoTx")
  case False
  then show ?thesis using resume_unfinished[OF w d _ pa] by (cases "tx_of d") auto
next
  case True
  let ?s = "load_defaults su d" let ?r = "(start_run d)\<lparr>r_state := ?s\<rparr>"
  let ?E = "ends CmdResume args k d"
  have pause: "tool_ends CmdResume args k (tx_of d) = resume_ends pause (tx_of d)"
    by (simp add: tool_ends_def pa)
  have s: "well_formed ?s" "tx_of ?s = tx_of d" using d by simp_all
  show ?thesis
  proof (cases "tx_of d = NoTx")
    case True
    then have "d_Stage ?s = stageIdle" using NoTx_iff[OF d] by auto
    then show ?thesis using True pause
      unfolding runResume_def wp_load[OF w(1)] wp_look wp_if start_simps
      by (simp add: wp_no_update ends_def marks_def tidy_def summaries_def marks_of_eval
          marked_classes del: load_defaults_simps)
  next
    case False
    then have a: "awaits (tx_of d)" using True by simp
    have st: "awaitingCommit (d_InstallPhase ?s)" "d_Stage ?s \<noteq> stageIdle"
      using s(1) s(2) a by (cases rule: tx_cases; auto)+
    then have "d_InstallPhase ?s = PhaseAwaitingCommit"
      using s(1) not_awaiting_phase by (auto simp: well_formed_def open_tx_def split: if_splits)
    then have body: "wp (runResume su pause) ?E (start_run d) = wp (if pause then skip else runCommit su) ?E ?r"
      using run_resume_paused[OF w(1) _ st(2), of "start_run d", unfolded start_simps, OF refl] by simp
    show ?thesis
    proof (cases pause)
      case True
      have "resume_ends True (tx_of d) = {(InstalledButNotCommited, tx_of d)}" using a by (cases "tx_of d") auto
      moreover have "trim_space [] = []" by code_simp
      ultimately show ?thesis using True body pause pa
        by (simp add: wp_skip ends_def marks_def tidy_def silent_def lines_text_def marked_classes)
    next
      case False
      have "commit_ends (tx_of d) \<subseteq> resume_ends False (tx_of d)" using a by (cases "tx_of d") auto
      then have "wp (runCommit su) ?E ?r"
        using s pause False by (intro commit_from[OF w start_quiet]) simp_all
      then show ?thesis using body False by simp
    qed
  qed
qed

lemma commit_contract:
  assumes w: "works su" "plain su" and d: "well_formed d"
  shows "wp (runCommit su) (ends CmdCommit [] k d) (start_run d)"
  using d by (intro commit_from[OF w]) (simp_all add: quiet_def tool_ends_def)

section \<open>The tool in the loop\<close>

lemma call_cases:
  assumes "proper_args c args"
  obtains (install) path where "c = CmdInstall" "args = [path]" "mender_update su c args = Some (runInstall su path)"
  | (resume) "c = CmdResume" "mender_update su c args = Some (runResume su (args = stop_args))"
  | (commit) "c = CmdCommit" "args = []" "mender_update su c args = Some (runCommit su)"
  | (rollback) "c = CmdRollback" "args = []" "mender_update su c args = Some (runRollback su)"
proof (cases c)
  case CmdInstall
  then obtain path where "args = [path]" using assms by (auto simp: proper_args_def length_Suc_conv)
  then show thesis using CmdInstall install by (simp add: mender_update_def)
next
  case CmdResume
  then have "args = [] \<or> args = stop_args" using assms by (simp add: proper_args_def)
  then show thesis using CmdResume resume by (auto simp: mender_update_def Let_def stop_args_def)
qed (use assms commit rollback in \<open>auto simp: proper_args_def mender_update_def\<close>)

lemma call_contract:
  assumes d: "well_formed d" and p: "proper_args c args" and f: "fits su k c args"
  obtains F where "mender_update su c args = Some F" "wp F (ends c args k d) (start_run d)"
proof -
  have w: "works su" "plain su" using f by (simp_all add: fits_def)
  show thesis
    using p
  proof (cases rule: call_cases[of c args su])
    case (install path)
    then show thesis using f by (intro that[OF install(3)]) (auto simp: fits_def intro!: install_contract[OF w d])
  next
    case resume
    then show thesis using resume_contract[OF w d, of args "args = stop_args" k] by (intro that[OF resume(2)]) simp
  next
    case commit
    then show thesis using commit_contract[OF w d, of k] by (intro that[OF commit(3)]) simp
  next
    case rollback
    then show thesis using rollback_contract[OF w(1) d, of k] by (intro that[OF rollback(3)]) simp
  qed
qed

lemma exit_code_range: "commandExitCode e \<noteq> 4"
  by (simp add: commandExitCode_def split: option.split double_error.split)

lemma call_double_ends:
  assumes "well_formed d" "proper_args c args" "fits su k c args" "call_double su c args d = (ds, r)"
  shows "(\<forall>x \<in> set ds. well_formed x \<and> tx_of x \<in> tool_cuts c k (tx_of d)) \<and>
    (class_of_call c args r, tx_of (last (d # ds))) \<in> tool_ends c args k (tx_of d)"
proof -
  obtain F where F: "mender_update su c args = Some F" "wp F (ends c args k d) (start_run d)"
    by (rule call_contract[OF assms(1-3)])
  obtain x e where x: "F (start_run d) = (x, e)" by fastforce
  then have r: "ds = saved x" "r = exit_result (r_out x) (r_err x) (commandExitCode e)"
    using assms(4) F(1) by (auto simp: call_double_def)
  have "ends c args k d x e" using F(2) x by (simp add: wp_def)
  then show ?thesis
    using class_from_marks[of x "commandExitCode e" c args] exit_code_range by (simp add: ends_def r)
qed

text \<open>What the status says of a customization that was checked.\<close>

lemma status_fields:
  "\<not> field_matches ''candidate_state'' ''active_slot''" "\<not> field_matches ''candidate_state'' ''active_version''"
  "\<not> field_matches ''candidate_state'' ''last_good_slot''" "\<not> field_matches ''candidate_state'' ''last_good_version''"
  "\<not> field_matches ''candidate_state'' ''candidate_slot''" "\<not> field_matches ''candidate_state'' ''candidate_version''"
  "field_matches ''candidate_state'' ''candidate_state''" "\<not> field_matches ''candidate_state'' ''candidate_attempts''"
  "\<not> field_matches ''candidate_state'' ''factory_version''"
  by code_simp+

lemma candidate_state_read:
  assumes "status_json d = JObject ms"
  shows "decode_str_ptr ''candidate_state'' ms None = Inr (stringOrNil (d_CustomizationCandidateState d))"
proof (cases "stringOrNil (d_CustomizationCandidateState d)")
  case None
  then show ?thesis using assms by (auto simp: status_json_def status_fields ptr_json_def)
next
  case (Some t)
  then show ?thesis using assms by (auto simp: status_json_def status_fields ptr_json_def)
qed

lemma check_double:
  assumes d: "well_formed d" "tx_of d = Verdict b" and p: "poll_of w (status_json d) r" "poll_status w r = Some ev" "ev_success ev"
  shows b
proof -
  obtain ms where ms: "status_json d = JObject ms" by (simp add: status_json_def)
  have "cr_err r = None" using p(2) by (auto simp: poll_status_def split: option.splits)
  then have "unmarshal_struct w (cr_stdout r) = Inr ms" using p(1) ms by (simp add: poll_of_def unmarshal_struct_def)
  then have "stringOrNil (d_CustomizationCandidateState d) = None"
    using p(2,3) \<open>cr_err r = None\<close> candidate_state_read[OF ms]
    by (auto simp: poll_status_def bind_go_Inr verified_event_def split: sum.splits if_splits)
  then have "d_CustomizationCandidateState d = []" by (simp add: stringOrNil_def split: if_splits)
  then show b using d(2) d(1) by (cases rule: tx_cases[OF d(1)]) (auto simp: well_formed_def checked_def)
qed

text \<open>The double interprets the interface of the loop.\<close>

interpretation dbl: mender_tool call_double reboot_double status_json fits works well_formed tx_of
proof (unfold_locales, goal_cases)
  case (1 d c args e k ds r x)
  then show ?case using call_double_ends by blast
next
  case (2 d c args e k ds r)
  then show ?case using call_double_ends by blast
next
  case (3 d e)
  then show ?case using reboot_law_double by blast
next
  case (4 d b w r ev)
  then show ?case using check_double by blast
qed

abbreviation double_step :: "double loop \<Rightarrow> double loop \<Rightarrow> bool" where
  "double_step \<equiv> loop_step call_double reboot_double status_json fits works"

lemma first_state_idle: "well_formed (first_state issue)" "tx_of (first_state issue) = NoTx"
  by (simp_all add: first_state_def well_formed_def tx_of_def)

end
