(* ===== verification/Double_Properties.thy ===== *)
theory Double_Properties
  imports Double_Tool
begin

text \<open>
  What holds of the server together with the Mender double: no update is left open, only what was tried is
  committed, and, as the converse, what a reboot that fails leaves behind.
\<close>

section \<open>A sample update\<close>

definition sample_header :: header where
  "sample_header = \<lparr>hd_payloads = [UpdateTypeRootfs], hd_devices = [expectedDeviceType]\<rparr>"

definition sample_su :: surroundings where
  "sample_su = \<lparr>su_stat = (\<lambda>p. None), su_abs = (\<lambda>p. Inr (''/'' @ p)),
     su_header = (\<lambda>p. Inr (sample_header, \<lparr>am_application = [], am_project = [], am_orchestrator = []\<rparr>)),
     su_rootfs = (\<lambda>p. Inr (sample_header, ''rootfs-B'')), su_inspect = (\<lambda>p. Inr (''image'', [])),
     su_custom = (\<lambda>p. Inl ''no''), su_extract = (\<lambda>p q. Some ''no''), su_compose = (\<lambda>fs p q. ComposeMissing ''no''),
     su_settings = None, su_exists = (\<lambda>fs p. True), su_fails = (\<lambda>x. None), su_load = None, su_no_state = False,
     su_apps = ''/data/mender-app'', su_issue = ''/etc/issue'', su_kill = False\<rparr>"

lemma sample_works: "works sample_su"
  by (simp add: works_def sample_su_def)

lemma sample_plain: "plain sample_su"
  by (simp add: plain_def sample_su_def harmless_def harmless_letters)

definition sample_first :: double where
  "sample_first = first_state (su_issue sample_su)"

lemma sample_first_idle: "well_formed sample_first" "tx_of sample_first = NoTx"
  by (simp_all add: sample_first_def first_state_idle)

text \<open>
  An update of the root file system whose installation is cut off after its last checkpoint by a restart of the
  server, resumed, booted, and committed.
\<close>

definition sample_staged :: double where
  "sample_staged = last (fst (call_double sample_su CmdInstall [''a''] sample_first))"

definition sample_trial :: double where
  "sample_trial = reboot_double sample_su sample_staged"

definition sample_job_in :: "mender_state \<Rightarrow> mender_pstate" where
  "sample_job_in st = \<lparr>State = st, CurrentArtifact = ''a'', CurrentEntityType = EntityCoreOs, CurrentEntityName = ''os'',
     RecoveryOperations = 0, RecoveryAttempts = 0\<rparr>"

lemma sample_calls:
  "fst (call_double sample_su CmdInstall [''a''] sample_first) \<noteq> []"
  "call_double sample_su CmdResume stop_args sample_staged = ([], exit_result [] [] 0)"
  "snd (call_double sample_su CmdCommit [] sample_trial) = exit_result [''Committed.''] [] 0"
  "class_of_call CmdResume stop_args (exit_result [] [] 0) = InstalledButNotCommited"
  "class_of_call CmdCommit [] (exit_result [''Committed.''] [] 0) = Commited"
  "d_Stage sample_trial = stageBootedTrial"
  by code_simp+

lemma sample_fits: "args = [''a''] \<or> c \<noteq> CmdInstall \<Longrightarrow> fits sample_su EntityCoreOs c args"
proof -
  have "harmless (filepath_base ''a'')" by code_simp
  moreover have "artifact_kind sample_su ''a'' EntityCoreOs"
    by (simp add: artifact_kind_def sample_su_def sample_header_def type_defs)
  ultimately
  show "args = [''a''] \<or> c \<noteq> CmdInstall \<Longrightarrow> ?thesis"
    using sample_works sample_plain by (auto simp: fits_def)
qed

definition sample_installing :: "double loop" where
  "sample_installing = \<lparr>lp_job = sample_job_in Installing,
     lp_work = Some (RunMender CmdInstall 0 EvInstallFinished [''a'']), lp_tool = sample_first\<rparr>"

definition sample_resuming :: "double loop" where
  "sample_resuming = \<lparr>lp_job = sample_job_in Installing,
     lp_work = Some (RunMender CmdResume updateTimeout EvInstallFinished stop_args), lp_tool = sample_staged\<rparr>"

definition sample_rebooting :: "double loop" where
  "sample_rebooting = \<lparr>lp_job = sample_job_in Rebooting, lp_work = Some (RunReboot rebootTimeout),
     lp_tool = sample_staged\<rparr>"

definition sample_committing :: "double loop" where
  "sample_committing = \<lparr>lp_job = sample_job_in Committing,
     lp_work = Some (RunMender CmdCommit commitTimeout EvCommitFinished []), lp_tool = sample_trial\<rparr>"

definition sample_done :: "double loop" where
  "sample_done = \<lparr>lp_job = idle_pstate, lp_work = None,
     lp_tool = last (sample_trial # fst (call_double sample_su CmdCommit [] sample_trial))\<rparr>"

lemma sample_fields:
  "CurrentEntityType (sample_job_in st) = EntityCoreOs"
  "lp_job sample_installing = sample_job_in Installing" "lp_tool sample_installing = sample_first"
  "lp_work sample_installing = Some (RunMender CmdInstall 0 EvInstallFinished [''a''])"
  "lp_job sample_resuming = sample_job_in Installing" "lp_tool sample_resuming = sample_staged"
  "lp_work sample_resuming = Some (RunMender CmdResume updateTimeout EvInstallFinished stop_args)"
  "lp_job sample_rebooting = sample_job_in Rebooting" "lp_tool sample_rebooting = sample_staged"
  "lp_work sample_rebooting = Some (RunReboot rebootTimeout)"
  "lp_job sample_committing = sample_job_in Committing" "lp_tool sample_committing = sample_trial"
  "lp_work sample_committing = Some (RunMender CmdCommit commitTimeout EvCommitFinished [])"
  by (simp_all add: sample_job_in_def sample_installing_def sample_resuming_def sample_rebooting_def sample_committing_def)

lemma loopI: "lp_job l = fst st \<Longrightarrow> lp_work l = next_work (snd st) \<Longrightarrow> lp_tool l = d \<Longrightarrow> l = settle st d"
  for l :: "'d loop"
  by (simp add: settle_def next_work_def)

lemma sample_steps:
  "double_step (loop_start sample_first) sample_installing"
  "double_step sample_installing sample_resuming"
  "double_step sample_resuming sample_rebooting"
  "double_step sample_rebooting sample_committing"
  "double_step sample_committing sample_done"
proof -
  have st: "StartUpdateJob EntityCoreOs ''a'' ''os'' 0 idle_pstate =
      Inr (save_and_spawn (RunMender CmdInstall 0 EvInstallFinished [''a'']) (sample_job_in Installing))"
    by (simp add: StartUpdateJob_def idle_pstate_def runMenderInstallInBackGround_def sample_job_in_def)
  have "double_step (loop_start sample_first)
      (settle (save_and_spawn (RunMender CmdInstall 0 EvInstallFinished [''a'']) (sample_job_in Installing)) sample_first)"
    using loop_step.job_starts[where l = "loop_start sample_first"] st by (fastforce simp: loop_start_def)
  moreover have "settle (save_and_spawn (RunMender CmdInstall 0 EvInstallFinished [''a'']) (sample_job_in Installing)) sample_first =
      sample_installing" by (rule loopI[symmetric]) (simp_all add: sample_installing_def)
  ultimately show "double_step (loop_start sample_first) sample_installing" by simp
next
  obtain ds r where c: "call_double sample_su CmdInstall [''a''] sample_first = (ds, r)" by fastforce
  then have "sample_staged \<in> set ds" using sample_calls(1) by (simp add: sample_staged_def)
  then have left: "left_by call_double fits sample_installing sample_staged"
    using c sample_fits[of "[''a'']" CmdInstall] unfolding left_by_def sample_installing_def
    by (auto simp: sample_job_in_def)
  have "HandleEvent w (newMenderManager False (sample_job_in Installing)) (sample_job_in Installing) =
      Some (runInterruptedInstallInBackground (sample_job_in Installing))" for w
    by (simp add: HandleEvent_def newMenderManager_def handleInstallingEvent_def sample_job_in_def blank_event_def)
  then have "double_step sample_installing (settle (runInterruptedInstallInBackground (sample_job_in Installing)) sample_staged)"
    using loop_step.server_restarts[OF left] by (simp add: sample_installing_def)
  moreover have "settle (runInterruptedInstallInBackground (sample_job_in Installing)) sample_staged = sample_resuming"
    by (rule loopI[symmetric])
      (simp_all add: sample_resuming_def runInterruptedInstallInBackground_def sample_job_in_def resumeInstallArgs_def stop_args_def)
  ultimately show "double_step sample_installing sample_resuming" by simp
next
  let ?e = "runMenderCommand CmdResume EvInstallFinished stop_args (exit_result [] [] 0)"
  have e: "ev_code ?e = EvInstallFinished" "ev_result ?e = InstalledButNotCommited"
    using sample_calls(4) by (simp_all add: runMenderCommand_def class_of_call_def Let_def)
  have "HandleEvent w ?e (sample_job_in Installing) =
      Some (save_and_spawn (RunReboot rebootTimeout) (sample_job_in Rebooting))" for w
    using e by (simp add: HandleEvent_def handleInstallingEvent_def resumedApplicationInstallRolledBack_def
        handleInstallFinished_def sample_job_in_def startPostInstallStep_def runRebootInBackGround_def)
  then have "double_step sample_resuming (settle (save_and_spawn (RunReboot rebootTimeout) (sample_job_in Rebooting)) sample_staged)"
    using loop_step.command_ends[of sample_resuming CmdResume updateTimeout EvInstallFinished stop_args fits sample_su
        call_double "[]"] sample_fits[of stop_args CmdResume] sample_calls(2)
    by (simp add: sample_fields)
  moreover have "settle (save_and_spawn (RunReboot rebootTimeout) (sample_job_in Rebooting)) sample_staged = sample_rebooting"
    by (rule loopI[symmetric]) (simp_all add: sample_rebooting_def)
  ultimately show "double_step sample_resuming sample_rebooting" by simp
next
  have left: "left_by call_double fits sample_rebooting sample_staged" by (simp add: left_by_def sample_rebooting_def)
  have "HandleEvent w (newMenderManager True (sample_job_in Rebooting)) (sample_job_in Rebooting) =
      Some (save_and_spawn (RunMender CmdCommit commitTimeout EvCommitFinished []) (sample_job_in Committing))" for w
    by (simp add: HandleEvent_def newMenderManager_def handleRebootingEvent_def sample_job_in_def blank_event_def
        emitRebootFinished_def runMenderCommitInBackGround_def commitCommandTimeout_def Let_def)
  then have "double_step sample_rebooting (settle (save_and_spawn (RunMender CmdCommit commitTimeout EvCommitFinished [])
      (sample_job_in Committing)) sample_trial)"
    using loop_step.machine_restarts[OF left, of works sample_su] sample_works
    by (simp add: sample_rebooting_def sample_trial_def)
  moreover have "settle (save_and_spawn (RunMender CmdCommit commitTimeout EvCommitFinished []) (sample_job_in Committing))
      sample_trial = sample_committing"
    by (rule loopI[symmetric]) (simp_all add: sample_committing_def)
  ultimately show "double_step sample_rebooting sample_committing" by simp
next
  let ?r = "exit_result [''Committed.''] [] 0" let ?e = "runMenderCommand CmdCommit EvCommitFinished [] ?r"
  have e: "ev_code ?e = EvCommitFinished" "ev_result ?e = Commited"
    using sample_calls(5) by (simp_all add: runMenderCommand_def class_of_call_def Let_def)
  have H: "HandleEvent w ?e (sample_job_in Committing) = Some (emitJobFinished True [] (sample_job_in Committing))" for w
    using e by (simp add: HandleEvent_def handleCommittingEvent_def handle_commit_result_def sample_job_in_def)
  obtain ds where c: "call_double sample_su CmdCommit [] sample_trial = (ds, ?r)" using sample_calls(3) by (metis prod.collapse)
  have "double_step sample_committing (settle (emitJobFinished True [] (sample_job_in Committing)) (last (lp_tool sample_committing # ds)))"
    by (rule loop_step.command_ends[where call = call_double and fits = fits and e = sample_su and r = ?r], unfold sample_fields)
      (rule refl, rule sample_fits, simp, rule c, rule H)
  moreover have "settle (emitJobFinished True [] (sample_job_in Committing)) (last (lp_tool sample_committing # ds)) = sample_done"
    by (rule loopI[symmetric]) (simp_all add: sample_done_def c sample_fields)
  ultimately show "double_step sample_committing sample_done" by simp
qed

lemma sample_reaches:
  "double_step\<^sup>*\<^sup>* (loop_start sample_first) sample_committing"
  "double_step\<^sup>*\<^sup>* (loop_start sample_first) sample_done"
  using sample_steps by (meson rtranclp.rtrancl_into_rtrancl rtranclp.rtrancl_refl)+

lemma sample_staged_open: "well_formed sample_staged" "tx_of sample_staged = Staged EntityCoreOs"
proof -
  obtain ds r where c: "call_double sample_su CmdInstall [''a''] sample_first = (ds, r)" by fastforce
  then have "sample_staged \<in> set ds" using sample_calls(1) by (simp add: sample_staged_def)
  then show "well_formed sample_staged"
    using call_double_ends[OF sample_first_idle(1) _ sample_fits c] by (auto simp: proper_args_def)
  show "tx_of sample_staged = Staged EntityCoreOs" by code_simp
qed

section \<open>The server and the tool\<close>

text \<open>C5. When the server is idle, the tool has no update open: a job never ends, by success, by failure or after a
  restart of the server or of the machine at any durable state of the command under way, with a transaction left
  behind. The recovery of a commit in a wrong state is never needed. (The steps have no reboot command that fails.)
\<close>

theorem idle_server_leaves_nothing_open:
  assumes "double_step\<^sup>*\<^sup>* (loop_start d) l" "well_formed d" "d_Stage d \<in> {[], stageIdle}"
  shows "(State (lp_job l) = Idle \<longrightarrow> d_Stage (lp_tool l) \<in> {[], stageIdle}) \<and>
    State (lp_job l) \<noteq> RecoverInstallCommitting"
proof -
  have "dbl.joint l" using dbl.joint_reachable[OF assms(1,2)] NoTx_iff[OF assms(2)] assms(3) by blast
  then show ?thesis using NoTx_iff by (auto simp: dbl.joint_def agrees_def)
qed

theorem idle_server_leaves_nothing_open_witness:
  "State (lp_job sample_done) = Idle \<and> d_Stage (lp_tool sample_done) \<in> {[], stageIdle}"
proof -
  have "d_Stage sample_first \<in> {[], stageIdle}" by (simp add: sample_first_def first_state_def)
  moreover have "State (lp_job sample_done) = Idle" by (simp add: sample_done_def idle_pstate_def)
  ultimately show ?thesis
    using idle_server_leaves_nothing_open[OF sample_reaches(2) sample_first_idle(1)] by blast
qed

text \<open>C6. Each command of the double keeps the contract: the class that the server gives to its output and the transaction
  that it leaves are a row of the table of the loop, and every state that it saves on the way is one from which a
  restart can go on.
\<close>

theorem double_keeps_contract:
  assumes "well_formed d" "proper_args c args" "fits su k c args"
  shows "case call_double su c args d of (ds, r) \<Rightarrow>
    (\<forall>x \<in> set ds. well_formed x \<and> tx_of x \<in> tool_cuts c k (tx_of d)) \<and>
    (class_of_call c args r, tx_of (last (d # ds))) \<in> tool_ends c args k (tx_of d)"
  using call_double_ends[OF assms] by (auto split: prod.split)

theorem double_keeps_contract_witness:
  "case call_double sample_su CmdInstall [''a''] sample_first of (ds, r) \<Rightarrow>
    ds \<noteq> [] \<and> well_formed (hd ds) \<and> tx_of (hd ds) \<in> tool_cuts CmdInstall EntityCoreOs NoTx \<and>
    (class_of_call CmdInstall [''a''] r, tx_of (last (sample_first # ds))) \<in> tool_ends CmdInstall [''a''] EntityCoreOs NoTx"
proof -
  have "proper_args CmdInstall [''a'']" by (simp add: proper_args_def)
  from double_keeps_contract[OF sample_first_idle(1) this sample_fits] show ?thesis
    using sample_calls(1) by (simp add: sample_first_idle split: prod.splits)
qed

text \<open>C3. What the server commits was tried before: whenever it runs a commit while the tool has an update open, a root file
  system is the one that was completely installed and is booted on trial, a customization was checked after its reboot
  and passed, and an application is completely installed.
\<close>

theorem commits_what_was_tried:
  assumes "double_step\<^sup>*\<^sup>* (loop_start d) l" "well_formed d" "d_Stage d \<in> {[], stageIdle}"
    and "State (lp_job l) = Committing" "d_Stage (lp_tool l) \<notin> {[], stageIdle}"
  shows "awaitingCommit (d_InstallPhase (lp_tool l)) \<and>
    (case CurrentEntityType (lp_job l) of
       EntityCoreOs \<Rightarrow> d_Stage (lp_tool l) = stageBootedTrial
     | EntityApplication \<Rightarrow> d_PendingUpdateType (lp_tool l) = UpdateTypeApp
     | EntityCoreOSCustomization \<Rightarrow>
         d_CustomizationHealthEvaluated (lp_tool l) \<and> d_CustomizationHealthPassed (lp_tool l))"
proof -
  have j: "dbl.joint l" using dbl.joint_reachable[OF assms(1,2)] NoTx_iff[OF assms(2)] assms(3) by blast
  then have w: "well_formed (lp_tool l)" by (simp add: dbl.joint_def)
  have "tx_of (lp_tool l) \<in> committable (CurrentEntityType (lp_job l)) - {NoTx}"
    using j assms(4,5) NoTx_iff[OF w] by (auto simp: dbl.joint_def agrees_def)
  then show ?thesis
    by (cases rule: tx_cases[OF w]; cases "CurrentEntityType (lp_job l)") auto
qed

theorem commits_what_was_tried_witness:
  "awaitingCommit (d_InstallPhase (lp_tool sample_committing)) \<and>
    (case CurrentEntityType (lp_job sample_committing) of
       EntityCoreOs \<Rightarrow> d_Stage (lp_tool sample_committing) = stageBootedTrial
     | EntityApplication \<Rightarrow> d_PendingUpdateType (lp_tool sample_committing) = UpdateTypeApp
     | EntityCoreOSCustomization \<Rightarrow> d_CustomizationHealthEvaluated (lp_tool sample_committing) \<and>
         d_CustomizationHealthPassed (lp_tool sample_committing))"
proof (rule commits_what_was_tried[OF sample_reaches(1) sample_first_idle(1)])
  show "State (lp_job sample_committing) = Committing" by (simp add: sample_fields sample_job_in_def)
  show "d_Stage (lp_tool sample_committing) \<notin> {[], stageIdle}" using sample_calls(6) by (simp add: sample_fields)
qed (simp add: sample_first_def first_state_def)

section \<open>A reboot that fails\<close>

lemma call_from_wp:
  assumes "mender_update su c args = Some F"
    and "wp F (\<lambda>x e. P (saved x) (exit_result (r_out x) (r_err x) (commandExitCode e))) (start_run d)"
  shows "P (fst (call_double su c args d)) (snd (call_double su c args d))"
  using assms by (auto simp: call_double_def wp_def split: prod.splits)

lemma busy_call:
  assumes w: "works su" and d: "tx_of d \<noteq> NoTx" "well_formed d"
    and a: "su_stat su b = None" "su_header su b = Inr (h, m)" "hd_devices h \<noteq> []" "hd (hd_devices h) = expectedDeviceType"
      "hd_payloads h \<noteq> []" "hd (hd_payloads h) = UpdateTypeRootfs"
  shows "fst (call_double su CmdInstall [b] d) = [] \<and>
    class_of_call CmdInstall [b] (snd (call_double su CmdInstall [b] d)) = UpdateAlreadyInProgress"
proof (rule call_from_wp[where P = "\<lambda>ds r. ds = [] \<and> class_of_call CmdInstall [b] r = UpdateAlreadyInProgress"])
  show "mender_update su CmdInstall [b] = Some (runInstall su b)" by (simp add: mender_update_def)
  let ?s = "load_defaults su d" let ?r = "(start_run d)\<lparr>r_state := ?s\<rparr>"
  have open_s: "d_Stage ?s = stageInstalled \<or> d_Stage ?s = stageBootedTrial"
    using NoTx_iff[OF d(2)] d by (auto simp: well_formed_def split: if_splits)
  have "wp (busy_error True) (ends CmdInstall [b] EntityCoreOs d) ?r" by (rule busy_ends[OF start_quiet]) (use d in simp_all)
  have n: "''Update already in progress.'' \<notin> set summaries" "''Please commit or roll back first'' \<notin> set summaries"
    by (simp_all add: summaries_def)
  have tidy: "tidy r'" if "marks r' = {''Update already in progress.'', ''Please commit or roll back first''}" for r'
    using that n unfolding tidy_def by fastforce
  have "wp (busy_error True) (\<lambda>x e. saved x = [] \<and> marks x = {''Update already in progress.'', ''Please commit or roll back first''} \<and>
      commandExitCode e = 1) ?r"
    by (simp add: busy_error_def Let_def wp_simps wp_diagnostic marks_def diag_plain[simplified] marks_of_quoted marks_of_eval(8)[simplified])
  then have "wp (runInstall su b) (\<lambda>x e. saved x = [] \<and> marks x = {''Update already in progress.'', ''Please commit or roll back first''} \<and>
      commandExitCode e = 1) (start_run d)"
    using a open_s by (simp add: runInstall_def wp_load[OF w] wp_look wp_if Let_def del: load_defaults_simps)
  then show "wp (runInstall su b) (\<lambda>x e. saved x = [] \<and>
      class_of_call CmdInstall [b] (exit_result (r_out x) (r_err x) (commandExitCode e)) = UpdateAlreadyInProgress) (start_run d)"
  proof (rule wp_mono, elim conjE, intro conjI)
    fix x e assume x: "marks x = {''Update already in progress.'', ''Please commit or roll back first''}" "commandExitCode e = 1"
    show "class_of_call CmdInstall [b] (exit_result (r_out x) (r_err x) (commandExitCode e)) = UpdateAlreadyInProgress"
      using class_from_marks[OF tidy[OF x(1)], of 1] x by (simp add: marked_classes)
  qed
qed

lemma paused_call:
  assumes w: "works su" and d: "well_formed d" "awaits (tx_of d)"
  shows "call_double su CmdResume stop_args d = ([], exit_result [] [] 0)"
proof -
  let ?s = "load_defaults su d"
  have s: "well_formed ?s" "tx_of ?s = tx_of d" using d by simp_all
  have st: "awaitingCommit (d_InstallPhase ?s)" "d_Stage ?s \<noteq> stageIdle"
    using s(1) s(2) d(2) by (cases rule: tx_cases; auto)+
  then have "d_InstallPhase ?s = PhaseAwaitingCommit"
    using s(1) not_awaiting_phase by (auto simp: well_formed_def open_tx_def split: if_splits)
  then have "wp (runResume su True) Q (start_run d) = wp skip Q ((start_run d)\<lparr>r_state := ?s\<rparr>)" for Q
    using run_resume_paused[OF w _ st(2), of "start_run d", unfolded start_simps, OF refl] by simp
  from this[of "\<lambda>x e. x = (start_run d)\<lparr>r_state := ?s\<rparr> \<and> e = None"]
  have "runResume su True (start_run d) = ((start_run d)\<lparr>r_state := ?s\<rparr>, None)"
    by (auto simp: skip_def wp_def split: prod.splits)
  then show ?thesis by (simp add: call_double_def mender_update_def stop_args_def)
qed

lemma load_more [simp]:
  "d_NewRootfs (load_defaults su s) = d_NewRootfs s" "d_ErrorInjectPoint (load_defaults su s) = d_ErrorInjectPoint s"
  by (simp_all add: load_defaults_def Let_def)

lemma trial_reboot:
  assumes w: "works su" and d: "d_Stage d = stageInstalled" "d_PendingUpdateType d = UpdateTypeRootfs"
  shows "d_Stage (reboot_double su d) = stageBootedTrial \<and> d_InstallPhase (reboot_double su d) = d_InstallPhase d \<and>
    d_PendingUpdateType (reboot_double su d) = UpdateTypeRootfs \<and> d_NewRootfs (reboot_double su d) = d_NewRootfs d \<and>
    d_ErrorInjectPoint (reboot_double su d) = d_ErrorInjectPoint d" (is "?P (reboot_double su d)")
proof -
  have "wp (run_reboot su) (\<lambda>r e. ?P (last (d # saved r))) (start_run d)"
    using d by (simp add: run_reboot_def TrialBoot_def wp_simps wp_works[OF w])
  then show ?thesis by (auto simp: wp_def reboot_double_def split: prod.splits)
qed

lemma trial_commit:
  assumes w: "works su" and d: "d_Stage d = stageBootedTrial" "awaitingCommit (d_InstallPhase d)"
      "d_PendingUpdateType d = UpdateTypeRootfs" "d_ErrorInjectPoint d \<notin> {ErrInjectPostCommitFailed, ErrInjectCleanupFailed}"
  shows "d_CommittedRootfs (last (d # fst (call_double su CmdCommit [] d))) = d_NewRootfs d \<and>
    class_of_call CmdCommit [] (snd (call_double su CmdCommit [] d)) = Commited"
proof (rule call_from_wp[where P = "\<lambda>ds r. d_CommittedRootfs (last (d # ds)) = d_NewRootfs d \<and> class_of_call CmdCommit [] r = Commited"])
  show "mender_update su CmdCommit [] = Some (runCommit su)" by (simp add: mender_update_def)
  let ?s = "load_defaults su d"
  have s: "d_Stage ?s = stageBootedTrial" "awaitingCommit (d_InstallPhase ?s)" "d_PendingUpdateType ?s = UpdateTypeRootfs"
    using d by simp_all
  have c: "class_of_call CmdCommit [] (exit_result [''Committed.''] [] 0) = Commited" by code_simp
  have "wp (runCommit su) (\<lambda>x e. d_CommittedRootfs (last (d # saved x)) = d_NewRootfs d \<and>
      r_out x = [''Committed.''] \<and> r_err x = [] \<and> e = None) (start_run d)"
    unfolding run_commit_cases(3)[OF w _ s, of "start_run d", unfolded start_simps, OF refl]
    using d(4) by (simp add: CommitTrial_def committed_def postCommitFailure_def clearPendingUpdate_def wp_simps wp_works[OF w])
  then show "wp (runCommit su) (\<lambda>x e. d_CommittedRootfs (last (d # saved x)) = d_NewRootfs d \<and>
      class_of_call CmdCommit [] (exit_result (r_out x) (r_err x) (commandExitCode e)) = Commited) (start_run d)"
    by (rule wp_mono) (use c in auto)
qed

text \<open>C38. A reboot that fails leaves the update staged and the server idle. The next update of the same kind then commits the old
  one: the tool refuses to install, the server resumes what the tool has open, reboots into it and commits it, and
  reports success for an artifact that was never installed.
\<close>

theorem failed_reboot_commits_stale_update:
  assumes "works su" "well_formed d" "tx_of d = Staged EntityCoreOs"
    and "d_ErrorInjectPoint d \<notin> {ErrInjectPostCommitFailed, ErrInjectCleanupFailed}"
    and "su_stat su b = None" "su_header su b = Inr (h, m)" "hd_devices h \<noteq> []" "hd (hd_devices h) = expectedDeviceType"
    and "hd_payloads h \<noteq> []" "hd (hd_payloads h) = UpdateTypeRootfs"
    and "State s = Rebooting" "CurrentEntityType s = EntityCoreOs"
  shows "\<exists>es0 es1 es2 es3 es4 es5 s1 s2 s3 s4.
    HandleEvent w (emitRebootFinished msg (Some err)) s = Some (idle_pstate, es0) \<and>
    StartUpdateJob EntityCoreOs b name timeout idle_pstate = Inr (s1, es1) \<and>
    fst (call_double su CmdInstall [b] d) = [] \<and>
    HandleEvent w (runMenderCommand CmdInstall EvInstallFinished [b] (snd (call_double su CmdInstall [b] d))) s1 = Some (s2, es2) \<and>
    Spawn (RunMender CmdResume updateTimeout EvCommitFinished stop_args) \<in> set es2 \<and>
    fst (call_double su CmdResume stop_args d) = [] \<and>
    HandleEvent w (runMenderCommand CmdResume EvCommitFinished stop_args (snd (call_double su CmdResume stop_args d))) s2 =
      Some (s3, es3) \<and>
    HandleEvent w (newMenderManager True s3) s3 = Some (s4, es4) \<and>
    HandleEvent w (runMenderCommand CmdCommit EvCommitFinished [] (snd (call_double su CmdCommit [] (reboot_double su d)))) s4 =
      Some (idle_pstate, es5) \<and>
    CurrentArtifact s4 = b \<and> EmitEvent (job_event True []) \<in> set es5 \<and>
    d_CommittedRootfs (last (reboot_double su d # fst (call_double su CmdCommit [] (reboot_double su d)))) = d_NewRootfs d"
proof -
  have D: "d_Stage d = stageInstalled" "awaitingCommit (d_InstallPhase d)" "d_PendingUpdateType d = UpdateTypeRootfs"
    using assms(3) by (cases rule: tx_cases[OF assms(2)]; auto)+
  note reb = trial_reboot[OF assms(1) D(1,3)]
  let ?d = "reboot_double su d"
  have com: "d_CommittedRootfs (last (?d # fst (call_double su CmdCommit [] ?d))) = d_NewRootfs d \<and>
    class_of_call CmdCommit [] (snd (call_double su CmdCommit [] ?d)) = Commited"
    using trial_commit[OF assms(1), of ?d] reb D assms(4) by simp
  have busy: "fst (call_double su CmdInstall [b] d) = []"
    "class_of_call CmdInstall [b] (snd (call_double su CmdInstall [b] d)) = UpdateAlreadyInProgress"
    using busy_call[OF assms(1) _ assms(2,5-10)] assms(3) by simp_all
  have paused: "call_double su CmdResume stop_args d = ([], exit_result [] [] 0)"
    using paused_call[OF assms(1,2)] assms(3) by simp
  have pc: "class_of_call CmdResume stop_args (exit_result [] [] 0) = InstalledButNotCommited" by code_simp
  define s1 where "s1 = \<lparr>State = Installing, CurrentArtifact = b, CurrentEntityType = EntityCoreOs, CurrentEntityName = name,
     RecoveryOperations = 0, RecoveryAttempts = 0\<rparr>"
  let ?b = "\<lambda>st. s1\<lparr>RecoveryOperations := 1, State := st\<rparr>"
  have ev: "ev_code (runMenderCommand c code a r) = code" "ev_result (runMenderCommand c code a r) = class_of_call c a r"
    "ev_command (runMenderCommand c code a r) = c" for c code a r
    by (simp_all add: runMenderCommand_def class_of_call_def Let_def)
  have h0: "HandleEvent w (emitRebootFinished msg (Some err)) s = Some (emitJobFinished False ''Could not reboot'' s)"
    using assms(11) by (simp add: HandleEvent_def handleRebootingEvent_def emitRebootFinished_def blank_event_def)
  have h1: "StartUpdateJob EntityCoreOs b name timeout idle_pstate =
      Inr (save_and_spawn (RunMender CmdInstall timeout EvInstallFinished [b]) s1)"
    by (simp add: StartUpdateJob_def idle_pstate_def runMenderInstallInBackGround_def s1_def)
  have h2: "HandleEvent w (runMenderCommand CmdInstall EvInstallFinished [b] (snd (call_double su CmdInstall [b] d))) s1 =
      Some (save_and_spawn (RunMender CmdResume updateTimeout EvCommitFinished stop_args) (?b RecoverInstallCommitting))"
    by (simp add: HandleEvent_def handleInstallingEvent_def ev busy resumedApplicationInstallRolledBack_def
        handleInstallFinished_def startRecoverInstall_def maxRecoveryOperations_def s1_def Let_def resumeInstallArgs_def stop_args_def)
  have h3: "HandleEvent w (runMenderCommand CmdResume EvCommitFinished stop_args (snd (call_double su CmdResume stop_args d)))
      (?b RecoverInstallCommitting) = Some (save_and_spawn (RunReboot rebootTimeout) (?b Rebooting))"
    by (simp add: HandleEvent_def handleRecoverInstallCommittingEvent_def handleInstallingEvent_def ev paused pc
        resumedApplicationInstallRolledBack_def handleInstallFinished_def startPostInstallStep_def runRebootInBackGround_def s1_def)
  have h4: "HandleEvent w (newMenderManager True (?b Rebooting)) (?b Rebooting) =
      Some (save_and_spawn (RunMender CmdCommit commitTimeout EvCommitFinished []) (?b Committing))"
    by (simp add: HandleEvent_def newMenderManager_def handleRebootingEvent_def emitRebootFinished_def blank_event_def
        runMenderCommitInBackGround_def commitCommandTimeout_def Let_def s1_def)
  have h5: "HandleEvent w (runMenderCommand CmdCommit EvCommitFinished [] (snd (call_double su CmdCommit [] ?d))) (?b Committing) =
      Some (emitJobFinished True [] (?b Committing))"
    using com by (simp add: HandleEvent_def handleCommittingEvent_def handle_commit_result_def ev s1_def)
  obtain es0 where e0: "emitJobFinished False ''Could not reboot'' s = (idle_pstate, es0)"
    using fst_end by (metis prod.collapse)
  obtain es5 where e5: "emitJobFinished True [] (?b Committing) = (idle_pstate, es5)"
    using fst_end by (metis prod.collapse)
  have "EmitEvent (job_event True []) \<in> set (snd (emitJobFinished True [] (?b Committing)))"
    by (simp add: emitJobFinished_def split: prod.split)
  then have success: "EmitEvent (job_event True []) \<in> set es5" using e5 by simp
  note sp = save_and_spawn_def
  show ?thesis
    by (rule exI, rule exI, rule exI, rule exI, rule exI, rule exI, rule exI, rule exI, rule exI, rule exI,
        intro conjI, rule h0[unfolded e0], rule h1[unfolded sp], rule busy(1), rule h2[unfolded sp], simp,
        simp add: paused, rule h3[unfolded sp], rule h4[unfolded sp], rule h5[unfolded e5])
      (use success com in \<open>simp_all add: s1_def\<close>)
qed

theorem failed_reboot_commits_stale_update_witness:
  "\<exists>s4 es5. CurrentArtifact s4 = ''b'' \<and> EmitEvent (job_event True []) \<in> set es5 \<and>
    HandleEvent bare_world (runMenderCommand CmdCommit EvCommitFinished []
      (snd (call_double sample_su CmdCommit [] (reboot_double sample_su sample_staged)))) s4 = Some (idle_pstate, es5) \<and>
    d_CommittedRootfs (last (reboot_double sample_su sample_staged #
      fst (call_double sample_su CmdCommit [] (reboot_double sample_su sample_staged)))) = d_NewRootfs sample_staged"
proof -
  have e: "d_ErrorInjectPoint sample_staged \<notin> {ErrInjectPostCommitFailed, ErrInjectCleanupFailed}" by code_simp
  have su: "su_stat sample_su ''b'' = None"
    "su_header sample_su ''b'' = Inr (sample_header, \<lparr>am_application = [], am_project = [], am_orchestrator = []\<rparr>)"
    "hd_devices sample_header \<noteq> []" "hd (hd_devices sample_header) = expectedDeviceType"
    "hd_payloads sample_header \<noteq> []" "hd (hd_payloads sample_header) = UpdateTypeRootfs"
    by (simp_all add: sample_su_def sample_header_def)
  have s: "State (sample_job_in Rebooting) = Rebooting" "CurrentEntityType (sample_job_in Rebooting) = EntityCoreOs"
    by (simp_all add: sample_job_in_def)
  show ?thesis
    using failed_reboot_commits_stale_update[OF sample_works sample_staged_open e su s, of bare_world "[]" "[]" "[]" 0]
    by (elim exE conjE) blast
qed

end
