(* ===== verification/Response_Json.thy ===== *)
theory Response_Json
  imports Server_Api State_Json
begin

text \<open>
  The bodies of responses as JSON trees (\<open>writeJSON\<close>, \<open>writeJSONError\<close>, the struct tags of \<open>api.go\<close> of both managers
  and of \<open>hardware_info.go\<close>), with the enumeration and the coded errors of the io4edge manager. A client that decodes
  a body gets the value that the handler answered with.
\<close>

section \<open>Coded errors of the io4edge manager\<close>

definition io_Error :: "io_error \<Rightarrow> string" where
  "io_Error e =
     (case err_cause e of
        None \<Rightarrow> io_error_text (err_code e) @ '': '' @ err_message e
      | Some cause \<Rightarrow> io_error_text (err_code e) @ '': '' @ err_message e @ '': '' @ cause)"

definition io_NewCodedError :: "io_error_code \<Rightarrow> string \<Rightarrow> io_error" where
  "io_NewCodedError c m = \<lparr>err_code = c, err_message = m, err_cause = None\<rparr>"

definition io_WrapCodedError :: "io_error_code \<Rightarrow> string \<Rightarrow> string \<Rightarrow> io_error" where
  "io_WrapCodedError c m cause = \<lparr>err_code = c, err_message = m, err_cause = Some cause\<rparr>"

text \<open>The first coded error in a chain of causes, none for an error of another kind.\<close>

definition io_ExtractCode :: "io_error option \<Rightarrow> (string \<times> string) option" where
  "io_ExtractCode e = (case e of None \<Rightarrow> None | Some c \<Rightarrow> Some (io_error_text (err_code c), err_message c))"

text \<open>The client gets code and message of an error, not its cause; the code tells which manager refused.\<close>

lemma io_ExtractCode_is: "io_ExtractCode = ExtractCode io_error_text"
  by (rule ext) (simp add: io_ExtractCode_def ExtractCode_def split: option.split)

lemma io_cause_is_hidden:
  "io_ExtractCode (Some (io_WrapCodedError c m cause)) = io_ExtractCode (Some (io_NewCodedError c m))"
  "io_Error (io_WrapCodedError c m cause) = io_Error (io_NewCodedError c m) @ '': '' @ cause"
  by (simp_all add: io_ExtractCode_def io_WrapCodedError_def io_NewCodedError_def io_Error_def)

lemma io_error_text_inj: "io_error_text c = io_error_text d \<longleftrightarrow> c = d"
  by (cases c; cases d) simp_all

lemma codes_tell_managers: "io_error_text c \<noteq> cpu_error_text d"
  by (cases c; cases d) simp_all

section \<open>Status bodies\<close>

definition encode_io_code :: "io_code \<Rightarrow> json" where
  "encode_io_code = enum_MarshalJSON io_code_text"

definition decode_io_code :: "json \<Rightarrow> io_code \<Rightarrow> io_code option" where
  "decode_io_code = enum_UnmarshalJSON parse_io_code"

definition encode_io_status :: "io_status \<Rightarrow> json" where
  "encode_io_status s =
     JObject [(''code'', encode_io_code (io_status_code s)), (''message'', JString (io_status_message s))]"

definition io_status_fields :: "io_status fields" where
  "io_status_fields =
     [(''code'', field decode_io_code io_status_code (\<lambda>x r. r\<lparr>io_status_code := x\<rparr>)),
      (''message'', field decode_string io_status_message (\<lambda>x r. r\<lparr>io_status_message := x\<rparr>))]"

definition encode_fw_status :: "io_status \<times> name_version \<Rightarrow> json" where
  "encode_fw_status s = JObject [(''deploy_status'', encode_io_status (fst s)), (''current'', encode_version (snd s))]"

definition fw_status_fields :: "(io_status \<times> name_version) fields" where
  "fw_status_fields =
     [(''deploy_status'', field (decode_struct io_status_fields) fst (\<lambda>x r. (x, snd r))),
      (''current'', field (decode_struct version_fields) snd (\<lambda>x r. (fst r, x)))]"

definition encode_entity_status :: "entity_status \<Rightarrow> json" where
  "encode_entity_status s =
     JObject [(''deploy_status'', encode_status (es_deploy_status s)), (''current'', encode_version (es_current s))]"

definition entity_status_fields :: "entity_status fields" where
  "entity_status_fields =
     [(''deploy_status'', field (decode_struct status_fields) es_deploy_status (\<lambda>x r. r\<lparr>es_deploy_status := x\<rparr>)),
      (''current'', field (decode_struct version_fields) es_current (\<lambda>x r. r\<lparr>es_current := x\<rparr>))]"

interpretation io_code_json: json_codec encode_io_code decode_io_code
  by unfold_locales
    (simp add: encode_io_code_def decode_io_code_def enum_MarshalJSON_def enum_UnmarshalJSON_def io_code_codec.of_to_text)

interpretation io_status_json: json_codec encode_io_status "decode_struct io_status_fields"
  by unfold_locales (simp add: encode_io_status_def io_status_fields_def struct_simps io_code_json.dec_enc)

interpretation fw_status_json: json_codec encode_fw_status "decode_struct fw_status_fields"
  by unfold_locales
    (simp add: encode_fw_status_def fw_status_fields_def struct_simps io_status_json.dec_enc version_json.dec_enc)

interpretation entity_status_json: json_codec encode_entity_status "decode_struct entity_status_fields"
  by unfold_locales
    (simp add: encode_entity_status_def entity_status_fields_def struct_simps status_json.dec_enc version_json.dec_enc)

section \<open>Bodies\<close>

definition encode_hardware :: "hardwareInfo \<Rightarrow> json" where
  "encode_hardware h =
     JObject [(''vendor'', JString (hw_vendor h)), (''model'', JString (hw_model h)),
       (''variant'', JNumber (itoa (hw_variant h))), (''majorVersion'', JNumber (itoa (hw_major h))),
       (''serial'', JString (hw_serial h))]"

definition encode_error :: "string \<Rightarrow> string \<Rightarrow> json" where
  "encode_error code message = JObject [(''code'', JString code), (''message'', JString message)]"

text \<open>A slice of names; \<open>made\<close> if it comes from \<open>make\<close>, otherwise it is nil when nothing was appended.\<close>

definition encode_names :: "bool \<Rightarrow> string list \<Rightarrow> json" where
  "encode_names made names = (if names = [] \<and> \<not> made then JNull else JArray (map JString names))"

definition body_json :: "route \<Rightarrow> body \<Rightarrow> json option" where
  "body_json route b =
     (case b of
        NoBody \<Rightarrow> None
      | ErrorPayload code message \<Rightarrow> Some (encode_error code message)
      | StatusBody s \<Rightarrow> Some (encode_entity_status s)
      | NamesBody names \<Rightarrow> Some (encode_names (route \<noteq> ListApps) names)
      | FirmwareBody s nv \<Rightarrow> Some (encode_fw_status (s, nv))
      | HardwareBody h \<Rightarrow> Some (encode_hardware h)
      | EmptyObject \<Rightarrow> Some (JObject []))"

lemma digits_int:
  "list_all (\<lambda>c. CHR ''0'' \<le> c \<and> c \<le> CHR ''9'') ds \<Longrightarrow>
   foldl (\<lambda>v c. 10 * v + (of_char c - 48)) (int a) ds = int (foldl (\<lambda>v c. 10 * v + (of_char c - 48)) a ds)"
proof (induction ds arbitrary: a)
  case (Cons c ds)
  have "(48 :: nat) \<le> of_char c" using Cons.prems by (simp add: less_eq_char_def)
  moreover have "(of_char c :: int) = int (of_char c)" by (cases c) simp
  ultimately have "10 * int a + (of_char c - 48) = int (10 * a + (of_char c - 48))" by simp
  then show ?case using Cons by (simp del: of_nat_add of_nat_mult)
qed simp

lemma digits_value_int: "foldl (\<lambda>v c. 10 * v + (of_char c - 48)) (0 :: int) (nat_digits n) = int n"
  using digits_int[OF digits_ok[of n], of 0] digits_value[of n] by simp

lemma digits_no_sign: "\<not> has_prefix (nat_digits n) ''-''"
proof -
  have "hd (nat_digits n) \<noteq> CHR ''-''"
    using digits_ok[of n] digits_nonempty[of n] by (cases "nat_digits n") (auto simp: less_eq_char_def)
  then show ?thesis by (cases "nat_digits n") (auto simp: has_prefix_def)
qed

lemma int_is_read_back: "- (2 ^ 63) \<le> n \<Longrightarrow> n < 2 ^ 63 \<Longrightarrow> parse_int64 (itoa n) = Some n"
  using digits_ok digits_no_sign
  by (simp add: parse_int64_def itoa_def Let_def digits_value_int)

lemma hardware_names:
  "field_matches ''vendor'' ''vendor''" "\<not> field_matches ''vendor'' ''model''" "field_matches ''model'' ''model''"
  "\<not> field_matches ''vendor'' ''variant''" "\<not> field_matches ''model'' ''variant''" "field_matches ''variant'' ''variant''"
  "\<not> field_matches ''vendor'' ''majorVersion''" "\<not> field_matches ''model'' ''majorVersion''"
  "\<not> field_matches ''variant'' ''majorVersion''" "field_matches ''majorVersion'' ''majorVersion''"
  "\<not> field_matches ''vendor'' ''serial''" "\<not> field_matches ''model'' ''serial''" "\<not> field_matches ''variant'' ''serial''"
  "\<not> field_matches ''majorVersion'' ''serial''" "field_matches ''serial'' ''serial''"
  by code_simp+

lemma put_hardware:
  "put_hw_member st (''vendor'', JString t) = ((fst st)\<lparr>hw_vendor := t\<rparr>, snd st)"
  "put_hw_member st (''model'', JString t) = ((fst st)\<lparr>hw_model := t\<rparr>, snd st)"
  "parse_int64 t = Some n \<Longrightarrow> put_hw_member st (''variant'', JNumber t) = ((fst st)\<lparr>hw_variant := n\<rparr>, snd st)"
  "parse_int64 t = Some n \<Longrightarrow> put_hw_member st (''majorVersion'', JNumber t) = ((fst st)\<lparr>hw_major := n\<rparr>, snd st)"
  "put_hw_member st (''serial'', JString t) = ((fst st)\<lparr>hw_serial := t\<rparr>, snd st)"
  by (simp_all only: put_hw_member_def Let_def prod.case hardware_names if_True if_False put_string_def put_int_def
      json.case option.case simp_thms)

text \<open>
  What \<open>ee-inv\<close> printed is passed on: the served hardware information, decoded as \<open>parseHardwareInfo\<close> does, is the
  one that was read.
\<close>

lemma hardware_is_read_back:
  assumes "- (2 ^ 63) \<le> hw_variant h" "hw_variant h < 2 ^ 63" "- (2 ^ 63) \<le> hw_major h" "hw_major h < 2 ^ 63"
    and "unmarshal_struct w s = Inr ms" "JObject ms = encode_hardware h"
  shows "parseHardwareInfo w s = Inr h"
proof -
  have v: "parse_int64 (itoa (hw_variant h)) = Some (hw_variant h)" "parse_int64 (itoa (hw_major h)) = Some (hw_major h)"
    using assms(1-4) int_is_read_back by blast+
  have "foldl put_hw_member (no_hardware, None) ms = (h, None)"
    using assms(6) by (simp add: encode_hardware_def put_hardware v no_hardware_def)
  then show ?thesis using assms(5) by (simp add: parseHardwareInfo_def)
qed

text \<open>
  The list of applications is null when there is none, because nothing was appended to the nil slice; the list of
  devices is an empty array then.
\<close>

lemma names_read_back: "encode_names made names = JArray (map JString ns) \<Longrightarrow> names = ns"
  by (auto simp: encode_names_def inj_map_eq_map inj_def split: if_splits)

lemma no_applications_is_null:
  assumes "server_handleListApplications ask = writeJSON (NamesBody names)"
  shows "body_json ListApps (rs_body (server_handleListApplications ask)) = Some JNull \<longleftrightarrow> names = []"
  using assms by (simp add: body_json_def writeJSON_def encode_names_def)

lemma no_devices_is_empty_array:
  "body_json ListIo4EdgeDevices (NamesBody []) = Some (JArray [])"
  by (simp add: body_json_def encode_names_def)

text \<open>The body of an answer determines the answer.\<close>

lemma status_bodies_differ:
  "body_json r (StatusBody s) = body_json r (StatusBody s') \<longleftrightarrow> s = s'"
  "body_json r (FirmwareBody f nv) = body_json r (FirmwareBody f' nv') \<longleftrightarrow> f = f' \<and> nv = nv'"
  by (simp_all add: body_json_def entity_status_json.enc_inj fw_status_json.enc_inj)

end
