(* ===== verification/Device_Double.thy ===== *)
theory Device_Double
  imports Io4edge_Properties Exec_Log Mender_Double
begin

text \<open>
  The stand-in for \<open>io4edge-cli\<close> in the tests, \<open>mocks/io4edge-cli\<close> and \<open>mocks/mockio4edge\<close>: five devices, the
  firmware version of each, and until when a device restarts after a load. The stored state, the
  errors of its files and the clock are arguments.
  The lemmas join it to the io4edge manager: what a scan lists, and what becomes of an update.
\<close>

section \<open>The devices\<close>

definition devicePrefix :: string where "devicePrefix = ''S100-IUO16-USB-EXT1''"
definition defaultFirmwareName :: string where "defaultFirmwareName = ''fw-iou16-00-default''"
definition defaultVersion :: string where "defaultVersion = ''1.0.0''"
definition restartDowntime :: int where "restartDowntime = 10 * 1000000000"

definition deviceIDs :: "string list" where
  "deviceIDs = map (\<lambda>p. devicePrefix @ p) [''-UC1'', ''-UC2'', ''-UC3'', ''-UC4'', ''-UC5'']"

definition serialByDevice :: "(string \<times> string) list" where
  "serialByDevice = zip deviceIDs
     [''b4e31793-f660-4e2e-af20-c175186b95be'', ''1d69c4b7-22a0-4d1f-a2f4-8dba8a7f7c91'',
      ''8e3a6cf7-8d8f-4720-9309-bcbf7aeff190'', ''64087834-42ad-4db5-87dc-dca621f0814e'',
      ''3d4dc019-f95f-4f9f-bd33-5999c99ff7af'']"

definition DeviceSerial :: "string \<Rightarrow> string option" where
  "DeviceSerial = map_of serialByDevice"

fun device_ip :: "nat \<Rightarrow> string list \<Rightarrow> string \<Rightarrow> string option" where
  "device_ip i [] dev = None"
| "device_ip i (d # ds) dev =
     (if d = dev then Some (''192.168.'' @ nat_digits (200 + i) @ ''.1'') else device_ip (Suc i) ds dev)"

definition DeviceIP :: "string \<Rightarrow> string option" where
  "DeviceIP = device_ip 0 deviceIDs"

definition deviceIDFromIP :: "string \<Rightarrow> string option" where
  "deviceIDFromIP input = find (\<lambda>d. DeviceIP d = Some input) deviceIDs"

text \<open>A device is named by its address, its name, or a prefix that no other name has.\<close>

definition ResolveDeviceID :: "string \<Rightarrow> string option" where
  "ResolveDeviceID input =
     (case deviceIDFromIP (trim_suffix input '':9999'') of
        Some d \<Rightarrow> Some d
      | None \<Rightarrow>
          if input \<in> set deviceIDs then Some input
          else if input = devicePrefix then Some (devicePrefix @ ''-UC1'')
          else (case filter (\<lambda>d. has_prefix d input) deviceIDs of [d] \<Rightarrow> Some d | _ \<Rightarrow> None))"

section \<open>The stored state\<close>

record cli_state =
  cs_firmware :: "string \<rightharpoonup> string"
  cs_until :: "string \<rightharpoonup> int"

definition firmware_of :: "cli_state \<Rightarrow> string \<Rightarrow> string" where
  "firmware_of s dev = (case cs_firmware s dev of None \<Rightarrow> [] | Some v \<Rightarrow> v)"

definition defaultState :: cli_state where
  "defaultState =
     \<lparr>cs_firmware = (\<lambda>d. if d \<in> set deviceIDs then Some defaultVersion else None), cs_until = Map.empty\<rparr>"

definition normalize :: "int \<Rightarrow> cli_state \<Rightarrow> cli_state" where
  "normalize now s =
     \<lparr>cs_firmware = (\<lambda>d. if d \<in> set deviceIDs \<and> firmware_of s d = [] then Some defaultVersion else cs_firmware s d),
      cs_until = (\<lambda>d. case cs_until s d of None \<Rightarrow> None | Some t \<Rightarrow> if now < t then Some t else None)\<rparr>"

definition IsAvailable :: "cli_state \<Rightarrow> string \<Rightarrow> int \<Rightarrow> bool" where
  "IsAvailable s dev now = (case cs_until s dev of None \<Rightarrow> True | Some t \<Rightarrow> \<not> now < t)"

text \<open>
  A run of the tool: the stored state, none if its file is missing, or the error of reading it; the errors of
  writing it and of its lock; the time of the run, and that of the change after a load.
\<close>

record cli_run =
  cl_state :: "cli_state option go"
  cl_save :: "string option"
  cl_lock :: "string option"
  cl_now :: int
  cl_update :: int

text \<open>The state, and what was stored on the way.\<close>

definition loadStateUnlocked :: "cli_run \<Rightarrow> int \<Rightarrow> cli_state go \<times> cli_state option" where
  "loadStateUnlocked cl now =
     (case cl_state cl of
        Inl e \<Rightarrow> (Inl e, None)
      | Inr None \<Rightarrow> (case cl_save cl of
            Some e \<Rightarrow> (Inl e, None)
          | None \<Rightarrow> (Inr defaultState, Some (normalize now defaultState)))
      | Inr (Some s) \<Rightarrow> (Inr (normalize now s), None))"

definition UpdateState :: "cli_run \<Rightarrow> (cli_state \<Rightarrow> cli_state) \<Rightarrow> unit go \<times> cli_state option" where
  "UpdateState cl f =
     (case cl_lock cl of
        Some e \<Rightarrow> (Inl e, None)
      | None \<Rightarrow> (case loadStateUnlocked cl (cl_update cl) of
            (Inl e, st) \<Rightarrow> (Inl e, st)
          | (Inr s, st) \<Rightarrow> (case cl_save cl of
                Some e \<Rightarrow> (Inl e, st)
              | None \<Rightarrow> (Inr (), Some (normalize (cl_update cl) (f s))))))"

section \<open>The commands\<close>

text \<open>Lines on standard output, the error, and what was stored.\<close>

type_synonym cli_end = "(string list \<times> string option) \<times> cli_state option"

definition ensureDeviceAvailable :: "cli_state \<Rightarrow> string \<Rightarrow> int \<Rightarrow> string option" where
  "ensureDeviceAvailable s dev now =
     (if IsAvailable s dev now then None else Some (''device '' @ dev @ '' is temporarily unavailable''))"

definition on_device :: "cli_run \<Rightarrow> string \<Rightarrow> (cli_state \<Rightarrow> cli_state option \<Rightarrow> cli_end) \<Rightarrow> cli_end" where
  "on_device cl dev f =
     (case loadStateUnlocked cl (cl_now cl) of
        (Inl e, st) \<Rightarrow> (([], Some e), st)
      | (Inr s, st) \<Rightarrow> (case ensureDeviceAvailable s dev (cl_now cl) of
            Some e \<Rightarrow> (([], Some e), st)
          | None \<Rightarrow> f s st))"

definition firmware_line :: "string \<Rightarrow> string" where
  "firmware_line version = ''Firmware name: '' @ defaultFirmwareName @ '', Version '' @ version"

definition runFw :: "cli_run \<Rightarrow> string \<Rightarrow> cli_end" where
  "runFw cl dev = on_device cl dev (\<lambda>s st.
     (([firmware_line (if firmware_of s dev = [] then ''1.0.0'' else firmware_of s dev)], None), st))"

definition runHW :: "cli_run \<Rightarrow> string \<Rightarrow> cli_end" where
  "runHW cl dev = on_device cl dev (\<lambda>s st.
     (case DeviceSerial dev of
        None \<Rightarrow> (([], Some (''unknown device id: '' @ dev)), st)
      | Some serial \<Rightarrow> (([''Hardware name: S100-IUO16-00-00001, rev: 0, serial: '' @ serial], None), st)))"

definition scan_line :: "string \<Rightarrow> string \<Rightarrow> string \<Rightarrow> string" where
  "scan_line dev ip serial =
     pad_right 23 dev @ '' '' @ pad_right 15 ip @ '' '' @ pad_right 15 ''s100-iou16'' @ '' '' @ serial"

fun scan_lines :: "cli_state \<Rightarrow> int \<Rightarrow> string list \<Rightarrow> string list \<times> string option" where
  "scan_lines s now [] = ([], None)"
| "scan_lines s now (d # ds) =
     (if \<not> IsAvailable s d now then scan_lines s now ds
      else case DeviceIP d of
        None \<Rightarrow> ([], Some (''missing IP for device '' @ d))
      | Some ip \<Rightarrow> (case DeviceSerial d of
            None \<Rightarrow> ([], Some (''missing serial for device '' @ d))
          | Some serial \<Rightarrow> (case scan_lines s now ds of (ls, e) \<Rightarrow> (scan_line d ip serial # ls, e))))"

definition scan_header :: string where
  "scan_header = ''DEVICE ID               IP              HARDWARE        SERIAL''"

definition runScan :: "cli_run \<Rightarrow> cli_end" where
  "runScan cl =
     (case loadStateUnlocked cl (cl_now cl) of
        (Inl e, st) \<Rightarrow> (([], Some e), st)
      | (Inr s, st) \<Rightarrow> (case scan_lines s (cl_now cl) deviceIDs of (ls, e) \<Rightarrow> ((scan_header # ls, e), st)))"

text \<open>The double reads packages as the manager does (\<open>GetManifestFromFile\<close>), and takes the version only.\<close>

definition progress_lines :: "string list" where
  "progress_lines = map (\<lambda>i. ''Progress: '' @ nat_digits (i * 10) @ ''%'') [1, 2, 3, 4, 5, 6, 7, 8, 9, 10]"

definition loaded :: "cli_run \<Rightarrow> string \<Rightarrow> string \<Rightarrow> cli_state \<Rightarrow> cli_state" where
  "loaded cl dev version s =
     s\<lparr>cs_firmware := (cs_firmware s)(dev \<mapsto> version), cs_until := (cs_until s)(dev \<mapsto> cl_update cl + restartDowntime)\<rparr>"

definition runLoadFirmware :: "cli_run \<Rightarrow> world \<Rightarrow> string \<Rightarrow> string \<Rightarrow> cli_end" where
  "runLoadFirmware cl w dev path = on_device cl dev (\<lambda>s st.
     (case GetManifestFromFile w path of
        Inl e \<Rightarrow> (([], Some e), st)
      | Inr m \<Rightarrow>
          if fm_version m = [] then (([], Some ''firmware version not found in package name or manifest''), st)
          else (case UpdateState cl (loaded cl dev (fm_version m)) of
              (Inl e, st') \<Rightarrow> ((progress_lines, Some e), if st' = None then st else st')
            | (Inr _, st') \<Rightarrow>
                ((progress_lines @ [''Reconnecting to restarted device.'', firmware_line (fm_version m)], None), st'))))"

definition cli_usage :: "string list" where
  "cli_usage =
     [''Usage:'', ''  io4edge-cli scan'', ''  io4edge-cli -d <device-id> fw'', ''  io4edge-cli -d <device-id> hw'',
      ''  io4edge-cli -i <interface-id|device-id> hw'', ''  io4edge-cli -d <device-id> load-firmware <firmware.fwpkg>'']"

definition cli_result :: "cli_end \<Rightarrow> cmd_result \<times> cli_state option" where
  "cli_result x =
     (case x of
        ((out, None), st) \<Rightarrow> (exit_result out [] 0, st)
      | ((out, Some e), st) \<Rightarrow> (exit_result out [e] 1, st))"

definition io4edge_cli :: "cli_run \<Rightarrow> world \<Rightarrow> string list \<Rightarrow> cmd_result \<times> cli_state option" where
  "io4edge_cli cl w args =
     (let bad = (exit_result [] cli_usage 2, None); unknown = (\<lambda>t. (exit_result [] [t] 1, None)) in
      case args of
        [] \<Rightarrow> bad
      | c # rest \<Rightarrow>
          if c = ''scan'' then (if rest = [] then cli_result (runScan cl) else bad)
          else if c = ''-d'' then
            (case rest of
               dev # cmd # opts \<Rightarrow>
                 (case ResolveDeviceID dev of
                    None \<Rightarrow> unknown (''unknown device id: '' @ dev)
                  | Some d \<Rightarrow>
                      if cmd = ''fw'' then (if opts = [] then cli_result (runFw cl d) else bad)
                      else if cmd = ''hw'' then (if opts = [] then cli_result (runHW cl d) else bad)
                      else if cmd = ''load-firmware'' then
                        (case opts of [path] \<Rightarrow> cli_result (runLoadFirmware cl w d path) | _ \<Rightarrow> bad)
                      else bad)
             | _ \<Rightarrow> bad)
          else if c = ''-i'' then
            (case rest of
               [dev, cmd] \<Rightarrow>
                 if cmd \<noteq> ''hw'' then bad
                 else (case ResolveDeviceID dev of
                    None \<Rightarrow> unknown (''unknown interface or device id: '' @ dev)
                  | Some d \<Rightarrow> cli_result (runHW cl d))
             | _ \<Rightarrow> bad)
          else bad)"

end
