(* ===== verification/Device_Update.thy ===== *)
theory Device_Update
  imports Device_Double
begin

text \<open>
  The io4edge manager and the double of its tool: a scan lists the devices that are there, a device read twice has the
  version that was loaded, an accepted update ends as the name in its package says, and a device can be updated under
  two names at once.
\<close>

section \<open>What the tool prints\<close>

lemma device_list: "deviceIDs =
    [''S100-IUO16-USB-EXT1-UC1'', ''S100-IUO16-USB-EXT1-UC2'', ''S100-IUO16-USB-EXT1-UC3'', ''S100-IUO16-USB-EXT1-UC4'',
     ''S100-IUO16-USB-EXT1-UC5'']"
  by code_simp

lemma device_known: "list_all (\<lambda>d. DeviceIP d \<noteq> None \<and> DeviceSerial d \<noteq> None \<and> ResolveDeviceID d = Some d) deviceIDs"
  by code_simp

lemma resolve_device: "d \<in> set deviceIDs \<Longrightarrow> ResolveDeviceID d = Some d"
  using device_known by (simp add: list_all_iff)

definition device_row :: "string \<Rightarrow> scan_row" where
  "device_row d = (d, the (DeviceIP d), ''s100-iou16'', the (DeviceSerial d))"

lemma device_rows:
  "list_all (\<lambda>d. row_ok (device_row d) \<and>
     scan_line d (the (DeviceIP d)) (the (DeviceSerial d)) = row_line '' '' ''   '' ''      '' (device_row d)) deviceIDs"
  by code_simp

lemma scan_lines_available:
  "set ds \<subseteq> set deviceIDs \<Longrightarrow>
   scan_lines s now ds = (map (row_line '' '' ''   '' ''      '' \<circ> device_row) (filter (\<lambda>d. IsAvailable s d now) ds), None)"
proof (induction ds)
  case (Cons d ds)
  then have "d \<in> set deviceIDs" by simp
  then have "DeviceIP d \<noteq> None" "DeviceSerial d \<noteq> None"
    "scan_line d (the (DeviceIP d)) (the (DeviceSerial d)) = row_line '' '' ''   '' ''      '' (device_row d)"
    using device_known device_rows by (simp_all add: list_all_iff)
  then show ?case using Cons by auto
qed simp

lemma lines_read: "cr_stdout (exit_result out err n) = concat (map (\<lambda>l. l @ [newline]) out)"
  "cr_err (exit_result out err n) = None \<longleftrightarrow> n = 0"
  by (simp_all add: exit_result_def lines_text_def)

text \<open>The manager reads from a scan the devices that are not restarting, in the order of the tool.\<close>

lemma scan_lists_available:
  assumes "cl_state cl = Inr (Some s)"
    and "run_command w ''io4edge-cli'' [''scan''] = fst (io4edge_cli cl w [''scan''])"
  shows "scanDevices w = Inr (filter (\<lambda>d. IsAvailable (normalize (cl_now cl) s) d (cl_now cl)) deviceIDs)"
proof -
  let ?ds = "filter (\<lambda>d. IsAvailable (normalize (cl_now cl) s) d (cl_now cl)) deviceIDs"
  let ?rows = "map device_row ?ds"
  have g: "gap_ok '' ''" "gap_ok ''   ''" "gap_ok ''      ''" by (simp_all add: gap_ok_def)
  have ok: "\<forall>r \<in> set ?rows. row_ok r" using device_rows by (auto simp: list_all_iff)
  have h: "newline \<notin> set scan_header" "trim_space scan_header = scan_header" "scan_header \<noteq> []"
    "has_prefix scan_header ''DEVICE ID''"
    by (simp_all add: scan_header_def newline_def, code_simp+)
  have "parse_device_lines False ((scan_header # map (row_line '' '' ''   '' ''      '') ?rows) @ [[]]) = map fst ?rows"
    using parse_rows[OF ok g] h by (simp add: Let_def del: map_map)
  moreover have "split_on newline (concat (map (\<lambda>l. l @ [newline]) (scan_header # map (row_line '' '' ''   '' ''      '') ?rows))) =
      (scan_header # map (row_line '' '' ''   '' ''      '') ?rows) @ [[]]"
    by (rule split_lines) (use ok g row_no_newline h(1) in auto)
  ultimately have p: "parseDevices (concat (map (\<lambda>l. l @ [newline]) (scan_header # map (row_line '' '' ''   '' ''      '') ?rows))) = ?ds"
    by (simp add: parseDevices_def device_row_def comp_def del: concat.simps)
  have r: "fst (io4edge_cli cl w [''scan'']) =
      exit_result (scan_header # map (row_line '' '' ''   '' ''      '') ?rows) [] 0"
    using assms(1) by (simp add: io4edge_cli_def runScan_def loadStateUnlocked_def cli_result_def scan_lines_available Let_def)
  have "scanDevices w = Inr (parseDevices (cr_stdout (exit_result (scan_header # map (row_line '' '' ''   '' ''      '') ?rows) [] 0)))"
    unfolding scanDevices_def Let_def assms(2) r by (simp add: lines_read(2)[THEN iffD2])
  then show ?thesis unfolding lines_read(1) p .
qed

text \<open>A version that is a word is read back.\<close>

definition version_ok :: "string \<Rightarrow> bool" where
  "version_ok v \<longleftrightarrow> v \<noteq> [] \<and> plain_char (hd v) \<and> plain_char (last v) \<and> newline \<notin> set v"

lemma firmware_line_read:
  assumes "version_ok v"
  shows "parseFirmwareVersion (concat (map (\<lambda>l. l @ [newline]) [firmware_line v])) =
    \<lparr>nv_name = defaultFirmwareName, nv_version = v\<rparr>"
proof -
  have "firmware_line v = firmware_prefix @ '' '' @ defaultFirmwareName @ '', Version '' @ v"
    by (simp add: firmware_line_def firmware_prefix_def)
  moreover have "defaultFirmwareName \<noteq> []" "plain_char (hd defaultFirmwareName)" "plain_char (last defaultFirmwareName)"
    "CHR '','' \<notin> set defaultFirmwareName" "newline \<notin> set defaultFirmwareName"
    by code_simp+
  ultimately show ?thesis
    using firmware_line_roundtrip[of "[]" defaultFirmwareName v] assms by (simp add: version_ok_def)
qed

text \<open>The manager's tool is the double, for one device.\<close>

definition tool_at :: "cli_run \<Rightarrow> world \<Rightarrow> string \<Rightarrow> bool" where
  "tool_at cl w dev \<longleftrightarrow>
     run_command w ''io4edge-cli'' [''-d'', dev, ''fw''] = fst (io4edge_cli cl w [''-d'', dev, ''fw''])"

lemma tool_reads:
  assumes "tool_at cl w dev" "ResolveDeviceID dev = Some d" "cl_state cl = Inr (Some s)"
    and "IsAvailable s d (cl_now cl)" "cs_firmware s d = Some v" "version_ok v"
  shows "firmwareVersionFromDevice w dev = \<lparr>nv_name = defaultFirmwareName, nv_version = v\<rparr>"
proof -
  have "IsAvailable (normalize (cl_now cl) s) d (cl_now cl)" "firmware_of (normalize (cl_now cl) s) d = v" "v \<noteq> []"
    using assms(4-6) by (auto simp: IsAvailable_def normalize_def firmware_of_def version_ok_def split: option.splits)
  then have "fst (io4edge_cli cl w [''-d'', dev, ''fw'']) = exit_result [firmware_line v] [] 0"
    using assms(2,3)
    by (simp add: io4edge_cli_def runFw_def on_device_def loadStateUnlocked_def ensureDeviceAvailable_def cli_result_def Let_def)
  then show ?thesis
    using assms(1) firmware_line_read[OF assms(6)]
    by (simp add: firmwareVersionFromDevice_def tool_at_def Let_def exit_result_def lines_text_def)
qed

section \<open>An update\<close>

lemma update_taken:
  assumes "devs name = Some d" "io_status_code (dev_status d) \<noteq> IoInProgress" "GetManifestFromFile w path = Inr m"
    and "dev_current d \<noteq> \<lparr>nv_name = tweakNameFromManifest (fm_name m), nv_version = fm_version m\<rparr>"
  shows "handleUpdate w name path devs =
    (devs(name \<mapsto> d\<lparr>dev_package := path,
        dev_deploying := \<lparr>nv_name = tweakNameFromManifest (fm_name m), nv_version = fm_version m\<rparr>,
        dev_status := io_status_of IoInProgress ''Update is in progress''\<rparr>),
     [LoadFirmware name path, IoReply (FwStarted None)])"
proof -
  have "\<not> (tweakNameFromManifest (fm_name m) = nv_name (dev_current d) \<and> fm_version m = nv_version (dev_current d))"
    using assms(4) by (metis name_version.surjective old.unit.exhaust)
  then show ?thesis using assms(1-3) by (auto simp add: handleUpdate_def Let_def)
qed

lemma load_stored:
  assumes "ResolveDeviceID dev = Some d" "cl_state cl = Inr (Some s)" "IsAvailable s d (cl_now cl)" "cl_lock cl = None"
    and "cl_save cl = None" "GetManifestFromFile w path = Inr m" "fm_version m \<noteq> []"
  shows "cr_err (fst (io4edge_cli cl w [''-d'', dev, ''load-firmware'', path])) = None"
    "snd (io4edge_cli cl w [''-d'', dev, ''load-firmware'', path]) =
       Some (normalize (cl_update cl) (loaded cl d (fm_version m) (normalize (cl_update cl) s)))"
proof -
  have "IsAvailable (normalize (cl_now cl) s) d (cl_now cl)"
    using assms(3) by (auto simp: IsAvailable_def normalize_def split: option.splits)
  then have "runLoadFirmware cl w d path =
      ((progress_lines @ [''Reconnecting to restarted device.'', firmware_line (fm_version m)], None),
       Some (normalize (cl_update cl) (loaded cl d (fm_version m) (normalize (cl_update cl) s))))"
    using assms(2,4-7)
    by (simp add: runLoadFirmware_def on_device_def loadStateUnlocked_def ensureDeviceAvailable_def UpdateState_def)
  then show "cr_err (fst (io4edge_cli cl w [''-d'', dev, ''load-firmware'', path])) = None"
    "snd (io4edge_cli cl w [''-d'', dev, ''load-firmware'', path]) =
       Some (normalize (cl_update cl) (loaded cl d (fm_version m) (normalize (cl_update cl) s)))"
    using assms(1) by (simp_all add: io4edge_cli_def Let_def cli_result_def exit_result_def)
qed

lemma loaded_state:
  assumes "v \<noteq> []" "s' = normalize (cl_update cl) (loaded cl d v s)"
  shows "cs_firmware s' d = Some v" "cl_update cl + restartDowntime \<le> now \<Longrightarrow> IsAvailable s' d now"
  using assms by (simp_all add: normalize_def loaded_def firmware_of_def IsAvailable_def)

text \<open>C29. An update of a device runs to its end with the double: the manager takes it and starts the load; the load
  succeeds; and when its end is handled after the restart of the device, the device shows the version of the
  package, under the name of the double's firmware. The update is a success exactly if the package has this name.
\<close>

theorem device_update_with_double:
  assumes "name \<in> set deviceIDs" "cl_state cl = Inr (Some s)" "IsAvailable s name (cl_now cl)"
    and "cl_lock cl = None" "cl_save cl = None"
    and "devs name = Some d" "dev_name d = name" "io_status_code (dev_status d) \<noteq> IoInProgress"
    and "GetManifestFromFile w path = Inr m" "version_ok (fm_version m)"
    and "dev_current d \<noteq> \<lparr>nv_name = tweakNameFromManifest (fm_name m), nv_version = fm_version m\<rparr>"
    and "call = io4edge_cli cl w [''-d'', name, ''load-firmware'', path]"
    and "\<And>i. tool_at (cls i) (ws i) name" "\<And>i. cl_state (cls i) = Inr (snd call)"
    and "\<And>i. cl_update cl + restartDowntime \<le> cl_now (cls i)"
  shows "case handleUpdate w name path devs of (devs1, es) \<Rightarrow>
    es = [LoadFirmware name path, IoReply (FwStarted None)] \<and>
    (\<exists>d'. fst (io_handleCommand ws now order (cli_finished name (fst call)) devs1) name = Some d' \<and>
      dev_current d' = \<lparr>nv_name = defaultFirmwareName, nv_version = fm_version m\<rparr> \<and>
      io_status_code (dev_status d') =
        (if tweakNameFromManifest (fm_name m) = defaultFirmwareName then IoSuccess else IoFailure))"
proof -
  let ?nv = "\<lparr>nv_name = tweakNameFromManifest (fm_name m), nv_version = fm_version m\<rparr>"
  let ?d = "d\<lparr>dev_package := path, dev_deploying := ?nv, dev_status := io_status_of IoInProgress ''Update is in progress''\<rparr>"
  have v: "fm_version m \<noteq> []" using assms(10) by (simp add: version_ok_def)
  have u: "handleUpdate w name path devs = (devs(name \<mapsto> ?d), [LoadFirmware name path, IoReply (FwStarted None)])"
    using update_taken[where devs = devs and name = name and d = d and w = w and path = path and m = m] assms(6,8,9,11)
    by blast
  note call = load_stored[OF resolve_device[OF assms(1)] assms(2,3,4,5,9) v, folded assms(12)]
  have rd: "firmwareVersionFromDevice (ws i) name = \<lparr>nv_name = defaultFirmwareName, nv_version = fm_version m\<rparr>" for i
    by (rule tool_reads[OF assms(13) resolve_device[OF assms(1)] assms(14)[unfolded call(2)]
          loaded_state(2)[OF v refl assms(15)] loaded_state(1)[OF v refl] assms(10)])
  have "firmwareVersionAfterUpdate ws name ?nv = \<lparr>nv_name = defaultFirmwareName, nv_version = fm_version m\<rparr>"
    using rd by (simp add: firmware_read_back)
  then show ?thesis
    unfolding u using call(1) assms(7)
    by (simp add: cli_finished_def handleCliEvent_def finished_device_def io_status_of_def Let_def)
qed

definition sample_cli :: "int \<Rightarrow> cli_state \<Rightarrow> cli_run" where
  "sample_cli now s = \<lparr>cl_state = Inr (Some s), cl_save = None, cl_lock = None, cl_now = now, cl_update = now\<rparr>"

definition sample_package :: world where
  "sample_package = bare_world\<lparr>open_file := \<lambda>f. Inr (f, None),
     untar := \<lambda>_. ([\<lparr>te_name = ''manifest.json'', te_regular = True, te_content = Inr ''m''\<rparr>], None),
     json_syntax := \<lambda>_. Inr (JObject [(''name'', JString ''iou16-00-default''), (''version'', JString ''2.0'')])\<rparr>"

definition sample_device :: io_device where
  "sample_device = \<lparr>dev_name = ''S100-IUO16-USB-EXT1-UC3'', dev_status = io_status_of IoNeverDeployed [], dev_package = [],
     dev_deploying = no_version, dev_current = \<lparr>nv_name = defaultFirmwareName, nv_version = defaultVersion\<rparr>, dev_last_seen = 0\<rparr>"

definition sample_load :: "cmd_result \<times> cli_state option" where
  "sample_load = io4edge_cli (sample_cli 0 defaultState) sample_package [''-d'', ''S100-IUO16-USB-EXT1-UC3'', ''load-firmware'', ''p'']"

definition sample_reader :: world where
  "sample_reader = bare_world\<lparr>run_command := \<lambda>_ args.
     fst (io4edge_cli (sample_cli restartDowntime (the (snd sample_load))) bare_world args)\<rparr>"

lemma sample_manifest: "GetManifestFromFile sample_package ''p'' = Inr \<lparr>fm_name = ''iou16-00-default'', fm_version = ''2.0'', fm_file = []\<rparr>"
  by code_simp

theorem device_update_with_double_witness:
  "\<exists>d'. fst (io_handleCommand (\<lambda>_. sample_reader) 0 (\<lambda>_. []) (cli_finished ''S100-IUO16-USB-EXT1-UC3'' (fst sample_load))
      (fst (handleUpdate sample_package ''S100-IUO16-USB-EXT1-UC3'' ''p'' [''S100-IUO16-USB-EXT1-UC3'' \<mapsto> sample_device])))
      ''S100-IUO16-USB-EXT1-UC3'' = Some d' \<and>
    dev_current d' = \<lparr>nv_name = defaultFirmwareName, nv_version = ''2.0''\<rparr> \<and> io_status_code (dev_status d') = IoSuccess"
proof -
  let ?n = "''S100-IUO16-USB-EXT1-UC3''" let ?m = "\<lparr>fm_name = ''iou16-00-default'', fm_version = ''2.0'', fm_file = []\<rparr>"
  let ?s = "the (snd sample_load)"
  have n: "?n \<in> set deviceIDs" by (simp add: device_list)
  have av: "IsAvailable defaultState ?n 0" by (simp add: IsAvailable_def defaultState_def)
  have v: "version_ok (fm_version ?m)" by code_simp
  have c: "cl_state (sample_cli t s) = Inr (Some s)" "cl_lock (sample_cli t s) = None" "cl_save (sample_cli t s) = None"
    "cl_now (sample_cli t s) = t" "cl_update (sample_cli t s) = t" for t s
    by (simp_all add: sample_cli_def)
  have d: "dev_name sample_device = ?n" "io_status_code (dev_status sample_device) \<noteq> IoInProgress"
    "dev_current sample_device \<noteq> \<lparr>nv_name = tweakNameFromManifest (fm_name ?m), nv_version = fm_version ?m\<rparr>"
    by (simp_all add: sample_device_def io_status_of_def defaultVersion_def)
  have st: "snd sample_load = Some ?s"
    using load_stored(2)[OF resolve_device[OF n], of "sample_cli 0 defaultState"] c av sample_manifest
    by (simp add: sample_load_def)
  have t: "tool_at (sample_cli restartDowntime ?s) sample_reader ?n"
    using resolve_device[OF n] by (simp add: tool_at_def sample_reader_def io4edge_cli_def)
  have name: "tweakNameFromManifest (fm_name ?m) = defaultFirmwareName" by code_simp
  have "case handleUpdate sample_package ?n ''p'' [?n \<mapsto> sample_device] of (devs1, es) \<Rightarrow>
    es = [LoadFirmware ?n ''p'', IoReply (FwStarted None)] \<and>
    (\<exists>d'. fst (io_handleCommand (\<lambda>_. sample_reader) 0 (\<lambda>_. []) (cli_finished ?n (fst sample_load)) devs1) ?n = Some d' \<and>
      dev_current d' = \<lparr>nv_name = defaultFirmwareName, nv_version = fm_version ?m\<rparr> \<and>
      io_status_code (dev_status d') = (if tweakNameFromManifest (fm_name ?m) = defaultFirmwareName then IoSuccess else IoFailure))"
    by (rule device_update_with_double[where cl = "sample_cli 0 defaultState" and s = defaultState and d = sample_device
          and cls = "\<lambda>_. sample_cli restartDowntime ?s", OF n c(1) _ c(2,3) _ d(1,2) sample_manifest v d(3) sample_load_def t])
      (use c st av in simp_all)
  then show ?thesis using name by (auto split: prod.splits)
qed

section \<open>Two names of one device\<close>

text \<open>
  The manager keeps its devices under the names that clients use; the tool resolves names and addresses. Two names of
  one device are two devices of the manager, and an update in progress under one does not refuse an update under the other.
\<close>

lemma two_names_two_loads:
  assumes "devs b = Some d" "io_status_code (dev_status d) \<noteq> IoInProgress" "a \<noteq> b"
    and "handleUpdate w a path devs = (devs', [LoadFirmware a path, IoReply (FwStarted None)])"
    and "GetManifestFromFile w path' = Inr m"
    and "dev_current d \<noteq> \<lparr>nv_name = tweakNameFromManifest (fm_name m), nv_version = fm_version m\<rparr>"
  shows "LoadFirmware b path' \<in> set (snd (handleUpdate w b path' devs'))"
proof -
  have "devs' b = devs b" using assms(3,4) by (auto simp: handleUpdate_def Let_def split: option.splits if_splits sum.splits)
  then show ?thesis using update_taken[of devs' b d w path' m] assms(1,2,5,6) by simp
qed

lemma address_and_name:
  "ResolveDeviceID ''192.168.200.1'' = ResolveDeviceID ''S100-IUO16-USB-EXT1-UC1''"
  "ResolveDeviceID ''S100-IUO16-USB-EXT1'' = ResolveDeviceID ''S100-IUO16-USB-EXT1-UC1''"
  by code_simp+

end
