(* ===== verification/Spec2Isabelle.thy ===== *)
theory Spec2Isabelle
  imports Mender_Properties Cpu_Properties Io4edge_Properties Update_Run Server_Firmware Disk_Store Exec_Log State_Recovery
    Double_Properties Response_Json Device_Update
begin

text \<open>
  A model of \<open>moducop-core-api-server\<close>: the HTTP server of an embedded Linux device that deploys software
  to its CPU (core OS image, core OS customization, docker applications; with the tool
  \<open>mender-update\<close>) and firmware to the io4edge devices connected to it (with \<open>io4edge-cli\<close>).

  \<^bold>\<open>The program.\<close> \<open>cmd/api-server\<close> reads the command line and starts two managers and the HTTP server. Each manager is an
  actor: one goroutine owns its state and handles the commands of a bounded inbox one by one. A handler of the
  server stores an uploaded file, sends a command with a reply channel, waits for the answer, and
  keeps or removes the file. The CPU manager holds one entity for each piece of software and one Mender
  state machine; the machine runs \<open>mender-update\<close> and the reboot in goroutines, which send their outcome back to the
  inbox as events. Everything that has to outlive a reboot is one JSON file, written by \<open>pkg/diskstate\<close>.

  \<^bold>\<open>Theories and source files.\<close> Definitions carry the names of the functions they translate.

  \<^item> \<open>Prelude\<close>: Go's \<open>strings\<close> operations on lists of bytes. \<open>Go_World\<close>: the surroundings as one record (files,
    environment, commands, the syntax of tar, gzip and JSON), errors as texts, decoding of JSON values.
    \<open>Go_Regexp\<close>, \<open>Go_Duration\<close>: the regular expressions and durations that the program uses.
  \<^item> \<open>Transition\<close>, \<open>Update_Engine\<close>, \<open>Text_Codec\<close>, \<open>Command_Service\<close>: the interfaces, as locales: invariants and ranks of a
    step relation, a machine that carries out one job at a time and reports each once, texts of an
    enumeration, a manager that answers each command once. \<open>Disk_State\<close> and \<open>State_Json\<close> add a store whose value
    survives crashes and values that JSON gives back. Every locale is interpreted on the definitions of the program.
  \<^item> \<open>Sw_Version\<close> (\<open>cpumanager/swversion.go\<close>, \<open>prefixfs\<close>), \<open>Artifact\<close> (\<open>menderartifact\<close>): deployed versions and versions of
    uploaded artifacts.
  \<^item> \<open>Cpu_Types\<close> (\<open>api.go\<close>, \<open>enum_json.go\<close>, \<open>errors.go\<close>), \<open>Entity\<close> (\<open>entity.go\<close>): the data; a
    \<open>uint\<close> counter is a 64-bit word.
  \<^item> \<open>Mender_Output\<close>, \<open>Mender_Machine\<close> (\<open>mender.go\<close>): how the output of a command is classified, and the machine. A handler
    takes the persistent state and an event and returns the new state with its effects in order: saving, starting
    background work, reporting the end of the job.
  \<^item> \<open>Cpu_Manager\<close> (\<open>actor.go\<close>, methods of \<open>entity.go\<close>): the actor. \<open>Cpu_System\<close>: the actor with inbox, state file, background work
    and restarts as a step relation; \<open>Cpu_Traces\<close>: executable runs of it.
  \<^item> \<open>Io4edge_Manager\<close> (\<open>io4edgemanager\<close>, \<open>io4edgeartifact\<close>): device states, commands, the tables printed by the tool.
  \<^item> \<open>Update_Store\<close> (\<open>updatestore\<close>): the clean-up of uploaded files.
  \<^item> \<open>Disk_State\<close>, \<open>Disk_Store\<close> (\<open>pkg/diskstate\<close>): the save protocol over a file system with crashes (what was not synced
    may be lost or half written), and load, save and update on top of it, with the variant for Windows.
  \<^item> \<open>State_Json\<close> (\<open>persistentState\<close> and its parts, with \<open>enum_json.go\<close>): the state as a JSON tree, and the strict decoder.
  \<^item> \<open>Server_Api\<close>, \<open>Server_Paths\<close> (\<open>internal/server\<close>): routes, handlers, responses, files; \<open>filepath.Clean\<close>.
  \<^item> \<open>Response_Json\<close> (the struct tags of both \<open>api.go\<close> and of \<open>hardware_info.go\<close>, \<open>io4edgemanager/errors.go\<close>): the bodies of
    responses as JSON trees, and what a client reads from them.
  \<^item> \<open>Exec_Log\<close> (\<open>execcli\<close>, \<open>loglite\<close>): results of commands, splitting of their output, layout of log lines.
  \<^item> \<open>Startup\<close> (\<open>cmd/api-server\<close>): command line, start, exit codes.
  \<^item> \<open>Mender_Loop\<close>: the Mender machine and a tool that it drives, as one step relation; what the tool owes to the machine is
    a table and the locale \<open>mender_tool\<close>. \<open>Mender_Double\<close> (\<open>mocks/mender-update\<close>, \<open>mocks/mockmender\<close>, \<open>mocks/reboot\<close>,
    \<open>mocks/os-customization-set\<close>): the tool of the tests, with its durable checkpoints.

  \<^item> \<open>Device_Double\<close> (\<open>mocks/io4edge-cli\<close>, \<open>mocks/mockio4edge\<close>): the io4edge tool of the tests.

  \<^bold>\<open>What is shown.\<close>

  \<^item> Mender machine (\<open>Mender_Diagram\<close>, \<open>Mender_Jobs\<close>, \<open>Mender_Properties\<close>): the handlers implement the documented diagram;
    no job is ever stuck, also after restarts; without restarts it ends after at most 18 finished operations; a
    rootfs or customization is committed only after a reboot (and a health check); applications are installed at
    most twice; success has evidence in the output or in the deployed version.
  \<^item> CPU manager (\<open>Cpu_Commands\<close>, \<open>Cpu_System\<close>, \<open>Cpu_Properties\<close>): refused commands change nothing, accepted ones are
    recorded; entities in progress are accounted for by jobs and reports; a report takes one update out of waiting
    and starts it, or refuses it if an overtaking command has taken the machine; and three things that do not hold: one update at a time, an end for every update over restarts, an actor that never blocks itself.
  \<^item> \<open>Update_Run\<close>: from the command to the shown success, for all three kinds of update.
  \<^item> Server (\<open>Server_Properties\<close>, \<open>Server_Firmware\<close>): commands are answered in order; the response is 202 exactly when the
    manager took the update and the file is kept; removal stays below the update directory; two ways in which
    files are lost or left behind.
  \<^item> io4edge (\<open>Io4edge_Properties\<close>): the documented diagram of a device with the cause of each move, as long as no device
    is dropped during its update; verification after a load, reading of the tables, and, after such a drop, two
    loads of one device at once.
  \<^item> State file: a crash leaves the old or the new value, and loading it works; updates are all or nothing; the JSON of the state is
    read back; a crash during a save is a restart from the old or the new state (\<open>State_Recovery\<close>).
  \<^item> Versions and artifacts: the program reads the same name and version from an artifact, in each form that builds
    declare, and from the image; a customization payload is read as a declarative meaning of nested archives says,
    and its reading fails to return exactly for archives nested without end, which needs compressed ones. Clean-up at start keeps what is needed. Logs do not depend on how output is cut. The booted program is a
    start or a restart of the system of \<open>Cpu_System\<close>.

  \<^item> Server and tool together: \<open>Double_Rules\<close> has weakest preconditions for the commands and reads the class of a result
    off the phrases in its lines; \<open>Double_Contract\<close>, \<open>Double_Commit\<close> and \<open>Double_Install\<close> prove the row of the table for
    each command; \<open>Double_Tool\<close> interprets the locale; \<open>Double_Properties\<close>: an idle server leaves no update open in the
    tool, whatever is cut off by restarts; what is committed was tried before; and a reboot that fails, after which the
    next update commits the old artifact.

  \<^item> \<open>Device_Update\<close>: the io4edge manager with its tool: what a scan lists, an update from the command to the shown result, and
    a device that is updated under two names.

  \<^bold>\<open>Bounds.\<close> Loops are structural recursion, recursion on a measure (\<open>Prelude\<close>, \<open>Exec_Log\<close>), or, for nested archives and for
  the polls of the health check, \<open>partial_function (option)\<close>: the value \<open>None\<close> is a run that does not return; for
  archives it is characterised. No fuel is used. The retries of the firmware read-back, the capacity of the inbox and the recovery
  limits are the constants of the source.

  \<^bold>\<open>Arguments of the model.\<close> The surroundings are arguments: contents of files and directories, results of
  commands and clocks; the syntax of tar, gzip and JSON documents (decoding of JSON trees into Go types is modelled); the
  iteration order of Go maps, over which lemmas quantify; that a tar archive stores the bytes of its
  entries (where the end of nested archives is concerned); and how each system call of a save ends. Strings
  are lists of bytes, letters are lowered as in ASCII.

  \<^bold>\<open>Not modelled.\<close> The transport of HTTP (connections, time-outs, the bytes of JSON responses), the scheduler of goroutines
  beyond the interleaving of steps, and the texts of some messages of Go's standard library. Of the programs
  under \<open>mocks/\<close> the stand-ins for \<open>ee-inv\<close> and \<open>docker\<close>, \<open>preparefs\<close>, the artifact and compose readers of the
  Mender double, and its commands that the server does not use (\<open>show-issue\<close>). The loop of server and tool assumes that the file
  operations of the tool work and its state file exists, that no command times out and the reboot command does not fail,
  that texts from outside (paths, container names, error texts) contain none of the phrases the server looks for, that the payload
  of an artifact is of the kind of its entity, and that a restart ends the command under way with the server, after any of its saved
  states.
\<close>

end
